(* ===== verification/Prelude.thy ===== *)
theory Prelude
  imports Complex_Main "HOL-Library.List_Lexorder" "HOL-Library.Char_ord"
begin

text \<open>
  Shared vocabulary of the development.

  \<^item> \<open>('s, 'e, 'a) act\<close>: an action over a state \<open>'s\<close> that may raise \<open>'e\<close>. The state
    reached so far is kept when an action raises, as Python keeps every mutation made before
    an exception; rolling back is an explicit operation of the transaction layer.
  \<^item> \<open>preserves\<close> and the collection \<open>pres\<close>: invariant preservation, one rule per combinator,
    so that an invariant of a composite action follows from those of its parts.
  \<^item> SQL-shaped list operations (\<open>upd_where\<close>, \<open>one_or_none\<close>, \<open>max_by\<close>): a table is the list
    of its rows.
\<close>

named_theorems pres \<open>invariant preservation rules, one per action\<close>
named_theorems act_simps \<open>equations that run an action on a state\<close>

section \<open>Actions\<close>

type_synonym ('s, 'e, 'a) act = "'s \<Rightarrow> ('e + 'a) \<times> 's"

definition ret :: "'a \<Rightarrow> ('s, 'e, 'a) act" where
  "ret x = (\<lambda>s. (Inr x, s))"

definition throw :: "'e \<Rightarrow> ('s, 'e, 'a) act" where
  "throw e = (\<lambda>s. (Inl e, s))"

definition andthen :: "('s, 'e, 'a) act \<Rightarrow> ('a \<Rightarrow> ('s, 'e, 'b) act) \<Rightarrow> ('s, 'e, 'b) act" where
  "andthen m f = (\<lambda>s. case m s of (Inl e, s') \<Rightarrow> (Inl e, s') | (Inr x, s') \<Rightarrow> f x s')"

definition asks :: "('s \<Rightarrow> 'a) \<Rightarrow> ('s, 'e, 'a) act" where
  "asks f = (\<lambda>s. (Inr (f s), s))"

definition modify :: "('s \<Rightarrow> 's) \<Rightarrow> ('s, 'e, unit) act" where
  "modify f = (\<lambda>s. (Inr (), f s))"

definition of_sum :: "'e + 'a \<Rightarrow> ('s, 'e, 'a) act" where
  "of_sum r = (\<lambda>s. (r, s))"

text \<open>\<open>except\<close>: the handler sees the exception and the state at the point it was raised.\<close>

definition on_error :: "('s, 'e, 'a) act \<Rightarrow> ('e \<Rightarrow> ('s, 'e, 'a) act) \<Rightarrow> ('s, 'e, 'a) act" where
  "on_error m h = (\<lambda>s. case m s of (Inl e, s') \<Rightarrow> h e s' | (Inr x, s') \<Rightarrow> (Inr x, s'))"

text \<open>\<open>finally\<close>: a state update run on every exit.\<close>

definition always_after :: "('s, 'e, 'a) act \<Rightarrow> ('s \<Rightarrow> 's) \<Rightarrow> ('s, 'e, 'a) act" where
  "always_after m f = (\<lambda>s. case m s of (r, s') \<Rightarrow> (r, f s'))"

text \<open>A \<open>for\<close> loop over a list, one action per element, stopping at the first exception.\<close>

fun each :: "('a \<Rightarrow> ('s, 'e, 'b) act) \<Rightarrow> 'a list \<Rightarrow> ('s, 'e, unit) act" where
  "each f [] = ret ()"
| "each f (x # xs) = andthen (f x) (\<lambda>_. each f xs)"

lemma ret_run [simp, act_simps]: "ret x s = (Inr x, s)"
  by (simp add: ret_def)

lemma throw_run [simp, act_simps]: "throw e s = (Inl e, s)"
  by (simp add: throw_def)

lemma asks_run [simp, act_simps]: "asks f s = (Inr (f s), s)"
  by (simp add: asks_def)

lemma modify_run [simp, act_simps]: "modify f s = (Inr (), f s)"
  by (simp add: modify_def)

lemma of_sum_run [simp, act_simps]: "of_sum r s = (r, s)"
  by (simp add: of_sum_def)

lemma andthen_run [act_simps]:
  "andthen m f s = (case m s of (Inl e, s') \<Rightarrow> (Inl e, s') | (Inr x, s') \<Rightarrow> f x s')"
  by (simp add: andthen_def)

lemma andthen_Inr [simp]: "m s = (Inr x, s') \<Longrightarrow> andthen m f s = f x s'"
  by (simp add: andthen_def)

lemma andthen_Inl [simp]: "m s = (Inl e, s') \<Longrightarrow> andthen m f s = (Inl e, s')"
  by (simp add: andthen_def)

lemma on_error_run [act_simps]:
  "on_error m h s = (case m s of (Inl e, s') \<Rightarrow> h e s' | (Inr x, s') \<Rightarrow> (Inr x, s'))"
  by (simp add: on_error_def)

lemma always_after_run [act_simps]: "always_after m f s = (fst (m s), f (snd (m s)))"
  by (simp add: always_after_def split_beta)

lemma andthen_asks: "andthen (asks f) g s = g (f s) s"
  by (simp add: andthen_run)

lemma andthen_of_sum: "andthen (of_sum r) g s = (case r of Inl e \<Rightarrow> (Inl e, s) | Inr x \<Rightarrow> g x s)"
  by (simp add: andthen_run)

lemma andthen_InrE:
  assumes "andthen m f s = (Inr y, t)"
  obtains x s' where "m s = (Inr x, s')" and "f x s' = (Inr y, t)"
  using assms by (auto simp: andthen_def split: prod.splits sum.splits)

lemma andthen_InlE:
  assumes "andthen m f s = (Inl e, t)"
  obtains "m s = (Inl e, t)" | x s' where "m s = (Inr x, s')" and "f x s' = (Inl e, t)"
  using assms by (auto simp: andthen_def split: prod.splits sum.splits)

section \<open>Preservation\<close>

definition preserves :: "('s \<Rightarrow> bool) \<Rightarrow> ('s, 'e, 'a) act \<Rightarrow> bool" where
  "preserves P m \<longleftrightarrow> (\<forall>s. P s \<longrightarrow> P (snd (m s)))"

lemma preservesI [intro?]: "(\<And>s. P s \<Longrightarrow> P (snd (m s))) \<Longrightarrow> preserves P m"
  by (simp add: preserves_def)

lemma preservesD: "preserves P m \<Longrightarrow> P s \<Longrightarrow> P (snd (m s))"
  by (simp add: preserves_def)

lemma preserves_run: "preserves P m \<Longrightarrow> P s \<Longrightarrow> m s = (r, t) \<Longrightarrow> P t"
  by (metis preservesD snd_conv)

lemma preserves_ret [pres]: "preserves P (ret x)"
  by (simp add: preserves_def)

lemma preserves_throw [pres]: "preserves P (throw e)"
  by (simp add: preserves_def)

lemma preserves_asks [pres]: "preserves P (asks f)"
  by (simp add: preserves_def)

lemma preserves_of_sum [pres]: "preserves P (of_sum r)"
  by (simp add: preserves_def)

lemma preserves_modify: "(\<And>s. P s \<Longrightarrow> P (f s)) \<Longrightarrow> preserves P (modify f)"
  by (simp add: preserves_def)

lemma preserves_andthen [pres]:
  "preserves P m \<Longrightarrow> (\<And>x. preserves P (f x)) \<Longrightarrow> preserves P (andthen m f)"
  unfolding preserves_def andthen_def
  by (force split: prod.splits sum.splits)

lemma preserves_on_error [pres]:
  "preserves P m \<Longrightarrow> (\<And>e. preserves P (h e)) \<Longrightarrow> preserves P (on_error m h)"
  unfolding preserves_def on_error_def
  by (force split: prod.splits sum.splits)

lemma preserves_always_after:
  "preserves P m \<Longrightarrow> (\<And>s. P s \<Longrightarrow> P (f s)) \<Longrightarrow> preserves P (always_after m f)"
  unfolding preserves_def always_after_run by simp

lemma preserves_if [pres]:
  "(b \<Longrightarrow> preserves P m) \<Longrightarrow> (\<not> b \<Longrightarrow> preserves P n) \<Longrightarrow> preserves P (if b then m else n)"
  by simp

lemma preserves_case_option [pres]:
  "(x = None \<Longrightarrow> preserves P m) \<Longrightarrow> (\<And>y. x = Some y \<Longrightarrow> preserves P (f y)) \<Longrightarrow>
   preserves P (case x of None \<Rightarrow> m | Some y \<Rightarrow> f y)"
  by (cases x) auto

lemma preserves_case_sum [pres]:
  "(\<And>y. x = Inl y \<Longrightarrow> preserves P (g y)) \<Longrightarrow> (\<And>y. x = Inr y \<Longrightarrow> preserves P (f y)) \<Longrightarrow>
   preserves P (case x of Inl y \<Rightarrow> g y | Inr y \<Rightarrow> f y)"
  by (cases x) auto

lemma preserves_case_prod [pres]:
  "(\<And>a b. x = (a, b) \<Longrightarrow> preserves P (f a b)) \<Longrightarrow> preserves P (case x of (a, b) \<Rightarrow> f a b)"
  by (cases x) auto

lemma preserves_case_list [pres]:
  "(xs = [] \<Longrightarrow> preserves P m) \<Longrightarrow> (\<And>y ys. xs = y # ys \<Longrightarrow> preserves P (f y ys)) \<Longrightarrow>
   preserves P (case xs of [] \<Rightarrow> m | y # ys \<Rightarrow> f y ys)"
  by (cases xs) auto

lemma preserves_each [pres]:
  "(\<And>x. x \<in> set xs \<Longrightarrow> preserves P (f x)) \<Longrightarrow> preserves P (each f xs)"
  by (induction xs) (auto intro!: pres)

lemma preserves_let [pres]: "preserves P (f x) \<Longrightarrow> preserves P (let y = x in f y)"
  by simp

lemma preserves_conj:
  "preserves P m \<Longrightarrow> preserves Q m \<Longrightarrow> preserves (\<lambda>s. P s \<and> Q s) m"
  by (simp add: preserves_def)

text \<open>An action that leaves the state alone keeps every predicate.\<close>

definition readonly :: "('s, 'e, 'a) act \<Rightarrow> bool" where
  "readonly m \<longleftrightarrow> (\<forall>s. snd (m s) = s)"

lemma readonly_preserves: "readonly m \<Longrightarrow> preserves P m"
  by (simp add: readonly_def preserves_def)

lemma readonly_basic: "readonly (ret x)" "readonly (throw e)" "readonly (asks f)" "readonly (of_sum r)"
  by (simp_all add: readonly_def)

lemma readonly_andthen: "readonly m \<Longrightarrow> (\<And>x. readonly (f x)) \<Longrightarrow> readonly (andthen m f)"
  unfolding readonly_def andthen_def by (auto split: prod.split sum.split) (metis snd_conv)+

lemma readonly_if: "(b \<Longrightarrow> readonly m) \<Longrightarrow> (\<not> b \<Longrightarrow> readonly n) \<Longrightarrow> readonly (if b then m else n)"
  by simp

lemma readonly_case_option:
  "(x = None \<Longrightarrow> readonly m) \<Longrightarrow> (\<And>y. x = Some y \<Longrightarrow> readonly (f y)) \<Longrightarrow>
   readonly (case x of None \<Rightarrow> m | Some y \<Rightarrow> f y)"
  by (cases x) auto

lemmas readonly_rules = readonly_basic readonly_andthen readonly_if readonly_case_option

section \<open>Progress\<close>

text \<open>A reflexive and transitive relation between states that every action of a group moves
  along: what a table may become, whatever is done to it. The locale gives one rule per
  combinator; a component interprets it with its own relation.\<close>

definition advances :: "('s \<Rightarrow> 's \<Rightarrow> bool) \<Rightarrow> ('s, 'e, 'a) act \<Rightarrow> bool" where
  "advances R m \<longleftrightarrow> (\<forall>s. R s (snd (m s)))"

lemma advancesD: "advances R m \<Longrightarrow> m s = (r, t) \<Longrightarrow> R s t"
  by (metis advances_def snd_conv)

lemma advancesI: "(\<And>s r t. m s = (r, t) \<Longrightarrow> R s t) \<Longrightarrow> advances R m"
  unfolding advances_def by (metis prod.collapse)

locale progress =
  fixes R :: "'s \<Rightarrow> 's \<Rightarrow> bool"
  assumes R_refl: "R s s"
    and R_trans: "R s t \<Longrightarrow> R t u \<Longrightarrow> R s u"
begin

lemma adv_ret: "advances R (ret x)"
  by (simp add: advances_def R_refl)

lemma adv_throw: "advances R (throw e)"
  by (simp add: advances_def R_refl)

lemma adv_asks: "advances R (asks f)"
  by (simp add: advances_def R_refl)

lemma adv_of_sum: "advances R (of_sum r)"
  by (simp add: advances_def R_refl)

lemma adv_andthen: "advances R m \<Longrightarrow> (\<And>x. advances R (f x)) \<Longrightarrow> advances R (andthen m f)"
  unfolding advances_def andthen_def
  by (auto split: prod.split sum.split intro: R_trans) (metis R_trans snd_conv)+

lemma adv_on_error: "advances R m \<Longrightarrow> (\<And>e. advances R (h e)) \<Longrightarrow> advances R (on_error m h)"
  unfolding advances_def on_error_def
  by (auto split: prod.split sum.split intro: R_trans) (metis R_trans snd_conv)+

lemma adv_if: "(b \<Longrightarrow> advances R m) \<Longrightarrow> (\<not> b \<Longrightarrow> advances R n) \<Longrightarrow> advances R (if b then m else n)"
  by simp

lemma adv_case_option:
  "(x = None \<Longrightarrow> advances R m) \<Longrightarrow> (\<And>y. x = Some y \<Longrightarrow> advances R (f y)) \<Longrightarrow>
   advances R (case x of None \<Rightarrow> m | Some y \<Rightarrow> f y)"
  by (cases x) auto

lemma adv_case_list:
  "(xs = [] \<Longrightarrow> advances R m) \<Longrightarrow> (\<And>y ys. xs = y # ys \<Longrightarrow> advances R (f y ys)) \<Longrightarrow>
   advances R (case xs of [] \<Rightarrow> m | y # ys \<Rightarrow> f y ys)"
  by (cases xs) auto

lemma adv_case_sum:
  "(\<And>y. x = Inl y \<Longrightarrow> advances R (g y)) \<Longrightarrow> (\<And>y. x = Inr y \<Longrightarrow> advances R (f y)) \<Longrightarrow>
   advances R (case x of Inl y \<Rightarrow> g y | Inr y \<Rightarrow> f y)"
  by (cases x) auto

lemma adv_case_prod:
  "(\<And>a b. x = (a, b) \<Longrightarrow> advances R (f a b)) \<Longrightarrow> advances R (case x of (a, b) \<Rightarrow> f a b)"
  by (cases x) auto

lemma adv_each: "(\<And>x. x \<in> set xs \<Longrightarrow> advances R (f x)) \<Longrightarrow> advances R (each f xs)"
  by (induction xs) (auto intro: adv_ret adv_andthen)

lemmas adv = adv_ret adv_throw adv_asks adv_of_sum adv_andthen adv_on_error adv_if
  adv_case_option adv_case_list adv_case_sum adv_case_prod adv_each

end

section \<open>Logs\<close>

text \<open>What an action appends to a log of the state: entries that satisfy \<open>P\<close>, at most \<open>n\<close>.\<close>

definition grows :: "('s \<Rightarrow> 'x list) \<Rightarrow> ('x \<Rightarrow> bool) \<Rightarrow> nat \<Rightarrow> ('s, 'e, 'a) act \<Rightarrow> bool" where
  "grows lg P n m \<longleftrightarrow> (\<forall>s. \<exists>xs. lg (snd (m s)) = lg s @ xs \<and> length xs \<le> n \<and> list_all P xs)"

lemma growsD:
  "grows lg P n m \<Longrightarrow> m s = (r, t) \<Longrightarrow> \<exists>xs. lg t = lg s @ xs \<and> length xs \<le> n \<and> list_all P xs"
  unfolding grows_def by (metis snd_conv)

lemma grows_still: "(\<And>s. lg (snd (m s)) = lg s) \<Longrightarrow> grows lg P n m"
  by (simp add: grows_def)

lemma grows_quiet: "grows lg P 0 m \<Longrightarrow> m s = (r, t) \<Longrightarrow> lg t = lg s"
  by (auto dest: growsD)

lemma grows_mono: "grows lg P i m \<Longrightarrow> i \<le> n \<Longrightarrow> grows lg P n m"
  unfolding grows_def by (meson le_trans)

lemma grows_weaken: "grows lg P n m \<Longrightarrow> (\<And>x. P x \<Longrightarrow> Q x) \<Longrightarrow> grows lg Q n m"
  unfolding grows_def list_all_iff by meson

lemma grows_andthen:
  assumes "grows lg P i m" and "\<And>x. grows lg P j (f x)"
  shows "grows lg P (i + j) (andthen m f)"
  unfolding grows_def
proof
  fix s
  obtain r t where m: "m s = (r, t)" by (meson surj_pair)
  from growsD[OF assms(1) m] obtain xs
    where xs: "lg t = lg s @ xs" "length xs \<le> i" "list_all P xs" by blast
  show "\<exists>xs. lg (snd (andthen m f s)) = lg s @ xs \<and> length xs \<le> i + j \<and> list_all P xs"
  proof (cases r)
    case (Inl e)
    then show ?thesis using m xs by (intro exI[of _ xs]) simp
  next
    case (Inr x)
    from assms(2) obtain ys where "lg (snd (f x t)) = lg t @ ys" "length ys \<le> j" "list_all P ys"
      unfolding grows_def by blast
    then show ?thesis using m xs Inr by (intro exI[of _ "xs @ ys"]) simp
  qed
qed

lemma grows_on_error:
  assumes "grows lg P i m" and "\<And>e. grows lg P j (h e)"
  shows "grows lg P (i + j) (on_error m h)"
  unfolding grows_def
proof
  fix s
  obtain r t where m: "m s = (r, t)" by (meson surj_pair)
  from growsD[OF assms(1) m] obtain xs
    where xs: "lg t = lg s @ xs" "length xs \<le> i" "list_all P xs" by blast
  show "\<exists>xs. lg (snd (on_error m h s)) = lg s @ xs \<and> length xs \<le> i + j \<and> list_all P xs"
  proof (cases r)
    case (Inl e)
    from assms(2) obtain ys where "lg (snd (h e t)) = lg t @ ys" "length ys \<le> j" "list_all P ys"
      unfolding grows_def by blast
    then show ?thesis using m xs Inl by (intro exI[of _ "xs @ ys"]) (simp add: on_error_run)
  next
    case (Inr x)
    then show ?thesis using m xs by (intro exI[of _ xs]) (simp add: on_error_run)
  qed
qed

text \<open>The same with the bound given: the bounds of the parts are found by unification.\<close>

lemma grows_andthen_le:
  "grows lg P i m \<Longrightarrow> (\<And>x. grows lg P j (f x)) \<Longrightarrow> i + j \<le> n \<Longrightarrow> grows lg P n (andthen m f)"
  by (meson grows_andthen grows_mono)

lemma grows_basic:
  "grows lg P n (ret x)" "grows lg P n (throw e)" "grows lg P n (asks f)" "grows lg P n (of_sum r)"
  by (simp_all add: grows_still)

lemma grows_if:
  "(b \<Longrightarrow> grows lg P n m) \<Longrightarrow> (\<not> b \<Longrightarrow> grows lg P n m') \<Longrightarrow> grows lg P n (if b then m else m')"
  by simp

lemma grows_case_option:
  "(x = None \<Longrightarrow> grows lg P n m) \<Longrightarrow> (\<And>y. x = Some y \<Longrightarrow> grows lg P n (f y)) \<Longrightarrow>
   grows lg P n (case x of None \<Rightarrow> m | Some y \<Rightarrow> f y)"
  by (cases x) auto

lemma grows_case_sum:
  "(\<And>y. x = Inl y \<Longrightarrow> grows lg P n (g y)) \<Longrightarrow> (\<And>y. x = Inr y \<Longrightarrow> grows lg P n (f y)) \<Longrightarrow>
   grows lg P n (case x of Inl y \<Rightarrow> g y | Inr y \<Rightarrow> f y)"
  by (cases x) auto

lemma grows_case_prod:
  "(\<And>a b. x = (a, b) \<Longrightarrow> grows lg P n (f a b)) \<Longrightarrow> grows lg P n (case x of (a, b) \<Rightarrow> f a b)"
  by (cases x) auto

lemma grows_each_quiet:
  "(\<And>x. x \<in> set xs \<Longrightarrow> grows lg P 0 (f x)) \<Longrightarrow> grows lg P 0 (each f xs)"
proof (induction xs)
  case (Cons x xs)
  then show ?case using grows_andthen[of lg P 0 "f x" 0 "\<lambda>_. each f xs"] by simp
qed (simp add: grows_basic)

lemma grows_andthen_quiet:
  "grows lg P 0 m \<Longrightarrow> (\<And>x. grows lg P n (f x)) \<Longrightarrow> grows lg P n (andthen m f)"
  using grows_andthen[of lg P 0 m n f] by simp

lemmas grows_rules = grows_basic grows_if grows_case_option grows_case_sum grows_case_prod

section \<open>Rows and tables\<close>

text \<open>\<open>UPDATE t SET f WHERE p\<close>.\<close>

definition upd_where :: "('r \<Rightarrow> bool) \<Rightarrow> ('r \<Rightarrow> 'r) \<Rightarrow> 'r list \<Rightarrow> 'r list" where
  "upd_where p f rs = map (\<lambda>r. if p r then f r else r) rs"

text \<open>\<open>scalar_one_or_none\<close>: more than one row is an error, never a silent choice.\<close>

fun one_or_none :: "'e \<Rightarrow> 'r list \<Rightarrow> 'e + 'r option" where
  "one_or_none e [] = Inr None"
| "one_or_none e [r] = Inr (Some r)"
| "one_or_none e (r # r' # rs) = Inl e"

text \<open>\<open>ORDER BY k DESC LIMIT 1\<close>: the first row with the greatest key. (Python's
  \<open>max(..., key=k)\<close> makes the same choice.)\<close>

fun max_by :: "('r \<Rightarrow> 'k::linorder) \<Rightarrow> 'r list \<Rightarrow> 'r option" where
  "max_by k [] = None"
| "max_by k (r # rs) =
     (case max_by k rs of None \<Rightarrow> Some r | Some m \<Rightarrow> if k m \<le> k r then Some r else Some m)"

lemma upd_where_Nil [simp]: "upd_where p f [] = []"
  by (simp add: upd_where_def)

lemma upd_where_Cons [simp]:
  "upd_where p f (r # rs) = (if p r then f r else r) # upd_where p f rs"
  by (simp add: upd_where_def)

lemma length_upd_where [simp]: "length (upd_where p f rs) = length rs"
  by (simp add: upd_where_def)

lemma set_upd_where: "set (upd_where p f rs) = (\<lambda>r. if p r then f r else r) ` set rs"
  by (simp add: upd_where_def)

lemma ball_upd_where:
  "(\<forall>x \<in> set (upd_where p f rs). P x) \<longleftrightarrow> (\<forall>x \<in> set rs. P (if p x then f x else x))"
  by (auto simp: upd_where_def)

lemma map_upd_where:
  "(\<And>r. p r \<Longrightarrow> g (f r) = g r) \<Longrightarrow> map g (upd_where p f rs) = map g rs"
  by (simp add: upd_where_def)

lemma upd_where_idle: "(\<And>r. r \<in> set rs \<Longrightarrow> \<not> p r) \<Longrightarrow> upd_where p f rs = rs"
  by (simp add: upd_where_def map_idI)

lemma filter_upd_where:
  "(\<And>r. p r \<Longrightarrow> q (f r) = q r) \<Longrightarrow> filter q (upd_where p f rs) = upd_where p f (filter q rs)"
  by (induction rs) auto

lemma one_or_none_Inr_None [simp]: "one_or_none e rs = Inr None \<longleftrightarrow> rs = []"
  by (cases rs rule: list.exhaust) (auto elim: one_or_none.elims)

lemma one_or_none_Inr_Some [simp]: "one_or_none e rs = Inr (Some r) \<longleftrightarrow> rs = [r]"
  by (auto elim: one_or_none.elims)

lemma one_or_none_Inl: "one_or_none e rs = Inl e' \<longleftrightarrow> e' = e \<and> 2 \<le> length rs"
  by (induction e rs rule: one_or_none.induct) auto

lemma one_or_none_filter_distinct:
  "distinct (map k rs) \<Longrightarrow> \<exists>r. one_or_none e (filter (\<lambda>r. k r = x) rs) = Inr r"
proof (induction rs)
  case (Cons r rs)
  show ?case
  proof (cases "k r = x")
    case True
    with Cons.prems have "filter (\<lambda>r. k r = x) rs = []"
      by (auto simp: filter_empty_conv image_iff)
    with True show ?thesis by simp
  next
    case False
    with Cons show ?thesis by simp
  qed
qed simp

lemma max_by_None [simp]: "max_by k rs = None \<longleftrightarrow> rs = []"
  by (cases rs) (auto split: option.splits)

lemma max_by_in: "max_by k rs = Some m \<Longrightarrow> m \<in> set rs"
  by (induction rs arbitrary: m) (auto split: option.splits if_splits)

lemma max_by_ge: "max_by k rs = Some m \<Longrightarrow> r \<in> set rs \<Longrightarrow> k r \<le> k m"
  by (induction rs arbitrary: m) (fastforce split: option.splits if_splits)+

lemma find_Some_in: "find p xs = Some x \<Longrightarrow> x \<in> set xs \<and> p x"
  by (induction xs) (auto split: if_splits)

lemma find_None_all: "find p xs = None \<longleftrightarrow> (\<forall>x \<in> set xs. \<not> p x)"
  by (induction xs) auto

lemma distinct_map_filter: "distinct (map k rs) \<Longrightarrow> distinct (map k (filter p rs))"
  by (induction rs) auto

lemma distinct_map_eq:
  "distinct (map k rs) \<Longrightarrow> r \<in> set rs \<Longrightarrow> r' \<in> set rs \<Longrightarrow> k r = k r' \<Longrightarrow> r = r'"
  by (induction rs) (auto simp: image_iff)

lemma length_filter_le_one:
  assumes "length (filter p rs) \<le> 1" and "r \<in> set rs" and "p r"
  shows "filter p rs = [r]"
proof -
  have "r \<in> set (filter p rs)" using assms by simp
  then show ?thesis using assms(1) by (cases "filter p rs") auto
qed

lemma case_filter_find: "(case filter p xs of [] \<Rightarrow> None | r # _ \<Rightarrow> Some r) = find p xs"
  by (induction xs) auto

text \<open>A partial unique index survives an update that keeps the key and enters no new row.\<close>

lemma distinct_map_filter_upd:
  "distinct (map g (filter q rs)) \<Longrightarrow>
   (\<And>r. r \<in> set rs \<Longrightarrow> p r \<Longrightarrow> g (f r) = g r \<and> (q (f r) \<longrightarrow> q r)) \<Longrightarrow>
   distinct (map g (filter q (upd_where p f rs)))"
proof (induction rs)
  case (Cons r rs)
  have sub: "g ` set (filter q (upd_where p f rs)) \<subseteq> g ` set (filter q rs)"
    using Cons.prems(2) by (fastforce simp: set_upd_where)
  have "distinct (map g (filter q (upd_where p f rs)))"
    using Cons by (auto split: if_splits)
  moreover have "g r \<notin> g ` set (filter q (upd_where p f rs))" if "q r"
    using that sub Cons.prems(1) by auto
  moreover have "q (f r) \<longrightarrow> q r \<and> g (f r) = g r" if "p r"
    using that Cons.prems(2)[of r] by auto
  ultimately show ?case by auto
qed simp

lemma map_upd_where_on:
  "(\<And>r. r \<in> set rs \<Longrightarrow> p r \<Longrightarrow> g (f r) = g r) \<Longrightarrow> map g (upd_where p f rs) = map g rs"
  by (induction rs) auto

lemma upd_where_singleton:
  "filter p rs = [r] \<Longrightarrow> map f (filter p rs) = [f r]"
  by simp

lemma one_or_none_map_filter:
  "length (filter p rs) \<le> 1 \<Longrightarrow>
   one_or_none e (map f (filter p rs)) = Inr (map_option f (find p rs))"
  by (induction rs) auto

lemma length_filter_mono:
  "(\<And>x. p x \<Longrightarrow> q x) \<Longrightarrow> length (filter p xs) \<le> length (filter q xs)"
  by (induction xs) (auto intro: le_SucI)

end
