(* ===== verification/Py_Values.thy ===== *)
theory Py_Values
  imports Prelude
begin

text \<open>
  The Python values and library calls the program uses.

  \<^item> A \<open>char\<close> stands for one code point of the range U+0000 to U+00FF, so \<open>length\<close> counts
    code points as Python's \<open>len\<close> does; text outside that range is not represented. \<open>lower\<close>,
    \<open>strip\<close> and \<open>split\<close> are Python's on that range.
  \<^item> \<open>json\<close> is what \<open>json.loads\<close> returns; a float carries its exact value and the text
    Python prints for it.
  \<^item> \<open>py_int_base\<close> is \<open>int(s, base)\<close>; \<open>py_str\<close> is \<open>str(v)\<close>.
\<close>

section \<open>Strings\<close>

definition code :: "char \<Rightarrow> nat" where
  "code c = of_char c"

definition py_isspace :: "char \<Rightarrow> bool" where
  "py_isspace c \<longleftrightarrow> (let n = code c in
     (9 \<le> n \<and> n \<le> 13) \<or> (28 \<le> n \<and> n \<le> 32) \<or> n = 133 \<or> n = 160)"

definition lower_char :: "char \<Rightarrow> char" where
  "lower_char c = (let n = code c in
     if (65 \<le> n \<and> n \<le> 90) \<or> (192 \<le> n \<and> n \<le> 222 \<and> n \<noteq> 215) then char_of (n + 32) else c)"

definition lower :: "string \<Rightarrow> string" where
  "lower s = map lower_char s"

definition lstrip_by :: "(char \<Rightarrow> bool) \<Rightarrow> string \<Rightarrow> string" where
  "lstrip_by p s = dropWhile p s"

definition rstrip_by :: "(char \<Rightarrow> bool) \<Rightarrow> string \<Rightarrow> string" where
  "rstrip_by p s = rev (dropWhile p (rev s))"

definition strip_by :: "(char \<Rightarrow> bool) \<Rightarrow> string \<Rightarrow> string" where
  "strip_by p s = rstrip_by p (lstrip_by p s)"

definition strip :: "string \<Rightarrow> string" where
  "strip s = strip_by py_isspace s"

definition strip_chars :: "string \<Rightarrow> string \<Rightarrow> string" where
  "strip_chars cs s = strip_by (\<lambda>c. c \<in> set cs) s"

text \<open>\<open>s.split()\<close>: maximal runs of non-space characters.\<close>

fun words_acc :: "string \<Rightarrow> string \<Rightarrow> string list" where
  "words_acc cur [] = (if cur = [] then [] else [rev cur])"
| "words_acc cur (c # cs) =
     (if py_isspace c then (if cur = [] then words_acc [] cs else rev cur # words_acc [] cs)
      else words_acc (c # cur) cs)"

definition split_ws :: "string \<Rightarrow> string list" where
  "split_ws s = words_acc [] s"

text \<open>\<open>s.split(c)\<close> for a one-character separator: empty fields are kept.\<close>

fun split_on :: "char \<Rightarrow> string \<Rightarrow> string list" where
  "split_on d [] = [[]]"
| "split_on d (c # cs) =
     (if c = d then [] # split_on d cs
      else (case split_on d cs of [] \<Rightarrow> [[c]] | w # ws \<Rightarrow> (c # w) # ws))"

fun join :: "string \<Rightarrow> string list \<Rightarrow> string" where
  "join sep [] = []"
| "join sep [w] = w"
| "join sep (w # w' # ws) = w @ sep @ join sep (w' # ws)"

fun starts_with :: "string \<Rightarrow> string \<Rightarrow> bool" where
  "starts_with [] s = True"
| "starts_with (p # ps) [] = False"
| "starts_with (p # ps) (c # cs) = (p = c \<and> starts_with ps cs)"

text \<open>\<open>needle in text\<close>.\<close>

fun occurs_in :: "string \<Rightarrow> string \<Rightarrow> bool" where
  "occurs_in p [] = (p = [])"
| "occurs_in p (c # cs) = (starts_with p (c # cs) \<or> occurs_in p cs)"

text \<open>\<open>s.replace(p, '')\<close> for a non-empty \<open>p\<close>.\<close>

function remove_all :: "string \<Rightarrow> string \<Rightarrow> string" where
  "remove_all p s =
     (case s of [] \<Rightarrow> []
      | c # cs \<Rightarrow> if p \<noteq> [] \<and> starts_with p s then remove_all p (drop (length p) s)
                  else c # remove_all p cs)"
  by pat_completeness auto
termination
  by (relation "measure (\<lambda>(p, s). length s)") (auto simp: neq_Nil_conv)

declare remove_all.simps [simp del]

lemma starts_with_iff: "starts_with p s \<longleftrightarrow> (\<exists>t. s = p @ t)"
  by (induction p s rule: starts_with.induct) auto

lemma occurs_in_iff: "occurs_in p s \<longleftrightarrow> (\<exists>a b. s = a @ p @ b)"
proof (induction s)
  case (Cons c cs)
  show ?case
  proof
    assume "occurs_in p (c # cs)"
    then consider "starts_with p (c # cs)" | "occurs_in p cs" by auto
    then show "\<exists>a b. c # cs = a @ p @ b"
    proof cases
      case 1
      then obtain t where "c # cs = [] @ p @ t" by (auto simp: starts_with_iff)
      then show ?thesis by blast
    next
      case 2
      with Cons.IH obtain a b where "cs = a @ p @ b" by blast
      then have "c # cs = (c # a) @ p @ b" by simp
      then show ?thesis by blast
    qed
  next
    assume "\<exists>a b. c # cs = a @ p @ b"
    then obtain a b where eq: "c # cs = a @ p @ b" by blast
    show "occurs_in p (c # cs)"
    proof (cases a)
      case Nil
      with eq have "starts_with p (c # cs)" by (simp only: starts_with_iff) auto
      then show ?thesis by simp
    next
      case (Cons d ds)
      with eq have "cs = ds @ p @ b" by simp
      then have "occurs_in p cs" using Cons.IH by blast
      then show ?thesis by simp
    qed
  qed
qed simp

lemma lstrip_by_head: "lstrip_by p s \<noteq> [] \<Longrightarrow> \<not> p (hd (lstrip_by p s))"
  by (simp add: lstrip_by_def hd_dropWhile)

lemma rstrip_by_last: "rstrip_by p s \<noteq> [] \<Longrightarrow> \<not> p (last (rstrip_by p s))"
  by (simp add: rstrip_by_def last_rev hd_dropWhile)

lemma set_strip_by: "set (strip_by p s) \<subseteq> set s"
  by (auto simp: strip_by_def lstrip_by_def rstrip_by_def dest!: set_dropWhileD)

lemma length_strip_by: "length (strip_by p s) \<le> length s"
  by (simp add: strip_by_def lstrip_by_def rstrip_by_def)
    (metis length_dropWhile_le length_rev order_trans)

lemma length_lower [simp]: "length (lower s) = length s"
  by (simp add: lower_def)

lemma lower_Nil_iff [simp]: "lower s = [] \<longleftrightarrow> s = []"
  by (simp add: lower_def)

lemma split_on_nonempty [simp]: "split_on d s \<noteq> []"
  by (cases s) (auto split: list.splits)

section \<open>Integers as text\<close>

definition digit_char :: "nat \<Rightarrow> char" where
  "digit_char d = char_of (if d < 10 then 48 + d else 87 + d)"

fun digits_acc :: "nat \<Rightarrow> nat \<Rightarrow> string \<Rightarrow> string" where
  "digits_acc b n acc =
     (if b < 2 \<or> n < b then digit_char n # acc
      else digits_acc b (n div b) (digit_char (n mod b) # acc))"

declare digits_acc.simps [simp del]

definition show_nat :: "nat \<Rightarrow> string" where
  "show_nat n = digits_acc 10 n []"

definition show_int :: "int \<Rightarrow> string" where
  "show_int i = (if i < 0 then CHR ''-'' # show_nat (nat (- i)) else show_nat (nat i))"

definition digit_val :: "nat \<Rightarrow> char \<Rightarrow> nat option" where
  "digit_val b c = (let n = code c;
       v = (if 48 \<le> n \<and> n \<le> 57 then n - 48
            else if 97 \<le> n \<and> n \<le> 122 then n - 87
            else if 65 \<le> n \<and> n \<le> 90 then n - 55 else 99)
     in if v < b then Some v else None)"

text \<open>Digits with single underscores between them; \<open>prev\<close>: the last character was a digit.\<close>

fun digit_loop :: "nat \<Rightarrow> nat \<Rightarrow> bool \<Rightarrow> string \<Rightarrow> nat option" where
  "digit_loop b acc prev [] = (if prev then Some acc else None)"
| "digit_loop b acc prev (c # cs) =
     (if c = CHR ''_'' then (if prev then digit_loop b acc False cs else None)
      else (case digit_val b c of None \<Rightarrow> None
            | Some d \<Rightarrow> digit_loop b (acc * b + d) True cs))"

definition max_str_digits :: nat where
  "max_str_digits = 4300"

definition py_int_base :: "nat \<Rightarrow> string \<Rightarrow> int option" where
  "py_int_base b s = (let
       t = strip s;
       neg = (case t of [] \<Rightarrow> False | c # _ \<Rightarrow> c = CHR ''-'');
       u = (case t of [] \<Rightarrow> [] | c # cs \<Rightarrow> if c = CHR ''-'' \<or> c = CHR ''+'' then cs else t);
       v = (if b = 16 \<and> (starts_with ''0x'' u \<or> starts_with ''0X'' u)
            then (let w = drop 2 u in if starts_with ''_'' w then drop 1 w else w) else u)
     in if b = 10 \<and> length (filter (\<lambda>c. c \<noteq> CHR ''_'') v) > max_str_digits then None
        else map_option (\<lambda>n. if neg then - int n else int n) (digit_loop b 0 False v))"

lemma digit_val_digit_char:
  assumes "d < b" and "b \<le> 16"
  shows "digit_val b (digit_char d) = Some d"
  using assms by (auto simp: digit_val_def digit_char_def code_def Let_def)

lemma digit_char_not_underscore: "d < 16 \<Longrightarrow> digit_char d \<noteq> CHR ''_''"
proof
  assume d: "d < 16" and "digit_char d = CHR ''_''"
  then have "(of_char (digit_char d) :: nat) = of_char (CHR ''_'')" by simp
  with d show False by (auto simp: digit_char_def split: if_splits)
qed

lemma digit_loop_digits_acc:
  assumes "2 \<le> b" and "b \<le> 16"
  shows "\<exists>k. \<forall>a p. digit_loop b a p (digits_acc b n acc) = digit_loop b (a * b ^ k + n) True acc"
  using assms
proof (induction b n acc rule: digits_acc.induct)
  case (1 b n acc)
  show ?case
  proof (cases "n < b")
    case True
    with "1.prems" show ?thesis
      by (intro exI[of _ 1])
        (simp add: digits_acc.simps[of b n] digit_val_digit_char digit_char_not_underscore)
  next
    case False
    with "1.prems" have "\<not> (b < 2 \<or> n < b)" by simp
    from "1.IH"[OF this "1.prems"] obtain k where k: "\<And>a p. digit_loop b a p
        (digits_acc b (n div b) (digit_char (n mod b) # acc)) =
        digit_loop b (a * b ^ k + n div b) True (digit_char (n mod b) # acc)" by blast
    have m: "n mod b < b" "n mod b < 16"
      using "1.prems" by (simp, meson mod_less_divisor less_le_trans pos2 order_less_le_trans)
    have sum: "(a * b ^ k + n div b) * b + n mod b = a * b ^ Suc k + n" for a
      by (simp add: algebra_simps)
    have "digit_loop b (a * b ^ k + n div b) True (digit_char (n mod b) # acc) =
        digit_loop b (a * b ^ Suc k + n) True acc" for a
      using digit_val_digit_char[OF m(1) "1.prems"(2)] digit_char_not_underscore[OF m(2)]
      by (simp only: digit_loop.simps if_False option.case sum)
    with k False "1.prems" show ?thesis
      by (intro exI[of _ "Suc k"]) (simp add: digits_acc.simps[of b n])
  qed
qed

lemma digit_loop_digits: "2 \<le> b \<Longrightarrow> b \<le> 16 \<Longrightarrow> digit_loop b 0 p (digits_acc b n []) = Some n"
  using digit_loop_digits_acc[of b n "[]"] by auto

section \<open>JSON values\<close>

datatype pyfloat = Fin rat | PosInf | NegInf | NaN

datatype json =
    JNull
  | JBool bool
  | JInt int
  | JFloat pyfloat string
  | JStr string
  | JList "json list"
  | JObj "(string \<times> json) list"

fun truthy :: "json \<Rightarrow> bool" where
  "truthy JNull = False"
| "truthy (JBool b) = b"
| "truthy (JInt i) = (i \<noteq> 0)"
| "truthy (JFloat f _) = (f \<noteq> Fin 0)"
| "truthy (JStr s) = (s \<noteq> [])"
| "truthy (JList xs) = (xs \<noteq> [])"
| "truthy (JObj kvs) = (kvs \<noteq> [])"

text \<open>Python's \<open>a or b\<close>.\<close>

definition por :: "json \<Rightarrow> json \<Rightarrow> json" where
  "por a b = (if truthy a then a else b)"

text \<open>\<open>d.get(k)\<close> on a dict and \<open>k in d\<close>.\<close>

definition jget :: "(string \<times> json) list \<Rightarrow> string \<Rightarrow> json" where
  "jget d k = (case map_of d k of None \<Rightarrow> JNull | Some v \<Rightarrow> v)"

definition jget_default :: "(string \<times> json) list \<Rightarrow> string \<Rightarrow> json \<Rightarrow> json" where
  "jget_default d k v = (case map_of d k of None \<Rightarrow> v | Some v' \<Rightarrow> v')"

definition has_key :: "(string \<times> json) list \<Rightarrow> string \<Rightarrow> bool" where
  "has_key d k \<longleftrightarrow> map_of d k \<noteq> None"

text \<open>\<open>repr\<close> of a string: the quote is a double one only when the text holds a single quote
  and no double one; backslash, the quote and non-printing characters are escaped.\<close>

definition two_hex :: "nat \<Rightarrow> string" where
  "two_hex n = [digit_char (n div 16), digit_char (n mod 16)]"

definition repr_char :: "char \<Rightarrow> char \<Rightarrow> string" where
  "repr_char q c = (let n = code c in
     if c = q \<or> n = 92 then [char_of (92::nat), c]
     else if n = 9 then [char_of (92::nat), CHR ''t'']
     else if n = 10 then [char_of (92::nat), CHR ''n'']
     else if n = 13 then [char_of (92::nat), CHR ''r'']
     else if n < 32 \<or> (127 \<le> n \<and> n \<le> 160) \<or> n = 173 then char_of (92::nat) # CHR ''x'' # two_hex n
     else [c])"

definition single_quote :: char where
  "single_quote = char_of (39::nat)"

definition double_quote :: char where
  "double_quote = char_of (34::nat)"

definition repr_str :: "string \<Rightarrow> string" where
  "repr_str s = (let q = (if single_quote \<in> set s \<and> double_quote \<notin> set s then double_quote
                          else single_quote)
     in [q] @ concat (map (repr_char q) s) @ [q])"

fun py_repr :: "json \<Rightarrow> string" where
  "py_repr JNull = ''None''"
| "py_repr (JBool b) = (if b then ''True'' else ''False'')"
| "py_repr (JInt i) = show_int i"
| "py_repr (JFloat f t) = t"
| "py_repr (JStr s) = repr_str s"
| "py_repr (JList xs) = ''['' @ join '', '' (map py_repr xs) @ '']''"
| "py_repr (JObj kvs) = ''{'' @ join '', '' (map (\<lambda>(k, v). repr_str k @ '': '' @ py_repr v) kvs) @ ''}''"

fun py_str :: "json \<Rightarrow> string" where
  "py_str (JStr s) = s"
| "py_str v = py_repr v"

text \<open>\<open>int(v)\<close>: \<open>Inr\<close> a value, \<open>Inl False\<close> a \<open>TypeError\<close> or \<open>ValueError\<close>, \<open>Inl True\<close> the
  \<open>OverflowError\<close> of an infinite float.\<close>

fun py_int :: "json \<Rightarrow> bool + int" where
  "py_int (JBool b) = Inr (if b then 1 else 0)"
| "py_int (JInt i) = Inr i"
| "py_int (JFloat (Fin q) _) = Inr (if 0 \<le> q then \<lfloor>q\<rfloor> else \<lceil>q\<rceil>)"
| "py_int (JFloat NaN _) = Inl False"
| "py_int (JFloat _ _) = Inl True"
| "py_int (JStr s) = (case py_int_base 10 s of None \<Rightarrow> Inl False | Some i \<Rightarrow> Inr i)"
| "py_int _ = Inl False"

fun type_name :: "json \<Rightarrow> string" where
  "type_name JNull = ''NoneType''"
| "type_name (JBool _) = ''bool''"
| "type_name (JInt _) = ''int''"
| "type_name (JFloat _ _) = ''float''"
| "type_name (JStr _) = ''str''"
| "type_name (JList _) = ''list''"
| "type_name (JObj _) = ''dict''"

end
