(* ===== verification/Domain.thy ===== *)
theory Domain
  imports Py_Values
begin

text \<open>
  The data the program passes around: \<open>domain/core.py\<close>, \<open>domain/agent_spec.py\<close>,
  \<open>agents/protocol.py\<close>, the enumerations of \<open>models/orm.py\<close> and the exceptions.

  A \<open>UUID\<close> is a number; the Pydantic models of an agent's configuration are records, one
  field per field. What Pydantic does to build them from JSON (defaults, type checks) is
  third-party code and stays a parameter wherever a configuration is parsed.
\<close>

type_synonym uuid = nat
type_synonym time = int  \<comment> \<open>microseconds\<close>

section \<open>Enumerations\<close>

datatype session_state =
  Pending | Authenticating | In_progress | Awaiting_user | Finalizing | Completed | Failed | Abandoned

datatype role = User | Assistant | System | Tool

datatype conv_status = Active | Archived

datatype audit_action =
    Config_sync | Config_create | Config_activate | Agent_enable | Agent_disable
  | Session_finalize | Session_abandon
  | Capability_create | Capability_update | Capability_delete | Capability_agent_set

datatype tool_status = Tool_success | Tool_error | Tool_timeout

datatype agent_type = Llm | Remote_flow

datatype agent_status = Enabled | Disabled

datatype config_source = Src_yaml | Src_db

datatype capability_status = Cap_active | Cap_disabled | Cap_coming_soon

section \<open>Users\<close>

record org_membership =
  om_org_id :: string
  om_org_code :: string
  om_roles :: "string list"

record user_context =
  u_user_id :: string
  u_email :: string
  u_display_name :: string
  u_tenant_code :: string
  u_orgs :: "org_membership list"
  u_active_org_id :: "string option"
  u_locale :: string
  u_token :: "string option"

text \<open>Roles in the active organization only.\<close>

definition user_roles :: "user_context \<Rightarrow> string list" where
  "user_roles u =
     (case find (\<lambda>m. Some (om_org_id m) = u_active_org_id u) (u_orgs u) of
        None \<Rightarrow> [] | Some m \<Rightarrow> om_roles m)"

section \<open>Agent specifications\<close>

record model_spec =
  ms_name :: string
  ms_temperature :: rat
  ms_max_tokens :: "int option"
  ms_timeout_s :: rat

record routing_spec =
  rt_keywords :: "string list"
  rt_priority :: int
  rt_pin_session :: bool
  rt_exit_keywords :: "string list"
  rt_confidence_threshold :: rat
  rt_router_selectable :: bool
  rt_direct_selectable :: bool

record memory_spec =
  mem_strategy_recent :: bool
  mem_history_turns :: int
  mem_include_other_agents :: bool

record limits_spec =
  lim_max_tool_iterations :: int
  lim_max_turns :: "int option"
  lim_per_conversation_per_min :: int
  lim_per_user_per_min :: int

record access_spec =
  ac_tenant_codes :: "string list"
  ac_organization_codes :: "string list"
  ac_required_roles :: "string list"
  ac_allow_anonymous :: bool

record features_spec =
  ft_emit_options :: bool
  ft_streaming :: bool
  ft_record_tool_executions :: bool

record handshake_spec =
  hs_settle_ms :: int
  hs_ack_types :: "string list"
  hs_timeout_ms :: int

record turn_spec =
  ts_first_turn_timeout_ms :: int
  ts_turn_timeout_ms :: int
  ts_idle_gap_ms :: int

record remote_spec =
  rm_flow_name :: string
  rm_bot_route_env :: string
  rm_company_env :: string
  rm_default_language :: string
  rm_supported_languages :: "string list"
  rm_handshake :: handshake_spec
  rm_turn :: turn_spec
  rm_completion_poll_every_turn :: bool
  rm_finalize_path :: string
  rm_finalize_as_guest :: bool
  rm_report_media_type :: string

record llm_spec =
  ll_prompt :: string
  ll_tools :: "string list"
  ll_model :: model_spec

record base_spec =
  sp_key :: string
  sp_name :: string
  sp_description :: string
  sp_enabled :: bool
  sp_default :: bool
  sp_sort_order :: int
  sp_capabilities :: "string list"
  sp_routing :: routing_spec
  sp_memory :: memory_spec
  sp_limits :: limits_spec
  sp_access :: access_spec
  sp_features :: features_spec

datatype agent_spec =
    LlmAgentSpec (spec_base: base_spec) llm_spec
  | RemoteFlowAgentSpec (spec_base: base_spec) remote_spec

fun spec_type :: "agent_spec \<Rightarrow> agent_type" where
  "spec_type (LlmAgentSpec _ _) = Llm"
| "spec_type (RemoteFlowAgentSpec _ _) = Remote_flow"

fun spec_remote :: "agent_spec \<Rightarrow> remote_spec option" where
  "spec_remote (LlmAgentSpec _ _) = None"
| "spec_remote (RemoteFlowAgentSpec _ r) = Some r"

abbreviation spec_routing :: "agent_spec \<Rightarrow> routing_spec" where
  "spec_routing s \<equiv> sp_routing (spec_base s)"

text \<open>\<open>AccessSpec.matches\<close>. An empty list is no restriction; the three dimensions are ANDed.
  An empty organization id is falsy, like none at all.\<close>

definition access_matches :: "access_spec \<Rightarrow> user_context option \<Rightarrow> bool" where
  "access_matches a uc =
     (case uc of
        None \<Rightarrow> ac_allow_anonymous a
      | Some u \<Rightarrow>
          if ac_tenant_codes a \<noteq> [] \<and> u_tenant_code u \<notin> set (ac_tenant_codes a) then False
          else if ac_organization_codes a \<noteq> [] \<and>
                  (case u_active_org_id u of
                     None \<Rightarrow> True
                   | Some oid \<Rightarrow> oid = [] \<or>
                      (case find (\<lambda>m. om_org_id m = oid) (u_orgs u) of
                         None \<Rightarrow> True
                       | Some m \<Rightarrow> om_org_code m \<notin> set (ac_organization_codes a)))
          then False
          else if ac_required_roles a \<noteq> [] \<and>
                  list_all (\<lambda>r. r \<notin> set (ac_required_roles a)) (user_roles u)
          then False
          else True)"

section \<open>The handler protocol\<close>

record session_view =
  sv_id :: uuid
  sv_conversation_id :: uuid
  sv_agent_id :: uuid
  sv_state :: session_state
  sv_remote_provider :: "string option"
  sv_remote_session_id :: "string option"
  sv_remote_profile_id :: "string option"
  sv_remote_flow :: "string option"
  sv_remote_bot_route :: "string option"
  sv_language :: string
  sv_step :: int
  sv_turn_count :: int
  sv_result_ref :: "string option"
  sv_report_url :: "string option"
  sv_error :: "string option"
  sv_error_code :: "string option"
  sv_state_data :: json

record history_turn =
  ht_role :: role
  ht_content :: string

record turn_context =
  tc_request_id :: string
  tc_conversation_id :: uuid
  tc_user :: user_context
  tc_text :: string
  tc_option_id :: "string option"
  tc_history :: "history_turn list"
  tc_session :: "session_view option"
  tc_locale :: string

record turn_option =
  op_id :: string
  op_label :: string
  op_value :: string

record tool_trace =
  tt_tool_name :: string
  tt_iteration :: int
  tt_result_excerpt :: string
  tt_status :: tool_status
  tt_error :: "string option"
  tt_duration_ms :: int

record session_delta =
  sd_state :: session_state
  sd_remote_session_id :: "string option"
  sd_remote_profile_id :: "string option"
  sd_remote_flow :: "string option"
  sd_remote_bot_route :: "string option"
  sd_step :: "int option"
  sd_result_ref :: "string option"
  sd_report_url :: "string option"
  sd_error :: "string option"
  sd_state_data :: "json option"

text \<open>\<open>SessionDelta(state=s)\<close>: every other field defaults to \<open>None\<close>.\<close>

definition delta_of :: "session_state \<Rightarrow> session_delta" where
  "delta_of s = \<lparr> sd_state = s, sd_remote_session_id = None, sd_remote_profile_id = None,
     sd_remote_flow = None, sd_remote_bot_route = None, sd_step = None, sd_result_ref = None,
     sd_report_url = None, sd_error = None, sd_state_data = None \<rparr>"

record agent_turn =
  at_text :: string
  at_options :: "turn_option list"
  at_session_delta :: "session_delta option"
  at_tool_traces :: "tool_trace list"
  at_model :: "string option"
  at_prompt_tokens :: "int option"
  at_completion_tokens :: "int option"
  at_latency_ms :: int
  at_error :: "string option"
  at_terminal :: bool

text \<open>\<open>AgentTurn(text=t)\<close>.\<close>

definition turn_of_text :: "string \<Rightarrow> agent_turn" where
  "turn_of_text t = \<lparr> at_text = t, at_options = [], at_session_delta = None, at_tool_traces = [],
     at_model = None, at_prompt_tokens = None, at_completion_tokens = None, at_latency_ms = 0,
     at_error = None, at_terminal = False \<rparr>"

section \<open>Exceptions\<close>

datatype mitra_exc =
    MitraError string
  | MitraHTTPError string string int "string option"  \<comment> \<open>method, path, status, detail\<close>
  | MitraSSRFError
  | MitraRedirectError int
  | MitraTurnTimeout "int option"
  | MitraChannelClosed string
  | MitraRemoteError string
  | MitraConcurrentTurnError

datatype exc =
    Mitra mitra_exc
  | InvalidTransitionError uuid session_state session_state
  | ConcurrentModificationError uuid
  | ConcurrentTurnError uuid
  | TurnLimitExceeded string string
  | AgentNotFound string
  | UnknownAgentType string
  | UnknownTool string
  | IntegrityError      \<comment> \<open>a constraint of the database refused a statement\<close>
  | InFailedTransaction \<comment> \<open>a statement after an earlier one of the transaction failed\<close>
  | MultipleResultsFound
  | NoResultFound
  | RuntimeError string
  | ValueError string
  | AttributeError string
  | TypeError string
  | KeyError string
  | AssertionError
  | InvalidTokenError string
  | StopIteration
  | LlmError string
  | HTTPException int string

text \<open>\<open>str(e)\<close> of the exceptions whose text is stored or shown.\<close>

fun mitra_text :: "mitra_exc \<Rightarrow> string" where
  "mitra_text (MitraError m) = m"
| "mitra_text (MitraHTTPError meth path st detail) =
     (let m = ''Mitra '' @ meth @ '' '' @ path @ '' returned HTTP '' @ show_int st
      in case detail of None \<Rightarrow> m | Some d \<Rightarrow> if d = [] then m else m @ '': '' @ d)"
| "mitra_text MitraSSRFError = ''URL returned by Mitra failed allowlist validation '' @
     ''(must be https and from an approved host)''"
| "mitra_text (MitraRedirectError st) = ''Unexpected redirect (HTTP '' @ show_int st @
     '') from Mitra - check MITRA_BASE_URL''"
| "mitra_text (MitraTurnTimeout st) = ''no bot response before timeout (last step='' @
     (case st of None \<Rightarrow> ''None'' | Some i \<Rightarrow> show_int i) @ '')''"
| "mitra_text (MitraChannelClosed r) =
     (if r = [] then ''channel closed'' else ''channel closed: '' @ r)"
| "mitra_text (MitraRemoteError m) = m"
| "mitra_text MitraConcurrentTurnError = ''A turn is already in progress for this conversation.''"

section \<open>Environment references in a configuration\<close>

text \<open>\<open>\<dollar>{NAME}\<close> and \<open>\<dollar>{NAME:-default}\<close>, as the regular expression of
  \<open>_resolve_env_string\<close> finds them: the name is a maximal run of letters, digits and
  underscores, the default runs to the first closing brace and holds no newline.\<close>

definition env_name_char :: "char \<Rightarrow> bool" where
  "env_name_char c \<longleftrightarrow> (let n = code c in
     (48 \<le> n \<and> n \<le> 57) \<or> (65 \<le> n \<and> n \<le> 90) \<or> (97 \<le> n \<and> n \<le> 122) \<or> n = 95)"

definition match_env_ref :: "string \<Rightarrow> (string \<times> string option \<times> string) option" where
  "match_env_ref s =
     (if \<not> starts_with ''${'' s then None
      else let body = drop 2 s; name = takeWhile env_name_char body;
               rest = dropWhile env_name_char body
           in if name = [] then None
              else if starts_with ''}'' rest then Some (name, None, drop 1 rest)
              else if starts_with '':-'' rest then
                let r = drop 2 rest; d = takeWhile (\<lambda>c. c \<noteq> CHR ''}'') r;
                    after = dropWhile (\<lambda>c. c \<noteq> CHR ''}'') r
                in if after = [] \<or> char_of (10::nat) \<in> set d then None
                   else Some (name, Some d, drop 1 after)
              else None)"

lemma match_env_ref_shorter: "match_env_ref s = Some (n, d, r) \<Longrightarrow> length r < length s"
proof -
  assume m: "match_env_ref s = Some (n, d, r)"
  then have "starts_with ''${'' s" by (auto simp: match_env_ref_def split: if_splits)
  then obtain t where s: "s = ''${'' @ t" by (auto simp: starts_with_iff)
  have "length (dropWhile env_name_char t) \<le> length t" by (rule length_dropWhile_le)
  moreover have "length (dropWhile (\<lambda>c. c \<noteq> CHR ''}'') (drop 2 (dropWhile env_name_char t)))
      \<le> length (dropWhile env_name_char t)"
    by (rule le_trans[OF length_dropWhile_le]) simp
  ultimately show ?thesis using m s
    by (auto simp: match_env_ref_def Let_def split: if_splits)
qed

function resolve_env_string :: "(string \<rightharpoonup> string) \<Rightarrow> string \<Rightarrow> string" where
  "resolve_env_string env s =
     (case s of [] \<Rightarrow> []
      | c # cs \<Rightarrow>
          (case match_env_ref s of
             None \<Rightarrow> c # resolve_env_string env cs
           | Some (n, d, r) \<Rightarrow>
               (case env n of Some v \<Rightarrow> v | None \<Rightarrow> (case d of Some v \<Rightarrow> v | None \<Rightarrow> []))
               @ resolve_env_string env r))"
  by pat_completeness auto
termination
  by (relation "measure (\<lambda>(e, s). length s)") (auto dest: match_env_ref_shorter)

declare resolve_env_string.simps [simp del]

fun resolve_env :: "(string \<rightharpoonup> string) \<Rightarrow> json \<Rightarrow> json" where
  "resolve_env env (JObj kvs) = JObj (map (\<lambda>(k, v). (k, resolve_env env v)) kvs)"
| "resolve_env env (JList vs) = JList (map (resolve_env env) vs)"
| "resolve_env env (JStr s) = JStr (resolve_env_string env s)"
| "resolve_env env v = v"

lemma match_env_ref_needs_dollar: "CHR ''$'' \<notin> set s \<Longrightarrow> match_env_ref s = None"
  by (auto simp: match_env_ref_def starts_with_iff)

lemma resolve_env_string_plain:
  "CHR ''$'' \<notin> set s \<Longrightarrow> resolve_env_string env s = s"
proof (induction s)
  case Nil
  then show ?case by (simp add: resolve_env_string.simps)
next
  case (Cons c cs)
  then show ?case
    using match_env_ref_needs_dollar[OF Cons.prems] by (simp add: resolve_env_string.simps)
qed

section \<open>Canonical JSON and checksums\<close>

text \<open>\<open>json.dumps(v, separators=(',', ':'), sort_keys=True)\<close>: keys sorted, everything outside
  printable ASCII escaped.\<close>

definition json_escape_char :: "char \<Rightarrow> string" where
  "json_escape_char c = (let n = code c; bs = char_of (92::nat) in
     if n = 34 \<or> n = 92 then [bs, c]
     else if n = 10 then [bs, CHR ''n'']
     else if n = 13 then [bs, CHR ''r'']
     else if n = 9 then [bs, CHR ''t'']
     else if n = 8 then [bs, CHR ''b'']
     else if n = 12 then [bs, CHR ''f'']
     else if n < 32 \<or> 126 < n then bs # ''u00'' @ two_hex n
     else [c])"

definition json_string :: "string \<Rightarrow> string" where
  "json_string s = [double_quote] @ concat (map json_escape_char s) @ [double_quote]"

fun json_dumps :: "json \<Rightarrow> string" where
  "json_dumps JNull = ''null''"
| "json_dumps (JBool b) = (if b then ''true'' else ''false'')"
| "json_dumps (JInt i) = show_int i"
| "json_dumps (JFloat f t) =
     (case f of Fin _ \<Rightarrow> t | PosInf \<Rightarrow> ''Infinity'' | NegInf \<Rightarrow> ''-Infinity'' | NaN \<Rightarrow> ''NaN'')"
| "json_dumps (JStr s) = json_string s"
| "json_dumps (JList vs) = ''['' @ join '','' (map json_dumps vs) @ '']''"
| "json_dumps (JObj kvs) =
     ''{'' @ join '','' (map snd (sort_key fst
        (map (\<lambda>(k, v). (k, json_string k @ '':'' @ json_dumps v)) kvs))) @ ''}''"

text \<open>\<open>canonical_json\<close> with SHA-256 as the parameter \<open>sha\<close>: the text and its checksum, taken
  from the raw configuration, before environment references are resolved.\<close>

definition canonical_json :: "(string \<Rightarrow> string) \<Rightarrow> json \<Rightarrow> string \<times> string" where
  "canonical_json sha raw = (json_dumps raw, sha (json_dumps raw))"

end
