(* ===== verification/Store.thy ===== *)
theory Store
  imports Domain
begin

text \<open>
  The database: \<open>models/orm.py\<close> and the constraints of the migrations.

  A table is the list of its rows in insertion order. \<open>db_ok\<close> is the conjunction of the CHECK,
  UNIQUE, partial UNIQUE and FOREIGN KEY constraints of the DDL. Every statement goes through
  \<open>stmt\<close>, which does what PostgreSQL does with it: the new contents are stored if they satisfy
  the constraints, otherwise nothing is and \<open>IntegrityError\<close> is raised.

  \<open>d_now\<close> is \<open>now()\<close>, the start time of the current transaction; \<open>d_next\<close> supplies the values
  of \<open>gen_random_uuid()\<close>/\<open>uuid4()\<close>, fresh by construction.
\<close>

section \<open>Rows\<close>

record conv_row =
  cv_id :: uuid
  cv_tenant_code :: string
  cv_organization_id :: "string option"
  cv_external_user_id :: string
  cv_title :: "string option"
  cv_status :: conv_status
  cv_pinned_agent_id :: "uuid option"
  cv_locale :: string
  cv_message_count :: int
  cv_metadata :: "(string \<times> json) list"
  cv_last_message_at :: "time option"
  cv_created_at :: time
  cv_updated_at :: time

record msg_row =
  mg_id :: uuid
  mg_conversation_id :: uuid
  mg_seq :: int
  mg_role :: role
  mg_content :: string
  mg_agent_id :: "uuid option"
  mg_agent_session_id :: "uuid option"
  mg_route_reason :: "string option"
  mg_route_confidence :: "rat option"
  mg_options :: "turn_option list option"
  mg_selected_option_id :: "string option"
  mg_model :: "string option"
  mg_prompt_tokens :: "int option"
  mg_completion_tokens :: "int option"
  mg_latency_ms :: "int option"
  mg_error :: "string option"
  mg_request_id :: "string option"
  mg_created_at :: time

text \<open>A session row is the handler-facing view with the timestamps added.\<close>

record session_row = session_view +
  sr_started_at :: time
  sr_last_activity_at :: time
  sr_finalized_at :: "time option"
  sr_ended_at :: "time option"

datatype audit_payload = Au_session session_row | Au_json json

record audit_row =
  au_action :: audit_action
  au_entity_type :: string
  au_entity_id :: "uuid option"
  au_actor :: string
  au_before :: "audit_payload option"
  au_after :: "audit_payload option"
  au_note :: "string option"
  au_created_at :: time

record tool_row =
  tl_message_id :: uuid
  tl_agent_id :: "uuid option"
  tl_tool_name :: string
  tl_iteration :: int
  tl_result_excerpt :: "string option"
  tl_result_bytes :: "int option"
  tl_status :: tool_status
  tl_error :: "string option"
  tl_duration_ms :: int
  tl_request_id :: "string option"

record agent_row =
  ag_id :: uuid
  ag_tenant_id :: string
  ag_organization_id :: string
  ag_key :: string
  ag_name :: string
  ag_description :: string
  ag_agent_type :: agent_type
  ag_status :: agent_status
  ag_is_default :: bool
  ag_sort_order :: int
  ag_icon :: "string option"
  ag_updated_at :: time

record config_row =
  cf_id :: uuid
  cf_agent_id :: uuid
  cf_tenant_id :: string
  cf_organization_id :: string
  cf_version :: int
  cf_source :: config_source
  cf_checksum :: string
  cf_config :: json
  cf_is_active :: bool
  cf_activated_at :: "time option"
  cf_created_by :: string
  cf_created_at :: time

record cap_row =
  cp_id :: uuid
  cp_tenant_id :: string
  cp_organization_id :: string
  cp_key :: string
  cp_name :: string
  cp_description :: "string option"
  cp_icon :: "string option"
  cp_badge :: "string option"
  cp_status :: capability_status
  cp_display_order :: int
  cp_metadata :: json

record cap_agent_row =
  ca_capability_id :: uuid
  ca_agent_id :: uuid
  ca_display_order :: int
  ca_label_override :: "string option"
  ca_is_visible :: bool
  ca_metadata :: json

record db =
  d_convs :: "conv_row list"
  d_msgs :: "msg_row list"
  d_sess :: "session_row list"
  d_audit :: "audit_row list"
  d_tools :: "tool_row list"
  d_agents :: "agent_row list"
  d_cfgs :: "config_row list"
  d_caps :: "cap_row list"
  d_cap_agents :: "cap_agent_row list"
  d_now :: time
  d_next :: uuid

definition empty_db :: db where
  "empty_db = \<lparr> d_convs = [], d_msgs = [], d_sess = [], d_audit = [], d_tools = [], d_agents = [],
     d_cfgs = [], d_caps = [], d_cap_agents = [], d_now = 0, d_next = 1 \<rparr>"

type_synonym 'a dbact = "(db, exc, 'a) act"

section \<open>Constraints\<close>

definition languages :: "string list" where
  "languages = [''en'', ''hi'', ''kn'', ''te'']"

fun terminal :: "session_state \<Rightarrow> bool" where
  "terminal Completed = True"
| "terminal Failed = True"
| "terminal Abandoned = True"
| "terminal _ = False"

abbreviation is_open :: "session_row \<Rightarrow> bool" where
  "is_open r \<equiv> \<not> terminal (sv_state r)"

definition opt_in :: "'a option \<Rightarrow> 'a list \<Rightarrow> bool" where
  "opt_in x ys = (case x of None \<Rightarrow> True | Some y \<Rightarrow> y \<in> set ys)"

definition nonneg :: "int option \<Rightarrow> bool" where
  "nonneg x = (case x of None \<Rightarrow> True | Some i \<Rightarrow> 0 \<le> i)"

definition conv_row_ok :: "conv_row \<Rightarrow> bool" where
  "conv_row_ok c \<longleftrightarrow> cv_locale c \<in> set languages \<and> 0 \<le> cv_message_count c \<and> cv_tenant_code c \<noteq> []"

definition msg_row_ok :: "msg_row \<Rightarrow> bool" where
  "msg_row_ok m \<longleftrightarrow> 0 < mg_seq m \<and> (mg_role m \<noteq> Assistant \<or> mg_agent_id m \<noteq> None)
     \<and> (mg_options m = None \<or> mg_role m = Assistant)
     \<and> nonneg (mg_prompt_tokens m) \<and> nonneg (mg_completion_tokens m) \<and> nonneg (mg_latency_ms m)
     \<and> (case mg_route_confidence m of None \<Rightarrow> True | Some q \<Rightarrow> 0 \<le> q \<and> q \<le> 1)"

definition sess_row_ok :: "session_row \<Rightarrow> bool" where
  "sess_row_ok r \<longleftrightarrow> sv_language r \<in> set languages \<and> 0 \<le> sv_step r \<and> 0 \<le> sv_turn_count r
     \<and> (terminal (sv_state r) \<longleftrightarrow> sr_ended_at r \<noteq> None)
     \<and> (sv_state r \<in> {Pending, Failed, Abandoned} \<or> sv_remote_session_id r \<noteq> None)
     \<and> (sv_state r \<noteq> Completed \<or> sv_result_ref r \<noteq> None)"

definition tool_row_ok :: "tool_row \<Rightarrow> bool" where
  "tool_row_ok t \<longleftrightarrow> 1 \<le> tl_iteration t \<and> tl_iteration t \<le> 10 \<and> 0 \<le> tl_duration_ms t
     \<and> (tl_status t = Tool_success \<or> tl_error t \<noteq> None)"

text \<open>\<open>key ~ '^[a-z][a-z0-9_]{1,62}$'\<close>.\<close>

definition slug_ok :: "string \<Rightarrow> bool" where
  "slug_ok s = (case s of [] \<Rightarrow> False | c # cs \<Rightarrow>
     97 \<le> code c \<and> code c \<le> 122 \<and> 1 \<le> length cs \<and> length cs \<le> 62
     \<and> list_all (\<lambda>x. let n = code x in (97 \<le> n \<and> n \<le> 122) \<or> (48 \<le> n \<and> n \<le> 57) \<or> n = 95) cs)"

text \<open>The same test on the bits of the characters, for evaluation.\<close>

fun lower_letter :: "char \<Rightarrow> bool" where
  "lower_letter (Char b0 b1 b2 b3 b4 b5 b6 b7) \<longleftrightarrow>
     \<not> b7 \<and> b6 \<and> b5 \<and> (b0 \<or> b1 \<or> b2 \<or> b3 \<or> b4) \<and> \<not> (b4 \<and> b3 \<and> (b2 \<or> b1 \<and> b0))"

fun slug_char :: "char \<Rightarrow> bool" where
  "slug_char (Char b0 b1 b2 b3 b4 b5 b6 b7) \<longleftrightarrow>
     lower_letter (Char b0 b1 b2 b3 b4 b5 b6 b7)
     \<or> \<not> b7 \<and> \<not> b6 \<and> b5 \<and> b4 \<and> \<not> (b3 \<and> (b2 \<or> b1))
     \<or> \<not> b7 \<and> b6 \<and> \<not> b5 \<and> b4 \<and> b3 \<and> b2 \<and> b1 \<and> b0"

lemma lower_letter_iff: "lower_letter c \<longleftrightarrow> 97 \<le> code c \<and> code c \<le> 122"
proof (cases c)
  case (Char b0 b1 b2 b3 b4 b5 b6 b7)
  then show ?thesis
    by (cases b0; cases b1; cases b2; cases b3; cases b4; cases b5; cases b6; cases b7) (simp_all add: code_def)
qed

lemma slug_char_iff: "slug_char c \<longleftrightarrow>
    (let n = code c in (97 \<le> n \<and> n \<le> 122) \<or> (48 \<le> n \<and> n \<le> 57) \<or> n = 95)"
proof (cases c)
  case (Char b0 b1 b2 b3 b4 b5 b6 b7)
  then show ?thesis
    by (cases b0; cases b1; cases b2; cases b3; cases b4; cases b5; cases b6; cases b7) (simp_all add: code_def)
qed

lemma slug_ok_code [code]:
  "slug_ok s = (case s of [] \<Rightarrow> False | c # cs \<Rightarrow>
     lower_letter c \<and> cs \<noteq> [] \<and> length cs \<le> 62 \<and> list_all slug_char cs)"
  by (cases s) (auto simp: slug_ok_def lower_letter_iff slug_char_iff[abs_def] Suc_le_eq)

definition config_row_ok :: "config_row \<Rightarrow> bool" where
  "config_row_ok c \<longleftrightarrow> 0 < cf_version c \<and> (cf_is_active c \<longrightarrow> cf_activated_at c \<noteq> None)
     \<and> (case cf_config c of JObj kvs \<Rightarrow>
          has_key kvs ''agent_type'' \<and> has_key kvs ''key'' \<and> has_key kvs ''name''
        | JList vs \<Rightarrow> list_all (\<lambda>k. JStr k \<in> set vs) [''agent_type'', ''key'', ''name'']
        | _ \<Rightarrow> False)"

definition cap_row_ok :: "cap_row \<Rightarrow> bool" where
  "cap_row_ok c \<longleftrightarrow> slug_ok (cp_key c) \<and> cp_tenant_id c \<noteq> [] \<and> cp_organization_id c \<noteq> []"

definition convs_ok :: "db \<Rightarrow> bool" where
  "convs_ok d \<longleftrightarrow> list_all conv_row_ok (d_convs d) \<and> distinct (map cv_id (d_convs d))
     \<and> list_all (\<lambda>c. opt_in (cv_pinned_agent_id c) (map ag_id (d_agents d))) (d_convs d)"

definition msgs_ok :: "db \<Rightarrow> bool" where
  "msgs_ok d \<longleftrightarrow> list_all msg_row_ok (d_msgs d)
     \<and> distinct (map (\<lambda>m. (mg_conversation_id m, mg_seq m)) (d_msgs d))
     \<and> distinct (map mg_id (d_msgs d))
     \<and> list_all (\<lambda>m. mg_conversation_id m \<in> set (map cv_id (d_convs d))
          \<and> opt_in (mg_agent_id m) (map ag_id (d_agents d))
          \<and> opt_in (mg_agent_session_id m) (map sv_id (d_sess d))) (d_msgs d)"

definition sess_ok :: "db \<Rightarrow> bool" where
  "sess_ok d \<longleftrightarrow> list_all sess_row_ok (d_sess d) \<and> distinct (map sv_id (d_sess d))
     \<and> distinct (map sv_remote_session_id (filter (\<lambda>r. sv_remote_session_id r \<noteq> None) (d_sess d)))
     \<and> distinct (map sv_conversation_id (filter is_open (d_sess d)))
     \<and> list_all (\<lambda>r. sv_conversation_id r \<in> set (map cv_id (d_convs d))
          \<and> sv_agent_id r \<in> set (map ag_id (d_agents d))) (d_sess d)"

definition tools_ok :: "db \<Rightarrow> bool" where
  "tools_ok d \<longleftrightarrow> list_all tool_row_ok (d_tools d)
     \<and> list_all (\<lambda>t. tl_message_id t \<in> set (map mg_id (d_msgs d))
          \<and> opt_in (tl_agent_id t) (map ag_id (d_agents d))) (d_tools d)"

definition agents_ok :: "db \<Rightarrow> bool" where
  "agents_ok d \<longleftrightarrow> distinct (map ag_id (d_agents d)) \<and> distinct (map ag_key (d_agents d))
     \<and> distinct (map ag_name (d_agents d)) \<and> list_all (\<lambda>a. slug_ok (ag_key a)) (d_agents d)
     \<and> length (filter ag_is_default (d_agents d)) \<le> 1"

abbreviation cfg_scope :: "config_row \<Rightarrow> uuid \<times> string \<times> string" where
  "cfg_scope c \<equiv> (cf_agent_id c, cf_tenant_id c, cf_organization_id c)"

definition cfgs_ok :: "db \<Rightarrow> bool" where
  "cfgs_ok d \<longleftrightarrow> list_all config_row_ok (d_cfgs d) \<and> distinct (map cf_id (d_cfgs d))
     \<and> distinct (map (\<lambda>c. (cfg_scope c, cf_version c)) (d_cfgs d))
     \<and> distinct (map cfg_scope (filter cf_is_active (d_cfgs d)))
     \<and> list_all (\<lambda>c. cf_agent_id c \<in> set (map ag_id (d_agents d))) (d_cfgs d)"

definition caps_ok :: "db \<Rightarrow> bool" where
  "caps_ok d \<longleftrightarrow> list_all cap_row_ok (d_caps d) \<and> distinct (map cp_id (d_caps d))
     \<and> distinct (map (\<lambda>c. (cp_tenant_id c, cp_organization_id c, cp_key c)) (d_caps d))
     \<and> distinct (map (\<lambda>c. (ca_capability_id c, ca_agent_id c)) (d_cap_agents d))
     \<and> list_all (\<lambda>c. ca_capability_id c \<in> set (map cp_id (d_caps d))
          \<and> ca_agent_id c \<in> set (map ag_id (d_agents d))) (d_cap_agents d)"

definition db_ok :: "db \<Rightarrow> bool" where
  "db_ok d \<longleftrightarrow> convs_ok d \<and> msgs_ok d \<and> sess_ok d \<and> tools_ok d \<and> agents_ok d \<and> cfgs_ok d \<and> caps_ok d"

text \<open>Fresh identifiers are above every identifier in use.\<close>

definition ids_below :: "db \<Rightarrow> bool" where
  "ids_below d \<longleftrightarrow> list_all (\<lambda>c. cv_id c < d_next d) (d_convs d)
     \<and> list_all (\<lambda>m. mg_id m < d_next d) (d_msgs d) \<and> list_all (\<lambda>r. sv_id r < d_next d) (d_sess d)
     \<and> list_all (\<lambda>a. ag_id a < d_next d) (d_agents d) \<and> list_all (\<lambda>c. cf_id c < d_next d) (d_cfgs d)
     \<and> list_all (\<lambda>c. cp_id c < d_next d) (d_caps d)"

section \<open>Statements\<close>

definition stmt :: "(db \<Rightarrow> db) \<Rightarrow> unit dbact" where
  "stmt f = (\<lambda>d. if db_ok (f d) then (Inr (), f d) else (Inl IntegrityError, d))"

text \<open>\<open>scalar_one_or_none()\<close> of a query.\<close>

definition fetch_one :: "(db \<Rightarrow> 'r list) \<Rightarrow> 'r option dbact" where
  "fetch_one q = (\<lambda>d. (one_or_none MultipleResultsFound (q d), d))"

text \<open>\<open>UPDATE agent_sessions ... RETURNING\<close>: the rows as updated. Which rows matched is
  decided on the table before the update.\<close>

definition upd_sess :: "(session_row \<Rightarrow> bool) \<Rightarrow> (session_row \<Rightarrow> session_row) \<Rightarrow> session_row list dbact" where
  "upd_sess p f = (\<lambda>d. case stmt (\<lambda>d. d\<lparr> d_sess := upd_where p f (d_sess d) \<rparr>) d of
     (Inl e, d') \<Rightarrow> (Inl e, d')
   | (Inr _, d') \<Rightarrow> (Inr (map f (filter p (d_sess d))), d'))"

text \<open>An UPDATE through the ORM also sets \<open>updated_at\<close> (\<open>onupdate=func.now()\<close>).\<close>

definition upd_conv :: "uuid \<Rightarrow> (conv_row \<Rightarrow> bool) \<Rightarrow> (conv_row \<Rightarrow> conv_row) \<Rightarrow> unit dbact" where
  "upd_conv i p f = stmt (\<lambda>d. d\<lparr> d_convs := upd_where (\<lambda>c. cv_id c = i \<and> p c)
     (\<lambda>c. (f c)\<lparr> cv_updated_at := d_now d \<rparr>) (d_convs d) \<rparr>)"

lemma stmt_run [act_simps]:
  "stmt f d = (if db_ok (f d) then (Inr (), f d) else (Inl IntegrityError, d))"
  by (simp add: stmt_def)

lemma fetch_one_run [simp, act_simps]: "fetch_one q d = (one_or_none MultipleResultsFound (q d), d)"
  by (simp add: fetch_one_def)

lemma stmt_InrD: "stmt f d = (Inr u, d') \<Longrightarrow> d' = f d \<and> db_ok d'"
  by (auto simp: stmt_def split: if_splits)

lemma stmt_InlD: "stmt f d = (Inl e, d') \<Longrightarrow> d' = d \<and> e = IntegrityError \<and> \<not> db_ok (f d)"
  by (auto simp: stmt_def split: if_splits)

lemma upd_sess_InrD:
  "upd_sess p f d = (Inr rs, d') \<Longrightarrow>
   d' = d\<lparr> d_sess := upd_where p f (d_sess d) \<rparr> \<and> rs = map f (filter p (d_sess d)) \<and> db_ok d'"
  by (auto simp: upd_sess_def stmt_def split: if_splits)

lemma upd_sess_InlD: "upd_sess p f d = (Inl e, d') \<Longrightarrow> d' = d \<and> e = IntegrityError"
  by (auto simp: upd_sess_def stmt_def split: if_splits)

text \<open>\<open>UPDATE ... RETURNING\<close> followed by \<open>scalar_one_or_none\<close>, when at most one row can match.\<close>

lemma upd_sess_one:
  assumes "length (filter p (d_sess d)) \<le> 1"
  shows "andthen (upd_sess p f) (\<lambda>rows. of_sum (one_or_none MultipleResultsFound rows)) d =
    (if db_ok (d\<lparr> d_sess := upd_where p f (d_sess d) \<rparr>)
     then (Inr (map_option f (find p (d_sess d))), d\<lparr> d_sess := upd_where p f (d_sess d) \<rparr>)
     else (Inl IntegrityError, d))"
  by (simp add: andthen_run upd_sess_def stmt_run one_or_none_map_filter[OF assms])

lemma preserves_db_ok_stmt [pres]: "preserves db_ok (stmt f)"
  by (auto simp: preserves_def stmt_def)

lemma preserves_fetch_one [pres]: "preserves P (fetch_one q)"
  by (simp add: preserves_def)

lemma preserves_db_ok_upd_sess [pres]: "preserves db_ok (upd_sess p f)"
  by (auto simp: preserves_def upd_sess_def stmt_def)

lemma preserves_db_ok_upd_conv [pres]: "preserves db_ok (upd_conv i p f)"
  by (simp add: upd_conv_def preserves_db_ok_stmt)

section \<open>Reading the constraints back\<close>

lemma db_ok_sess: "db_ok d \<Longrightarrow> sess_ok d"
  by (simp add: db_ok_def)

lemma db_ok_convs: "db_ok d \<Longrightarrow> convs_ok d"
  by (simp add: db_ok_def)

lemma sess_ok_row: "sess_ok d \<Longrightarrow> r \<in> set (d_sess d) \<Longrightarrow> sess_row_ok r"
  by (simp add: sess_ok_def list_all_iff)

lemma sess_ok_id: "sess_ok d \<Longrightarrow> r \<in> set (d_sess d) \<Longrightarrow> r' \<in> set (d_sess d) \<Longrightarrow> sv_id r = sv_id r' \<Longrightarrow> r = r'"
  unfolding sess_ok_def by (blast dest: distinct_map_eq)

text \<open>\<open>scalar_one_or_none\<close> on the open session of a conversation, and on a session by id, finds
  at most one row because the constraints hold.\<close>

lemma one_open:
  assumes "sess_ok d"
  shows "length (filter (\<lambda>r. sv_conversation_id r = c \<and> is_open r) (d_sess d)) \<le> 1"
proof -
  have "distinct (map sv_conversation_id (filter is_open (d_sess d)))"
    using assms by (simp add: sess_ok_def)
  then have "distinct (map sv_conversation_id
      (filter (\<lambda>r. sv_conversation_id r = c) (filter is_open (d_sess d))))"
    by (rule distinct_map_filter)
  moreover have "set (map sv_conversation_id
      (filter (\<lambda>r. sv_conversation_id r = c) (filter is_open (d_sess d)))) \<subseteq> {c}" by auto
  ultimately have "length (map sv_conversation_id
      (filter (\<lambda>r. sv_conversation_id r = c) (filter is_open (d_sess d)))) \<le> card {c}"
    by (metis card_mono distinct_card finite.emptyI finite.insertI)
  then show ?thesis by (simp add: conj_commute)
qed

lemma one_by_id:
  assumes "sess_ok d"
  shows "length (filter (\<lambda>r. sv_id r = i) (d_sess d)) \<le> 1"
proof -
  have "distinct (map sv_id (filter (\<lambda>r. sv_id r = i) (d_sess d)))"
    using assms by (intro distinct_map_filter) (simp add: sess_ok_def)
  moreover have "set (map sv_id (filter (\<lambda>r. sv_id r = i) (d_sess d))) \<subseteq> {i}" by auto
  ultimately have "length (map sv_id (filter (\<lambda>r. sv_id r = i) (d_sess d))) \<le> card {i}"
    by (metis card_mono distinct_card finite.emptyI finite.insertI)
  then show ?thesis by simp
qed

lemma one_or_none_le_one: "length rs \<le> 1 \<Longrightarrow> one_or_none e rs = Inr (case rs of [] \<Rightarrow> None | r # _ \<Rightarrow> Some r)"
  by (cases rs) auto

section \<open>Updates that cannot violate a constraint\<close>

lemma db_ok_audit [simp]: "db_ok (d\<lparr> d_audit := a \<rparr>) = db_ok d"
  by (simp add: db_ok_def convs_ok_def msgs_ok_def sess_ok_def tools_ok_def agents_ok_def
      cfgs_ok_def caps_ok_def)

lemma db_ok_cong:
  "d_convs d = d_convs e \<Longrightarrow> d_msgs d = d_msgs e \<Longrightarrow> d_sess d = d_sess e \<Longrightarrow> d_tools d = d_tools e \<Longrightarrow>
   d_agents d = d_agents e \<Longrightarrow> d_cfgs d = d_cfgs e \<Longrightarrow> d_caps d = d_caps e \<Longrightarrow>
   d_cap_agents d = d_cap_agents e \<Longrightarrow> db_ok d = db_ok e"
  by (simp add: db_ok_def convs_ok_def msgs_ok_def sess_ok_def tools_ok_def agents_ok_def
      cfgs_ok_def caps_ok_def)

lemma db_ok_upd_sess:
  assumes ok: "db_ok d"
    and f: "\<And>r. r \<in> set (d_sess d) \<Longrightarrow> p r \<Longrightarrow> sess_row_ok (f r) \<and> sv_id (f r) = sv_id r
       \<and> sv_conversation_id (f r) = sv_conversation_id r \<and> sv_agent_id (f r) = sv_agent_id r
       \<and> sv_remote_session_id (f r) = sv_remote_session_id r \<and> (is_open (f r) \<longrightarrow> is_open r)"
  shows "db_ok (d\<lparr> d_sess := upd_where p f (d_sess d) \<rparr>)"
proof -
  let ?rs = "d_sess d" and ?d = "d\<lparr> d_sess := upd_where p f (d_sess d) \<rparr>"
  have ids: "map sv_id (upd_where p f ?rs) = map sv_id ?rs"
    by (rule map_upd_where_on) (simp add: f)
  have s: "sess_ok d" using ok by (rule db_ok_sess)
  have "list_all sess_row_ok (upd_where p f ?rs)"
    using s f by (auto simp: list_all_iff set_upd_where sess_ok_def)
  moreover have "distinct (map sv_remote_session_id
      (filter (\<lambda>r. sv_remote_session_id r \<noteq> None) (upd_where p f ?rs)))"
    by (rule distinct_map_filter_upd) (use s f in \<open>auto simp: sess_ok_def\<close>)
  moreover have "distinct (map sv_conversation_id (filter is_open (upd_where p f ?rs)))"
    by (rule distinct_map_filter_upd) (use s f in \<open>auto simp: sess_ok_def\<close>)
  moreover have "list_all (\<lambda>r. sv_conversation_id r \<in> set (map cv_id (d_convs d))
      \<and> sv_agent_id r \<in> set (map ag_id (d_agents d))) (upd_where p f ?rs)"
    using s f by (auto simp: list_all_iff set_upd_where sess_ok_def)
  ultimately have "sess_ok ?d" using s ids by (simp add: sess_ok_def)
  moreover have "msgs_ok ?d" using ok ids by (simp add: db_ok_def msgs_ok_def flip: set_map)
  ultimately show ?thesis
    using ok by (simp add: db_ok_def convs_ok_def tools_ok_def agents_ok_def cfgs_ok_def caps_ok_def)
qed

lemma db_ok_upd_convs:
  assumes ok: "db_ok d"
    and f: "\<And>c. c \<in> set (d_convs d) \<Longrightarrow> p c \<Longrightarrow> conv_row_ok (f c) \<and> cv_id (f c) = cv_id c
       \<and> opt_in (cv_pinned_agent_id (f c)) (map ag_id (d_agents d))"
  shows "db_ok (d\<lparr> d_convs := upd_where p f (d_convs d) \<rparr>)"
proof -
  have ids: "map cv_id (upd_where p f (d_convs d)) = map cv_id (d_convs d)"
    by (rule map_upd_where_on) (simp add: f)
  have "convs_ok (d\<lparr> d_convs := upd_where p f (d_convs d) \<rparr>)"
    using db_ok_convs[OF ok] f ids by (auto simp: convs_ok_def list_all_iff set_upd_where)
  then show ?thesis using ok ids
    by (simp add: db_ok_def msgs_ok_def sess_ok_def tools_ok_def agents_ok_def cfgs_ok_def
        caps_ok_def flip: set_map)
qed

lemma db_ok_append_sess:
  assumes "db_ok d" and "sess_row_ok r" and "sv_id r \<notin> sv_id ` set (d_sess d)"
    and "sv_remote_session_id r = None"
    and "is_open r \<Longrightarrow> filter (\<lambda>x. sv_conversation_id x = sv_conversation_id r \<and> is_open x) (d_sess d) = []"
    and "sv_conversation_id r \<in> cv_id ` set (d_convs d)" and "sv_agent_id r \<in> ag_id ` set (d_agents d)"
  shows "db_ok (d\<lparr> d_sess := d_sess d @ [r] \<rparr>)"
proof -
  have "sess_ok (d\<lparr> d_sess := d_sess d @ [r] \<rparr>)"
    using assms by (auto simp: db_ok_def sess_ok_def filter_empty_conv)
  moreover have "msgs_ok (d\<lparr> d_sess := d_sess d @ [r] \<rparr>)"
    using assms(1) by (auto simp: db_ok_def msgs_ok_def list_all_iff opt_in_def split: option.splits)
  ultimately show ?thesis using assms(1)
    by (simp add: db_ok_def convs_ok_def tools_ok_def agents_ok_def cfgs_ok_def caps_ok_def)
qed

end
