(* ===== verification/Repositories.thy ===== *)
theory Repositories
  imports Store
begin

text \<open>
  The repositories: \<open>repositories/sessions.py\<close>, \<open>conversations.py\<close>, \<open>messages.py\<close>, \<open>audit.py\<close>
  and \<open>tool_executions.py\<close>, one action per method. \<open>ORDER BY\<close> with equal keys is resolved by
  the order of the table, which is one of the orders PostgreSQL may choose.
\<close>

definition fresh_id :: "uuid dbact" where
  "fresh_id = (\<lambda>d. (Inr (d_next d), d\<lparr> d_next := d_next d + 1 \<rparr>))"

lemma fresh_id_run [simp, act_simps]: "fresh_id d = (Inr (d_next d), d\<lparr> d_next := d_next d + 1 \<rparr>)"
  by (simp add: fresh_id_def)

lemma db_ok_next [simp]: "db_ok (d\<lparr> d_next := n \<rparr>) = db_ok d"
  by (simp add: db_ok_def convs_ok_def msgs_ok_def sess_ok_def tools_ok_def agents_ok_def
      cfgs_ok_def caps_ok_def)

lemma preserves_db_ok_fresh [pres]: "preserves db_ok fresh_id"
  by (simp add: preserves_def)

section \<open>Sessions\<close>

definition claimable :: "session_state \<Rightarrow> bool" where
  "claimable s \<longleftrightarrow> s = In_progress \<or> s = Awaiting_user"

definition sessions_get :: "uuid \<Rightarrow> session_row option dbact" where
  "sessions_get i = fetch_one (\<lambda>d. filter (\<lambda>r. sv_id r = i) (d_sess d))"

definition open_sessions :: "uuid \<Rightarrow> db \<Rightarrow> session_row list" where
  "open_sessions c d = filter (\<lambda>r. sv_conversation_id r = c \<and> is_open r) (d_sess d)"

definition get_open_for_conversation :: "uuid \<Rightarrow> session_row option dbact" where
  "get_open_for_conversation c = fetch_one (open_sessions c)"

definition get_latest_for_conversation :: "uuid \<Rightarrow> session_row option dbact" where
  "get_latest_for_conversation c =
     asks (\<lambda>d. max_by sr_started_at (filter (\<lambda>r. sv_conversation_id r = c) (d_sess d)))"

definition sessions_for_conversation :: "uuid \<Rightarrow> session_row list dbact" where
  "sessions_for_conversation c =
     asks (\<lambda>d. sort_key sr_started_at (filter (\<lambda>r. sv_conversation_id r = c) (d_sess d)))"

definition pending_row :: "uuid \<Rightarrow> uuid \<Rightarrow> uuid \<Rightarrow> string \<Rightarrow> time \<Rightarrow> session_row" where
  "pending_row i c a lang t = \<lparr> sv_id = i, sv_conversation_id = c, sv_agent_id = a, sv_state = Pending,
     sv_remote_provider = None, sv_remote_session_id = None, sv_remote_profile_id = None,
     sv_remote_flow = None, sv_remote_bot_route = None, sv_language = lang, sv_step = 0,
     sv_turn_count = 0, sv_result_ref = None, sv_report_url = None, sv_error = None,
     sv_error_code = None, sv_state_data = JObj [], sr_started_at = t, sr_last_activity_at = t,
     sr_finalized_at = None, sr_ended_at = None \<rparr>"

definition create_pending :: "uuid \<Rightarrow> uuid \<Rightarrow> string \<Rightarrow> session_row dbact" where
  "create_pending c a lang =
     andthen fresh_id (\<lambda>i.
     andthen (asks d_now) (\<lambda>t. let row = pending_row i c a lang t in
     andthen (stmt (\<lambda>d. d\<lparr> d_sess := d_sess d @ [row] \<rparr>)) (\<lambda>_.
     ret row)))"

definition update_state_and_fields ::
  "uuid \<Rightarrow> session_state list \<Rightarrow> (session_row \<Rightarrow> session_row) \<Rightarrow> session_row option dbact" where
  "update_state_and_fields i expected f =
     andthen (upd_sess (\<lambda>r. sv_id r = i \<and> sv_state r \<in> set expected) f) (\<lambda>rows.
     of_sum (one_or_none MultipleResultsFound rows))"

definition repo_claim_finalizing :: "uuid \<Rightarrow> session_row option dbact" where
  "repo_claim_finalizing i =
     andthen (upd_sess (\<lambda>r. sv_id r = i \<and> claimable (sv_state r)) (\<lambda>r. r\<lparr> sv_state := Finalizing \<rparr>))
       (\<lambda>rows. of_sum (one_or_none MultipleResultsFound rows))"

definition abandoned_row :: "string \<Rightarrow> time \<Rightarrow> session_row \<Rightarrow> session_row" where
  "abandoned_row why t r = r\<lparr> sv_state := Abandoned, sr_ended_at := Some t, sv_error := Some why \<rparr>"

definition abandon_open_session :: "uuid \<Rightarrow> string \<Rightarrow> session_row option dbact" where
  "abandon_open_session c why =
     andthen (asks d_now) (\<lambda>t.
     andthen (upd_sess (\<lambda>r. sv_conversation_id r = c \<and> is_open r) (abandoned_row why t)) (\<lambda>rows.
     of_sum (one_or_none MultipleResultsFound rows)))"

definition sweep_abandoned_older_than :: "time \<Rightarrow> string \<Rightarrow> session_row list dbact" where
  "sweep_abandoned_older_than cutoff why =
     andthen (asks d_now) (\<lambda>t.
     upd_sess (\<lambda>r. is_open r \<and> sr_last_activity_at r < cutoff) (abandoned_row why t))"

section \<open>Conversations\<close>

definition owned_by :: "user_context \<Rightarrow> conv_row \<Rightarrow> bool" where
  "owned_by u c \<longleftrightarrow> cv_tenant_code c = u_tenant_code u \<and> cv_external_user_id c = u_user_id u"

text \<open>\<open>COALESCE(last_message_at, created_at)\<close>.\<close>

definition conv_recency :: "conv_row \<Rightarrow> time" where
  "conv_recency c = (case cv_last_message_at c of None \<Rightarrow> cv_created_at c | Some t \<Rightarrow> t)"

definition new_conv_row :: "uuid \<Rightarrow> user_context \<Rightarrow> time \<Rightarrow> conv_row" where
  "new_conv_row i u t = \<lparr> cv_id = i, cv_tenant_code = u_tenant_code u,
     cv_organization_id = u_active_org_id u, cv_external_user_id = u_user_id u, cv_title = None,
     cv_status = Active, cv_pinned_agent_id = None, cv_locale = u_locale u, cv_message_count = 0,
     cv_metadata = [], cv_last_message_at = None, cv_created_at = t, cv_updated_at = t \<rparr>"

definition conv_create_new :: "user_context \<Rightarrow> conv_row dbact" where
  "conv_create_new u =
     andthen fresh_id (\<lambda>i.
     andthen (asks d_now) (\<lambda>t. let row = new_conv_row i u t in
     andthen (stmt (\<lambda>d. d\<lparr> d_convs := d_convs d @ [row] \<rparr>)) (\<lambda>_.
     ret row)))"

definition get_scoped :: "uuid \<Rightarrow> user_context \<Rightarrow> conv_row option dbact" where
  "get_scoped i u = fetch_one (\<lambda>d. filter (\<lambda>c. cv_id c = i \<and> owned_by u c) (d_convs d))"

definition latest_active :: "user_context \<Rightarrow> conv_row option dbact" where
  "latest_active u = asks (\<lambda>d.
     max_by conv_recency (filter (\<lambda>c. owned_by u c \<and> cv_status c = Active) (d_convs d)))"

definition get_or_create :: "uuid option \<Rightarrow> user_context \<Rightarrow> conv_row dbact" where
  "get_or_create ci u =
     andthen (case ci of Some i \<Rightarrow> get_scoped i u | None \<Rightarrow> latest_active u) (\<lambda>found.
     case found of Some c \<Rightarrow> ret c | None \<Rightarrow> conv_create_new u)"

definition find_empty_for_user :: "user_context \<Rightarrow> conv_row option dbact" where
  "find_empty_for_user u = asks (\<lambda>d. max_by cv_created_at
     (filter (\<lambda>c. owned_by u c \<and> cv_status c = Active \<and> cv_message_count c = 0) (d_convs d)))"

text \<open>\<open>UPDATE ... SET message_count = message_count + 1 ... RETURNING\<close> and \<open>scalar_one\<close>.\<close>

definition next_seq_for_update :: "uuid \<Rightarrow> int dbact" where
  "next_seq_for_update i =
     andthen (asks (\<lambda>d. map cv_message_count (filter (\<lambda>c. cv_id c = i) (d_convs d)))) (\<lambda>counts.
     andthen (upd_conv i (\<lambda>c. True) (\<lambda>c. c\<lparr> cv_message_count := cv_message_count c + 1 \<rparr>)) (\<lambda>_.
     case counts of [] \<Rightarrow> throw NoResultFound | [n] \<Rightarrow> ret (n + 1) | _ \<Rightarrow> throw MultipleResultsFound))"

definition placeholder_flag :: string where
  "placeholder_flag = ''title_is_placeholder''"

definition meta_put :: "string \<Rightarrow> json \<Rightarrow> (string \<times> json) list \<Rightarrow> (string \<times> json) list" where
  "meta_put k v m = (k, v) # filter (\<lambda>kv. fst kv \<noteq> k) m"

definition meta_del :: "string \<Rightarrow> (string \<times> json) list \<Rightarrow> (string \<times> json) list" where
  "meta_del k m = filter (\<lambda>kv. fst kv \<noteq> k) m"

text \<open>\<open>metadata ->> key = 'true'\<close>: the JSON literal or the string.\<close>

definition meta_true :: "string \<Rightarrow> (string \<times> json) list \<Rightarrow> bool" where
  "meta_true k m \<longleftrightarrow> (case map_of m k of Some (JBool b) \<Rightarrow> b | Some (JStr s) \<Rightarrow> s = ''true'' | _ \<Rightarrow> False)"

definition set_placeholder_title :: "uuid \<Rightarrow> string \<Rightarrow> unit dbact" where
  "set_placeholder_title i title = upd_conv i (\<lambda>c. cv_title c = None)
     (\<lambda>c. c\<lparr> cv_title := Some title, cv_metadata := meta_put placeholder_flag (JBool True) (cv_metadata c) \<rparr>)"

definition replace_placeholder_title :: "uuid \<Rightarrow> string \<Rightarrow> unit dbact" where
  "replace_placeholder_title i title = upd_conv i (\<lambda>c. meta_true placeholder_flag (cv_metadata c))
     (\<lambda>c. c\<lparr> cv_title := Some title, cv_metadata := meta_del placeholder_flag (cv_metadata c) \<rparr>)"

definition touch :: "uuid \<Rightarrow> string option \<Rightarrow> unit dbact" where
  "touch i title_from =
     andthen (asks d_now) (\<lambda>now.
     upd_conv i (\<lambda>c. True) (\<lambda>c.
       case title_from of
         Some (x # xs) \<Rightarrow> c\<lparr> cv_last_message_at := Some now,
           cv_title := (case cv_title c of None \<Rightarrow> Some (x # xs) | Some t \<Rightarrow> Some t) \<rparr>
       | _ \<Rightarrow> c\<lparr> cv_last_message_at := Some now \<rparr>))"

definition archive :: "uuid \<Rightarrow> unit dbact" where
  "archive i = upd_conv i (\<lambda>c. True) (\<lambda>c. c\<lparr> cv_status := Archived \<rparr>)"

definition pin :: "uuid \<Rightarrow> uuid \<Rightarrow> unit dbact" where
  "pin i a = upd_conv i (\<lambda>c. True) (\<lambda>c. c\<lparr> cv_pinned_agent_id := Some a \<rparr>)"

definition unpin :: "uuid \<Rightarrow> unit dbact" where
  "unpin i = upd_conv i (\<lambda>c. True) (\<lambda>c. c\<lparr> cv_pinned_agent_id := None \<rparr>)"

text \<open>A page, newest first: the rows and the cursor of the next page. The cursor of an epoch
  \<open>datetime\<close> is truthy, so only \<open>None\<close> is falsy.\<close>

definition conv_listing :: "user_context \<Rightarrow> time option \<Rightarrow> db \<Rightarrow> conv_row list" where
  "conv_listing u cursor d = rev (sort_key conv_recency (rev (filter (\<lambda>c. owned_by u c \<and> cv_status c = Active
      \<and> 0 < cv_message_count c
      \<and> (case cursor of None \<Rightarrow> True | Some t \<Rightarrow> conv_recency c < t)) (d_convs d))))"

definition list_for_user ::
  "user_context \<Rightarrow> time option \<Rightarrow> nat \<Rightarrow> (conv_row list \<times> time option) dbact" where
  "list_for_user u cursor limit = asks (\<lambda>d.
     let rows = take (limit + 1) (conv_listing u cursor d);
         page = take limit rows
     in (page, if limit < length rows \<and> page \<noteq> [] then Some (conv_recency (last page)) else None))"

section \<open>Messages\<close>

definition blank_message :: "uuid \<Rightarrow> int \<Rightarrow> role \<Rightarrow> string \<Rightarrow> msg_row" where
  "blank_message c n r t = \<lparr> mg_id = 0, mg_conversation_id = c, mg_seq = n, mg_role = r,
     mg_content = t, mg_agent_id = None, mg_agent_session_id = None, mg_route_reason = None,
     mg_route_confidence = None, mg_options = None, mg_selected_option_id = None, mg_model = None,
     mg_prompt_tokens = None, mg_completion_tokens = None, mg_latency_ms = None, mg_error = None,
     mg_request_id = None, mg_created_at = 0 \<rparr>"

text \<open>\<open>insert\<close>: the keyword arguments are the fields of the template; the id and the creation
  time are filled in.\<close>

definition message_insert :: "msg_row \<Rightarrow> msg_row dbact" where
  "message_insert m =
     andthen fresh_id (\<lambda>i.
     andthen (asks d_now) (\<lambda>t. let row = m\<lparr> mg_id := i, mg_created_at := t \<rparr> in
     andthen (stmt (\<lambda>d. d\<lparr> d_msgs := d_msgs d @ [row] \<rparr>)) (\<lambda>_.
     ret row)))"

definition conv_messages :: "uuid \<Rightarrow> db \<Rightarrow> msg_row list" where
  "conv_messages c d = sort_key mg_seq (filter (\<lambda>m. mg_conversation_id m = c) (d_msgs d))"

definition messages_recent :: "uuid \<Rightarrow> memory_spec \<Rightarrow> msg_row list dbact" where
  "messages_recent c mem =
     (if mem_history_turns mem \<le> 0 then ret []
      else asks (\<lambda>d. rev (take (nat (mem_history_turns mem)) (rev (conv_messages c d)))))"

definition last_user_content :: "uuid \<Rightarrow> string option dbact" where
  "last_user_content c = asks (\<lambda>d.
     case rev (filter (\<lambda>m. mg_role m = User) (conv_messages c d)) of
       [] \<Rightarrow> None | m # _ \<Rightarrow> Some (mg_content m))"

definition messages_page :: "uuid \<Rightarrow> int \<Rightarrow> nat \<Rightarrow> (msg_row list \<times> int option) dbact" where
  "messages_page c after_seq limit = asks (\<lambda>d.
     let rows = take (limit + 1) (filter (\<lambda>m. after_seq < mg_seq m) (conv_messages c d));
         page = take limit rows
     in (page, if limit < length rows \<and> page \<noteq> [] then Some (mg_seq (last page)) else None))"

definition collapse :: "'a list \<Rightarrow> 'a list" where
  "collapse xs = fold (\<lambda>x stops. if stops = [] \<or> last stops \<noteq> x then stops @ [x] else stops) xs []"

definition distinct_agent_sequence :: "uuid \<Rightarrow> uuid list dbact" where
  "distinct_agent_sequence c = asks (\<lambda>d. collapse (List.map_filter mg_agent_id (conv_messages c d)))"

section \<open>Audit and tool executions\<close>

definition audit_insert :: "audit_action \<Rightarrow> string \<Rightarrow> uuid option \<Rightarrow> string \<Rightarrow>
    audit_payload option \<Rightarrow> audit_payload option \<Rightarrow> string option \<Rightarrow> unit dbact" where
  "audit_insert act etype eid actor bef aft note =
     stmt (\<lambda>d. d\<lparr> d_audit := d_audit d @ [\<lparr> au_action = act, au_entity_type = etype,
       au_entity_id = eid, au_actor = actor, au_before = bef, au_after = aft,
       au_note = note, au_created_at = d_now d \<rparr>] \<rparr>)"

definition result_excerpt_max :: nat where
  "result_excerpt_max = 4096"

text \<open>\<open>len(s.encode())\<close>: UTF-8 takes two bytes for a code point above 127.\<close>

definition utf8_length :: "string \<Rightarrow> nat" where
  "utf8_length s = length s + length (filter (\<lambda>c. 128 \<le> code c) s)"

definition tool_row_of :: "uuid \<Rightarrow> uuid option \<Rightarrow> string option \<Rightarrow> tool_trace \<Rightarrow> exc + tool_row" where
  "tool_row_of mid aid rid t =
     (if tt_status t \<noteq> Tool_success \<and> (tt_error t = None \<or> tt_error t = Some [])
      then Inl (ValueError ''tool_executions ck_tool_error'')
      else Inr \<lparr> tl_message_id = mid, tl_agent_id = aid, tl_tool_name = tt_tool_name t,
        tl_iteration = tt_iteration t,
        tl_result_excerpt = Some (take result_excerpt_max (tt_result_excerpt t)),
        tl_result_bytes = (if tt_result_excerpt t = [] then None
                           else Some (int (utf8_length (tt_result_excerpt t)))),
        tl_status = tt_status t, tl_error = tt_error t, tl_duration_ms = tt_duration_ms t,
        tl_request_id = rid \<rparr>)"

fun tool_rows :: "uuid \<Rightarrow> uuid option \<Rightarrow> string option \<Rightarrow> tool_trace list \<Rightarrow> exc + tool_row list" where
  "tool_rows mid aid rid [] = Inr []"
| "tool_rows mid aid rid (t # ts) =
     (case tool_row_of mid aid rid t of
        Inl e \<Rightarrow> Inl e
      | Inr r \<Rightarrow> (case tool_rows mid aid rid ts of Inl e \<Rightarrow> Inl e | Inr rs \<Rightarrow> Inr (r # rs)))"

definition tools_bulk_insert :: "uuid \<Rightarrow> uuid option \<Rightarrow> tool_trace list \<Rightarrow> string option \<Rightarrow> unit dbact" where
  "tools_bulk_insert mid aid traces rid =
     (if traces = [] then ret ()
      else andthen (of_sum (tool_rows mid aid rid traces)) (\<lambda>rows.
        stmt (\<lambda>d. d\<lparr> d_tools := d_tools d @ rows \<rparr>)))"

section \<open>Every repository method keeps the constraints\<close>

lemmas repo_defs =
  sessions_get_def get_open_for_conversation_def get_latest_for_conversation_def
  sessions_for_conversation_def create_pending_def update_state_and_fields_def
  repo_claim_finalizing_def abandon_open_session_def sweep_abandoned_older_than_def
  conv_create_new_def get_scoped_def latest_active_def get_or_create_def find_empty_for_user_def
  next_seq_for_update_def set_placeholder_title_def replace_placeholder_title_def touch_def
  archive_def pin_def unpin_def list_for_user_def message_insert_def messages_recent_def
  last_user_content_def messages_page_def distinct_agent_sequence_def audit_insert_def
  tools_bulk_insert_def

lemma preserves_db_ok_repos [pres]:
  "preserves db_ok (sessions_get i)" "preserves db_ok (get_open_for_conversation c)"
  "preserves db_ok (get_latest_for_conversation c)" "preserves db_ok (sessions_for_conversation c)"
  "preserves db_ok (create_pending c a lang)" "preserves db_ok (update_state_and_fields i ss f)"
  "preserves db_ok (repo_claim_finalizing i)" "preserves db_ok (abandon_open_session c why)"
  "preserves db_ok (sweep_abandoned_older_than t why)" "preserves db_ok (conv_create_new u)"
  "preserves db_ok (get_scoped i u)" "preserves db_ok (get_or_create ci u)"
  "preserves db_ok (find_empty_for_user u)" "preserves db_ok (next_seq_for_update i)"
  "preserves db_ok (set_placeholder_title i s)" "preserves db_ok (replace_placeholder_title i s)"
  "preserves db_ok (touch i tf)" "preserves db_ok (archive i)" "preserves db_ok (pin i a)"
  "preserves db_ok (unpin i)" "preserves db_ok (list_for_user u cur n)"
  "preserves db_ok (message_insert m)" "preserves db_ok (messages_recent c mem)"
  "preserves db_ok (last_user_content c)" "preserves db_ok (messages_page c q n)"
  "preserves db_ok (distinct_agent_sequence c)"
  "preserves db_ok (audit_insert act et ei ac bef aft note)"
  "preserves db_ok (tools_bulk_insert mid aid tr rid)"
  unfolding repo_defs Let_def by (intro pres)+

end
