(* ===== verification/Sample.thy ===== *)
theory Sample
  imports Repositories
begin

text \<open>
  A small deployment on which the witnesses evaluate: two agents (\<open>general\<close>, a language-model
  agent and the default; \<open>record_stories\<close>, a remote interview), one user, one conversation
  pinned to an interview that awaits the user.
\<close>

definition sample_routing :: routing_spec where
  "sample_routing = \<lparr> rt_keywords = [], rt_priority = 50, rt_pin_session = False,
     rt_exit_keywords = [''/exit'', ''cancel'', ''stop''], rt_confidence_threshold = 1 / 2,
     rt_router_selectable = True, rt_direct_selectable = True \<rparr>"

definition sample_base :: base_spec where
  "sample_base = \<lparr> sp_key = ''general'', sp_name = ''General'', sp_description = ''Anything'',
     sp_enabled = True, sp_default = True, sp_sort_order = 100, sp_capabilities = [],
     sp_routing = sample_routing,
     sp_memory = \<lparr> mem_strategy_recent = True, mem_history_turns = 10, mem_include_other_agents = True \<rparr>,
     sp_limits = \<lparr> lim_max_tool_iterations = 3, lim_max_turns = None,
        lim_per_conversation_per_min = 20, lim_per_user_per_min = 60 \<rparr>,
     sp_access = \<lparr> ac_tenant_codes = [], ac_organization_codes = [], ac_required_roles = [],
        ac_allow_anonymous = True \<rparr>,
     sp_features = \<lparr> ft_emit_options = False, ft_streaming = False,
        ft_record_tool_executions = True \<rparr> \<rparr>"

definition sample_llm :: agent_spec where
  "sample_llm = LlmAgentSpec sample_base \<lparr> ll_prompt = ''Be helpful'', ll_tools = [],
     ll_model = \<lparr> ms_name = ''m'', ms_temperature = 0, ms_max_tokens = None, ms_timeout_s = 30 \<rparr> \<rparr>"

definition sample_remote :: remote_spec where
  "sample_remote = \<lparr> rm_flow_name = ''guest-mi-story'', rm_bot_route_env = ''BOT'',
     rm_company_env = ''COMPANY'', rm_default_language = ''en'',
     rm_supported_languages = languages,
     rm_handshake = \<lparr> hs_settle_ms = 1500, hs_ack_types = [''authenticated''], hs_timeout_ms = 5000 \<rparr>,
     rm_turn = \<lparr> ts_first_turn_timeout_ms = 60000, ts_turn_timeout_ms = 45000, ts_idle_gap_ms = 8000 \<rparr>,
     rm_completion_poll_every_turn = True, rm_finalize_path = ''/api/end-story/v2/'',
     rm_finalize_as_guest = False, rm_report_media_type = ''application/pdf'' \<rparr>"

definition sample_interview :: agent_spec where
  "sample_interview = RemoteFlowAgentSpec
     (sample_base\<lparr> sp_key := ''record_stories'', sp_name := ''Record Stories'', sp_default := False,
        sp_routing := sample_routing\<lparr> rt_pin_session := True, rt_keywords := [''story''] \<rparr> \<rparr>)
     sample_remote"

definition sample_user :: user_context where
  "sample_user = \<lparr> u_user_id = ''u1'', u_email = ''u@x'', u_display_name = ''U'', u_tenant_code = ''t1'',
     u_orgs = [], u_active_org_id = None, u_locale = ''en'', u_token = Some ''tok'' \<rparr>"

definition sample_agent :: "uuid \<Rightarrow> string \<Rightarrow> agent_type \<Rightarrow> bool \<Rightarrow> agent_row" where
  "sample_agent i k t dflt = \<lparr> ag_id = i, ag_tenant_id = ''default'', ag_organization_id = ''default'',
     ag_key = k, ag_name = k, ag_description = k, ag_agent_type = t, ag_status = Enabled,
     ag_is_default = dflt, ag_sort_order = 100, ag_icon = None, ag_updated_at = 0 \<rparr>"

definition sample_session :: session_row where
  "sample_session = (pending_row 4 3 2 ''en'' 0)\<lparr> sv_state := Awaiting_user,
     sv_remote_session_id := Some ''r1'', sv_remote_profile_id := Some ''p1'', sv_turn_count := 1 \<rparr>"

definition sample_db :: db where
  "sample_db = empty_db\<lparr> d_agents := [sample_agent 1 ''general'' Llm True,
       sample_agent 2 ''record_stories'' Remote_flow False],
     d_convs := [(new_conv_row 3 sample_user 0)\<lparr> cv_pinned_agent_id := Some 2 \<rparr>],
     d_sess := [sample_session], d_now := 5, d_next := 10 \<rparr>"

lemmas sample_defs = sample_routing_def sample_base_def sample_llm_def sample_remote_def
  sample_interview_def sample_user_def sample_agent_def sample_session_def sample_db_def

lemma sample_db_ok: "db_ok sample_db"
  by code_simp

lemma sample_ids_below: "ids_below sample_db"
  by code_simp

end
