(* ===== verification/Agent_Registry.thy ===== *)
theory Agent_Registry
  imports Sample
begin

text \<open>
  \<open>services/agent_registry.py\<close>: the in-process snapshot of the enabled agents with their
  default-scope configurations, and the resolution of an agent for one tenant and organization.

  A \<open>dict\<close> is an association list in insertion order. Parsing a stored configuration
  (\<open>TypeAdapter(AgentSpec).validate_python\<close>, third-party) is the parameter \<open>validate\<close>, \<open>None\<close>
  for a \<open>ValidationError\<close>. A query that raises is \<open>None\<close> in place of the database.
\<close>

record registered_agent =
  ra_id :: uuid
  ra_key :: string
  ra_name :: string
  ra_description :: string
  ra_agent_type :: agent_type
  ra_is_default :: bool
  ra_checksum :: string
  ra_spec :: agent_spec

type_synonym scope_key = "nat \<times> string \<times> string \<times> string"

record registry =
  rg_ttl :: int
  rg_snapshot :: "(string \<times> registered_agent) list"
  rg_legacy_names :: "(string \<times> string) list"
  rg_version :: nat
  rg_loaded_at :: int
  rg_max_updated_at :: "time option"
  rg_scope_cache :: "(scope_key \<times> registered_agent) list"

definition empty_registry :: "int \<Rightarrow> registry" where
  "empty_registry ttl = \<lparr> rg_ttl = ttl, rg_snapshot = [], rg_legacy_names = [], rg_version = 0,
     rg_loaded_at = 0, rg_max_updated_at = None, rg_scope_cache = [] \<rparr>"

definition default_scope :: string where
  "default_scope = ''default''"

type_synonym validator = "json \<Rightarrow> agent_spec option"

text \<open>\<open>d[k] = v\<close>: an existing key keeps its place.\<close>

fun dict_set :: "'k \<Rightarrow> 'v \<Rightarrow> ('k \<times> 'v) list \<Rightarrow> ('k \<times> 'v) list" where
  "dict_set k v [] = [(k, v)]"
| "dict_set k v ((j, w) # kvs) = (if j = k then (k, v) # kvs else (j, w) # dict_set k v kvs)"

lemma map_of_dict_set: "map_of (dict_set k v kvs) j = (if j = k then Some v else map_of kvs j)"
  by (induction k v kvs rule: dict_set.induct) auto

lemma set_dict_set: "set (dict_set k v kvs) \<subseteq> insert (k, v) (set kvs)"
  by (induction k v kvs rule: dict_set.induct) auto

section \<open>Loading\<close>

text \<open>The join of \<open>reload\<close>: enabled agents with their active default-scope configuration.\<close>

definition snapshot_rows :: "db \<Rightarrow> (agent_row \<times> config_row) list" where
  "snapshot_rows d = [(a, c). a \<leftarrow> d_agents d, ag_status a = Enabled, c \<leftarrow> d_cfgs d,
     cf_agent_id c = ag_id a, cf_is_active c, cf_tenant_id c = default_scope,
     cf_organization_id c = default_scope]"

definition registered :: "agent_row \<Rightarrow> config_row \<Rightarrow> agent_spec \<Rightarrow> registered_agent" where
  "registered a c sp = \<lparr> ra_id = ag_id a, ra_key = ag_key a, ra_name = ag_name a,
     ra_description = ag_description a, ra_agent_type = ag_agent_type a,
     ra_is_default = ag_is_default a, ra_checksum = cf_checksum c, ra_spec = sp \<rparr>"

fun load_rows :: "validator \<Rightarrow> (agent_row \<times> config_row) list \<Rightarrow>
    (string \<times> registered_agent) list \<Rightarrow> (string \<times> string) list \<Rightarrow> time option \<Rightarrow>
    ((string \<times> registered_agent) list \<times> (string \<times> string) list \<times> time option) option" where
  "load_rows validate [] snap legacy mx = Some (snap, legacy, mx)"
| "load_rows validate ((a, c) # rows) snap legacy mx =
     (case validate (cf_config c) of
        None \<Rightarrow> None
      | Some sp \<Rightarrow> load_rows validate rows (dict_set (ag_key a) (registered a c sp) snap)
          (dict_set (ag_name a) (ag_key a) legacy)
          (case mx of None \<Rightarrow> Some (ag_updated_at a)
           | Some m \<Rightarrow> if m < ag_updated_at a then Some (ag_updated_at a) else Some m))"

definition reload :: "validator \<Rightarrow> int \<Rightarrow> db option \<Rightarrow> registry \<Rightarrow> registry" where
  "reload validate clk dopt reg =
     (case dopt of
        None \<Rightarrow> reg
      | Some d \<Rightarrow>
          (case load_rows validate (snapshot_rows d) [] [] None of
             None \<Rightarrow> reg
           | Some (snap, legacy, mx) \<Rightarrow> reg\<lparr> rg_snapshot := snap, rg_legacy_names := legacy,
               rg_version := rg_version reg + 1, rg_loaded_at := clk, rg_max_updated_at := mx \<rparr>))"

text \<open>\<open>SELECT MAX(updated_at) FROM agents WHERE status = 'enabled'\<close>.\<close>

definition max_enabled_updated :: "db \<Rightarrow> time option" where
  "max_enabled_updated d =
     map_option ag_updated_at (max_by ag_updated_at (filter (\<lambda>a. ag_status a = Enabled) (d_agents d)))"

definition maybe_reload :: "validator \<Rightarrow> int \<Rightarrow> db option \<Rightarrow> registry \<Rightarrow> registry" where
  "maybe_reload validate clk dopt reg =
     (if clk - rg_loaded_at reg < rg_ttl reg then reg
      else (case dopt of
              None \<Rightarrow> reg
            | Some d \<Rightarrow>
                if max_enabled_updated d \<noteq> rg_max_updated_at reg then reload validate clk (Some d) reg
                else reg\<lparr> rg_loaded_at := clk \<rparr>))"

section \<open>Lookup\<close>

definition agents_of :: "registry \<Rightarrow> registered_agent list" where
  "agents_of reg = map snd (rg_snapshot reg)"

definition routable :: "registry \<Rightarrow> registered_agent list" where
  "routable reg = filter (\<lambda>a. rt_router_selectable (spec_routing (ra_spec a))) (agents_of reg)"

definition key_strip_chars :: string where
  "key_strip_chars = [single_quote, double_quote] @ '' .,!?;:''"

definition normalise_key :: "string \<Rightarrow> string" where
  "normalise_key k = strip_chars key_strip_chars (lower (strip k))"

definition get_by_key_exact :: "registry \<Rightarrow> string \<Rightarrow> registered_agent option" where
  "get_by_key_exact reg k = (if k = [] then None else map_of (rg_snapshot reg) (normalise_key k))"

definition get_by_id :: "registry \<Rightarrow> uuid \<Rightarrow> registered_agent option" where
  "get_by_id reg i = find (\<lambda>a. ra_id a = i) (agents_of reg)"

definition registry_get :: "registry \<Rightarrow> string \<Rightarrow> registered_agent option" where
  "registry_get reg k =
     (case map_of (rg_snapshot reg) k of
        Some a \<Rightarrow> Some a
      | None \<Rightarrow> (case map_of (rg_legacy_names reg) k of
                   Some key \<Rightarrow> if key = [] then None else map_of (rg_snapshot reg) key
                 | None \<Rightarrow> None))"

definition default_agent :: "registry \<Rightarrow> registered_agent option" where
  "default_agent reg = find ra_is_default (agents_of reg)"

section \<open>Scope resolution\<close>

text \<open>The \<open>ORDER BY\<close> of the query: first whether the organization differs from the caller's, then
  whether the tenant does.\<close>

datatype scope_rank = Scope_rank (org_differs: bool) (tenant_differs: bool)

instantiation scope_rank :: linorder
begin

definition less_eq_scope_rank :: "scope_rank \<Rightarrow> scope_rank \<Rightarrow> bool" where
  "less_eq_scope_rank r s \<longleftrightarrow> org_differs r < org_differs s
     \<or> org_differs r = org_differs s \<and> tenant_differs r \<le> tenant_differs s"

definition less_scope_rank :: "scope_rank \<Rightarrow> scope_rank \<Rightarrow> bool" where
  "less_scope_rank r s \<longleftrightarrow> org_differs r < org_differs s
     \<or> org_differs r = org_differs s \<and> tenant_differs r < tenant_differs s"

instance
proof
  fix r s t :: scope_rank
  show "r < s \<longleftrightarrow> r \<le> s \<and> \<not> s \<le> r" by (auto simp: less_scope_rank_def less_eq_scope_rank_def)
  show "r \<le> r" by (simp add: less_eq_scope_rank_def)
  show "r \<le> s \<Longrightarrow> s \<le> t \<Longrightarrow> r \<le> t" by (auto simp: less_eq_scope_rank_def)
  show "r \<le> s \<Longrightarrow> s \<le> r \<Longrightarrow> r = s"
    by (cases r; cases s) (auto simp: less_eq_scope_rank_def)
  show "r \<le> s \<or> s \<le> r" by (auto simp: less_eq_scope_rank_def)
qed

end

definition rank_of :: "string \<Rightarrow> string \<Rightarrow> config_row \<Rightarrow> scope_rank" where
  "rank_of tenant org c = Scope_rank (cf_organization_id c \<noteq> org) (cf_tenant_id c \<noteq> tenant)"

definition in_scope :: "string \<Rightarrow> string \<Rightarrow> config_row \<Rightarrow> bool" where
  "in_scope tenant org c \<longleftrightarrow> cf_tenant_id c \<in> {tenant, default_scope}
     \<and> cf_organization_id c \<in> {org, default_scope}
     \<and> \<not> (cf_tenant_id c = default_scope \<and> cf_organization_id c = default_scope)"

definition scoped_config :: "db \<Rightarrow> uuid \<Rightarrow> string \<Rightarrow> string \<Rightarrow> config_row option" where
  "scoped_config d agent_id tenant org =
     (case sort_key (rank_of tenant org)
        (filter (\<lambda>c. cf_agent_id c = agent_id \<and> cf_is_active c \<and> in_scope tenant org c) (d_cfgs d))
      of [] \<Rightarrow> None | c # _ \<Rightarrow> Some c)"

definition scope_cache_max :: nat where
  "scope_cache_max = 512"

definition or_default :: "string \<Rightarrow> string" where
  "or_default s = (if s = [] then default_scope else s)"

definition resolve_for_scope ::
  "validator \<Rightarrow> db option \<Rightarrow> registered_agent \<Rightarrow> string \<Rightarrow> string \<Rightarrow> registry \<Rightarrow> registered_agent \<times> registry" where
  "resolve_for_scope validate dopt agent tenant org reg =
     (if tenant = [] \<or> tenant = default_scope then (agent, reg)
      else let ck = (rg_version reg, tenant, org, ra_key agent) in
        (case map_of (rg_scope_cache reg) ck of
           Some cached \<Rightarrow> (cached, reg)
         | None \<Rightarrow>
             (case dopt of
                None \<Rightarrow> (agent, reg)
              | Some d \<Rightarrow>
                  (let remember = (\<lambda>a. (a, reg\<lparr> rg_scope_cache := (ck, a) #
                         (if scope_cache_max \<le> length (rg_scope_cache reg) then [] else rg_scope_cache reg) \<rparr>))
                   in case scoped_config d (ra_id agent) tenant (or_default org) of
                        None \<Rightarrow> remember agent
                      | Some c \<Rightarrow>
                          (case validate (cf_config c) of
                             None \<Rightarrow> (agent, reg)
                           | Some sp \<Rightarrow> remember (agent\<lparr> ra_checksum := cf_checksum c, ra_spec := sp \<rparr>))))))"

section \<open>Reload\<close>

lemma load_rows_None_iff:
  "load_rows validate rows snap legacy mx = None \<longleftrightarrow> (\<exists>(a, c) \<in> set rows. validate (cf_config c) = None)"
  by (induction validate rows snap legacy mx rule: load_rows.induct) (auto split: option.splits)

text \<open>A failed reload changes nothing. If the query raises or any enabled agent's stored
  configuration does not parse, the snapshot, the version and every other part of the registry
  stay as they were; otherwise the version goes up by exactly one.\<close>

theorem reload_all_or_nothing:
  "(reload validate clk dopt reg = reg
      \<and> (dopt = None \<or> (\<exists>d. dopt = Some d \<and> (\<exists>(a, c) \<in> set (snapshot_rows d). validate (cf_config c) = None))))
   \<or> rg_version (reload validate clk dopt reg) = rg_version reg + 1"
proof (cases dopt)
  case None
  then show ?thesis by (simp add: reload_def)
next
  case (Some d)
  show ?thesis
  proof (cases "load_rows validate (snapshot_rows d) [] [] None")
    case None
    then have "\<exists>(a, c) \<in> set (snapshot_rows d). validate (cf_config c) = None"
      by (simp only: load_rows_None_iff)
    then show ?thesis using Some None by (simp add: reload_def)
  next
    case (Some t)
    then show ?thesis using \<open>dopt = Some d\<close> by (simp add: reload_def split: prod.splits)
  qed
qed

text \<open>The snapshot is keyed by the agents' own keys, and holds only enabled agents with an active
  configuration of the default scope.\<close>

definition from_default_scope :: "validator \<Rightarrow> db \<Rightarrow> registered_agent \<Rightarrow> bool" where
  "from_default_scope validate d ra \<longleftrightarrow> (\<exists>a c sp. (a, c) \<in> set (snapshot_rows d)
     \<and> validate (cf_config c) = Some sp \<and> ra = registered a c sp)"

lemma load_rows_entries:
  "load_rows validate rows snap legacy mx = Some (snap', legacy', mx') \<Longrightarrow> (k, ra) \<in> set snap' \<Longrightarrow>
   (k, ra) \<in> set snap \<or> (\<exists>a c sp. (a, c) \<in> set rows \<and> validate (cf_config c) = Some sp
      \<and> ra = registered a c sp \<and> k = ra_key ra)"
proof (induction validate rows snap legacy mx rule: load_rows.induct)
  case (2 validate a c rows snap legacy mx)
  then obtain sp where sp: "validate (cf_config c) = Some sp" by (auto split: option.splits)
  from "2.IH"[OF sp] "2.prems" sp show ?case
    using set_dict_set[of "ag_key a" "registered a c sp" snap]
    by (auto simp: registered_def) blast+
qed auto

text \<open>One tenant's configuration never becomes the global snapshot. After a reload that
  succeeds, every entry of the snapshot is filed under its own key and comes from an enabled
  agent and its active configuration of the default scope.\<close>

theorem snapshot_is_default_scope:
  assumes "reload validate clk (Some d) reg \<noteq> reg"
    and "(k, ra) \<in> set (rg_snapshot (reload validate clk (Some d) reg))"
  shows "k = ra_key ra \<and> (\<exists>a \<in> set (d_agents d). \<exists>c \<in> set (d_cfgs d). ag_status a = Enabled
    \<and> cf_agent_id c = ag_id a \<and> cf_is_active c \<and> cf_tenant_id c = default_scope
    \<and> cf_organization_id c = default_scope \<and> ra_checksum ra = cf_checksum c
    \<and> validate (cf_config c) = Some (ra_spec ra) \<and> ra_id ra = ag_id a)"
proof (cases "load_rows validate (snapshot_rows d) [] [] None")
  case None
  then show ?thesis using assms by (simp add: reload_def)
next
  case (Some t)
  then obtain snap legacy mx where ld: "load_rows validate (snapshot_rows d) [] [] None = Some (snap, legacy, mx)"
    by (cases t) auto
  then have "(k, ra) \<in> set snap" using assms(2) by (simp add: reload_def)
  from load_rows_entries[OF ld this] obtain a c sp where
    "(a, c) \<in> set (snapshot_rows d)" "validate (cf_config c) = Some sp" "ra = registered a c sp" "k = ra_key ra"
    by auto
  then show ?thesis by (auto simp: snapshot_rows_def registered_def)
qed

definition sample_config :: "uuid \<Rightarrow> uuid \<Rightarrow> string \<Rightarrow> string \<Rightarrow> string \<Rightarrow> config_row" where
  "sample_config i a tenant org chk = \<lparr> cf_id = i, cf_agent_id = a, cf_tenant_id = tenant,
     cf_organization_id = org, cf_version = 1, cf_source = Src_yaml, cf_checksum = chk,
     cf_config = JObj [(''agent_type'', JStr ''llm''), (''key'', JStr ''general''), (''name'', JStr ''General''),
        (''v'', JStr chk)],
     cf_is_active = True, cf_activated_at = Some 0, cf_created_by = ''startup-sync'', cf_created_at = 0 \<rparr>"

definition catalogue_db :: db where
  "catalogue_db = sample_db\<lparr> d_cfgs := [sample_config 5 1 ''default'' ''default'' ''c1'',
     sample_config 6 1 ''t2'' ''default'' ''c2'', sample_config 7 1 ''t1'' ''default'' ''c3''] \<rparr>"

definition sample_validate :: validator where
  "sample_validate j = Some sample_llm"

lemma snapshot_is_default_scope_witness:
  "\<exists>ra. (''general'', ra) \<in> set (rg_snapshot (reload sample_validate 0 (Some catalogue_db) (empty_registry 60)))
     \<and> ra_checksum ra = ''c1''"
proof -
  let ?reg = "reload sample_validate 0 (Some catalogue_db) (empty_registry 60)"
  have "map (\<lambda>(k, ra). (k, ra_checksum ra)) (rg_snapshot ?reg) = [(''general'', ''c1'')]" by code_simp
  then obtain ra where ra: "(''general'', ra) \<in> set (rg_snapshot ?reg)" "ra_checksum ra = ''c1''" by auto
  have "rg_version ?reg \<noteq> rg_version (empty_registry 60)" by code_simp
  then have "?reg \<noteq> empty_registry 60" by metis
  from snapshot_is_default_scope[OF this ra(1)] ra show ?thesis by blast
qed

text \<open>The snapshot check misses a disabled agent: the query looks at enabled agents only, so
  unless the agent was the latest one changed, nothing is reloaded and the agent stays routable.\<close>

lemma disabling_goes_unnoticed:
  "let d = catalogue_db\<lparr> d_cfgs := d_cfgs catalogue_db @ [sample_config 8 2 ''default'' ''default'' ''c4''] \<rparr>;
       reg = reload sample_validate 0 (Some d) (empty_registry 60);
       d' = d\<lparr> d_agents := map (\<lambda>a. if ag_id a = 2 then a\<lparr> ag_status := Disabled, ag_updated_at := 99 \<rparr> else a)
              (d_agents d) \<rparr>
   in rg_snapshot (maybe_reload sample_validate 1000 (Some d') reg) = rg_snapshot reg
      \<and> get_by_id reg 2 \<noteq> None"
  by code_simp

section \<open>Tenant isolation\<close>

text \<open>Where an agent as served to a caller may come from: an agent handed to the registry under
  the same key, unchanged, or one with its configuration replaced by that of a row whose scope
  is the caller's.\<close>

definition served_from :: "registered_agent set \<Rightarrow> config_row set \<Rightarrow> validator \<Rightarrow> string \<Rightarrow> string \<Rightarrow> string \<Rightarrow>
    registered_agent \<Rightarrow> bool" where
  "served_from Agents Rows validate tenant org key ra \<longleftrightarrow>
     (\<exists>a \<in> Agents. ra_key a = key \<and> (ra = a \<or>
        (\<exists>c \<in> Rows. cf_agent_id c = ra_id a \<and> in_scope tenant (or_default org) c
           \<and> validate (cf_config c) = Some (ra_spec ra) \<and> ra_checksum ra = cf_checksum c
           \<and> ra = a\<lparr> ra_checksum := ra_checksum ra, ra_spec := ra_spec ra \<rparr>)))"

definition cache_sound :: "registered_agent set \<Rightarrow> config_row set \<Rightarrow> validator \<Rightarrow> registry \<Rightarrow> bool" where
  "cache_sound Agents Rows validate reg \<longleftrightarrow> (\<forall>((v, tenant, org, key), ra) \<in> set (rg_scope_cache reg).
     served_from Agents Rows validate tenant org key ra)"

lemma scoped_config_in:
  "scoped_config d i tenant org = Some c \<Longrightarrow> c \<in> set (d_cfgs d) \<and> cf_agent_id c = i \<and> cf_is_active c
     \<and> in_scope tenant org c"
proof -
  assume sc: "scoped_config d i tenant org = Some c"
  let ?rows = "filter (\<lambda>c. cf_agent_id c = i \<and> cf_is_active c \<and> in_scope tenant org c) (d_cfgs d)"
  from sc obtain cs where "sort_key (rank_of tenant org) ?rows = c # cs"
    unfolding scoped_config_def by (auto split: list.splits)
  then have "c \<in> set (sort_key (rank_of tenant org) ?rows)" by (simp only: list.set_intros)
  then show ?thesis by simp
qed

lemma resolve_served:
  assumes "cache_sound Agents Rows validate reg" and "agent \<in> Agents"
    and "\<And>d. dopt = Some d \<Longrightarrow> set (d_cfgs d) \<subseteq> Rows"
    and "resolve_for_scope validate dopt agent tenant org reg = (ra, reg')"
  shows "served_from Agents Rows validate tenant org (ra_key agent) ra
    \<and> cache_sound Agents Rows validate reg'"
proof -
  have self: "served_from Agents Rows validate tenant org (ra_key agent) agent"
    using assms(2) by (auto simp: served_from_def)
  have remember: "cache_sound Agents Rows validate (reg\<lparr> rg_scope_cache := ((v, tenant, org, ra_key agent), a) # cs \<rparr>)"
    if "served_from Agents Rows validate tenant org (ra_key agent) a" "cs = [] \<or> cs = rg_scope_cache reg" for v a cs
    using assms(1) that by (auto simp: cache_sound_def)
  show ?thesis
  proof (cases "tenant = [] \<or> tenant = default_scope")
    case True
    then show ?thesis using assms(1,4) self by (auto simp: resolve_for_scope_def)
  next
    case scoped: False
    show ?thesis
    proof (cases "map_of (rg_scope_cache reg) (rg_version reg, tenant, org, ra_key agent)")
      case (Some cached)
      then have "served_from Agents Rows validate tenant org (ra_key agent) cached"
        using assms(1) by (fastforce simp: cache_sound_def dest!: map_of_SomeD)
      then show ?thesis using assms(1,4) Some scoped by (auto simp: resolve_for_scope_def Let_def)
    next
      case None_hit: None
      show ?thesis
      proof (cases dopt)
        case None
        then show ?thesis using assms(1,4) scoped self None_hit
          by (auto simp: resolve_for_scope_def Let_def)
      next
        case (Some d)
        show ?thesis
        proof (cases "scoped_config d (ra_id agent) tenant (or_default org)")
          case None
          then show ?thesis using assms(4) scoped Some self remember[OF self] None_hit
            by (auto simp: resolve_for_scope_def Let_def)
        next
          case (Some c)
          note c = scoped_config_in[OF Some]
          show ?thesis
          proof (cases "validate (cf_config c)")
            case None
            then show ?thesis using assms(1,4) scoped Some \<open>dopt = Some d\<close> self None_hit
              by (auto simp: resolve_for_scope_def Let_def)
          next
            case sp: (Some sp)
            let ?ra = "agent\<lparr> ra_checksum := cf_checksum c, ra_spec := sp \<rparr>"
            have "served_from Agents Rows validate tenant org (ra_key agent) ?ra"
              unfolding served_from_def using assms(2) assms(3)[OF \<open>dopt = Some d\<close>] c sp
              by (intro bexI[of _ agent] conjI disjI2 bexI[of _ c]) auto
            then show ?thesis using assms(4) scoped Some sp \<open>dopt = Some d\<close> remember None_hit
              by (auto simp: resolve_for_scope_def Let_def)
          qed
        qed
      qed
    qed
  qed
qed

text \<open>A history of the registry: reloads, checks and resolutions, each against the database of
  its moment.\<close>

inductive registry_step :: "registered_agent set \<Rightarrow> config_row set \<Rightarrow> validator \<Rightarrow> registry \<Rightarrow> registry \<Rightarrow> bool"
  for Agents Rows validate where
  rstep_reload: "registry_step Agents Rows validate reg (reload validate clk dopt reg)"
| rstep_check: "registry_step Agents Rows validate reg (maybe_reload validate clk dopt reg)"
| rstep_resolve: "a \<in> Agents \<Longrightarrow> (\<And>d. dopt = Some d \<Longrightarrow> set (d_cfgs d) \<subseteq> Rows) \<Longrightarrow>
     registry_step Agents Rows validate reg (snd (resolve_for_scope validate dopt a tenant org reg))"

lemma reload_keeps_cache: "rg_scope_cache (reload validate clk dopt reg) = rg_scope_cache reg"
  by (auto simp: reload_def split: option.splits prod.splits)

lemma maybe_reload_keeps_cache: "rg_scope_cache (maybe_reload validate clk dopt reg) = rg_scope_cache reg"
  by (auto simp: maybe_reload_def reload_keeps_cache split: option.splits)

lemma registry_steps_sound:
  "(registry_step Agents Rows validate)\<^sup>*\<^sup>* (empty_registry ttl) reg \<Longrightarrow> cache_sound Agents Rows validate reg"
proof (induction rule: rtranclp_induct)
  case base
  then show ?case by (simp add: cache_sound_def empty_registry_def)
next
  case (step reg reg')
  from step.hyps(2) show ?case
  proof (cases rule: registry_step.cases)
    case (rstep_resolve a dopt tenant org)
    obtain ra where "resolve_for_scope validate dopt a tenant org reg = (ra, reg')"
      using rstep_resolve(1) by (metis prod.collapse)
    from resolve_served[OF step.IH rstep_resolve(2) rstep_resolve(3) this] show ?thesis by blast
  qed (use step.IH in \<open>simp_all add: cache_sound_def reload_keeps_cache maybe_reload_keeps_cache\<close>)
qed


definition general_agent :: registered_agent where
  "general_agent = registered (sample_agent 1 ''general'' Llm True)
     (sample_config 5 1 ''default'' ''default'' ''c1'') sample_llm"


text \<open>Two active rows can match a caller: the organization decides before the tenant, so a row of
  the \<open>default\<close> tenant for an organization of the same name is preferred to the caller's own
  tenant-wide row.\<close>

lemma org_outranks_tenant:
  "let d = catalogue_db\<lparr> d_cfgs := d_cfgs catalogue_db @ [sample_config 9 1 ''default'' ''o9'' ''foreign''] \<rparr>
   in ra_checksum (fst (resolve_for_scope sample_validate (Some d) general_agent ''t1'' ''o9''
        (empty_registry 60))) = ''foreign''"
  by code_simp

text \<open>The most specific configuration wins. When several active rows are in the caller's
  scope, the one chosen has an organization that matches the caller's if any of them does.\<close>

theorem scoped_config_prefers_org:
  assumes "scoped_config d i tenant org = Some c" and "c' \<in> set (d_cfgs d)"
    and "cf_agent_id c' = i" and "cf_is_active c'" and "in_scope tenant org c'"
  shows "rank_of tenant org c \<le> rank_of tenant org c'"
proof -
  let ?rows = "filter (\<lambda>c. cf_agent_id c = i \<and> cf_is_active c \<and> in_scope tenant org c) (d_cfgs d)"
  let ?s = "sort_key (rank_of tenant org) ?rows"
  from assms(1) obtain cs where s: "?s = c # cs" unfolding scoped_config_def by (auto split: list.splits)
  have "c' \<in> set ?s" using assms(2-5) by simp
  moreover have "sorted (map (rank_of tenant org) ?s)" by (rule sorted_sort_key)
  ultimately show ?thesis unfolding s by auto
qed

lemma scoped_config_prefers_org_witness:
  "rank_of ''t1'' ''o9'' (sample_config 7 1 ''t1'' ''default'' ''c3'') \<le>
   rank_of ''t1'' ''o9'' (sample_config 7 1 ''t1'' ''default'' ''c3'')"
proof -
  have "scoped_config catalogue_db 1 ''t1'' ''o9'' = Some (sample_config 7 1 ''t1'' ''default'' ''c3'')" by code_simp
  moreover have "sample_config 7 1 ''t1'' ''default'' ''c3'' \<in> set (d_cfgs catalogue_db)"
    by (simp add: catalogue_db_def)
  moreover have "cf_agent_id (sample_config 7 1 ''t1'' ''default'' ''c3'') = 1"
    "cf_is_active (sample_config 7 1 ''t1'' ''default'' ''c3'')"
    "in_scope ''t1'' ''o9'' (sample_config 7 1 ''t1'' ''default'' ''c3'')" by code_simp+
  ultimately show ?thesis by (rule scoped_config_prefers_org)
qed

end
