(* ===== verification/Frame_Parser.thy ===== *)
theory Frame_Parser
  imports Domain
begin

text \<open>
  \<open>integrations/mitra/frame_parser.py\<close>: one WebSocket message becomes one \<open>frame\<close>. The parser
  is total: every input, decoded or not, yields a frame. \<open>json.loads\<close> is the parameter
  \<open>loads\<close>, which returns the text of its exception or the decoded value.
\<close>

datatype frame_kind = Bot_chunk | Bot_final | User_echo | System_frame | Error_frame

record parsed_option =
  po_id :: string
  po_label :: string
  po_value :: string

record frame =
  fr_kind :: frame_kind
  fr_source :: string
  fr_msg :: string
  fr_step :: int
  fr_finish_reason :: "string option"
  fr_options :: "parsed_option list"
  fr_error :: string
  fr_control_payload :: bool

text \<open>\<open>Frame(kind=k)\<close>.\<close>

definition blank_frame :: "frame_kind \<Rightarrow> frame" where
  "blank_frame k = \<lparr> fr_kind = k, fr_source = [], fr_msg = [], fr_step = 0,
     fr_finish_reason = None, fr_options = [], fr_error = [], fr_control_payload = False \<rparr>"

definition error_frame :: "string \<Rightarrow> frame" where
  "error_frame e = (blank_frame Error_frame)\<lparr> fr_error := e \<rparr>"

section \<open>Coercions\<close>

fun coerce_str :: "json \<Rightarrow> string \<Rightarrow> string" where
  "coerce_str JNull dflt = dflt"
| "coerce_str (JStr s) dflt = s"
| "coerce_str v dflt = py_str v"

text \<open>\<open>_recover_response_text\<close>; the first argument is how many levels may still be entered,
  seven for the call at depth zero.\<close>

fun recover_response_text :: "nat \<Rightarrow> json \<Rightarrow> string" where
  "recover_response_text 0 v = []"
| "recover_response_text (Suc n) (JObj d) =
     (case jget d ''response'' of
        JStr s \<Rightarrow> if strip s \<noteq> [] then strip s else []
      | JObj d' \<Rightarrow> recover_response_text n (JObj d')
      | JList vs \<Rightarrow> recover_response_text n (JList vs)
      | _ \<Rightarrow> [])"
| "recover_response_text (Suc n) (JList vs) =
     join '' '' (filter (\<lambda>p. p \<noteq> []) (map (recover_response_text n) vs))"
| "recover_response_text (Suc n) v = []"

fun coerce_message_text :: "json \<Rightarrow> string \<times> bool" where
  "coerce_message_text JNull = ([], False)"
| "coerce_message_text (JStr s) = (s, False)"
| "coerce_message_text (JInt i) = (py_str (JInt i), False)"
| "coerce_message_text (JFloat f t) = (py_str (JFloat f t), False)"
| "coerce_message_text (JBool b) = (py_str (JBool b), False)"
| "coerce_message_text v = (recover_response_text 7 v, True)"

text \<open>\<open>_coerce_int\<close> with default 0; \<open>None\<close> is the \<open>OverflowError\<close> it does not catch.\<close>

definition coerce_int :: "json \<Rightarrow> int option" where
  "coerce_int v = (case py_int v of Inr i \<Rightarrow> Some i | Inl False \<Rightarrow> Some 0 | Inl True \<Rightarrow> None)"

section \<open>Options\<close>

definition choice_option :: "nat \<Rightarrow> (string \<times> json) list \<Rightarrow> parsed_option" where
  "choice_option i d = (let
      oid = coerce_str (por (jget d ''id'') (jget d ''value'')) (show_nat i)
    in \<lparr> po_id = oid,
         po_label = coerce_str (por (por (jget d ''label'') (jget d ''text'')) (jget d ''value'')) oid,
         po_value = coerce_str (por (jget d ''value'') (jget d ''label'')) oid \<rparr>)"

definition source_option :: "nat \<Rightarrow> (string \<times> json) list \<Rightarrow> parsed_option" where
  "source_option i d = (let
      oid = coerce_str (por (jget d ''url'') (jget d ''id'')) (show_nat i)
    in \<lparr> po_id = oid,
         po_label = coerce_str (por (por (jget d ''title'') (jget d ''text'')) (jget d ''url'')) oid,
         po_value = coerce_str (por (jget d ''url'') (jget d ''text'')) oid \<rparr>)"

text \<open>The loop over a raw list: items that are not dicts are skipped, but they count in the
  ordinal.\<close>

fun option_items :: "(nat \<Rightarrow> (string \<times> json) list \<Rightarrow> parsed_option) \<Rightarrow> nat \<Rightarrow> json list \<Rightarrow> parsed_option list" where
  "option_items mk i [] = []"
| "option_items mk i (v # vs) =
     (case v of JObj d \<Rightarrow> mk i d # option_items mk (Suc i) vs | _ \<Rightarrow> option_items mk (Suc i) vs)"

fun is_list :: "json \<Rightarrow> bool" where
  "is_list (JList _) = True"
| "is_list _ = False"

fun items :: "json \<Rightarrow> json list" where
  "items (JList vs) = vs"
| "items _ = []"

fun normalise_options :: "json \<Rightarrow> parsed_option list" where
  "normalise_options (JObj d) =
     (if has_key d ''options'' \<and> is_list (jget d ''options'')
        then option_items choice_option 0 (items (jget d ''options''))
      else if has_key d ''problem_statement'' then []
      else if has_key d ''sources'' \<and> is_list (jget d ''sources'')
        then option_items source_option 0 (items (jget d ''sources''))
      else [])"
| "normalise_options _ = []"

section \<open>Envelopes\<close>

text \<open>\<open>_parse_text_envelope\<close>; \<open>None\<close> when the step overflows, which the caller turns into an
  error frame.\<close>

definition parse_text_envelope :: "(string \<times> json) list \<Rightarrow> frame option" where
  "parse_text_envelope text =
     (case coerce_int (jget text ''step'') of
        None \<Rightarrow> None
      | Some step \<Rightarrow>
          let source = coerce_str (jget text ''source'') [];
              mc = coerce_message_text (jget text ''msg'');
              finish = jget text ''finish_reason'';
              err = coerce_str (jget text ''error'') []
          in if source = ''user'' then
               Some ((blank_frame User_echo)\<lparr> fr_source := source, fr_msg := fst mc, fr_step := step,
                  fr_control_payload := snd mc \<rparr>)
             else if source = ''system'' \<or> err \<noteq> [] then
               Some ((blank_frame System_frame)\<lparr> fr_source := source, fr_msg := fst mc, fr_step := step,
                  fr_error := (if err \<noteq> [] then err else fst mc), fr_control_payload := snd mc \<rparr>)
             else
               Some ((blank_frame (if truthy finish then Bot_final else Bot_chunk))\<lparr>
                  fr_source := source, fr_msg := fst mc, fr_step := step,
                  fr_finish_reason := (if truthy finish then Some (coerce_str finish []) else None),
                  fr_options := normalise_options (jget text ''extra_content''),
                  fr_control_payload := snd mc \<rparr>))"

definition or_none :: "string \<Rightarrow> string option" where
  "or_none s = (if s = [] then None else Some s)"

definition parse_legacy_envelope :: "(string \<times> json) list \<Rightarrow> frame" where
  "parse_legacy_envelope raw = (let
       etype = lower (coerce_str (jget raw ''type'') []);
       mc = coerce_message_text (por (por (por (jget raw ''msg'') (jget raw ''message''))
              (jget raw ''text'')) (jget raw ''content''));
       err = coerce_str (por (jget raw ''error'') (jget raw ''err'')) []
     in
       if etype \<in> set [''session_end'', ''error'', ''connected'', ''disconnected''] then
         (blank_frame System_frame)\<lparr> fr_source := ''system'', fr_msg := fst mc,
            fr_error := (if err \<noteq> [] then err else if etype = ''error'' then fst mc else []),
            fr_control_payload := snd mc \<rparr>
       else if etype \<in> set [''options'', ''choices''] then
         let opts = por (por (jget raw ''options'') (jget raw ''choices'')) (JList []);
             extra = (if truthy opts then JObj [(''options'', opts)] else JObj [])
         in (blank_frame Bot_final)\<lparr> fr_source := ''bot'', fr_msg := fst mc,
              fr_finish_reason := Some ''stop'', fr_options := normalise_options extra,
              fr_control_payload := snd mc \<rparr>
       else if etype \<in> set [''message'', ''bot_response'', ''response'', ''text''] then
         let finish = or_none (coerce_str (jget raw ''finish_reason'') [])
         in (blank_frame (if finish \<noteq> None then Bot_final else Bot_chunk))\<lparr> fr_source := ''bot'',
              fr_msg := fst mc, fr_finish_reason := finish, fr_control_payload := snd mc \<rparr>
       else
         let src = coerce_str (jget raw ''source'') []
         in (blank_frame System_frame)\<lparr> fr_source := (if src \<noteq> [] then src else etype),
              fr_msg := fst mc,
              fr_error := ''unrecognised envelope type: '' @ repr_str etype \<rparr>)"

definition parse_payload :: "json \<Rightarrow> frame" where
  "parse_payload payload =
     (case payload of
        JObj d \<Rightarrow>
          (case jget d ''text'' of
             JObj text \<Rightarrow>
               (case parse_text_envelope text of
                  Some f \<Rightarrow> f
                | None \<Rightarrow> error_frame
                    ''text envelope parse error: cannot convert float infinity to integer'')
           | JStr s \<Rightarrow>
               let finish = or_none (coerce_str (jget d ''finish_reason'') [])
               in (blank_frame (if finish \<noteq> None then Bot_final else Bot_chunk))\<lparr>
                    fr_source := ''bot'', fr_msg := s, fr_finish_reason := finish \<rparr>
           | _ \<Rightarrow>
               if has_key d ''type'' \<or> has_key d ''message'' \<or> has_key d ''msg'' \<or> has_key d ''content''
               then parse_legacy_envelope d
               else error_frame ''unrecognised frame shape - no 'text' key'')
      | _ \<Rightarrow> error_frame (''expected JSON object, got '' @ type_name payload))"

definition parse :: "(string \<Rightarrow> string + json) \<Rightarrow> string \<Rightarrow> frame" where
  "parse loads raw =
     (case loads raw of
        Inl exn \<Rightarrow> error_frame (''JSON decode error: '' @ exn)
      | Inr payload \<Rightarrow> parse_payload payload)"

section \<open>Kinds\<close>

lemma blank_frame_sel [simp]:
  "fr_kind (blank_frame k) = k" "fr_source (blank_frame k) = []" "fr_msg (blank_frame k) = []"
  "fr_step (blank_frame k) = 0" "fr_finish_reason (blank_frame k) = None"
  "fr_options (blank_frame k) = []" "fr_error (blank_frame k) = []"
  "fr_control_payload (blank_frame k) = False"
  by (simp_all add: blank_frame_def)

lemma error_frame_sel [simp]:
  "fr_kind (error_frame e) = Error_frame" "fr_msg (error_frame e) = []" "fr_error (error_frame e) = e"
  "fr_finish_reason (error_frame e) = None" "fr_options (error_frame e) = []"
  "fr_control_payload (error_frame e) = False" "fr_source (error_frame e) = []"
  by (simp_all add: error_frame_def)

lemma legacy_not_echo: "fr_kind (parse_legacy_envelope d) \<noteq> User_echo"
  by (simp add: parse_legacy_envelope_def Let_def)

text \<open>Echo suppression. A decoded message is classified as the echo of the user's own text
  exactly when it is a text envelope whose source reads \<open>user\<close> (and whose step is not an
  infinite number, which makes it an error frame); nothing else is ever dropped as an echo.\<close>

theorem user_echo_exactly:
  "fr_kind (parse_payload payload) = User_echo \<longleftrightarrow>
     (\<exists>d text. payload = JObj d \<and> jget d ''text'' = JObj text
        \<and> coerce_str (jget text ''source'') [] = ''user'' \<and> coerce_int (jget text ''step'') \<noteq> None)"
proof (cases payload)
  case (JObj d)
  then show ?thesis
    by (cases "jget d ''text''")
      (auto simp: parse_payload_def parse_text_envelope_def legacy_not_echo Let_def split: option.splits)
qed (simp_all add: parse_payload_def)

lemma final_iff_finish_legacy:
  "fr_kind (parse_legacy_envelope d) = Bot_final \<longleftrightarrow> fr_finish_reason (parse_legacy_envelope d) \<noteq> None"
  by (simp add: parse_legacy_envelope_def Let_def)

text \<open>End of turn. On every input, a frame ends a bot turn exactly when it carries a finish
  reason: a chunk never does, and no echo, system or error frame ever ends a turn.\<close>

theorem bot_final_iff_finish_reason:
  "fr_kind (parse loads raw) = Bot_final \<longleftrightarrow> fr_finish_reason (parse loads raw) \<noteq> None"
proof -
  have env: "fr_kind f = Bot_final \<longleftrightarrow> fr_finish_reason f \<noteq> None"
    if "parse_text_envelope t = Some f" for t f
    using that by (auto simp: parse_text_envelope_def Let_def split: option.splits if_splits)
  have "fr_kind (parse_payload p) = Bot_final \<longleftrightarrow> fr_finish_reason (parse_payload p) \<noteq> None" for p
  proof (cases p)
    case (JObj d)
    then show ?thesis
      by (cases "jget d ''text''")
        (auto simp: parse_payload_def Let_def final_iff_finish_legacy dest: env split: option.splits)
  qed (simp_all add: parse_payload_def)
  then show ?thesis by (auto simp: parse_def split: sum.splits)
qed

section \<open>Leaked control payloads\<close>

text \<open>The reference: every non-blank string found under a \<open>response\<close> key, in order.\<close>

fun responses :: "nat \<Rightarrow> json \<Rightarrow> string list" where
  "responses 0 v = []"
| "responses (Suc n) (JObj d) =
     (case jget d ''response'' of
        JStr s \<Rightarrow> if strip s \<noteq> [] then [strip s] else []
      | JObj d' \<Rightarrow> responses n (JObj d')
      | JList vs \<Rightarrow> responses n (JList vs)
      | _ \<Rightarrow> [])"
| "responses (Suc n) (JList vs) = concat (map (responses n) vs)"
| "responses (Suc n) v = []"

lemma responses_nonempty: "w \<in> set (responses n v) \<Longrightarrow> w \<noteq> []"
  by (induction n v rule: responses.induct) (auto split: json.splits if_splits)

lemma join_eq_Nil: "[] \<notin> set ws \<Longrightarrow> join '' '' ws = [] \<longleftrightarrow> ws = []"
  by (induction "'' ''" ws rule: join.induct) auto

lemma join_append: "xs \<noteq> [] \<Longrightarrow> ys \<noteq> [] \<Longrightarrow> join s (xs @ ys) = join s xs @ s @ join s ys"
  by (induction s xs rule: join.induct) (auto simp: neq_Nil_conv)

lemma join_concat:
  "(\<forall>ws \<in> set wss. [] \<notin> set ws) \<Longrightarrow>
   join '' '' (filter (\<lambda>p. p \<noteq> []) (map (join '' '') wss)) = join '' '' (concat wss)"
proof (induction wss)
  case (Cons ws wss)
  have IH: "join '' '' (filter (\<lambda>p. p \<noteq> []) (map (join '' '') wss)) = join '' '' (concat wss)"
    using Cons by simp
  have tail: "filter (\<lambda>p. p \<noteq> []) (map (join '' '') wss) = [] \<longleftrightarrow> concat wss = []"
    using Cons.prems by (auto simp: filter_empty_conv join_eq_Nil)
  show ?case
  proof (cases "ws = []")
    case True
    then show ?thesis using IH by simp
  next
    case False
    have ne: "join '' '' ws \<noteq> []" using Cons.prems False join_eq_Nil[of ws] by auto
    show ?thesis
    proof (cases "concat wss = []")
      case True
      then have "concat (ws # wss) = ws" by simp
      then show ?thesis using ne tail True by (simp del: concat.simps)
    next
      case False': False
      then obtain p ps where "filter (\<lambda>p. p \<noteq> []) (map (join '' '') wss) = p # ps"
        using tail by (cases "filter (\<lambda>p. p \<noteq> []) (map (join '' '') wss)") auto
      then show ?thesis using ne IH join_append[OF False False', of "'' ''"] by simp
    qed
  qed
qed simp

lemma recover_is_join: "recover_response_text n v = join '' '' (responses n v)"
proof (induction n v rule: recover_response_text.induct)
  case (3 n vs)
  have "map (recover_response_text n) vs = map (join '' '') (map (responses n) vs)"
    using 3 by simp
  moreover have "\<forall>ws \<in> set (map (responses n) vs). [] \<notin> set ws"
    using responses_nonempty by fastforce
  ultimately show ?case using join_concat[of "map (responses n) vs"]
    by (simp only: recover_response_text.simps responses.simps)
qed (auto split: json.splits)



end
