(* ===== verification/Ws_Channel.thy ===== *)
theory Ws_Channel
  imports Frame_Parser
begin

text \<open>
  \<open>integrations/mitra/ws_channel.py\<close>: one socket.

  The reader thread is a script of timed events, in order: a frame that reaches the queue, or
  the end of the connection with its reason. Times are milliseconds of the monotonic clock.
  The consumer runs between events and takes no time itself; at the head of a loop it sees the
  connection closed if the end of the connection lies at or before the current time. A blocking
  \<open>Queue.get\<close> is not woken by the end of the connection, so it lasts to its timeout.
  The bound of the queue (512 frames) ends the connection of a consumer that stalls: it is an end
  with that reason.
\<close>

datatype inbound = In frame | Hangup string

type_synonym event = "int \<times> inbound"

record bot_turn =
  bt_text :: string
  bt_options :: "parsed_option list"
  bt_step :: "int option"

record channel =
  ch_pending :: "frame option"
  ch_events :: "event list"
  ch_closed :: "string option"
  ch_locked :: bool
  ch_sent :: "json list"
  ch_serial :: nat

definition unreadable_turn_message :: string where
  "unreadable_turn_message = ''Sorry, I didn'' @ [single_quote] @ ''t quite catch that. Could you say it again?''"

fun is_hangup_by :: "int \<Rightarrow> event \<Rightarrow> bool" where
  "is_hangup_by t (u, Hangup _) = (u \<le> t)"
| "is_hangup_by t (u, In _) = False"

text \<open>The reason the connection ended with, if it has by time \<open>t\<close>.\<close>

definition hung_up :: "int \<Rightarrow> event list \<Rightarrow> string option" where
  "hung_up t evs = (case find (is_hangup_by t) evs of Some (_, Hangup r) \<Rightarrow> Some r | _ \<Rightarrow> None)"

section \<open>Awaiting a turn\<close>

record await_state =
  aw_now :: int
  aw_chunks :: string
  aw_options :: "parsed_option list"
  aw_step :: "int option"
  aw_control :: bool
  aw_heard :: bool
  aw_last_rx :: int

datatype await_result = Turn bot_turn | Timed_out "int option" | Closed string | Remote string

definition wait_limit :: "int \<Rightarrow> int \<Rightarrow> await_state \<Rightarrow> int" where
  "wait_limit deadline gap a =
     (if aw_heard a then min deadline (aw_last_rx a + gap) else deadline)"

definition turn_result :: "await_state \<Rightarrow> bot_turn" where
  "turn_result a = \<lparr> bt_text = (if aw_chunks a = [] \<and> aw_control a then unreadable_turn_message
                                 else aw_chunks a),
     bt_options = aw_options a, bt_step = aw_step a \<rparr>"

text \<open>\<open>chunks or saw_control_payload\<close>: chunks are never empty strings, so the list of chunks
  and their concatenation are empty together.\<close>

definition flush :: "await_state \<Rightarrow> await_result" where
  "flush a = (if aw_chunks a \<noteq> [] \<or> aw_control a then Turn (turn_result a) else Timed_out (aw_step a))"

definition hear :: "int \<Rightarrow> frame \<Rightarrow> await_state \<Rightarrow> await_state" where
  "hear t f a = a\<lparr> aw_now := t, aw_last_rx := t, aw_heard := True,
     aw_control := aw_control a \<or> fr_control_payload f, aw_chunks := aw_chunks a @ fr_msg f,
     aw_step := Some (fr_step f),
     aw_options := (if fr_options f \<noteq> [] then fr_options f else aw_options a) \<rparr>"

definition ends_turn :: "frame \<Rightarrow> bool" where
  "ends_turn f \<longleftrightarrow> fr_finish_reason f \<noteq> None \<and> fr_finish_reason f \<noteq> Some []"

text \<open>The end of a wait that no frame interrupts: the head of the loop at the limit.\<close>

definition at_limit :: "int \<Rightarrow> event list \<Rightarrow> await_state \<Rightarrow> await_result \<times> int" where
  "at_limit bnd evs a =
     (case hung_up bnd evs of Some r \<Rightarrow> (Closed r, bnd) | None \<Rightarrow> (flush a, bnd))"

text \<open>The result, the time it is reached and the events left.\<close>

fun await_turn :: "int \<Rightarrow> int \<Rightarrow> await_state \<Rightarrow> event list \<Rightarrow> await_result \<times> int \<times> event list" where
  "await_turn deadline gap a evs =
     (case hung_up (aw_now a) evs of
        Some r \<Rightarrow> (Closed r, aw_now a, evs)
      | None \<Rightarrow>
          let bnd = wait_limit deadline gap a
          in if bnd \<le> aw_now a then (flush a, aw_now a, evs)
             else
               (case evs of
                  (t, In f) # rest \<Rightarrow>
                    if t < bnd then
                      let now = max (aw_now a) t
                      in if fr_source f = ''user'' then await_turn deadline gap (a\<lparr> aw_now := now \<rparr>) rest
                         else if fr_source f = ''system'' \<and> fr_error f \<noteq> []
                         then (Remote (if fr_msg f \<noteq> [] then fr_msg f else fr_error f), now, rest)
                         else if fr_source f \<noteq> ''bot'' then await_turn deadline gap (a\<lparr> aw_now := now \<rparr>) rest
                         else if ends_turn f then (Turn (turn_result (hear now f a)), now, rest)
                         else await_turn deadline gap (hear now f a) rest
                    else (case at_limit bnd evs a of (r, u) \<Rightarrow> (r, u, evs))
                | _ \<Rightarrow> (case at_limit bnd evs a of (r, u) \<Rightarrow> (r, u, evs))))"

declare await_turn.simps [simp del]

definition await_start :: "int \<Rightarrow> await_state" where
  "await_start now = \<lparr> aw_now = now, aw_chunks = [], aw_options = [], aw_step = None,
     aw_control = False, aw_heard = False, aw_last_rx = now \<rparr>"

section \<open>The channel\<close>

text \<open>\<open>wire\<close> stands for Mitra's side of a connection: given the serial number of the connection
  and everything sent on it, the events that follow the last message, with times relative to
  it, or the text of the exception \<open>send\<close> raises.\<close>

type_synonym wire = "nat \<Rightarrow> json list \<Rightarrow> string + event list"

definition shift :: "int \<Rightarrow> event list \<Rightarrow> event list" where
  "shift t evs = map (\<lambda>(u, e). (u + t, e)) evs"

fun is_frame_by :: "int \<Rightarrow> event \<Rightarrow> bool" where
  "is_frame_by t (u, In _) = (u \<le> t)"
| "is_frame_by t (u, Hangup _) = False"

text \<open>\<open>_drain_stale\<close>: the frames that have arrived are dropped; the pushed-back frame and the
  end of the connection are not in the queue.\<close>

definition drain_stale :: "int \<Rightarrow> channel \<Rightarrow> channel" where
  "drain_stale now c = c\<lparr> ch_events := filter (\<lambda>e. \<not> is_frame_by now e) (ch_events c) \<rparr>"

definition send_json :: "wire \<Rightarrow> int \<Rightarrow> json \<Rightarrow> channel \<Rightarrow> string + channel" where
  "send_json wire now msg c =
     (case wire (ch_serial c) (ch_sent c @ [msg]) of
        Inl e \<Rightarrow> Inl e
      | Inr evs \<Rightarrow> Inr (c\<lparr> ch_sent := ch_sent c @ [msg],
          ch_events := sort_key fst (ch_events c @ shift now evs) \<rparr>))"

definition message_json :: "string \<Rightarrow> json" where
  "message_json t = JObj [(''type'', JStr ''message''), (''text'', JStr t), (''context'', JStr []),
     (''asr_audio'', JNull)]"

fun exc_of_result :: "await_result \<Rightarrow> exc + bot_turn" where
  "exc_of_result (Turn b) = Inr b"
| "exc_of_result (Timed_out st) = Inl (Mitra (MitraTurnTimeout st))"
| "exc_of_result (Closed r) = Inl (Mitra (MitraChannelClosed r))"
| "exc_of_result (Remote m) = Inl (Mitra (MitraRemoteError m))"

text \<open>\<open>send_and_await_turn\<close>: the outcome, the time it returns and the channel afterwards. The turn
  lock is held throughout and released on every exit, so it does not show in the result.\<close>

definition send_and_await_turn ::
  "wire \<Rightarrow> string \<Rightarrow> int \<Rightarrow> int \<Rightarrow> int \<Rightarrow> channel \<Rightarrow> (exc + bot_turn) \<times> int \<times> channel" where
  "send_and_await_turn wire t timeout gap now c =
     (if ch_locked c then (Inl (Mitra MitraConcurrentTurnError), now, c)
      else let c1 = drain_stale now c in
        (case send_json wire now (message_json t) c1 of
           Inl e \<Rightarrow> (Inl (RuntimeError e), now, c1)
         | Inr c2 \<Rightarrow>
             let closed = (case ch_closed c2 of None \<Rightarrow> [] | Some r \<Rightarrow> [(now, Hangup r)]);
                 pending = (case ch_pending c2 of None \<Rightarrow> [] | Some f \<Rightarrow> [(now, In f)])
             in (case await_turn (now + timeout) gap (await_start now) (pending @ closed @ ch_events c2) of
                   (r, u, rest) \<Rightarrow> (exc_of_result r, u, c2\<lparr> ch_pending := None, ch_events := rest \<rparr>))))"

section \<open>Establishment\<close>

text \<open>The settling loop: an acknowledgement or the bot's first frame ends it early, the end of
  the connection fails it, the deadline ends it. The poll slice only bounds how late the end of
  the connection is noticed.\<close>

fun settle :: "string list \<Rightarrow> int \<Rightarrow> int \<Rightarrow> event list \<Rightarrow> (string + frame option) \<times> int \<times> event list" where
  "settle acks deadline now evs =
     (case hung_up now evs of
        Some r \<Rightarrow> (Inl r, now, evs)
      | None \<Rightarrow>
          if deadline \<le> now then (Inr None, now, evs)
          else (case evs of
                  (t, In f) # rest \<Rightarrow>
                    if t < deadline then
                      let u = max now t
                      in if fr_source f \<in> set acks then (Inr None, u, rest)
                         else if fr_source f = ''bot'' then (Inr (Some f), u, rest)
                         else settle acks deadline u rest
                    else (case hung_up deadline evs of
                            Some r \<Rightarrow> (Inl r, deadline, evs) | None \<Rightarrow> (Inr None, deadline, evs))
                | (t, Hangup r) # rest \<Rightarrow>
                    if t \<le> deadline then (Inl r, t, evs) else (Inr None, deadline, evs)
                | [] \<Rightarrow> (Inr None, deadline, [])))"

declare settle.simps [simp del]

definition opt_jstr :: "string option \<Rightarrow> json" where
  "opt_jstr s = (case s of None \<Rightarrow> JNull | Some t \<Rightarrow> JStr t)"

definition auth_json :: "json \<Rightarrow> remote_spec \<Rightarrow> session_view \<Rightarrow> json" where
  "auth_json address r s = JObj [(''type'', JStr ''authenticate''),
     (''sessionid'', opt_jstr (sv_remote_session_id s)), (''profileid'', opt_jstr (sv_remote_profile_id s)),
     (''projectid'', JStr []), (''taskid'', JNull), (''access_token'', JNull),
     (''route'', JStr (sv_language s)), (''bot_route'', opt_jstr (sv_remote_bot_route s)),
     (''flow_name'', JStr (rm_flow_name r)), (''address'', address)]"

text \<open>The constructor: \<open>Inl\<close> the exception, or the authenticated channel; with the time.\<close>

definition open_channel ::
  "wire \<Rightarrow> json \<Rightarrow> nat \<Rightarrow> remote_spec \<Rightarrow> session_view \<Rightarrow> int \<Rightarrow> (exc + channel) \<times> int" where
  "open_channel wire address serial r s now =
     (let c = \<lparr> ch_pending = None, ch_events = [], ch_closed = None, ch_locked = False, ch_sent = [],
                ch_serial = serial \<rparr>
      in case send_json wire now (auth_json address r s) c of
           Inl e \<Rightarrow> (Inl (RuntimeError e), now)
         | Inr c1 \<Rightarrow>
             (case settle (hs_ack_types (rm_handshake r)) (now + hs_settle_ms (rm_handshake r)) now (ch_events c1) of
                (Inl why, u, _) \<Rightarrow> (Inl (Mitra (MitraChannelClosed why)), u)
              | (Inr pend, u, rest) \<Rightarrow> (Inr (c1\<lparr> ch_pending := pend, ch_events := rest \<rparr>), u)))"

text \<open>\<open>alive\<close> and \<open>close\<close>.\<close>

definition channel_alive :: "int \<Rightarrow> channel \<Rightarrow> bool" where
  "channel_alive now c \<longleftrightarrow> ch_closed c = None \<and> hung_up now (ch_events c) = None"

definition close_channel :: "channel \<Rightarrow> channel" where
  "close_channel c = c\<lparr> ch_closed := Some (case ch_closed c of None \<Rightarrow> [] | Some r \<Rightarrow> r) \<rparr>"

section \<open>Timing\<close>

lemma hung_up_Nil [simp]: "hung_up t [] = None"
  by (simp add: hung_up_def)

lemma hung_up_In [simp]: "hung_up t ((u, In f) # evs) = hung_up t evs"
  by (simp add: hung_up_def)

lemma hung_up_Hangup [simp]:
  "hung_up t ((u, Hangup r) # evs) = (if u \<le> t then Some r else hung_up t evs)"
  by (simp add: hung_up_def)

lemma hear_sel [simp]:
  "aw_now (hear t f a) = t" "aw_last_rx (hear t f a) = t" "aw_heard (hear t f a)"
  "aw_chunks (hear t f a) = aw_chunks a @ fr_msg f" "aw_step (hear t f a) = Some (fr_step f)"
  "aw_control (hear t f a) = (aw_control a \<or> fr_control_payload f)"
  by (simp_all add: hear_def)

lemma hung_up_late: "\<forall>e \<in> set evs. t < fst e \<Longrightarrow> hung_up t evs = None"
proof (induction evs)
  case (Cons e evs)
  then show ?case by (cases e; cases "snd e") auto
qed simp

fun is_echo :: "event \<Rightarrow> bool" where
  "is_echo (_, In f) = (fr_source f = ''user'')"
| "is_echo (_, Hangup _) = False"

lemma hung_up_no_echo: "hung_up t (filter (\<lambda>e. \<not> is_echo e) evs) = hung_up t evs"
proof (induction evs)
  case (Cons e evs)
  then show ?case by (cases e; cases "snd e") auto
qed simp

lemma echo_step:
  assumes "sorted_wrt (<) (map fst evs)" and "\<forall>e \<in> set evs. aw_now a < fst e"
    and "b = a\<lparr> aw_now := nb \<rparr>" and "nb \<le> aw_now a"
    and "nb = aw_now a \<or> aw_now a < wait_limit deadline gap a"
  shows "fst (await_turn deadline gap a evs) =
    fst (await_turn deadline gap b (filter (\<lambda>e. \<not> is_echo e) evs))"
  using assms
proof (induction evs arbitrary: a b nb)
  case Nil
  have lim: "wait_limit deadline gap b = wait_limit deadline gap a"
    using Nil.prems(3) by (simp add: wait_limit_def)
  have fl: "flush b = flush a" using Nil.prems(3) by (simp add: flush_def turn_result_def)
  show ?case using Nil.prems lim fl
    by (auto simp: await_turn.simps Let_def at_limit_def)
next
  case (Cons e evs)
  let ?lim = "wait_limit deadline gap a"
  obtain t i where e: "e = (t, i)" by (cases e)
  have sorted: "sorted_wrt (<) (map fst evs)" "\<forall>x \<in> set evs. t < fst x"
    using Cons.prems(1) by (auto simp: e)
  have late: "aw_now a < t" "nb < t" "\<forall>x \<in> set (e # evs). aw_now a < fst x"
    "\<forall>x \<in> set (e # evs). nb < fst x"
    using Cons.prems(2,4) by (auto simp: e)
  have lim: "wait_limit deadline gap b = ?lim" and fl: "flush b = flush a" and bn: "aw_now b = nb"
    using Cons.prems(3) by (simp_all add: wait_limit_def flush_def turn_result_def)
  have ha: "hung_up (aw_now a) (e # evs) = None" "hung_up nb (filter (\<lambda>e. \<not> is_echo e) (e # evs)) = None"
    using hung_up_late[OF late(3)] hung_up_late[OF late(4)] hung_up_no_echo by metis+
  show ?case
  proof (cases "?lim \<le> aw_now a")
    case True
    then have "nb = aw_now a" using Cons.prems(5) by linarith
    then show ?thesis using True ha lim fl bn
      by (simp add: await_turn.simps Let_def)
  next
    case False
    then have nb: "\<not> ?lim \<le> nb" using Cons.prems(4) by linarith
    show ?thesis
    proof (cases i)
      case (Hangup r)
      then show ?thesis using False nb ha lim fl bn e hung_up_no_echo[of ?lim "e # evs"]
        by (auto simp: await_turn.simps[of _ _ a] await_turn.simps[of _ _ b] Let_def at_limit_def
            split: option.splits)
    next
      case (In f)
      have hb: "hung_up nb (filter (\<lambda>e. \<not> is_echo e) evs) = None" "hung_up (aw_now a) evs = None"
        using ha In e by (auto split: if_splits)
      show ?thesis
      proof (cases "t < ?lim")
        case early: True
        have echo: "fst (await_turn deadline gap (a\<lparr> aw_now := t \<rparr>) evs) =
            fst (await_turn deadline gap b (filter (\<lambda>e. \<not> is_echo e) evs))"
          by (rule Cons.IH[of "a\<lparr> aw_now := t \<rparr>" b nb])
            (use sorted late early Cons.prems(3) in \<open>auto simp: wait_limit_def\<close>)
        have same: "fst (await_turn deadline gap c evs) =
            fst (await_turn deadline gap c (filter (\<lambda>e. \<not> is_echo e) evs))" if "aw_now c = t" for c
          by (rule Cons.IH[of c c t]) (use sorted that in auto)
        have heq: "hear t f b = hear t f a" "b\<lparr> aw_now := t \<rparr> = a\<lparr> aw_now := t \<rparr>"
          using Cons.prems(3) by (simp_all add: hear_def)
        have max: "max (aw_now a) t = t" "max nb t = t" using late by simp_all
        show ?thesis
        proof (cases "fr_source f = ''user''")
          case True
          then show ?thesis using echo early False ha In e max
            by (simp add: await_turn.simps[of _ _ a] Let_def)
        next
          case nu: False
          then show ?thesis
            using early False nb ha hb In e max lim bn heq same[of "hear t f a"] same[of "a\<lparr> aw_now := t \<rparr>"]
            by (simp add: await_turn.simps[of _ _ a] await_turn.simps[of _ _ b] Let_def)
        qed
      next
        case False': False
        have "fst (await_turn deadline gap a (e # evs)) = fst (at_limit ?lim (e # evs) a)"
          using False False' ha In e
          by (simp add: await_turn.simps[of _ _ a] Let_def split_beta)
        moreover have "fst (await_turn deadline gap b (filter (\<lambda>e. \<not> is_echo e) (e # evs))) =
            fst (at_limit ?lim (filter (\<lambda>e. \<not> is_echo e) (e # evs)) b)"
        proof (cases "filter (\<lambda>e. \<not> is_echo e) (e # evs)")
          case Nil
          then show ?thesis using nb lim bn by (simp add: await_turn.simps Let_def split_beta)
        next
          case (Cons x xs)
          then have "x \<in> set (e # evs)" by (metis filter_is_subset list.set_intros(1) subsetD)
          then have "\<not> fst x < ?lim" using False' sorted(2) e by auto
          then show ?thesis using nb lim bn ha(2) unfolding Cons
            by (cases x; cases "snd x") (auto simp: await_turn.simps Let_def split_beta)
        qed
        ultimately show ?thesis
          using fl hung_up_no_echo[of ?lim "e # evs"] by (simp add: at_limit_def split: option.splits)
      qed
    qed
  qed
qed

text \<open>The user's own text echoed back never changes a turn. With events at strictly
  increasing times, awaiting the bot's turn has the same result (text, options, step, or
  exception) whether Mitra's echo frames are delivered or not.\<close>

theorem echo_frames_are_transparent:
  assumes "sorted_wrt (<) (map fst evs)" and "\<forall>e \<in> set evs. now < fst e"
  shows "fst (await_turn deadline gap (await_start now) evs) =
    fst (await_turn deadline gap (await_start now) (filter (\<lambda>e. \<not> is_echo e) evs))"
  by (rule echo_step[of _ _ _ now]) (use assms in \<open>auto simp: await_start_def\<close>)

definition bot_frame :: "string \<Rightarrow> string option \<Rightarrow> frame" where
  "bot_frame t fin = (blank_frame (if fin = None then Bot_chunk else Bot_final))\<lparr> fr_source := ''bot'',
     fr_msg := t, fr_finish_reason := fin \<rparr>"

definition echo_frame :: "string \<Rightarrow> frame" where
  "echo_frame t = (blank_frame User_echo)\<lparr> fr_source := ''user'', fr_msg := t \<rparr>"

lemma echo_frames_are_transparent_witness:
  "fst (await_turn 60 8 (await_start 0)
     [(1, In (echo_frame ''hi'')), (9, In (bot_frame ''Hel'' None)), (10, In (bot_frame ''lo'' (Some ''stop'')))])
   = Turn \<lparr> bt_text = ''Hello'', bt_options = [], bt_step = Some 0 \<rparr>"
proof -
  let ?evs = "[(1, In (echo_frame ''hi'')), (9, In (bot_frame ''Hel'' None)), (10, In (bot_frame ''lo'' (Some ''stop'')))]"
  have "fst (await_turn 60 8 (await_start 0) ?evs) =
      fst (await_turn 60 8 (await_start 0) (filter (\<lambda>e. \<not> is_echo e) ?evs))"
    by (rule echo_frames_are_transparent) auto
  also have "\<dots> = Turn \<lparr> bt_text = ''Hello'', bt_options = [], bt_step = Some 0 \<rparr>"
    by code_simp
  finally show ?thesis .
qed

text \<open>The bot's frames of a script, in order.\<close>

fun bot_frames :: "event list \<Rightarrow> frame list" where
  "bot_frames [] = []"
| "bot_frames ((_, In f) # evs) = (if fr_source f = ''bot'' then f # bot_frames evs else bot_frames evs)"
| "bot_frames ((_, Hangup _) # evs) = bot_frames evs"

definition text_of :: "string \<Rightarrow> bool \<Rightarrow> string" where
  "text_of chunks control = (if chunks = [] \<and> control then unreadable_turn_message else chunks)"

lemma await_accumulates:
  "await_turn deadline gap a evs = (Turn b, u, rest) \<Longrightarrow>
   \<exists>pre. evs = pre @ rest
     \<and> bt_text b = text_of (aw_chunks a @ concat (map fr_msg (bot_frames pre)))
         (aw_control a \<or> (\<exists>f \<in> set (bot_frames pre). fr_control_payload f))
     \<and> (\<forall>f \<in> set (butlast (bot_frames pre)). \<not> ends_turn f)"
proof (induction evs arbitrary: a)
  case Nil
  then show ?case
    by (auto simp: await_turn.simps Let_def at_limit_def flush_def turn_result_def text_of_def split: if_splits)
next
  case (Cons e evs)
  obtain t i where e: "e = (t, i)" by (cases e)
  have stop: ?case if "await_turn deadline gap a (e # evs) = (flush a, v, e # evs)" for v
    using Cons.prems that
    by (intro exI[of _ "[]"]) (auto simp: flush_def turn_result_def text_of_def split: if_splits)
  show ?case
  proof (cases i)
    case (Hangup r)
    then show ?thesis using Cons.prems stop e
      by (auto simp: await_turn.simps[of _ _ a] Let_def at_limit_def split: option.splits if_splits)
  next
    case (In f)
    let ?now = "max (aw_now a) t"
    have skip: ?thesis
      if "fr_source f \<noteq> ''bot''" "await_turn deadline gap (a\<lparr> aw_now := ?now \<rparr>) evs = (Turn b, u, rest)"
      using Cons.IH[OF that(2)] that(1) e In by (elim exE conjE) (intro exI[of _ "e # _"], simp)
    have go: ?thesis
      if "fr_source f = ''bot''" "\<not> ends_turn f" "await_turn deadline gap (hear ?now f a) evs = (Turn b, u, rest)"
    proof -
      from Cons.IH[OF that(3)] obtain pre where pre: "evs = pre @ rest"
        "bt_text b = text_of (aw_chunks (hear ?now f a) @ concat (map fr_msg (bot_frames pre)))
           (aw_control (hear ?now f a) \<or> (\<exists>f \<in> set (bot_frames pre). fr_control_payload f))"
        "\<forall>f \<in> set (butlast (bot_frames pre)). \<not> ends_turn f" by blast
      then show ?thesis using that e In by (intro exI[of _ "e # pre"]) auto
    qed
    show ?thesis
    proof (cases "hung_up (aw_now a) (e # evs) = None \<and> \<not> wait_limit deadline gap a \<le> aw_now a
        \<and> t < wait_limit deadline gap a")
      case True
      then have eq: "await_turn deadline gap a (e # evs) =
          (if fr_source f = ''user'' then await_turn deadline gap (a\<lparr> aw_now := ?now \<rparr>) evs
           else if fr_source f = ''system'' \<and> fr_error f \<noteq> []
           then (Remote (if fr_msg f \<noteq> [] then fr_msg f else fr_error f), ?now, evs)
           else if fr_source f \<noteq> ''bot'' then await_turn deadline gap (a\<lparr> aw_now := ?now \<rparr>) evs
           else if ends_turn f then (Turn (turn_result (hear ?now f a)), ?now, evs)
           else await_turn deadline gap (hear ?now f a) evs)"
        using e In by (simp add: await_turn.simps[of _ _ a] Let_def)
      show ?thesis
      proof (cases "fr_source f = ''bot''")
        case False
        then show ?thesis using Cons.prems skip unfolding eq by (auto split: if_splits)
      next
        case bot: True
        show ?thesis
        proof (cases "ends_turn f")
          case True
          then have "b = turn_result (hear ?now f a)" "rest = evs" using Cons.prems bot unfolding eq by auto
          then show ?thesis using bot e In
            by (intro exI[of _ "[e]"]) (auto simp: turn_result_def text_of_def)
        next
          case False
          then show ?thesis using Cons.prems bot go unfolding eq by simp
        qed
      qed
    next
      case False
      then show ?thesis using Cons.prems stop e In
        by (auto simp: await_turn.simps[of _ _ a] Let_def at_limit_def split: option.splits if_splits)
    qed
  qed
qed

text \<open>C11: a turn's text is the bot's chunks, in order and without a gap. When awaiting returns a
  turn, its text is the concatenation of the messages of every bot frame received up to that
  point (or the fixed apology when they hold nothing but a leaked payload), and no frame before
  the last ended the turn.\<close>

theorem turn_text_is_accumulated:
  assumes "await_turn deadline gap (await_start now) evs = (Turn b, u, rest)"
  shows "\<exists>pre. evs = pre @ rest
    \<and> bt_text b = text_of (concat (map fr_msg (bot_frames pre))) (\<exists>f \<in> set (bot_frames pre). fr_control_payload f)
    \<and> (\<forall>f \<in> set (butlast (bot_frames pre)). \<not> ends_turn f)"
  using await_accumulates[OF assms] by (simp add: await_start_def)

lemma turn_text_is_accumulated_witness:
  "\<exists>pre. [(2, In (bot_frame ''a'' None)), (3, In (bot_frame ''b'' (Some ''stop''))), (4, In (bot_frame ''c'' None))]
      = pre @ [(4, In (bot_frame ''c'' None))]
    \<and> ''ab'' = text_of (concat (map fr_msg (bot_frames pre))) (\<exists>f \<in> set (bot_frames pre). fr_control_payload f)"
proof -
  have "await_turn 60 8 (await_start 0)
      [(2, In (bot_frame ''a'' None)), (3, In (bot_frame ''b'' (Some ''stop''))), (4, In (bot_frame ''c'' None))]
    = (Turn \<lparr> bt_text = ''ab'', bt_options = [], bt_step = Some 0 \<rparr>, 3, [(4, In (bot_frame ''c'' None))])"
    by code_simp
  from turn_text_is_accumulated[OF this] show ?thesis by auto
qed

lemma await_bounded:
  "aw_now a \<le> deadline \<Longrightarrow> fst (snd (await_turn deadline gap a evs)) \<le> deadline"
proof (induction evs arbitrary: a)
  case Nil
  then show ?case
    by (auto simp: await_turn.simps Let_def at_limit_def wait_limit_def split: option.splits)
next
  case (Cons e evs)
  obtain t i where e: "e = (t, i)" by (cases e)
  show ?case
  proof (cases i)
    case (Hangup r)
    then show ?thesis using Cons.prems e
      by (auto simp: await_turn.simps[of _ _ a] Let_def at_limit_def wait_limit_def split: option.splits)
  next
    case (In f)
    have "wait_limit deadline gap a \<le> deadline" by (simp add: wait_limit_def)
    then show ?thesis
      using Cons.prems e In Cons.IH[of "a\<lparr> aw_now := max (aw_now a) t \<rparr>"] Cons.IH[of "hear (max (aw_now a) t) f a"]
      by (auto simp: await_turn.simps[of _ _ a] Let_def at_limit_def split: option.splits)
  qed
qed

lemma await_timeout_needs_bot:
  "await_turn deadline gap a evs = (Timed_out st, u, rest) \<Longrightarrow> aw_now a \<le> deadline \<Longrightarrow> u < deadline \<Longrightarrow>
   aw_heard a \<or> bot_frames evs \<noteq> []"
proof (induction evs arbitrary: a)
  case Nil
  then show ?case
    by (auto simp: await_turn.simps Let_def at_limit_def wait_limit_def split: option.splits if_splits)
next
  case (Cons e evs)
  obtain t i where e: "e = (t, i)" by (cases e)
  show ?case
  proof (cases i)
    case (Hangup r)
    then show ?thesis using Cons.prems e
      by (auto simp: await_turn.simps[of _ _ a] Let_def at_limit_def wait_limit_def split: option.splits if_splits)
  next
    case (In f)
    show ?thesis
    proof (cases "fr_source f = ''bot''")
      case True
      then show ?thesis using e In by simp
    next
      case False
      have IH: "aw_heard a \<or> bot_frames evs \<noteq> []"
        if "await_turn deadline gap (a\<lparr> aw_now := max (aw_now a) t \<rparr>) evs = (Timed_out st, u, rest)" "t < deadline"
        using Cons.IH[OF that(1)] Cons.prems(2,3) that(2) by simp
      have "wait_limit deadline gap a \<le> deadline" by (simp add: wait_limit_def)
      then show ?thesis using Cons.prems False e In IH
        by (auto simp: await_turn.simps[of _ _ a] Let_def at_limit_def wait_limit_def
            split: option.splits if_splits)
    qed
  qed
qed

text \<open>C12: waiting is bounded, and the idle gap never shortens the wait for the bot's first word.
  Awaiting always returns, no later than the deadline; and it reports a timeout before the
  deadline only if the bot had been heard.\<close>

theorem await_deadline:
  assumes "0 \<le> timeout"
  shows "case await_turn (now + timeout) gap (await_start now) evs of (r, u, rest) \<Rightarrow>
    u \<le> now + timeout \<and> (\<forall>st. r = Timed_out st \<and> bot_frames evs = [] \<longrightarrow> u = now + timeout)"
proof -
  obtain r u rest where run: "await_turn (now + timeout) gap (await_start now) evs = (r, u, rest)"
    by (metis prod_cases3)
  have "aw_now (await_start now) \<le> now + timeout" "\<not> aw_heard (await_start now)"
    using assms by (simp_all add: await_start_def)
  then show ?thesis
    using await_bounded[of "await_start now" "now + timeout" gap evs] await_timeout_needs_bot run
    by (fastforce simp: run)
qed

lemma await_deadline_witness:
  "fst (snd (await_turn (0 + 45) 8 (await_start 0) [(1, In (echo_frame ''hi''))])) = 45"
  using await_deadline[where timeout = 45 and now = 0 and gap = 8 and evs = "[(1, In (echo_frame ''hi''))]"]
  by (simp add: await_turn.simps await_start_def Let_def echo_frame_def wait_limit_def at_limit_def flush_def)

section \<open>The clock only moves forward\<close>

lemma settle_forward: "now \<le> fst (snd (settle acks deadline now evs))"
proof (induction acks deadline now evs rule: settle.induct)
  case (1 acks deadline now evs)
  show ?case
  proof (cases "hung_up now evs = None \<and> now < deadline")
    case False
    then show ?thesis by (subst settle.simps) (auto split: option.splits)
  next
    case open': True
    show ?thesis
    proof (cases evs)
      case Nil
      then show ?thesis using open' by (subst settle.simps) auto
    next
      case (Cons e rest)
      obtain t x where e: "e = (t, x)" by (cases e)
      show ?thesis
      proof (cases x)
        case (In f)
        have "max now t \<le> fst (snd (settle acks deadline (max now t) rest))"
          if "t < deadline" "fr_source f \<notin> set acks" "fr_source f \<noteq> ''bot''"
          using 1 open' Cons e In that by auto
        then show ?thesis using open' Cons e In
          by (subst settle.simps) (auto simp: Let_def split: option.splits)
      next
        case (Hangup r)
        then show ?thesis using open' Cons e by (subst settle.simps) (auto split: if_splits)
      qed
    qed
  qed
qed

lemma await_forward: "aw_now a \<le> fst (snd (await_turn deadline gap a evs))"
proof (induction deadline gap a evs rule: await_turn.induct)
  case (1 deadline gap a evs)
  show ?case
  proof (cases "hung_up (aw_now a) evs = None \<and> aw_now a < wait_limit deadline gap a")
    case False
    then show ?thesis by (subst await_turn.simps) (auto simp: Let_def split: option.splits)
  next
    case open': True
    show ?thesis
    proof (cases "\<exists>t f rest. evs = (t, In f) # rest \<and> t < wait_limit deadline gap a")
      case False
      then show ?thesis using open'
        by (subst await_turn.simps)
          (auto simp: Let_def at_limit_def split: option.splits list.splits inbound.splits)
    next
      case True
      then obtain t f rest where evs: "evs = (t, In f) # rest" "t < wait_limit deadline gap a" by blast
      have skip: "aw_now a \<le> fst (snd (await_turn deadline gap (a\<lparr> aw_now := max (aw_now a) t \<rparr>) rest))"
        if "fr_source f = ''user'' \<or> (fr_source f \<noteq> ''user'' \<and> \<not> (fr_source f = ''system'' \<and> fr_error f \<noteq> []) \<and> fr_source f \<noteq> ''bot'')"
        using that 1(1,2)[of "wait_limit deadline gap a" "(t, In f)" rest t "In f" f "max (aw_now a) t"] open' evs
        by force
      have go: "aw_now a \<le> fst (snd (await_turn deadline gap (hear (max (aw_now a) t) f a) rest))"
        if "fr_source f = ''bot''" "\<not> ends_turn f"
        using that 1(3)[of "wait_limit deadline gap a" "(t, In f)" rest t "In f" f "max (aw_now a) t"] open' evs
        by force
      show ?thesis using open' evs skip go
        by (subst await_turn.simps) (auto simp: Let_def)
    qed
  qed
qed

lemma open_channel_forward: "now \<le> snd (open_channel wire address serial r s now)"
  using settle_forward[of now "hs_ack_types (rm_handshake r)" "now + hs_settle_ms (rm_handshake r)"]
  by (auto simp: open_channel_def Let_def split: sum.splits prod.splits) (metis fst_conv snd_conv)+

lemma send_forward: "now \<le> fst (snd (send_and_await_turn wire t timeout gap now c))"
proof -
  have "now \<le> u" if "await_turn (now + timeout) gap (await_start now) evs = (r, u, rest)" for evs r u rest
    using await_forward[of "await_start now" "now + timeout" gap evs] that by (simp add: await_start_def)
  then show ?thesis
    by (auto simp: send_and_await_turn_def Let_def split: sum.splits prod.splits)
qed

end
