(* ===== verification/Channel_Pool.thy ===== *)
theory Channel_Pool
  imports Ws_Channel Sample
begin

text \<open>
  \<open>integrations/mitra/session_manager.py\<close>: the pool of open channels, keyed by conversation.

  \<open>pl_chans\<close> is the \<open>OrderedDict\<close>, least recently used first. A channel the pool drops is also
  closed; nothing refers to it afterwards, so it is simply gone. Operations run under the
  pool's lock and are atomic. The interface the rest of the program relies on is the locale
  \<open>keyed_pool\<close>.
\<close>

record pool =
  pl_chans :: "(uuid \<times> channel) list"
  pl_last_used :: "(uuid \<times> int) list"

definition empty_pool :: pool where
  "empty_pool = \<lparr> pl_chans = [], pl_last_used = [] \<rparr>"

definition without :: "'k \<Rightarrow> ('k \<times> 'v) list \<Rightarrow> ('k \<times> 'v) list" where
  "without k kvs = filter (\<lambda>kv. fst kv \<noteq> k) kvs"

definition pool_get :: "pool \<Rightarrow> uuid \<Rightarrow> channel option" where
  "pool_get p k = map_of (pl_chans p) k"

definition last_used :: "pool \<Rightarrow> uuid \<Rightarrow> int option" where
  "last_used p k = map_of (pl_last_used p) k"

text \<open>\<open>pop\<close> in both dictionaries.\<close>

definition pool_drop :: "uuid \<Rightarrow> pool \<Rightarrow> pool" where
  "pool_drop k p = \<lparr> pl_chans = without k (pl_chans p), pl_last_used = without k (pl_last_used p) \<rparr>"

text \<open>Assignment at a key followed by \<open>move_to_end\<close>, or insertion of a new key: in both cases the
  key ends up last.\<close>

definition pool_put :: "uuid \<Rightarrow> channel \<Rightarrow> int \<Rightarrow> pool \<Rightarrow> pool" where
  "pool_put k ch now p = \<lparr> pl_chans = without k (pl_chans p) @ [(k, ch)],
     pl_last_used = (k, now) # without k (pl_last_used p) \<rparr>"

text \<open>Assignment at an existing key, order kept.\<close>

definition pool_set :: "uuid \<Rightarrow> channel \<Rightarrow> pool \<Rightarrow> pool" where
  "pool_set k ch p = p\<lparr> pl_chans := map (\<lambda>(j, c). (j, if j = k then ch else c)) (pl_chans p) \<rparr>"

text \<open>\<open>_evict_if_needed\<close>; \<open>next(iter(...))\<close> of an empty dictionary raises \<open>StopIteration\<close>, which
  a limit of zero or less leads to.\<close>

function evict_if_needed :: "int \<Rightarrow> pool \<Rightarrow> (exc + unit) \<times> pool" where
  "evict_if_needed mx p =
     (if mx \<le> int (length (pl_chans p)) then
        (case pl_chans p of
           [] \<Rightarrow> (Inl StopIteration, p)
         | (k, _) # _ \<Rightarrow> evict_if_needed mx (pool_drop k p))
      else (Inr (), p))"
  by pat_completeness auto
termination
  by (relation "measure (\<lambda>(m, p). length (pl_chans p))")
    (auto simp: pool_drop_def without_def less_Suc_eq_le)

declare evict_if_needed.simps [simp del]

record pool_world =
  pw_pool :: pool
  pw_now :: int
  pw_serial :: nat

record pool_cfg =
  pc_max :: int
  pc_idle_close :: int
  pc_wire :: wire
  pc_address :: json

type_synonym 'a poolact = "(pool_world, exc, 'a) act"

section \<open>Operations\<close>

definition connect :: "pool_cfg \<Rightarrow> remote_spec \<Rightarrow> session_view \<Rightarrow> channel poolact" where
  "connect cfg r s = (\<lambda>w.
     case open_channel (pc_wire cfg) (pc_address cfg) (pw_serial w) r s (pw_now w) of
       (res, u) \<Rightarrow> (res, w\<lparr> pw_now := u, pw_serial := pw_serial w + 1 \<rparr>))"

definition acquire_miss :: "pool_cfg \<Rightarrow> remote_spec \<Rightarrow> session_view \<Rightarrow> unit poolact" where
  "acquire_miss cfg r s =
     andthen (\<lambda>w. case evict_if_needed (pc_max cfg) (pw_pool w) of (res, p) \<Rightarrow> (res, w\<lparr> pw_pool := p \<rparr>)) (\<lambda>_.
     andthen (connect cfg r s) (\<lambda>ch.
     modify (\<lambda>w. w\<lparr> pw_pool := pool_put (sv_conversation_id s) ch (pw_now w) (pw_pool w) \<rparr>)))"

definition acquire :: "pool_cfg \<Rightarrow> remote_spec \<Rightarrow> session_view \<Rightarrow> unit poolact" where
  "acquire cfg r s = (\<lambda>w. let k = sv_conversation_id s in
     case pool_get (pw_pool w) k of
       Some ch \<Rightarrow>
         if channel_alive (pw_now w) ch
         then (Inr (), w\<lparr> pw_pool := pool_put k ch (pw_now w) (pw_pool w) \<rparr>)
         else acquire_miss cfg r s (w\<lparr> pw_pool := pool_drop k (pw_pool w) \<rparr>)
     | None \<Rightarrow> acquire_miss cfg r s w)"

definition pool_close :: "uuid \<Rightarrow> unit poolact" where
  "pool_close k = modify (\<lambda>w. w\<lparr> pw_pool := pool_drop k (pw_pool w) \<rparr>)"

definition reacquire :: "pool_cfg \<Rightarrow> remote_spec \<Rightarrow> session_view \<Rightarrow> unit poolact" where
  "reacquire cfg r s = andthen (pool_close (sv_conversation_id s)) (\<lambda>_. acquire cfg r s)"

definition close_all :: "unit poolact" where
  "close_all = modify (\<lambda>w. w\<lparr> pw_pool := empty_pool \<rparr>)"

definition stale_ids :: "int \<Rightarrow> int \<Rightarrow> pool \<Rightarrow> uuid list" where
  "stale_ids idle now p = map fst (filter (\<lambda>(k, ch). \<not> channel_alive now ch \<or>
     idle \<le> now - (case last_used p k of None \<Rightarrow> now | Some t \<Rightarrow> t)) (pl_chans p))"

definition reap_once :: "pool_cfg \<Rightarrow> unit poolact" where
  "reap_once cfg = modify (\<lambda>w. w\<lparr> pw_pool :=
     fold pool_drop (stale_ids (pc_idle_close cfg) (pw_now w) (pw_pool w)) (pw_pool w) \<rparr>)"

text \<open>A turn on the channel the pool holds for a conversation. \<open>KeyError\<close> cannot happen after
  \<open>acquire\<close>.\<close>

definition channel_turn :: "pool_cfg \<Rightarrow> uuid \<Rightarrow> string \<Rightarrow> int \<Rightarrow> int \<Rightarrow> bot_turn poolact" where
  "channel_turn cfg k t timeout gap = (\<lambda>w.
     case pool_get (pw_pool w) k of
       None \<Rightarrow> (Inl (KeyError ''channel''), w)
     | Some ch \<Rightarrow>
         (case send_and_await_turn (pc_wire cfg) t timeout gap (pw_now w) ch of
            (res, u, ch') \<Rightarrow> (res, w\<lparr> pw_now := u, pw_pool := pool_set k ch' (pw_pool w) \<rparr>)))"

section \<open>The interface of a pool\<close>

text \<open>What the handlers rely on: a key finds what was put there last, dropping a key removes it and
  nothing else, and no operation moves a channel to another key.\<close>

locale keyed_pool =
  fixes wf :: "'p \<Rightarrow> bool"
    and get :: "'p \<Rightarrow> 'k \<Rightarrow> 'c option"
    and put :: "'k \<Rightarrow> 'c \<Rightarrow> int \<Rightarrow> 'p \<Rightarrow> 'p"
    and drop_key :: "'k \<Rightarrow> 'p \<Rightarrow> 'p"
    and fresh :: 'p
  assumes wf_fresh: "wf fresh"
    and wf_put: "wf p \<Longrightarrow> wf (put k c t p)"
    and wf_drop: "wf p \<Longrightarrow> wf (drop_key k p)"
    and get_fresh: "get fresh k = None"
    and get_put: "get (put k c t p) j = (if j = k then Some c else get p j)"
    and get_drop: "get (drop_key k p) j = (if j = k then None else get p j)"
begin

text \<open>A property of (key, channel) pairs that holds of what is put holds of what is found.\<close>

definition all_owned :: "('k \<Rightarrow> 'c \<Rightarrow> bool) \<Rightarrow> 'p \<Rightarrow> bool" where
  "all_owned Q p \<longleftrightarrow> wf p \<and> (\<forall>k c. get p k = Some c \<longrightarrow> Q k c)"

lemma owned_fresh: "all_owned Q fresh"
  by (simp add: all_owned_def get_fresh wf_fresh)

lemma owned_put: "all_owned Q p \<Longrightarrow> Q k c \<Longrightarrow> all_owned Q (put k c t p)"
  by (simp add: all_owned_def get_put wf_put)

lemma owned_drop: "all_owned Q p \<Longrightarrow> all_owned Q (drop_key k p)"
  by (simp add: all_owned_def get_drop wf_drop)

lemma owned_fold_drop: "all_owned Q p \<Longrightarrow> all_owned Q (fold drop_key ks p)"
  by (induction ks arbitrary: p) (auto intro: owned_drop)

lemma get_fold_drop: "get (fold drop_key ks p) j = (if j \<in> set ks then None else get p j)"
  by (induction ks arbitrary: p) (auto simp: get_drop)

end

definition pool_wf :: "pool \<Rightarrow> bool" where
  "pool_wf p \<longleftrightarrow> distinct (map fst (pl_chans p)) \<and> distinct (map fst (pl_last_used p))
     \<and> set (map fst (pl_last_used p)) = set (map fst (pl_chans p))"

lemma map_of_without: "map_of (without k kvs) j = (if j = k then None else map_of kvs j)"
  by (induction kvs) (auto simp: without_def)

lemma keys_without: "fst ` set (without k kvs) = fst ` set kvs - {k}"
  by (auto simp: without_def)

lemma distinct_without: "distinct (map fst kvs) \<Longrightarrow> distinct (map fst (without k kvs))"
  unfolding without_def by (rule distinct_map_filter)

interpretation mp: keyed_pool pool_wf pool_get pool_put pool_drop empty_pool
proof
  show "pool_wf empty_pool" by (simp add: pool_wf_def empty_pool_def)
  show "pool_wf (pool_put k c t p)" if "pool_wf p" for p k c t
    using that by (simp add: pool_wf_def pool_put_def keys_without distinct_without)
  show "pool_wf (pool_drop k p)" if "pool_wf p" for p k
    using that by (simp add: pool_wf_def pool_drop_def keys_without distinct_without)
  show "pool_get empty_pool k = None" for k by (simp add: pool_get_def empty_pool_def)
  show "pool_get (pool_put k c t p) j = (if j = k then Some c else pool_get p j)" for k c t p j
    by (auto simp: pool_get_def pool_put_def map_of_without map_add_def split: option.splits)
  show "pool_get (pool_drop k p) j = (if j = k then None else pool_get p j)" for k p j
    by (simp add: pool_get_def pool_drop_def map_of_without)
qed

lemma pool_get_set: "pool_get (pool_set k ch p) j =
    (if j = k then (case pool_get p k of None \<Rightarrow> None | Some _ \<Rightarrow> Some ch) else pool_get p j)"
proof -
  have "map_of (map (\<lambda>(i, c). (i, if i = k then ch else c)) kvs) j =
      (if j = k then (case map_of kvs k of None \<Rightarrow> None | Some _ \<Rightarrow> Some ch) else map_of kvs j)" for kvs
    by (induction kvs) auto
  then show ?thesis by (simp add: pool_get_def pool_set_def)
qed

lemma pool_wf_set: "pool_wf p \<Longrightarrow> pool_wf (pool_set k ch p)"
proof -
  assume "pool_wf p"
  moreover have "map fst (pl_chans (pool_set k ch p)) = map fst (pl_chans p)"
    by (simp add: pool_set_def split_beta comp_def)
  moreover have "pl_last_used (pool_set k ch p) = pl_last_used p" by (simp add: pool_set_def)
  ultimately show ?thesis unfolding pool_wf_def by (simp only:)
qed

section \<open>Size and ownership\<close>

lemma evict_owned: "mp.all_owned Q p \<Longrightarrow> mp.all_owned Q (snd (evict_if_needed mx p))"
proof (induction mx p rule: evict_if_needed.induct)
  case (1 mx p)
  show ?case
  proof (cases "mx \<le> int (length (pl_chans p))")
    case True
    show ?thesis
    proof (cases "pl_chans p")
      case Nil
      then show ?thesis using True "1.prems" by (simp add: evict_if_needed.simps[of mx p])
    next
      case (Cons kc kcs)
      then show ?thesis using True "1.IH"[OF True Cons _] "1.prems"
        by (cases kc) (simp add: evict_if_needed.simps[of mx p] mp.owned_drop)
    qed
  qed (use "1.prems" in \<open>simp add: evict_if_needed.simps[of mx p]\<close>)
qed

lemma evict_room: "evict_if_needed mx p = (Inr (), p') \<Longrightarrow> int (length (pl_chans p')) < mx"
proof (induction mx p rule: evict_if_needed.induct)
  case (1 mx p)
  then show ?case
    by (cases "pl_chans p") (auto simp: evict_if_needed.simps[of mx p] split: if_splits)
qed

lemma evict_total: "1 \<le> mx \<Longrightarrow> fst (evict_if_needed mx p) = Inr ()"
proof (induction mx p rule: evict_if_needed.induct)
  case (1 mx p)
  then show ?case
    by (cases "pl_chans p") (auto simp: evict_if_needed.simps[of mx p])
qed

text \<open>The two invariants of the pool, for any ownership condition \<open>Q\<close> on what a connection to a
  conversation first sent: well-formed keys, at most \<open>mx\<close> channels, every channel under the
  conversation it was opened for.\<close>

definition opened_for :: "(uuid \<Rightarrow> json \<Rightarrow> bool) \<Rightarrow> uuid \<Rightarrow> channel \<Rightarrow> bool" where
  "opened_for Q k ch \<longleftrightarrow> ch_sent ch \<noteq> [] \<and> Q k (hd (ch_sent ch))"

definition pool_ok :: "int \<Rightarrow> (uuid \<Rightarrow> json \<Rightarrow> bool) \<Rightarrow> pool_world \<Rightarrow> bool" where
  "pool_ok mx Q w \<longleftrightarrow> mp.all_owned (opened_for Q) (pw_pool w) \<and> int (length (pl_chans (pw_pool w))) \<le> mx"

lemma length_without_le: "length (without k kvs) \<le> length kvs"
  by (simp add: without_def)

lemma length_without_key: "k \<in> fst ` set kvs \<Longrightarrow> length (without k kvs) < length kvs"
proof -
  assume "k \<in> fst ` set kvs"
  then obtain x where "x \<in> set kvs" "fst x = k" by auto
  then show ?thesis unfolding without_def by (intro length_filter_less[of x]) auto
qed

lemma pool_ok_drop: "pool_ok mx Q w \<Longrightarrow> pool_ok mx Q (w\<lparr> pw_pool := pool_drop k (pw_pool w) \<rparr>)"
  using length_without_le[of k "pl_chans (pw_pool w)"]
  by (simp add: pool_ok_def mp.owned_drop) (simp add: pool_drop_def)

lemma pool_ok_fold_drop: "pool_ok mx Q w \<Longrightarrow> pool_ok mx Q (w\<lparr> pw_pool := fold pool_drop ks (pw_pool w) \<rparr>)"
proof (induction ks arbitrary: w)
  case (Cons k ks)
  from Cons.IH[OF pool_ok_drop[OF Cons.prems, of k]] show ?case by simp
qed simp

lemma open_channel_sent:
  "open_channel wire address n r s now = (Inr ch, u) \<Longrightarrow> ch_sent ch = [auth_json address r s]"
  by (auto simp: open_channel_def send_json_def Let_def split: sum.splits prod.splits)

lemma send_keeps_first:
  "send_and_await_turn wire t timeout gap now ch = (res, u, ch') \<Longrightarrow> opened_for Q k ch \<Longrightarrow> opened_for Q k ch'"
  by (auto simp: send_and_await_turn_def send_json_def drain_stale_def opened_for_def Let_def
      split: sum.splits prod.splits if_splits)

lemma pool_ok_acquire_miss:
  assumes "pool_ok mx Q w" and "pc_max cfg = mx" and "1 \<le> mx"
    and "Q (sv_conversation_id s) (auth_json (pc_address cfg) r s)"
  shows "pool_ok mx Q (snd (acquire_miss cfg r s w))"
proof -
  obtain p where p: "evict_if_needed mx (pw_pool w) = (Inr (), p)"
    using evict_total[OF assms(3), of "pw_pool w"] by (metis prod.collapse)
  have own: "mp.all_owned (opened_for Q) p"
    using evict_owned[of "opened_for Q" "pw_pool w" mx] assms(1) p by (simp add: pool_ok_def)
  have room: "int (length (pl_chans p)) < mx" using evict_room[OF p] .
  let ?w = "w\<lparr> pw_pool := p \<rparr>"
  obtain res u where oc: "open_channel (pc_wire cfg) (pc_address cfg) (pw_serial w) r s (pw_now w) = (res, u)"
    by (meson surj_pair)
  show ?thesis
  proof (cases res)
    case (Inl e)
    then show ?thesis using p oc own room assms(2)
      by (simp add: acquire_miss_def connect_def andthen_run pool_ok_def)
  next
    case (Inr ch)
    then have "opened_for Q (sv_conversation_id s) ch"
      using open_channel_sent[of "pc_wire cfg" "pc_address cfg" "pw_serial w" r s "pw_now w" ch u] oc assms(4)
      by (simp add: opened_for_def)
    then show ?thesis using p oc own room assms(2) Inr length_without_le[of "sv_conversation_id s" "pl_chans p"]
      by (simp add: acquire_miss_def connect_def andthen_run pool_ok_def mp.owned_put)
        (simp add: pool_put_def)
  qed
qed

lemma pool_ok_acquire:
  assumes "pool_ok mx Q w" and "pc_max cfg = mx" and "1 \<le> mx"
    and "Q (sv_conversation_id s) (auth_json (pc_address cfg) r s)"
  shows "pool_ok mx Q (snd (acquire cfg r s w))"
proof (cases "pool_get (pw_pool w) (sv_conversation_id s)")
  case None
  then show ?thesis using pool_ok_acquire_miss[OF assms] by (simp add: acquire_def Let_def)
next
  case (Some ch)
  let ?k = "sv_conversation_id s"
  show ?thesis
  proof (cases "channel_alive (pw_now w) ch")
    case True
    have "opened_for Q ?k ch" using assms(1) Some by (simp add: pool_ok_def mp.all_owned_def)
    moreover have "?k \<in> fst ` set (pl_chans (pw_pool w))"
      using Some by (auto simp: pool_get_def dest: map_of_SomeD intro: rev_image_eqI)
    then have "length (without ?k (pl_chans (pw_pool w))) < length (pl_chans (pw_pool w))"
      by (rule length_without_key)
    ultimately show ?thesis using assms(1) Some True
      by (simp add: acquire_def Let_def pool_ok_def mp.owned_put) (simp add: pool_put_def)
  next
    case False
    then show ?thesis using pool_ok_acquire_miss[OF pool_ok_drop[OF assms(1)] assms(2-4)] Some
      by (simp add: acquire_def Let_def)
  qed
qed

lemma pool_ok_channel_turn:
  assumes "pool_ok mx Q w"
  shows "pool_ok mx Q (snd (channel_turn cfg k t timeout gap w))"
proof (cases "pool_get (pw_pool w) k")
  case None
  then show ?thesis using assms by (simp add: channel_turn_def)
next
  case (Some ch)
  obtain res u ch' where st: "send_and_await_turn (pc_wire cfg) t timeout gap (pw_now w) ch = (res, u, ch')"
    by (metis prod_cases3)
  have "opened_for Q k ch'" using send_keeps_first[OF st] assms Some by (simp add: pool_ok_def mp.all_owned_def)
  then show ?thesis using assms Some st
    by (auto simp: channel_turn_def pool_ok_def mp.all_owned_def pool_get_set pool_wf_set)
      (simp add: pool_set_def)
qed

text \<open>Any history of pool operations in which every acquisition for a conversation presents a
  session that satisfies \<open>Q\<close> for that conversation.\<close>

inductive pool_step :: "pool_cfg \<Rightarrow> (uuid \<Rightarrow> json \<Rightarrow> bool) \<Rightarrow> pool_world \<Rightarrow> pool_world \<Rightarrow> bool"
  for cfg Q where
  pstep_acquire: "Q (sv_conversation_id s) (auth_json (pc_address cfg) r s) \<Longrightarrow>
     pool_step cfg Q w (snd (acquire cfg r s w))"
| pstep_reacquire: "Q (sv_conversation_id s) (auth_json (pc_address cfg) r s) \<Longrightarrow>
     pool_step cfg Q w (snd (reacquire cfg r s w))"
| pstep_turn: "pool_step cfg Q w (snd (channel_turn cfg k t timeout gap w))"
| pstep_close: "pool_step cfg Q w (snd (pool_close k w))"
| pstep_close_all: "pool_step cfg Q w (snd (close_all w))"
| pstep_reap: "pool_step cfg Q w (snd (reap_once cfg w))"
| pstep_clock: "pool_step cfg Q w (w\<lparr> pw_now := t \<rparr>)"

lemma pool_ok_step:
  assumes "pool_step cfg Q w w'" and "pool_ok (pc_max cfg) Q w" and "1 \<le> pc_max cfg"
  shows "pool_ok (pc_max cfg) Q w'"
  using assms
proof (induction rule: pool_step.induct)
  case (pstep_reacquire s r w)
  then show ?case using pool_ok_acquire[OF pool_ok_drop] by (simp add: reacquire_def pool_close_def)
next
  case (pstep_close_all w)
  then show ?case by (simp add: close_all_def pool_ok_def mp.owned_fresh) (simp add: empty_pool_def)
qed (simp_all add: pool_ok_acquire pool_ok_channel_turn pool_close_def pool_ok_drop reap_once_def
      pool_ok_fold_drop, simp add: pool_ok_def)

text \<open>C13: channels never cross conversations and the pool stays bounded. Whatever sequence of
  acquisitions, turns, closes, reaps and clock ticks runs from the empty pool, it never holds
  more than the configured number of channels, holds at most one per conversation, and the
  channel found for a conversation was authenticated with a session of that conversation.\<close>

theorem pool_bounded_and_owned:
  assumes "(pool_step cfg Q)\<^sup>*\<^sup>* \<lparr> pw_pool = empty_pool, pw_now = t, pw_serial = n \<rparr> w"
    and "1 \<le> pc_max cfg"
  shows "int (length (pl_chans (pw_pool w))) \<le> pc_max cfg \<and> distinct (map fst (pl_chans (pw_pool w)))
    \<and> (\<forall>k ch. pool_get (pw_pool w) k = Some ch \<longrightarrow> ch_sent ch \<noteq> [] \<and> Q k (hd (ch_sent ch)))"
proof -
  have "pool_ok (pc_max cfg) Q w" using assms
  proof (induction rule: rtranclp_induct)
    case base
    then show ?case by (simp add: pool_ok_def mp.owned_fresh) (simp add: empty_pool_def)
  qed (rule pool_ok_step)
  then show ?thesis by (simp add: pool_ok_def mp.all_owned_def pool_wf_def opened_for_def)
qed

definition quiet_cfg :: pool_cfg where
  "quiet_cfg = \<lparr> pc_max = 2, pc_idle_close = 600000, pc_wire = (\<lambda>n ms. Inr []), pc_address = JNull \<rparr>"

definition sample_view :: session_view where
  "sample_view = \<lparr> sv_id = 4, sv_conversation_id = 3, sv_agent_id = 2, sv_state = Awaiting_user,
     sv_remote_provider = None, sv_remote_session_id = Some ''r1'', sv_remote_profile_id = Some ''p1'',
     sv_remote_flow = None, sv_remote_bot_route = None, sv_language = ''en'', sv_step = 0,
     sv_turn_count = 1, sv_result_ref = None, sv_report_url = None, sv_error = None,
     sv_error_code = None, sv_state_data = JObj [] \<rparr>"

lemma pool_bounded_and_owned_witness:
  "let Q = (\<lambda>k m. k = 3 \<longrightarrow> m = auth_json JNull sample_remote sample_view);
       w = snd (acquire quiet_cfg sample_remote sample_view
             \<lparr> pw_pool = empty_pool, pw_now = 0, pw_serial = 0 \<rparr>)
   in \<exists>ch. pool_get (pw_pool w) 3 = Some ch \<and> Q 3 (hd (ch_sent ch))"
proof -
  let ?Q = "\<lambda>k m. k = 3 \<longrightarrow> m = auth_json JNull sample_remote sample_view"
  let ?start = "\<lparr> pw_pool = empty_pool, pw_now = 0, pw_serial = 0 \<rparr>"
  let ?w = "snd (acquire quiet_cfg sample_remote sample_view ?start)"
  have "?Q (sv_conversation_id sample_view) (auth_json (pc_address quiet_cfg) sample_remote sample_view)"
    by (simp add: quiet_cfg_def)
  from pstep_acquire[where Q = ?Q, OF this, of ?start] have step: "(pool_step quiet_cfg ?Q)\<^sup>*\<^sup>* ?start ?w"
    by (rule r_into_rtranclp)
  have "pool_get (pw_pool ?w) 3 \<noteq> None" by code_simp
  then obtain ch where "pool_get (pw_pool ?w) 3 = Some ch" by blast
  moreover have "1 \<le> pc_max quiet_cfg" by (simp add: quiet_cfg_def)
  ultimately show ?thesis
    using pool_bounded_and_owned[OF step] by (auto simp: Let_def)
qed

section \<open>The clock of the pool\<close>

definition time_flows :: "pool_world \<Rightarrow> pool_world \<Rightarrow> bool" where
  "time_flows w w' \<longleftrightarrow> pw_now w \<le> pw_now w'"

interpretation pclock: progress time_flows
  by unfold_locales (auto simp: time_flows_def)

lemma pclock_connect: "advances time_flows (connect cfg r s)"
  unfolding advances_def connect_def time_flows_def
  using open_channel_forward by (auto split: prod.splits) (metis snd_conv)

lemma pclock_acquire_miss: "advances time_flows (acquire_miss cfg r s)"
  unfolding acquire_miss_def
  by (intro pclock.adv pclock_connect) (auto simp: advances_def time_flows_def split: prod.splits)

lemma pclock_acquire: "advances time_flows (acquire cfg r s)"
proof (rule advancesI)
  fix w res w'
  assume run: "acquire cfg r s w = (res, w')"
  have miss: "time_flows v u" if "acquire_miss cfg r s v = (x, u)" for v u x
    by (rule advancesD[OF pclock_acquire_miss that])
  from run show "time_flows w w'"
    by (auto simp: acquire_def Let_def split: option.splits if_splits dest!: miss)
      (auto simp: time_flows_def)
qed

lemma pclock_reacquire: "advances time_flows (reacquire cfg r s)"
  unfolding reacquire_def pool_close_def
  by (intro pclock.adv pclock_acquire) (simp add: advances_def time_flows_def)

lemma pclock_turn: "advances time_flows (channel_turn cfg k t timeout gap)"
  unfolding advances_def channel_turn_def time_flows_def
  using send_forward by (auto split: option.splits prod.splits) (metis fst_conv snd_conv)

end
