(* ===== verification/Turn_Recovery.thy ===== *)
theory Turn_Recovery
  imports Domain
begin

text \<open>
  \<open>integrations/mitra/turn_recovery.py\<close>: what became of a turn the program stopped listening
  for, decided from the tail of Mitra's own transcript.
\<close>

datatype turn_outcome = Answered | Pending_reply | Not_delivered

record chat_row =
  cr_id :: int
  cr_from_user :: bool
  cr_message :: string
  cr_translated :: string
  cr_stage :: string

record reconciliation =
  rc_outcome :: turn_outcome
  rc_bot_text :: string
  rc_stage :: string
  rc_last_row_id :: "int option"

definition row_matches :: "string \<Rightarrow> chat_row \<Rightarrow> bool" where
  "row_matches text r = (let needle = strip text in
     needle \<noteq> [] \<and> needle \<in> set [strip (cr_message r), strip (cr_translated r)])"

definition our_row :: "string \<Rightarrow> chat_row \<Rightarrow> bool" where
  "our_row text r \<longleftrightarrow> cr_from_user r \<and> row_matches text r"

text \<open>The backward scan \<open>for i in range(len(rows) - 1, -1, -1)\<close>.\<close>

definition user_index :: "chat_row list \<Rightarrow> string \<Rightarrow> nat option" where
  "user_index rows text = find (\<lambda>i. our_row text (rows ! i)) (rev [0..<length rows])"

definition reconcile :: "chat_row list \<Rightarrow> string \<Rightarrow> reconciliation" where
  "reconcile rows text =
     (case user_index rows text of
        None \<Rightarrow> \<lparr> rc_outcome = Not_delivered, rc_bot_text = [], rc_stage = [],
          rc_last_row_id = (if rows = [] then None else Some (cr_id (last rows))) \<rparr>
      | Some i \<Rightarrow>
          (case find (\<lambda>r. \<not> cr_from_user r) (drop (Suc i) rows) of
             Some r \<Rightarrow> \<lparr> rc_outcome = Answered, rc_bot_text = strip (cr_message r),
               rc_stage = cr_stage r, rc_last_row_id = Some (cr_id r) \<rparr>
           | None \<Rightarrow> \<lparr> rc_outcome = Pending_reply, rc_bot_text = [], rc_stage = [],
               rc_last_row_id = Some (cr_id (last rows)) \<rparr>))"

lemma find_append: "find p (xs @ ys) = (case find p xs of None \<Rightarrow> find p ys | Some x \<Rightarrow> Some x)"
  by (induction xs) auto

lemma user_index_last:
  assumes "our_row text u" and "\<forall>z \<in> set zs. \<not> our_row text z"
  shows "user_index (ys @ u # zs) text = Some (length ys)"
proof -
  let ?rows = "ys @ u # zs"
  have "[0..<length ys + Suc (length zs)] = [0..<length ys] @ [length ys..<length ys + Suc (length zs)]"
    by (rule upt_add_eq_append) simp
  moreover have "[length ys..<length ys + Suc (length zs)] = length ys # [Suc (length ys)..<length ys + Suc (length zs)]"
    by (rule upt_conv_Cons) simp
  ultimately have "[0..<length ?rows] = [0..<length ys] @ length ys # [Suc (length ys)..<length ?rows]"
    by (simp only: length_append list.size add_Suc_right add_0_right)
  moreover have "find (\<lambda>i. our_row text (?rows ! i)) (rev [Suc (length ys)..<length ?rows]) = None"
    using assms(2) by (auto simp: find_None_iff nth_append nth_Cons' )
  ultimately show ?thesis
    using assms(1) by (simp add: user_index_def find_append nth_append)
qed

lemma user_index_None: "user_index rows text = None \<longleftrightarrow> (\<forall>r \<in> set rows. \<not> our_row text r)"
  unfolding user_index_def find_None_iff by (simp add: all_set_conv_all_nth)

lemma our_row_cases [consumes 0, case_names none last]:
  obtains "\<forall>r \<in> set rows. \<not> our_row text r"
  | ys u zs where "rows = ys @ u # zs" "our_row text u" "\<forall>z \<in> set zs. \<not> our_row text z"
  using split_list_last_prop[of rows "our_row text"] by blast

lemma first_reply:
  "find (\<lambda>r. \<not> cr_from_user r) zs = Some b \<longleftrightarrow>
     (\<exists>mid post. zs = mid @ b # post \<and> (\<forall>m \<in> set mid. cr_from_user m) \<and> \<not> cr_from_user b)"
proof
  assume "find (\<lambda>r. \<not> cr_from_user r) zs = Some b"
  then show "\<exists>mid post. zs = mid @ b # post \<and> (\<forall>m \<in> set mid. cr_from_user m) \<and> \<not> cr_from_user b"
  proof (induction zs)
    case (Cons z zs)
    show ?case
    proof (cases "cr_from_user z")
      case True
      with Cons obtain mid post where "zs = mid @ b # post" "\<forall>m \<in> set mid. cr_from_user m" "\<not> cr_from_user b"
        by auto
      with True show ?thesis by (intro exI[of _ "z # mid"] exI[of _ post]) auto
    next
      case False
      with Cons.prems show ?thesis by (intro exI[of _ "[]"] exI[of _ zs]) auto
    qed
  qed simp
next
  assume "\<exists>mid post. zs = mid @ b # post \<and> (\<forall>m \<in> set mid. cr_from_user m) \<and> \<not> cr_from_user b"
  then obtain mid post where z: "zs = mid @ b # post" "\<forall>m \<in> set mid. cr_from_user m" "\<not> cr_from_user b"
    by blast
  have "find (\<lambda>r. \<not> cr_from_user r) mid = None" using z(2) by (simp add: find_None_all)
  with z show "find (\<lambda>r. \<not> cr_from_user r) zs = Some b" by (simp add: find_append)
qed

text \<open>C15: reconciliation decides from the most recent of our rows. The outcome is
  \<open>NOT_DELIVERED\<close> exactly when no user row carries the text; otherwise, with \<open>u\<close> the last
  matching user row, it is \<open>ANSWERED\<close> with the text of the first bot row after \<open>u\<close> when there
  is one, and \<open>PENDING\<close> when only user rows follow. A reply to an identical answer given earlier
  is therefore never claimed.\<close>

theorem reconcile_correct:
  "rc_outcome (reconcile rows text) = Not_delivered \<and> list_all (\<lambda>r. \<not> our_row text r) rows \<or>
   (\<exists>pre u rest. rows = pre @ u # rest \<and> our_row text u \<and> list_all (\<lambda>r. \<not> our_row text r) rest \<and>
     (rc_outcome (reconcile rows text) = Pending_reply \<and> list_all cr_from_user rest \<or>
      (\<exists>mid b post. rest = mid @ b # post \<and> list_all cr_from_user mid \<and> \<not> cr_from_user b
        \<and> rc_outcome (reconcile rows text) = Answered
        \<and> rc_bot_text (reconcile rows text) = strip (cr_message b)
        \<and> rc_last_row_id (reconcile rows text) = Some (cr_id b))))"
proof (cases rule: our_row_cases[of rows "text"])
  case none
  then have "user_index rows text = None" by (simp only: user_index_None)
  with none show ?thesis by (simp add: reconcile_def list_all_iff)
next
  case (last ys u zs)
  have idx: "user_index rows text = Some (length ys)" using last by (simp add: user_index_last)
  have "rc_outcome (reconcile rows text) = Pending_reply \<and> list_all cr_from_user zs \<or>
      (\<exists>mid b post. zs = mid @ b # post \<and> list_all cr_from_user mid \<and> \<not> cr_from_user b
        \<and> rc_outcome (reconcile rows text) = Answered
        \<and> rc_bot_text (reconcile rows text) = strip (cr_message b)
        \<and> rc_last_row_id (reconcile rows text) = Some (cr_id b))"
  proof (cases "find (\<lambda>r. \<not> cr_from_user r) zs")
    case None
    then have "list_all cr_from_user zs" by (simp add: find_None_all list_all_iff)
    with None idx show ?thesis by (simp add: reconcile_def last(1))
  next
    case (Some b)
    then obtain mid post where "zs = mid @ b # post" "list_all cr_from_user mid" "\<not> cr_from_user b"
      unfolding first_reply list_all_iff by blast
    with Some idx show ?thesis by (simp add: reconcile_def last(1)) blast
  qed
  with last show ?thesis unfolding list_all_iff by blast
qed

lemma reconcile_Answered_user_text:
  "rc_outcome (reconcile rows text) = Answered \<Longrightarrow> strip text \<noteq> []"
  by (auto simp: reconcile_def user_index_def our_row_def row_matches_def Let_def
      split: option.splits dest!: find_Some_in)

end
