(* ===== verification/Rest_Client.thy ===== *)
theory Rest_Client
  imports Turn_Recovery
begin

text \<open>
  \<open>integrations/mitra/rest_client.py\<close>: the five Mitra endpoints.

  The state of an action is the log of requests sent so far. The network is the parameter
  \<open>net\<close>: from the log and a request to a reply, \<open>Reply\<close> with a status and the decoded JSON body
  (\<open>None\<close> when the body is not JSON), or \<open>Net_fail\<close> for a \<open>RequestException\<close>. Indexing and
  \<open>.get\<close> on a value of the wrong type raise what Python raises.

  \<open>url_parts\<close> is \<open>urllib.parse.urlsplit\<close> with \<open>hostname\<close>; the IP-literal check newer Python
  versions make on a bracketed host is the parameter \<open>rs_bracket_ok\<close>.
\<close>

record http_req =
  rq_method :: string
  rq_url :: string
  rq_json :: "json option"
  rq_params :: "(string \<times> json) list"
  rq_headers :: "(string \<times> string) list"

datatype http_reply = Net_fail | Reply int "json option"

type_synonym network = "http_req list \<Rightarrow> http_req \<Rightarrow> http_reply"
type_synonym 'a restact = "(http_req list, exc, 'a) act"

record mitra_paths =
  mp_profile :: string
  mp_generate_session :: string
  mp_chat :: string
  mp_get_story :: string
  mp_finalize_v1 :: string
  mp_finalize_v2 :: string

definition default_paths :: mitra_paths where
  "default_paths = \<lparr> mp_profile = ''/api/profile/'', mp_generate_session = ''/api/generate-session/'',
     mp_chat = ''/api/companychat/'', mp_get_story = ''/api/get-story/'',
     mp_finalize_v1 = ''/api/end-story/'', mp_finalize_v2 = ''/api/end-story/v2/'' \<rparr>"

definition is_v2_finalize :: "mitra_paths \<Rightarrow> string \<Rightarrow> bool" where
  "is_v2_finalize p path \<longleftrightarrow> strip_chars ''/'' path = strip_chars ''/'' (mp_finalize_v2 p)"

definition is_known_finalize :: "mitra_paths \<Rightarrow> string \<Rightarrow> bool" where
  "is_known_finalize p path \<longleftrightarrow> strip_chars ''/'' path \<in>
     set [strip_chars ''/'' (mp_finalize_v1 p), strip_chars ''/'' (mp_finalize_v2 p)]"

record rest_client =
  rs_base_url :: string
  rs_origin :: string
  rs_allowed_hosts :: "string list"
  rs_paths :: mitra_paths
  rs_bracket_ok :: "string \<Rightarrow> bool"

section \<open>URLs\<close>

definition c0_or_space :: "char \<Rightarrow> bool" where
  "c0_or_space c \<longleftrightarrow> code c \<le> 32"

definition is_ascii_alpha :: "char \<Rightarrow> bool" where
  "is_ascii_alpha c \<longleftrightarrow> (let n = code c in (65 \<le> n \<and> n \<le> 90) \<or> (97 \<le> n \<and> n \<le> 122))"

definition scheme_char :: "char \<Rightarrow> bool" where
  "scheme_char c \<longleftrightarrow> is_ascii_alpha c \<or> (let n = code c in 48 \<le> n \<and> n \<le> 57) \<or> c \<in> set ''+-.''"

definition split_scheme :: "string \<Rightarrow> string \<times> string" where
  "split_scheme u =
     (let s = takeWhile (\<lambda>c. c \<noteq> CHR '':'') u; r = dropWhile (\<lambda>c. c \<noteq> CHR '':'') u
      in if s \<noteq> [] \<and> r \<noteq> [] \<and> is_ascii_alpha (hd s) \<and> list_all scheme_char s
         then (lower s, tl r) else ([], u))"

text \<open>The part after the last occurrence of a character, all of it when there is none.\<close>

definition after_last :: "char \<Rightarrow> string \<Rightarrow> string" where
  "after_last c s = rev (takeWhile (\<lambda>x. x \<noteq> c) (rev s))"

definition hostname_of :: "string \<Rightarrow> string" where
  "hostname_of netloc =
     (let info = after_last (CHR ''@'') netloc
      in lower (if CHR ''['' \<in> set info
                then takeWhile (\<lambda>c. c \<noteq> CHR '']'') (tl (dropWhile (\<lambda>c. c \<noteq> CHR ''['') info))
                else takeWhile (\<lambda>c. c \<noteq> CHR '':'') info))"

definition url_parts :: "(string \<Rightarrow> bool) \<Rightarrow> string \<Rightarrow> exc + (string \<times> string)" where
  "url_parts bracket_ok url =
     (let u = filter (\<lambda>c. c \<notin> {char_of (9::nat), char_of (10::nat), char_of (13::nat)})
                (dropWhile c0_or_space url);
          (scheme, rest) = split_scheme u;
          netloc = (if starts_with ''//'' rest
                    then takeWhile (\<lambda>c. c \<notin> set ''/?#'') (drop 2 rest) else [])
      in if (CHR ''['' \<in> set netloc) \<noteq> (CHR '']'' \<in> set netloc) then Inl (ValueError ''Invalid IPv6 URL'')
         else if CHR ''['' \<in> set netloc \<and> \<not> bracket_ok netloc then Inl (ValueError ''Invalid IPv6 URL'')
         else Inr (scheme, hostname_of netloc))"

definition validate_url :: "rest_client \<Rightarrow> string \<Rightarrow> exc + unit" where
  "validate_url c url =
     (case url_parts (rs_bracket_ok c) url of
        Inl e \<Rightarrow> Inl e
      | Inr (scheme, host) \<Rightarrow>
          if scheme \<noteq> ''https'' then Inl (Mitra MitraSSRFError)
          else if host \<notin> set (rs_allowed_hosts c) then Inl (Mitra MitraSSRFError)
          else Inr ())"

section \<open>Construction\<close>

record mitra_settings =
  st_base_url :: string
  st_origin_url :: string
  st_allowed_hosts :: string
  st_paths :: mitra_paths

definition make_client :: "(string \<Rightarrow> bool) \<Rightarrow> string \<Rightarrow> string \<Rightarrow> string list \<Rightarrow> mitra_paths \<Rightarrow> exc + rest_client" where
  "make_client bracket_ok base_url origin hosts paths =
     (case url_parts bracket_ok base_url of
        Inl e \<Rightarrow> Inl e
      | Inr (_, base_host) \<Rightarrow> Inr \<lparr> rs_base_url = rstrip_by (\<lambda>c. c = CHR ''/'') base_url,
          rs_origin = origin,
          rs_allowed_hosts = map (\<lambda>h. lower (strip h)) (filter (\<lambda>h. strip h \<noteq> []) (base_host # hosts)),
          rs_paths = paths, rs_bracket_ok = bracket_ok \<rparr>)"

definition client_from_settings :: "(string \<Rightarrow> bool) \<Rightarrow> mitra_settings \<Rightarrow> exc + rest_client" where
  "client_from_settings bracket_ok st = make_client bracket_ok (st_base_url st) (st_origin_url st)
     (map strip (filter (\<lambda>h. strip h \<noteq> []) (split_on (CHR '','') (st_allowed_hosts st)))) (st_paths st)"

section \<open>One request\<close>

text \<open>\<open>_extract_error_detail\<close>.\<close>

definition extract_error_detail :: "rest_client \<Rightarrow> json option \<Rightarrow> string option" where
  "extract_error_detail c body =
     (case body of
        Some (JObj d) \<Rightarrow>
          (let parts = map (\<lambda>k. py_str (jget d k))
                 (filter (\<lambda>k. truthy (jget d k)) [''error_message'', ''error_type'', ''detail'']);
               detail = take 300 (join '' | '' parts)
           in if parts = [] then None
              else if rs_origin c \<noteq> [] \<and> occurs_in (rs_origin c) detail then None
              else Some detail)
      | _ \<Rightarrow> None)"

definition request :: "network \<Rightarrow> rest_client \<Rightarrow> string \<Rightarrow> string \<Rightarrow> json option \<Rightarrow>
    (string \<times> json) list \<Rightarrow> (string \<times> string) list \<Rightarrow> json restact" where
  "request net c meth path body params headers = (\<lambda>hist.
     let req = \<lparr> rq_method = meth, rq_url = rs_base_url c @ path, rq_json = body,
                 rq_params = params, rq_headers = headers \<rparr>;
         hist' = hist @ [req]
     in (case net hist req of
           Net_fail \<Rightarrow> (Inl (Mitra (MitraError (''Network error calling Mitra '' @ meth @ '' '' @ path))), hist')
         | Reply st b \<Rightarrow>
             if 300 \<le> st \<and> st < 400 then (Inl (Mitra (MitraRedirectError st)), hist')
             else if 400 \<le> st
             then (Inl (Mitra (MitraHTTPError meth path st (extract_error_detail c b))), hist')
             else (case b of
                     None \<Rightarrow> (Inl (Mitra (MitraError (''Mitra '' @ meth @ '' '' @ path @ '' returned non-JSON body''))), hist')
                   | Some j \<Rightarrow> (Inr j, hist'))))"

text \<open>\<open>data.get(k)\<close> and \<open>data.get(k, default)\<close> on whatever the body was.\<close>

definition quoted :: "string \<Rightarrow> string" where
  "quoted s = [single_quote] @ s @ [single_quote]"

definition attr_get :: "json \<Rightarrow> exc" where
  "attr_get v = AttributeError (quoted (type_name v) @ '' object has no attribute '' @ quoted ''get'')"

fun dict_of :: "json \<Rightarrow> exc + (string \<times> json) list" where
  "dict_of (JObj d) = Inr d"
| "dict_of v = Inl (attr_get v)"

text \<open>The elements a \<open>for\<close> loop sees: a dict yields its keys, a string its characters.\<close>

fun iterate :: "json \<Rightarrow> exc + json list" where
  "iterate (JList vs) = Inr vs"
| "iterate (JObj d) = Inr (map (\<lambda>kv. JStr (fst kv)) d)"
| "iterate (JStr s) = Inr (map (\<lambda>c. JStr [c]) s)"
| "iterate v = Inl (TypeError (quoted (type_name v) @ '' object is not iterable''))"

text \<open>\<open>xs[0]\<close> and \<open>xs[-1]\<close> of a truthy value.\<close>

fun pick :: "string \<Rightarrow> (json list \<Rightarrow> json) \<Rightarrow> json \<Rightarrow> exc + json" where
  "pick ix sel (JList vs) = Inr (sel vs)"
| "pick ix sel (JStr s) = Inr (sel (map (\<lambda>c. JStr [c]) s))"
| "pick ix sel (JObj d) = Inl (KeyError ix)"
| "pick ix sel v = Inl (TypeError (quoted (type_name v) @ '' object is not subscriptable''))"

definition to_int :: "json \<Rightarrow> exc + int" where
  "to_int v = (case py_int v of Inr i \<Rightarrow> Inr i | Inl b \<Rightarrow>
     Inl (if b then ValueError ''OverflowError'' else ValueError ''invalid literal for int()''))"

section \<open>The endpoints\<close>

definition upsert_profile :: "network \<Rightarrow> rest_client \<Rightarrow> string \<Rightarrow> string \<Rightarrow> string \<Rightarrow> string restact" where
  "upsert_profile net c email flow company =
     andthen (request net c ''POST'' (mp_profile (rs_paths c))
       (Some (JObj [(''email'', JStr email), (''latest_flow_used'', JStr flow), (''company'', JStr company)])) [] [])
     (\<lambda>data. andthen (of_sum (dict_of data)) (\<lambda>d.
       let pid = por (jget d ''id'') (jget d ''profileid'')
       in if \<not> truthy pid
          then throw (Mitra (MitraError ''upsert_profile: response missing both 'id' and 'profileid' keys''))
          else ret (py_str pid)))"

definition generate_session :: "network \<Rightarrow> rest_client \<Rightarrow> string restact" where
  "generate_session net c =
     andthen (request net c ''GET'' (mp_generate_session (rs_paths c)) None [] []) (\<lambda>data.
     andthen (of_sum (dict_of data)) (\<lambda>d.
       if \<not> truthy (jget d ''sessionid'')
       then throw (Mitra (MitraError ''generate_session: response missing 'sessionid' key''))
       else ret (py_str (jget d ''sessionid''))))"

definition is_session_completed :: "network \<Rightarrow> rest_client \<Rightarrow> json \<Rightarrow> bool restact" where
  "is_session_completed net c sid =
     andthen (request net c ''GET'' (mp_chat (rs_paths c)) None [(''session'', sid)] []) (\<lambda>data.
     andthen (of_sum (dict_of data)) (\<lambda>d.
       let results = jget_default d ''results'' (JList [])
       in if \<not> truthy results then ret False
          else andthen (of_sum (pick ''-1'' last results)) (\<lambda>row.
               andthen (of_sum (dict_of row)) (\<lambda>r.
               ret (jget r ''status'' = JStr ''COMPLETED'')))))"

definition chat_row_of :: "string \<Rightarrow> json \<Rightarrow> exc + chat_row" where
  "chat_row_of profile_id raw =
     (case dict_of raw of
        Inl e \<Rightarrow> Inl e
      | Inr d \<Rightarrow>
          (case dict_of (por (jget d ''sender'') (JObj [])) of
             Inl e \<Rightarrow> Inl e
           | Inr s \<Rightarrow>
               (case to_int (por (jget d ''id'') (JInt 0)) of
                  Inl e \<Rightarrow> Inl e
                | Inr i \<Rightarrow> Inr \<lparr> cr_id = i,
                    cr_from_user = (py_str (jget_default s ''id'' (JStr [])) = profile_id),
                    cr_message = py_str (por (jget d ''message'') (JStr [])),
                    cr_translated = py_str (por (jget d ''translated_message'') (JStr [])),
                    cr_stage = py_str (por (jget d ''stage'') (JStr [])) \<rparr>)))"

fun chat_rows :: "string \<Rightarrow> json list \<Rightarrow> exc + chat_row list" where
  "chat_rows pid [] = Inr []"
| "chat_rows pid (v # vs) =
     (case chat_row_of pid v of
        Inl e \<Rightarrow> Inl e
      | Inr r \<Rightarrow> (case chat_rows pid vs of Inl e \<Rightarrow> Inl e | Inr rs \<Rightarrow> Inr (r # rs)))"

definition chat_tail :: int where
  "chat_tail = 10"

definition recent_chat :: "network \<Rightarrow> rest_client \<Rightarrow> string \<Rightarrow> string \<Rightarrow> chat_row list restact" where
  "recent_chat net c sid pid =
     andthen (request net c ''GET'' (mp_chat (rs_paths c)) None
       [(''session'', JStr sid), (''limit'', JInt 1)] []) (\<lambda>head.
     andthen (of_sum (dict_of head)) (\<lambda>h.
     andthen (of_sum (to_int (por (jget h ''count'') (JInt 0)))) (\<lambda>count.
     if count = 0 then ret []
     else andthen (request net c ''GET'' (mp_chat (rs_paths c)) None
            [(''session'', JStr sid), (''limit'', JInt chat_tail), (''offset'', JInt (max 0 (count - chat_tail)))] [])
          (\<lambda>page.
          andthen (of_sum (dict_of page)) (\<lambda>p.
          andthen (of_sum (iterate (jget_default p ''results'' (JList [])))) (\<lambda>raws.
          andthen (of_sum (chat_rows pid raws)) (\<lambda>rows.
          ret (sort_key cr_id rows))))))))"

definition opt_text :: "string option \<Rightarrow> string" where
  "opt_text t = (case t of None \<Rightarrow> ''None'' | Some s \<Rightarrow> s)"

definition opt_json :: "string option \<Rightarrow> json" where
  "opt_json t = (case t of None \<Rightarrow> JNull | Some s \<Rightarrow> JStr s)"

definition finalize_request ::
  "rest_client \<Rightarrow> string option \<Rightarrow> string option \<Rightarrow> string \<Rightarrow> string \<Rightarrow> string option \<Rightarrow> string \<Rightarrow> bool \<Rightarrow>
   (string \<times> json) list \<times> (string \<times> string) list" where
  "finalize_request c sid pid flow lang token path as_guest =
     (let payload = [(''session'', opt_json sid), (''profile_id'', opt_json pid),
            (''stage'', JStr ''COMPLETED''), (''flow'', JStr flow), (''language'', JStr lang)]
      in if is_v2_finalize (rs_paths c) path
         then (payload, if as_guest then [] else [(''Authorization'', ''Bearer '' @ opt_text token)])
         else (payload @ [(''access_token'', if as_guest then JNull else opt_json token)], []))"

definition finalize_story ::
  "network \<Rightarrow> rest_client \<Rightarrow> string option \<Rightarrow> string option \<Rightarrow> string \<Rightarrow> string \<Rightarrow> string option \<Rightarrow> string \<Rightarrow>
   bool \<Rightarrow> (string \<times> string) restact" where
  "finalize_story net c sid pid flow lang token path0 as_guest =
     (let path = (if path0 = [] then mp_finalize_v2 (rs_paths c) else path0);
          (payload, headers) = finalize_request c sid pid flow lang token path as_guest
      in andthen (request net c ''POST'' path (Some (JObj payload)) [] headers) (\<lambda>data.
         andthen (of_sum (dict_of data)) (\<lambda>d.
         let story_id = py_str (jget_default d ''id'' (JStr []));
             content = py_str (jget_default d ''content'' (JStr []))
         in if story_id = [] then throw (Mitra (MitraError ''finalize: response missing 'id' (story id) key''))
            else ret (story_id, content))))"

text \<open>The walk over \<open>story_media\<close>: the first entry of the media type with a truthy URL decides.
  \<open>urlparse\<close> of a value that is not a string raises.\<close>

fun find_media :: "rest_client \<Rightarrow> string \<Rightarrow> json list \<Rightarrow> exc + string option" where
  "find_media c mt [] = Inr None"
| "find_media c mt (v # vs) =
     (case dict_of v of
        Inl e \<Rightarrow> Inl e
      | Inr d \<Rightarrow>
          if jget d ''media_type'' = JStr mt \<and> truthy (jget d ''public_url'') then
            (case jget d ''public_url'' of
               JStr url \<Rightarrow> (case validate_url c url of Inl e \<Rightarrow> Inl e | Inr _ \<Rightarrow> Inr (Some url))
             | w \<Rightarrow> Inl (AttributeError (quoted (type_name w) @ '' object has no attribute '' @ quoted ''decode'')))
          else find_media c mt vs)"

definition get_report :: "network \<Rightarrow> rest_client \<Rightarrow> json \<Rightarrow> string \<Rightarrow> string option restact" where
  "get_report net c sid mt =
     andthen (request net c ''GET'' (mp_get_story (rs_paths c)) None [(''session'', sid)] []) (\<lambda>data.
     andthen (of_sum (dict_of data)) (\<lambda>d.
       let results = jget_default d ''results'' (JList [])
       in if \<not> truthy results then ret None
          else andthen (of_sum (pick ''0'' hd results)) (\<lambda>row.
               andthen (of_sum (dict_of row)) (\<lambda>r.
               andthen (of_sum (iterate (jget_default r ''story_media'' (JList [])))) (\<lambda>media.
               of_sum (find_media c mt media))))))"

section \<open>What reaches the network, and what is trusted of its answers\<close>

lemma request_log:
  "snd (request net c meth path body params headers hist) = hist @
     [\<lparr> rq_method = meth, rq_url = rs_base_url c @ path, rq_json = body, rq_params = params,
        rq_headers = headers \<rparr>]"
  by (simp add: request_def Let_def split: http_reply.splits option.splits)

lemma find_media_validated:
  "find_media c mt vs = Inr (Some url) \<Longrightarrow> validate_url c url = Inr ()"
  by (induction c mt vs rule: find_media.induct)
    (auto split: sum.splits json.splits if_splits)

text \<open>C16: a report URL is only ever handed out when its scheme is https and its host is in the
  allowlist, whatever Mitra answers.\<close>

theorem report_url_is_allowlisted:
  assumes "get_report net c sid mt hist = (Inr (Some url), hist')"
  shows "\<exists>host \<in> set (rs_allowed_hosts c). url_parts (rs_bracket_ok c) url = Inr (''https'', host)"
proof -
  have "\<exists>vs. find_media c mt vs = Inr (Some url)"
    using assms
    by (force simp: get_report_def Let_def elim!: andthen_InrE split: if_splits)
  then have "validate_url c url = Inr ()" using find_media_validated by blast
  then show ?thesis by (auto simp: validate_url_def split: sum.splits prod.splits if_splits)
qed

definition sample_client :: rest_client where
  "sample_client = \<lparr> rs_base_url = ''https://m'', rs_origin = ''secret'', rs_allowed_hosts = [''m''],
     rs_paths = default_paths, rs_bracket_ok = (\<lambda>h. False) \<rparr>"

definition report_net :: network where
  "report_net hist req = Reply 200 (Some (JObj [(''results'', JList [JObj [(''story_media'',
     JList [JObj [(''media_type'', JStr ''pdf''), (''public_url'', JStr ''HTTPS://u@M:443/r?x'')]])]])]))"

lemma report_url_is_allowlisted_witness:
  "\<exists>host \<in> set (rs_allowed_hosts sample_client).
     url_parts (rs_bracket_ok sample_client) ''HTTPS://u@M:443/r?x'' = Inr (''https'', host)"
proof -
  have "fst (get_report report_net sample_client (JStr ''r1'') ''pdf'' []) = Inr (Some ''HTTPS://u@M:443/r?x'')"
    by code_simp
  then show ?thesis
    by (intro report_url_is_allowlisted[of report_net sample_client "JStr ''r1''" "''pdf''" "[]" _
          "snd (get_report report_net sample_client (JStr ''r1'') ''pdf'' [])"]) (simp add: prod_eq_iff)
qed

text \<open>The token travels where the endpoint reads it and nowhere else. Finalising sends
  exactly one request, a POST; on the v2 endpoint the user's token is in the Authorization header
  and the body has no \<open>access_token\<close>; on any other endpoint it is the body's \<open>access_token\<close> and
  there is no header; for a guest flow there is no header and no token in the body.\<close>

theorem finalize_token_placement:
  assumes "path \<noteq> []"
  shows "\<exists>req body. snd (finalize_story net c sid pid flow lang token path as_guest hist) = hist @ [req]
    \<and> rq_method req = ''POST'' \<and> rq_url req = rs_base_url c @ path \<and> rq_json req = Some (JObj body)
    \<and> jget body ''session'' = opt_json sid
    \<and> rq_headers req = (if is_v2_finalize (rs_paths c) path \<and> \<not> as_guest
         then [(''Authorization'', ''Bearer '' @ opt_text token)] else [])
    \<and> map_of body ''access_token'' = (if is_v2_finalize (rs_paths c) path then None
         else Some (if as_guest then JNull else opt_json token))"
proof -
  let ?p = "finalize_request c sid pid flow lang token path as_guest"
  let ?req = "\<lparr> rq_method = ''POST'', rq_url = rs_base_url c @ path, rq_json = Some (JObj (fst ?p)),
      rq_params = [], rq_headers = snd ?p \<rparr>"
  have tail: "snd (andthen (request net c m path b ps hs) k hist) = snd (request net c m path b ps hs hist)"
    if "\<And>x l. snd (k x l) = l" for m b ps hs and k :: "json \<Rightarrow> (string \<times> string) restact"
    using that by (auto simp: andthen_run split: prod.splits sum.splits)
  have "snd (finalize_story net c sid pid flow lang token path as_guest hist) = hist @ [?req]"
    using assms
    by (simp add: finalize_story_def split_beta Let_def)
      (subst tail, auto simp: andthen_run request_log split: sum.splits)
  moreover have "jget (fst ?p) ''session'' = opt_json sid"
    by (simp add: finalize_request_def Let_def jget_def)
  moreover have "snd ?p = (if is_v2_finalize (rs_paths c) path \<and> \<not> as_guest
      then [(''Authorization'', ''Bearer '' @ opt_text token)] else [])"
    by (simp add: finalize_request_def Let_def)
  moreover have "map_of (fst ?p) ''access_token'' = (if is_v2_finalize (rs_paths c) path then None
      else Some (if as_guest then JNull else opt_json token))"
    by (simp add: finalize_request_def Let_def)
  ultimately show ?thesis by (intro exI[of _ ?req] exI[of _ "fst ?p"]) simp
qed

lemma finalize_token_placement_witness:
  "\<exists>req. snd (finalize_story (\<lambda>l r. Net_fail) sample_client (Some ''r1'') None ''f'' ''en'' (Some ''tok'')
      ''/api/end-story/v2'' False []) = [req] \<and> rq_headers req = [(''Authorization'', ''Bearer tok'')]"
proof -
  have "is_v2_finalize (rs_paths sample_client) ''/api/end-story/v2''" by code_simp
  with finalize_token_placement[of "''/api/end-story/v2''" "\<lambda>l r. Net_fail" sample_client "Some ''r1''" None
      "''f''" "''en''" "Some ''tok''" False "[]"]
  show ?thesis by (auto simp: opt_text_def)
qed

text \<open>Mitra's error text is shown without the Origin credential: whatever the failed response
  holds, a detail that is passed on has at most 300 characters and does not contain it.\<close>

theorem error_detail_hides_origin:
  assumes "extract_error_detail c body = Some detail" and "rs_origin c \<noteq> []"
  shows "length detail \<le> 300 \<and> \<not> (\<exists>a b. detail = a @ rs_origin c @ b)"
  using assms
  by (auto simp: extract_error_detail_def Let_def occurs_in_iff split: option.splits json.splits if_splits)

lemma error_detail_hides_origin_witness:
  "length ''No Flow row'' \<le> 300 \<and> \<not> (\<exists>a b. ''No Flow row'' = a @ rs_origin sample_client @ b)"
  by (rule error_detail_hides_origin[of sample_client "Some (JObj [(''detail'', JStr ''No Flow row'')])"])
    code_simp+

text \<open>Two limits of the above, shown on concrete answers: the truncation happens before the
  check, so a credential that straddles the limit is passed on in part; and an \<open>id\<close> of \<open>null\<close>
  is taken for the story id \<open>None\<close>.\<close>

lemma error_detail_may_cut_origin:
  "extract_error_detail sample_client (Some (JObj [(''detail'', JStr (replicate 295 CHR ''x'' @ ''secret''))])) =
     Some (replicate 295 CHR ''x'' @ ''secre'')"
  by code_simp

lemma finalize_accepts_null_id:
  "fst (finalize_story (\<lambda>l r. Reply 200 (Some (JObj [(''id'', JNull)]))) sample_client (Some ''r1'') None
     ''f'' ''en'' None ''/api/end-story/'' True []) = Inr (''None'', [])"
  by code_simp

section \<open>The requests of an action\<close>

abbreviation sends :: "(http_req \<Rightarrow> bool) \<Rightarrow> nat \<Rightarrow> 'a restact \<Rightarrow> bool" where
  "sends \<equiv> grows (\<lambda>h. h)"

lemma sends_request:
  "(\<And>u b p h. P \<lparr> rq_method = meth, rq_url = u, rq_json = b, rq_params = p, rq_headers = h \<rparr>) \<Longrightarrow>
   sends P 1 (request net c meth path body params headers)"
  unfolding grows_def by (simp add: request_log)

abbreviation is_get :: "http_req \<Rightarrow> bool" where
  "is_get q \<equiv> rq_method q = ''GET''"

lemma sends_get: "sends is_get 1 (request net c ''GET'' path body params headers)"
  by (rule sends_request) simp

lemma sends_completed: "sends is_get 1 (is_session_completed net c sid)"
  unfolding is_session_completed_def Let_def
  by (rule grows_andthen_le[OF sends_get, where j = 0]; (intro grows_andthen_quiet grows_rules)?) simp

lemma sends_report: "sends is_get 1 (get_report net c sid mt)"
  unfolding get_report_def Let_def
  by (rule grows_andthen_le[OF sends_get, where j = 0]; (intro grows_andthen_quiet grows_rules)?) simp

lemma sends_recent: "sends is_get 2 (recent_chat net c sid pid)"
  unfolding recent_chat_def
  by (rule grows_andthen_le[OF sends_get, where j = 1];
      (intro grows_andthen_quiet grows_rules grows_andthen_le[OF sends_get, where j = 0])?) simp_all

lemma sends_generate: "sends is_get 1 (generate_session net c)"
  unfolding generate_session_def
  by (rule grows_andthen_le[OF sends_get, where j = 0]; (intro grows_andthen_quiet grows_rules)?) simp

lemma sends_upsert: "sends (\<lambda>_. True) 1 (upsert_profile net c email flow company)"
  unfolding upsert_profile_def Let_def
  by (rule grows_andthen_le[OF sends_request, where j = 0]; (intro grows_andthen_quiet grows_rules)?) simp_all

end
