(* ===== verification/Identifiers.thy ===== *)
theory Identifiers
  imports Domain
begin

text \<open>
  UUIDs as text: \<open>str(uuid)\<close> and \<open>parse_uuid\<close> of \<open>utils/responses.py\<close>, with
  \<open>uuid.UUID(str)\<close> written out: the prefixes, braces and dashes it drops, the length check, and
  \<open>int(hex, 16)\<close> with everything that function tolerates.
\<close>

definition hex32 :: "nat \<Rightarrow> string" where
  "hex32 n = (let h = digits_acc 16 n [] in replicate (32 - length h) (CHR ''0'') @ h)"

definition uuid_text :: "uuid \<Rightarrow> string" where
  "uuid_text n = (let h = hex32 n in
     take 8 h @ ''-'' @ take 4 (drop 8 h) @ ''-'' @ take 4 (drop 12 h) @ ''-'' @ take 4 (drop 16 h)
     @ ''-'' @ drop 20 h)"

definition uuid_of_text :: "string \<Rightarrow> uuid option" where
  "uuid_of_text s =
     (let hex = remove_all ''-'' (strip_chars ''{}'' (remove_all ''uuid:'' (remove_all ''urn:'' s)))
      in if length hex \<noteq> 32 then None
         else (case py_int_base 16 hex of
                 None \<Rightarrow> None
               | Some i \<Rightarrow> if 0 \<le> i \<and> i < 2 ^ 128 then Some (nat i) else None))"

text \<open>\<open>parse_uuid\<close>: \<open>None\<close> in, \<open>None\<close> out; anything else goes through \<open>str\<close>.\<close>

definition parse_uuid :: "json \<Rightarrow> uuid option" where
  "parse_uuid v = (case v of JNull \<Rightarrow> None | _ \<Rightarrow> uuid_of_text (py_str v))"

section \<open>Round trip\<close>

lemma hex_digit_char: "d < 16 \<Longrightarrow> digit_char d \<in> set ''0123456789abcdef''"
proof -
  have "\<forall>d \<in> set [0..<16]. digit_char d \<in> set ''0123456789abcdef''" by code_simp
  then show "d < 16 \<Longrightarrow> digit_char d \<in> set ''0123456789abcdef''"
    unfolding set_upt by (meson atLeastLessThan_iff zero_le)
qed

lemma digits_acc_hex:
  "b = 16 \<Longrightarrow> set acc \<subseteq> set ''0123456789abcdef'' \<Longrightarrow> set (digits_acc b n acc) \<subseteq> set ''0123456789abcdef''"
proof (induction b n acc rule: digits_acc.induct)
  case (1 b n acc)
  have m: "digit_char (n mod 16) \<in> set ''0123456789abcdef''" by (rule hex_digit_char) simp
  show ?case
  proof (cases "b < 2 \<or> n < b")
    case True
    then have "n < 16" using "1.prems" by simp
    then show ?thesis using True "1.prems" hex_digit_char[of n]
      by (simp only: digits_acc.simps[of 16 n] if_True simp_thms list.set insert_subset)
  next
    case False
    have "set (digit_char (n mod 16) # acc) \<subseteq> set ''0123456789abcdef''"
      using m "1.prems"(2) by (simp only: list.set insert_subset)
    then show ?thesis using "1.IH"[OF False] "1.prems"(1) False
      by (simp add: digits_acc.simps[of 16 n] del: set_simps)
  qed
qed

lemma digits_acc_length:
  "b = 16 \<Longrightarrow> n < 16 ^ k \<Longrightarrow> 0 < k \<Longrightarrow> length (digits_acc b n acc) \<le> k + length acc"
proof (induction b n acc arbitrary: k rule: digits_acc.induct)
  case (1 b n acc)
  show ?case
  proof (cases "n < 16")
    case True
    then show ?thesis using "1.prems" by (simp add: digits_acc.simps[of 16 n])
  next
    case False
    then obtain j where k: "k = Suc j" "0 < j" using "1.prems"(2,3) by (cases k; cases "k - 1") auto
    have "n div 16 < 16 ^ j" using "1.prems"(2) k by (simp add: less_mult_imp_div_less mult.commute)
    then show ?thesis using "1.IH"[of j] False "1.prems"(1) k
      by (simp add: digits_acc.simps[of 16 n])
  qed
qed

lemma hex32_props:
  assumes "n < 2 ^ 128"
  shows "length (hex32 n) = 32" and "set (hex32 n) \<subseteq> set ''0123456789abcdef''"
proof -
  have "n < 16 ^ 32" using assms by simp
  then have "length (digits_acc 16 n []) \<le> 32" using digits_acc_length[of 16 n 32 "[]"] by simp
  then show "length (hex32 n) = 32" by (simp add: hex32_def Let_def)
  show "set (hex32 n) \<subseteq> set ''0123456789abcdef''"
    using digits_acc_hex[of 16 "[]" n] unfolding hex32_def Let_def by auto
qed

lemma digit_loop_zeros:
  "s \<noteq> [] \<Longrightarrow> (\<And>p. digit_loop 16 0 p s = r) \<Longrightarrow> digit_loop 16 0 p (replicate k (CHR ''0'') @ s) = r"
proof (induction k arbitrary: p)
  case (Suc k)
  have "digit_val 16 (CHR ''0'') = Some 0" by code_simp
  then show ?case using Suc by simp
qed simp

lemma remove_all_absent:
  "p \<noteq> [] \<Longrightarrow> hd p \<notin> set s \<Longrightarrow> remove_all p s = s"
proof (induction s)
  case (Cons c cs)
  then have "\<not> starts_with p (c # cs)" by (cases p) auto
  then show ?case using Cons by (simp add: remove_all.simps[of p "c # cs"])
qed (simp add: remove_all.simps)

lemma remove_all_char:
  "remove_all [d] s = filter (\<lambda>c. c \<noteq> d) s"
proof (induction s)
  case (Cons c cs)
  then show ?case by (simp add: remove_all.simps[of _ "c # cs"])
qed (simp add: remove_all.simps)

lemma strip_by_idle: "\<forall>c \<in> set s. \<not> p c \<Longrightarrow> strip_by p s = s"
proof -
  assume s: "\<forall>c \<in> set s. \<not> p c"
  have idle: "dropWhile p t = t" if "\<forall>c \<in> set t. \<not> p c" for t
    using that by (cases t) auto
  show ?thesis using idle[of s] idle[of "rev s"] s
    by (simp add: strip_by_def lstrip_by_def rstrip_by_def)
qed

lemma digits_acc_nonempty: "digits_acc b n acc \<noteq> []"
  by (induction b n acc rule: digits_acc.induct) (subst digits_acc.simps, simp)

lemma hex_value:
  "py_int_base 16 (hex32 n) = Some (int n)" if "n < 2 ^ 128"
proof -
  let ?h = "hex32 n"
  note hex = hex32_props[OF that]
  obtain c cs where cs: "?h = c # cs" using hex(1) by (cases ?h) auto
  have chars: "c' \<in> set ''0123456789abcdef''" if "c' \<in> set ?h" for c' using hex(2) that by blast
  have "\<forall>c \<in> set ''0123456789abcdef''. \<not> py_isspace c" by code_simp
  then have strip: "strip ?h = ?h" unfolding strip_def using chars by (intro strip_by_idle) blast
  have sign: "c \<noteq> CHR ''-''" "c \<noteq> CHR ''+''" using chars[of c] cs by auto
  have no_x: "CHR ''x'' \<notin> set ?h" "CHR ''X'' \<notin> set ?h"
    using chars[of "CHR ''x''"] chars[of "CHR ''X''"] by auto
  have x: "\<not> starts_with ''0x'' ?h" "\<not> starts_with ''0X'' ?h"
    using no_x by (auto simp: starts_with_iff)
  have "digit_loop 16 0 False ?h = Some n"
    unfolding hex32_def Let_def
    by (rule digit_loop_zeros) (simp_all add: digits_acc_nonempty digit_loop_digits)
  then show ?thesis using strip sign x cs by (auto simp: py_int_base_def Let_def simp del: digit_loop.simps)
qed

text \<open>Identifiers survive the trip through text: the text of a UUID parses back to it.\<close>

theorem uuid_roundtrip:
  assumes "n < 2 ^ 128"
  shows "parse_uuid (JStr (uuid_text n)) = Some n"
proof -
  let ?h = "hex32 n"
  note hex = hex32_props[OF assms]
  have join: "take 8 ?h @ take 4 (drop 8 ?h) @ take 4 (drop 12 ?h) @ take 4 (drop 16 ?h) @ drop 20 ?h = ?h"
  proof -
    have "take 4 (drop 16 ?h) @ drop 20 ?h = drop 16 ?h"
      using append_take_drop_id[of 4 "drop 16 ?h"] by simp
    moreover have "take 4 (drop 12 ?h) @ drop 16 ?h = drop 12 ?h"
      using append_take_drop_id[of 4 "drop 12 ?h"] by simp
    moreover have "take 4 (drop 8 ?h) @ drop 12 ?h = drop 8 ?h"
      using append_take_drop_id[of 4 "drop 8 ?h"] by simp
    ultimately show ?thesis by simp
  qed
  have chars: "c \<in> insert (CHR ''-'') (set ''0123456789abcdef'')" if "c \<in> set (uuid_text n)" for c
    using that hex(2) set_take_subset set_drop_subset
    unfolding uuid_text_def Let_def by (fastforce dest: in_set_takeD in_set_dropD)
  have u: "CHR ''u'' \<notin> set (uuid_text n)" using chars[of "CHR ''u''"] by auto
  have 1: "remove_all ''uuid:'' (remove_all ''urn:'' (uuid_text n)) = uuid_text n"
    using u by (simp add: remove_all_absent)
  have 2: "strip_chars ''{}'' (uuid_text n) = uuid_text n"
    unfolding strip_chars_def using chars by (intro strip_by_idle) fastforce
  have nodash: "CHR ''-'' \<notin> set ?h" using hex(2) by auto
  have keep: "filter (\<lambda>c. c \<noteq> CHR ''-'') t = t" if "set t \<subseteq> set ?h" for t
    using that nodash by (intro filter_True) auto
  have "remove_all ''-'' (uuid_text n) = ?h"
    unfolding remove_all_char uuid_text_def Let_def
    by (simp add: keep set_take_subset set_drop_subset order_trans[OF set_take_subset set_drop_subset] join)
  then show ?thesis using 1 2 hex(1) hex_value[OF assms] assms
    by (simp add: parse_uuid_def uuid_of_text_def)
qed

lemma uuid_roundtrip_witness: "parse_uuid (JStr (uuid_text 12345)) = Some 12345"
  by (rule uuid_roundtrip) simp

end
