(* ===== verification/Session_Service.thy ===== *)
theory Session_Service
  imports Sample
begin

text \<open>
  \<open>services/session_service.py\<close>: the lifecycle table, the guarded transition \<open>apply\<close>, the
  finalisation claim, and abandonment. Then what the operations may do to a session row over
  any history of calls (\<open>session_le\<close>), which gives the finality of terminal sessions and the
  uniqueness of the claim.
\<close>

section \<open>The lifecycle table\<close>

fun allowed :: "session_state \<Rightarrow> session_state list" where
  "allowed Pending = [Pending, Authenticating, Awaiting_user, Finalizing, Failed]"
| "allowed Authenticating = [Authenticating, In_progress, Failed]"
| "allowed In_progress = [In_progress, Awaiting_user, Finalizing, Failed]"
| "allowed Awaiting_user = [Awaiting_user, In_progress, Finalizing, Abandoned]"
| "allowed Finalizing = [Finalizing, Completed, Failed]"
| "allowed Completed = []"
| "allowed Failed = []"
| "allowed Abandoned = []"

definition check_transition :: "session_state \<Rightarrow> session_state \<Rightarrow> uuid \<Rightarrow> unit dbact" where
  "check_transition cur target i =
     (if target \<notin> set (allowed cur) then throw (InvalidTransitionError i cur target) else ret ())"

section \<open>Operations\<close>

definition keep_or :: "'a option \<Rightarrow> 'a option \<Rightarrow> 'a option" where
  "keep_or new old = (case new of None \<Rightarrow> old | Some v \<Rightarrow> Some v)"

text \<open>The column assignments \<open>apply\<close> sends: the fields the delta carries, the turn counter, the
  activity time, and the end times of a terminal target.\<close>

definition delta_row :: "session_delta \<Rightarrow> time \<Rightarrow> session_row \<Rightarrow> session_row" where
  "delta_row \<delta> now r = r\<lparr>
     sv_state := sd_state \<delta>,
     sv_remote_session_id := keep_or (sd_remote_session_id \<delta>) (sv_remote_session_id r),
     sv_remote_profile_id := keep_or (sd_remote_profile_id \<delta>) (sv_remote_profile_id r),
     sv_remote_flow := keep_or (sd_remote_flow \<delta>) (sv_remote_flow r),
     sv_remote_bot_route := keep_or (sd_remote_bot_route \<delta>) (sv_remote_bot_route r),
     sv_step := (case sd_step \<delta> of None \<Rightarrow> sv_step r | Some n \<Rightarrow> n),
     sv_turn_count := sv_turn_count r + 1,
     sv_result_ref := keep_or (sd_result_ref \<delta>) (sv_result_ref r),
     sv_report_url := keep_or (sd_report_url \<delta>) (sv_report_url r),
     sv_error := keep_or (sd_error \<delta>) (sv_error r),
     sv_state_data := (case sd_state_data \<delta> of None \<Rightarrow> sv_state_data r | Some v \<Rightarrow> v),
     sr_last_activity_at := now,
     sr_finalized_at := (if sd_state \<delta> = Completed then Some now else sr_finalized_at r),
     sr_ended_at := (if terminal (sd_state \<delta>) then Some now else sr_ended_at r) \<rparr>"

definition apply_delta :: "session_row \<Rightarrow> session_delta \<Rightarrow> session_row dbact" where
  "apply_delta s \<delta> =
     andthen (check_transition (sv_state s) (sd_state \<delta>) (sv_id s)) (\<lambda>_.
     andthen (asks d_now) (\<lambda>now.
     andthen (update_state_and_fields (sv_id s) [sv_state s] (delta_row \<delta> now)) (\<lambda>updated.
     case updated of None \<Rightarrow> throw (ConcurrentModificationError (sv_id s)) | Some r \<Rightarrow> ret r)))"

definition claim_finalizing :: "uuid \<Rightarrow> session_row option dbact" where
  "claim_finalizing i = repo_claim_finalizing i"

definition abandon :: "uuid \<Rightarrow> string \<Rightarrow> string \<Rightarrow> session_row option dbact" where
  "abandon c why actor =
     andthen (get_open_for_conversation c) (\<lambda>found.
     case found of
       None \<Rightarrow> ret None
     | Some s \<Rightarrow>
         andthen (abandon_open_session c why) (\<lambda>updated.
         case updated of
           None \<Rightarrow> throw (ConcurrentModificationError (sv_id s))
         | Some r \<Rightarrow>
             andthen (unpin c) (\<lambda>_.
             andthen (audit_insert Session_abandon ''agent_session'' (Some (sv_id r)) actor
                (Some (Au_session s)) (Some (Au_session r)) (Some why)) (\<lambda>_.
             ret (Some r)))))"

text \<open>\<open>open_for\<close> in its two halves, before and after the \<open>on_displace\<close> callback: \<open>Inl\<close> the
  session to reuse, \<open>Inr\<close> whether another agent's session was displaced.\<close>

definition open_attach :: "uuid \<Rightarrow> uuid \<Rightarrow> (session_row + bool) dbact" where
  "open_attach c agent_id =
     andthen (get_open_for_conversation c) (\<lambda>existing.
     case existing of
       None \<Rightarrow> ret (Inr False)
     | Some s \<Rightarrow>
         if sv_agent_id s = agent_id then ret (Inl s)
         else andthen (abandon c ''agent_switch'' ''system'') (\<lambda>_. ret (Inr True)))"

definition open_create :: "uuid \<Rightarrow> uuid \<Rightarrow> agent_spec \<Rightarrow> session_row option dbact" where
  "open_create c agent_id spec =
     (if \<not> rt_pin_session (spec_routing spec) then ret None
      else andthen (create_pending c agent_id
             (case spec_remote spec of Some r \<Rightarrow> rm_default_language r | None \<Rightarrow> ''en''))
             (\<lambda>r. ret (Some r)))"

definition open_for :: "uuid \<Rightarrow> uuid \<Rightarrow> agent_spec \<Rightarrow> session_row option dbact" where
  "open_for c agent_id spec =
     andthen (open_attach c agent_id) (\<lambda>att.
     case att of Inl s \<Rightarrow> ret (Some s) | Inr _ \<Rightarrow> open_create c agent_id spec)"

text \<open>\<open>isofmt\<close> renders the cutoff, \<open>datetime.isoformat\<close>.\<close>

definition sweep_abandoned :: "(time \<Rightarrow> string) \<Rightarrow> time \<Rightarrow> session_row list dbact" where
  "sweep_abandoned isofmt cutoff =
     andthen (sweep_abandoned_older_than cutoff (''idle sweep: no activity before '' @ isofmt cutoff))
       (\<lambda>swept.
     andthen (each (\<lambda>r. andthen (unpin (sv_conversation_id r)) (\<lambda>_.
         audit_insert Session_abandon ''agent_session'' (Some (sv_id r)) ''system'' None
           (Some (Au_session r)) (Some ''idle sweep''))) swept) (\<lambda>_.
     ret swept))"

lemma preserves_db_ok_session_service [pres]:
  "preserves db_ok (check_transition cur target i)"
  "preserves db_ok (apply_delta s \<delta>)" "preserves db_ok (claim_finalizing i)"
  "preserves db_ok (abandon c why actor)" "preserves db_ok (open_attach c a)"
  "preserves db_ok (open_create c a sp)" "preserves db_ok (open_for c a sp)"
  "preserves db_ok (sweep_abandoned isofmt cutoff)"
  unfolding check_transition_def apply_delta_def claim_finalizing_def abandon_def open_attach_def
    open_create_def open_for_def sweep_abandoned_def
  by (intro pres)+

section \<open>What a session row may become\<close>

text \<open>One edge of the life of a session: a transition of the table, or abandonment.\<close>

inductive edge :: "session_state \<Rightarrow> session_state \<Rightarrow> bool" where
  transition: "t \<in> set (allowed s) \<Longrightarrow> edge s t"
| abandonment: "\<not> terminal s \<Longrightarrow> edge s Abandoned"

inductive_cases edgeE: "edge s t"

lemma terminal_no_edge: "edge s t \<Longrightarrow> \<not> terminal s"
  by (cases s) (auto elim: edgeE)

lemma edges_from_finalizing:
  "edge\<^sup>*\<^sup>* s t \<Longrightarrow> s \<in> {Finalizing, Completed, Failed, Abandoned} \<Longrightarrow>
   t \<in> {Finalizing, Completed, Failed, Abandoned}"
proof (induction rule: rtranclp_induct)
  case (step t u)
  then have "t \<in> {Finalizing, Completed, Failed, Abandoned}" by blast
  then show ?case using step.hyps(2) by (auto elim: edgeE)
qed

definition session_le :: "session_row \<Rightarrow> session_row \<Rightarrow> bool" where
  "session_le r r' \<longleftrightarrow> sv_id r' = sv_id r \<and> sv_conversation_id r' = sv_conversation_id r
     \<and> sv_agent_id r' = sv_agent_id r \<and> sv_language r' = sv_language r
     \<and> sr_started_at r' = sr_started_at r \<and> sv_turn_count r \<le> sv_turn_count r'
     \<and> edge\<^sup>*\<^sup>* (sv_state r) (sv_state r') \<and> (terminal (sv_state r) \<longrightarrow> r' = r)"

lemma session_le_refl: "session_le r r"
  by (simp add: session_le_def)

lemma session_le_trans: "session_le r s \<Longrightarrow> session_le s t \<Longrightarrow> session_le r t"
  unfolding session_le_def by (auto intro: rtranclp_trans)

definition sessions_evolve :: "db \<Rightarrow> db \<Rightarrow> bool" where
  "sessions_evolve d d' \<longleftrightarrow> (\<forall>r \<in> set (d_sess d). \<exists>r' \<in> set (d_sess d'). session_le r r')"

lemma sessions_evolve_same: "d_sess d' = d_sess d \<Longrightarrow> sessions_evolve d d'"
  by (auto simp: sessions_evolve_def intro: session_le_refl)

interpretation sess: progress sessions_evolve
proof
  show "sessions_evolve d d" for d by (rule sessions_evolve_same) simp
  show "sessions_evolve d e \<Longrightarrow> sessions_evolve e f \<Longrightarrow> sessions_evolve d f" for d e f
    unfolding sessions_evolve_def by (meson session_le_trans)
qed

lemma stmt_keeps_sessions: "(\<And>d. d_sess (f d) = d_sess d) \<Longrightarrow> advances sessions_evolve (stmt f)"
  by (intro advancesI sessions_evolve_same) (auto simp: stmt_def split: if_splits)

lemma upd_sess_evolves:
  assumes "\<And>r. p r \<Longrightarrow> session_le r (f r)"
  shows "advances sessions_evolve (upd_sess p f)"
proof (intro advancesI)
  fix d res d' assume run: "upd_sess p f d = (res, d')"
  show "sessions_evolve d d'"
  proof (cases res)
    case (Inl e)
    with run have "d' = d" by (auto dest: upd_sess_InlD)
    then show ?thesis by (simp add: sessions_evolve_same)
  next
    case (Inr rows)
    with run have d': "d_sess d' = upd_where p f (d_sess d)" by (auto dest: upd_sess_InrD)
    have "\<exists>r' \<in> set (d_sess d'). session_le r r'" if "r \<in> set (d_sess d)" for r
      using that assms[of r] session_le_refl[of r] unfolding d' set_upd_where
      by (intro bexI[of _ "if p r then f r else r"]) auto
    then show ?thesis by (simp add: sessions_evolve_def)
  qed
qed

lemma abandoned_row_le: "is_open r \<Longrightarrow> session_le r (abandoned_row why t r)"
  by (auto simp: session_le_def abandoned_row_def intro: edge.intros)

lemma delta_row_le:
  assumes "sd_state \<delta> \<in> set (allowed (sv_state r))"
  shows "session_le r (delta_row \<delta> t r)"
proof -
  have "edge (sv_state r) (sd_state \<delta>)" using assms by (rule edge.transition)
  then show ?thesis
    by (auto simp: session_le_def delta_row_def dest: terminal_no_edge)
qed

lemma claim_row_le: "claimable (sv_state r) \<Longrightarrow> session_le r (r\<lparr> sv_state := Finalizing \<rparr>)"
  by (auto simp: session_le_def claimable_def intro!: r_into_rtranclp edge.transition)

lemma fetch_one_evolves: "advances sessions_evolve (fetch_one q)"
  by (simp add: advances_def sess.R_refl)

lemma fresh_id_evolves: "advances sessions_evolve fresh_id"
  by (simp add: advances_def sessions_evolve_same)

lemma append_session_evolves:
  "advances sessions_evolve (stmt (\<lambda>d. d\<lparr> d_sess := d_sess d @ [row] \<rparr>))"
  by (auto simp: advances_def stmt_def sessions_evolve_def intro: session_le_refl)

lemmas sess_adv = sess.adv fetch_one_evolves fresh_id_evolves append_session_evolves

lemma repo_sessions_evolve:
  "advances sessions_evolve (sessions_get i)" "advances sessions_evolve (get_open_for_conversation c)"
  "advances sessions_evolve (create_pending c a lang)"
  "advances sessions_evolve (repo_claim_finalizing i)"
  "advances sessions_evolve (abandon_open_session c why)"
  "advances sessions_evolve (sweep_abandoned_older_than t why)"
  "advances sessions_evolve (unpin c)"
  "advances sessions_evolve (audit_insert act et ei ac bef aft note)"
  unfolding repo_defs Let_def upd_conv_def
  by (intro sess_adv upd_sess_evolves stmt_keeps_sessions; simp add: abandoned_row_le claim_row_le)+

lemma apply_delta_evolves: "advances sessions_evolve (apply_delta s \<delta>)"
proof (cases "sd_state \<delta> \<in> set (allowed (sv_state s))")
  case True
  then show ?thesis
    unfolding apply_delta_def check_transition_def update_state_and_fields_def
    by (intro sess_adv upd_sess_evolves) (auto intro: delta_row_le)
next
  case False
  then have "apply_delta s \<delta> d = (Inl (InvalidTransitionError (sv_id s) (sv_state s) (sd_state \<delta>)), d)" for d
    by (simp add: apply_delta_def check_transition_def)
  then show ?thesis by (simp add: advances_def sess.R_refl)
qed

lemma session_service_evolves:
  "advances sessions_evolve (claim_finalizing i)" "advances sessions_evolve (abandon c why actor)"
  "advances sessions_evolve (open_attach c a)" "advances sessions_evolve (open_create c a sp)"
  "advances sessions_evolve (open_for c a sp)" "advances sessions_evolve (sweep_abandoned isofmt cutoff)"
  unfolding claim_finalizing_def abandon_def open_attach_def open_create_def open_for_def
    sweep_abandoned_def
  by (intro sess_adv repo_sessions_evolve)+

section \<open>Histories of calls\<close>

text \<open>Any operation of the service, with any arguments, by any request.\<close>

inductive session_step :: "db \<Rightarrow> db \<Rightarrow> bool" where
  step_apply: "snd (apply_delta s \<delta> d) = d' \<Longrightarrow> session_step d d'"
| step_claim: "snd (claim_finalizing i d) = d' \<Longrightarrow> session_step d d'"
| step_abandon: "snd (abandon c why actor d) = d' \<Longrightarrow> session_step d d'"
| step_open: "snd (open_for c a sp d) = d' \<Longrightarrow> session_step d d'"
| step_sweep: "snd (sweep_abandoned fmt cutoff d) = d' \<Longrightarrow> session_step d d'"
| step_clock: "d' = d\<lparr> d_now := t \<rparr> \<Longrightarrow> session_step d d'"

lemma db_ok_now [simp]: "db_ok (d\<lparr> d_now := t \<rparr>) = db_ok d"
  by (simp add: db_ok_def convs_ok_def msgs_ok_def sess_ok_def tools_ok_def agents_ok_def
      cfgs_ok_def caps_ok_def)

lemma session_step_evolves: "session_step d d' \<Longrightarrow> sessions_evolve d d'"
  by (induction rule: session_step.induct)
    (use apply_delta_evolves session_service_evolves in \<open>auto simp: advances_def intro: sessions_evolve_same\<close>)

lemma session_steps_evolve: "session_step\<^sup>*\<^sup>* d d' \<Longrightarrow> sessions_evolve d d'"
  by (induction rule: rtranclp_induct) (blast intro: sess.R_refl sess.R_trans session_step_evolves)+

lemma session_step_db_ok: "session_step d d' \<Longrightarrow> db_ok d \<Longrightarrow> db_ok d'"
  by (induction rule: session_step.induct)
    (use preserves_db_ok_session_service in \<open>auto simp: preserves_def\<close>)

lemma session_steps_db_ok: "session_step\<^sup>*\<^sup>* d d' \<Longrightarrow> db_ok d \<Longrightarrow> db_ok d'"
  by (induction rule: rtranclp_induct) (auto intro: session_step_db_ok)

section \<open>The results of the operations\<close>

lemma get_open_run:
  "db_ok d \<Longrightarrow> get_open_for_conversation c d =
     (Inr (case open_sessions c d of [] \<Rightarrow> None | r # _ \<Rightarrow> Some r), d)"
  unfolding get_open_for_conversation_def open_sessions_def
  by (simp add: one_or_none_le_one[OF one_open[OF db_ok_sess]])

lemma sessions_get_run:
  "db_ok d \<Longrightarrow> sessions_get i d = (Inr (find (\<lambda>r. sv_id r = i) (d_sess d)), d)"
  unfolding sessions_get_def
  by (simp add: one_or_none_le_one[OF one_by_id[OF db_ok_sess]] case_filter_find)

lemma update_state_and_fields_run:
  assumes "db_ok d"
  shows "update_state_and_fields i [st] f d =
    (let p = (\<lambda>r. sv_id r = i \<and> sv_state r = st);
         d' = d\<lparr> d_sess := upd_where p f (d_sess d) \<rparr>
     in if db_ok d' then (Inr (map_option f (find p (d_sess d))), d') else (Inl IntegrityError, d))"
proof -
  have "length (filter (\<lambda>r. sv_id r = i \<and> sv_state r = st) (d_sess d)) \<le> 1"
    using one_by_id[OF db_ok_sess[OF assms], of i]
    by (rule le_trans[rotated]) (rule length_filter_mono, simp)
  from upd_sess_one[OF this, of f] show ?thesis
    by (simp add: update_state_and_fields_def Let_def)
qed

text \<open>Guarded transition as a whole: refused outside the table; refused when the row moved
  since it was read; otherwise exactly the one row is rewritten, subject to the constraints.\<close>

lemma apply_delta_run:
  assumes "db_ok d"
  shows "apply_delta s \<delta> d =
    (if sd_state \<delta> \<notin> set (allowed (sv_state s))
     then (Inl (InvalidTransitionError (sv_id s) (sv_state s) (sd_state \<delta>)), d)
     else let p = (\<lambda>r. sv_id r = sv_id s \<and> sv_state r = sv_state s);
              d' = d\<lparr> d_sess := upd_where p (delta_row \<delta> (d_now d)) (d_sess d) \<rparr>
       in case find p (d_sess d) of
            None \<Rightarrow> (Inl (ConcurrentModificationError (sv_id s)), d)
          | Some r \<Rightarrow> if db_ok d' then (Inr (delta_row \<delta> (d_now d) r), d') else (Inl IntegrityError, d))"
proof -
  let ?p = "\<lambda>r. sv_id r = sv_id s \<and> sv_state r = sv_state s"
  have idle: "upd_where ?p g (d_sess d) = d_sess d" if "find ?p (d_sess d) = None" for g
    using that by (intro upd_where_idle) (auto simp: find_None_all)
  show ?thesis
  proof (cases "find ?p (d_sess d)")
    case None
    then show ?thesis using assms idle[OF None]
      by (auto simp: apply_delta_def check_transition_def andthen_run update_state_and_fields_run)
  next
    case (Some r)
    then show ?thesis using assms
      by (auto simp: apply_delta_def check_transition_def andthen_run update_state_and_fields_run Let_def)
  qed
qed

lemma repo_claim_run:
  assumes "db_ok d"
  shows "claim_finalizing i d =
    (let p = (\<lambda>r. sv_id r = i \<and> claimable (sv_state r)); f = (\<lambda>r. r\<lparr> sv_state := Finalizing \<rparr>)
     in (Inr (map_option f (find p (d_sess d))), d\<lparr> d_sess := upd_where p f (d_sess d) \<rparr>))"
proof -
  let ?p = "\<lambda>r. sv_id r = i \<and> claimable (sv_state r)" and ?f = "\<lambda>r. r\<lparr> sv_state := Finalizing \<rparr> :: session_row"
  have le: "length (filter ?p (d_sess d)) \<le> 1"
    using one_by_id[OF db_ok_sess[OF assms], of i]
    by (rule le_trans[rotated]) (rule length_filter_mono, simp)
  have "db_ok (d\<lparr> d_sess := upd_where ?p ?f (d_sess d) \<rparr>)"
  proof (rule db_ok_upd_sess[OF assms])
    fix r assume r: "r \<in> set (d_sess d)" and "?p r"
    then show "sess_row_ok (?f r) \<and> sv_id (?f r) = sv_id r
        \<and> sv_conversation_id (?f r) = sv_conversation_id r \<and> sv_agent_id (?f r) = sv_agent_id r
        \<and> sv_remote_session_id (?f r) = sv_remote_session_id r \<and> (is_open (?f r) \<longrightarrow> is_open r)"
      using sess_ok_row[OF db_ok_sess[OF assms] r] by (auto simp: sess_row_ok_def claimable_def)
  qed
  then show ?thesis using upd_sess_one[OF le, of ?f]
    by (simp add: claim_finalizing_def repo_claim_finalizing_def Let_def)
qed

definition abandoned_db :: "uuid \<Rightarrow> string \<Rightarrow> string \<Rightarrow> session_row \<Rightarrow> db \<Rightarrow> db" where
  "abandoned_db c why actor s d = (let r = abandoned_row why (d_now d) s in d\<lparr>
     d_sess := upd_where (\<lambda>x. sv_conversation_id x = c \<and> is_open x) (abandoned_row why (d_now d)) (d_sess d),
     d_convs := upd_where (\<lambda>x. cv_id x = c) (\<lambda>x. x\<lparr> cv_pinned_agent_id := None, cv_updated_at := d_now d \<rparr>) (d_convs d),
     d_audit := d_audit d @ [\<lparr> au_action = Session_abandon, au_entity_type = ''agent_session'',
       au_entity_id = Some (sv_id r), au_actor = actor, au_before = Some (Au_session s),
       au_after = Some (Au_session r), au_note = Some why, au_created_at = d_now d \<rparr>] \<rparr>)"

lemma db_ok_abandon_rows:
  assumes "db_ok d" and "\<And>r. p r \<Longrightarrow> is_open r"
  shows "db_ok (d\<lparr> d_sess := upd_where p (abandoned_row why t) (d_sess d) \<rparr>)"
  using assms sess_ok_row[OF db_ok_sess[OF assms(1)]]
  by (intro db_ok_upd_sess) (auto simp: sess_row_ok_def abandoned_row_def)

lemma db_ok_unpin_rows:
  assumes "db_ok d"
  shows "db_ok (d\<lparr> d_convs := upd_where p (\<lambda>c. c\<lparr> cv_pinned_agent_id := None, cv_updated_at := t \<rparr>) (d_convs d) \<rparr>)"
  using assms db_ok_convs[OF assms]
  by (intro db_ok_upd_convs) (auto simp: convs_ok_def conv_row_ok_def list_all_iff opt_in_def)

lemma unpin_run:
  assumes "db_ok d"
  shows "unpin c d = (Inr (), d\<lparr> d_convs := upd_where (\<lambda>x. cv_id x = c)
      (\<lambda>x. x\<lparr> cv_pinned_agent_id := None, cv_updated_at := d_now d \<rparr>) (d_convs d) \<rparr>)"
  using db_ok_unpin_rows[OF assms] by (simp add: unpin_def upd_conv_def stmt_run)

lemma audit_insert_run:
  "db_ok d \<Longrightarrow> audit_insert act et ei ac bef aft note d = (Inr (), d\<lparr> d_audit := d_audit d @
     [\<lparr> au_action = act, au_entity_type = et, au_entity_id = ei, au_actor = ac, au_before = bef,
        au_after = aft, au_note = note, au_created_at = d_now d \<rparr>] \<rparr>)"
  by (simp add: audit_insert_def stmt_run)

lemma abandon_run:
  assumes "db_ok d"
  shows "abandon c why actor d =
    (case open_sessions c d of
       [] \<Rightarrow> (Inr None, d)
     | s # _ \<Rightarrow> (Inr (Some (abandoned_row why (d_now d) s)), abandoned_db c why actor s d))"
proof (cases "open_sessions c d")
  case Nil
  then show ?thesis using assms by (simp add: abandon_def get_open_run)
next
  case (Cons s ss)
  let ?p = "\<lambda>x. sv_conversation_id x = c \<and> is_open x"
  let ?d1 = "d\<lparr> d_sess := upd_where ?p (abandoned_row why (d_now d)) (d_sess d) \<rparr>"
  have ok1: "db_ok ?d1" using assms by (intro db_ok_abandon_rows) auto
  have one: "filter ?p (d_sess d) = [s]"
    using one_open[OF db_ok_sess[OF assms], of c] Cons by (simp add: open_sessions_def)
  have "abandon_open_session c why d = (Inr (Some (abandoned_row why (d_now d) s)), ?d1)"
    using ok1 by (simp add: abandon_open_session_def upd_sess_def stmt_run andthen_run one)
  then show ?thesis
    using assms Cons ok1 db_ok_unpin_rows[OF ok1]
    by (simp add: abandon_def get_open_run unpin_run audit_insert_run abandoned_db_def Let_def)
qed

lemma db_ok_abandoned_db: "db_ok d \<Longrightarrow> db_ok (abandoned_db c why actor s d)"
proof -
  assume ok: "db_ok d"
  let ?d1 = "d\<lparr> d_sess := upd_where (\<lambda>x. sv_conversation_id x = c \<and> is_open x)
      (abandoned_row why (d_now d)) (d_sess d) \<rparr>"
  have "db_ok ?d1" using ok by (intro db_ok_abandon_rows) auto
  from db_ok_unpin_rows[OF this, of "\<lambda>x. cv_id x = c" "d_now d"]
  have "db_ok (?d1\<lparr> d_convs := upd_where (\<lambda>x. cv_id x = c)
      (\<lambda>x. x\<lparr> cv_pinned_agent_id := None, cv_updated_at := d_now d \<rparr>) (d_convs d) \<rparr>)" (is "db_ok ?d2")
    by simp
  then have "db_ok (?d2\<lparr> d_audit := a \<rparr>)" for a by (simp only: db_ok_audit)
  then show ?thesis by (simp add: abandoned_db_def Let_def)
qed

section \<open>Correctness\<close>

text \<open>A successful \<open>apply\<close> follows the lifecycle table and rewrites exactly one row, the one
  with the session's id that is still in the state the caller read; the turn counter goes up by
  one, and a row that becomes completed has a result reference. Every other outcome leaves the
  database untouched and is one of three refusals.\<close>

theorem apply_delta_follows_lifecycle:
  assumes "db_ok d"
  shows "case apply_delta s \<delta> d of
      (Inr r', d') \<Rightarrow> sd_state \<delta> \<in> set (allowed (sv_state s)) \<and> sv_state r' = sd_state \<delta>
        \<and> (sv_state r' = Completed \<longrightarrow> sv_result_ref r' \<noteq> None)
        \<and> (\<exists>r \<in> set (d_sess d). sv_id r = sv_id s \<and> sv_state r = sv_state s
             \<and> r' = delta_row \<delta> (d_now d) r \<and> sv_turn_count r' = sv_turn_count r + 1
             \<and> d' = d\<lparr> d_sess := map (\<lambda>x. if x = r then r' else x) (d_sess d) \<rparr>)
    | (Inl e, d') \<Rightarrow> d' = d
        \<and> (e = InvalidTransitionError (sv_id s) (sv_state s) (sd_state \<delta>)
             \<and> sd_state \<delta> \<notin> set (allowed (sv_state s))
           \<or> e = ConcurrentModificationError (sv_id s)
             \<and> (\<forall>r \<in> set (d_sess d). sv_id r = sv_id s \<longrightarrow> sv_state r \<noteq> sv_state s)
           \<or> e = IntegrityError)"
proof (cases "sd_state \<delta> \<in> set (allowed (sv_state s))")
  case False
  then show ?thesis using assms by (simp add: apply_delta_run)
next
  case allow: True
  let ?p = "\<lambda>r. sv_id r = sv_id s \<and> sv_state r = sv_state s"
  let ?f = "delta_row \<delta> (d_now d)"
  let ?d = "d\<lparr> d_sess := upd_where ?p ?f (d_sess d) \<rparr>"
  show ?thesis
  proof (cases "find ?p (d_sess d)")
    case None
    then have "\<forall>r \<in> set (d_sess d). sv_id r = sv_id s \<longrightarrow> sv_state r \<noteq> sv_state s"
      by (simp add: find_None_all)
    with None show ?thesis using assms allow by (simp add: apply_delta_run Let_def)
  next
    case (Some r)
    then have r: "r \<in> set (d_sess d)" "?p r" by (auto dest: find_Some_in)
    have "upd_where ?p ?f (d_sess d) = map (\<lambda>x. if x = r then ?f r else x) (d_sess d)"
      unfolding upd_where_def
      using r sess_ok_id[OF db_ok_sess[OF assms]] by (intro map_cong) auto
    moreover have "sv_result_ref (?f r) \<noteq> None" if "db_ok ?d" "sd_state \<delta> = Completed"
    proof -
      have "?f r \<in> set (d_sess ?d)" using r by (auto simp: set_upd_where image_iff)
      from sess_ok_row[OF db_ok_sess[OF that(1)] this] that(2) show ?thesis
        by (simp add: sess_row_ok_def delta_row_def)
    qed
    moreover have "sv_state (?f r) = sd_state \<delta>" "sv_turn_count (?f r) = sv_turn_count r + 1"
      by (simp_all add: delta_row_def)
    ultimately show ?thesis using assms allow Some r
      by (auto simp: apply_delta_run Let_def)
  qed
qed

lemma apply_delta_follows_lifecycle_witness:
  "\<exists>r d'. apply_delta sample_session (delta_of Finalizing) sample_db = (Inr r, d') \<and> sv_state r = Finalizing"
proof -
  have "isl (fst (apply_delta sample_session (delta_of Finalizing) sample_db)) = False" by code_simp
  then show ?thesis
    using apply_delta_follows_lifecycle[OF sample_db_ok, of sample_session "delta_of Finalizing"]
    by (cases "apply_delta sample_session (delta_of Finalizing) sample_db"; cases "fst (apply_delta sample_session (delta_of Finalizing) sample_db)")
      (auto simp: delta_of_def)
qed

text \<open>C9: a terminal session is final: after any history of service calls its row is still there,
  identical in every column.\<close>

theorem terminal_sessions_are_final:
  assumes "session_step\<^sup>*\<^sup>* d d'" and "r \<in> set (d_sess d)" and "terminal (sv_state r)"
  shows "r \<in> set (d_sess d')"
  using session_steps_evolve[OF assms(1)] assms(2,3)
  by (auto simp: sessions_evolve_def session_le_def)

lemma terminal_sessions_are_final_witness:
  "let d = snd (abandon 3 ''x'' ''system'' sample_db); r = hd (d_sess d)
   in terminal (sv_state r) \<and> r \<in> set (d_sess (snd (open_for 3 2 sample_interview d)))"
proof -
  let ?d = "snd (abandon 3 ''x'' ''system'' sample_db)"
  have "hd (d_sess ?d) \<in> set (d_sess ?d)" "terminal (sv_state (hd (d_sess ?d)))" by code_simp+
  then show ?thesis
    using terminal_sessions_are_final[OF r_into_rtranclp[of session_step, OF step_open[OF refl]], of _ ?d 3 2 sample_interview]
    by (simp add: Let_def)
qed

text \<open>C10: the finalisation claim is won at most once per session. Once a claim has returned the
  session, no claim made after any further history of service calls wins.\<close>

theorem claim_finalizing_wins_once:
  assumes "db_ok d" and "claim_finalizing i d = (Inr (Some r), d1)" and "session_step\<^sup>*\<^sup>* d1 d2"
  shows "fst (claim_finalizing i d2) = Inr None"
proof -
  let ?p = "\<lambda>r. sv_id r = i \<and> claimable (sv_state r)"
  let ?f = "\<lambda>r. r\<lparr> sv_state := Finalizing \<rparr> :: session_row"
  from assms(1,2) obtain r0 where r0: "find ?p (d_sess d) = Some r0"
    and d1: "d1 = d\<lparr> d_sess := upd_where ?p ?f (d_sess d) \<rparr>"
    by (auto simp: repo_claim_run Let_def)
  have ok1: "db_ok d1"
    using preservesD[OF preserves_db_ok_session_service(3) assms(1), of i] assms(2) by simp
  have ok2: "db_ok d2" using session_steps_db_ok[OF assms(3) ok1] .
  have "?f r0 \<in> set (d_sess d1)" using r0 unfolding d1 by (auto simp: set_upd_where dest: find_Some_in)
  then obtain r2 where r2: "r2 \<in> set (d_sess d2)" and le: "session_le (?f r0) r2"
    using session_steps_evolve[OF assms(3)] by (auto simp: sessions_evolve_def)
  have id2: "sv_id r2 = i" using le r0 by (auto simp: session_le_def dest: find_Some_in)
  have "edge\<^sup>*\<^sup>* Finalizing (sv_state r2)" using le by (simp add: session_le_def)
  then have "sv_state r2 \<in> {Finalizing, Completed, Failed, Abandoned}"
    by (rule edges_from_finalizing) simp
  then have "\<not> claimable (sv_state r2)" by (auto simp: claimable_def)
  then have "find ?p (d_sess d2) = None"
    using sess_ok_id[OF db_ok_sess[OF ok2] _ r2] id2 by (auto simp: find_None_all)
  then show ?thesis by (simp add: repo_claim_run[OF ok2] Let_def)
qed

lemma claim_finalizing_wins_once_witness:
  "fst (claim_finalizing 4 (snd (abandon 3 ''x'' ''system'' (snd (claim_finalizing 4 sample_db))))) = Inr None"
proof -
  have "\<exists>r. fst (claim_finalizing 4 sample_db) = Inr (Some r)" by (intro exI) code_simp
  then show ?thesis
    using claim_finalizing_wins_once[OF sample_db_ok _ r_into_rtranclp[of session_step, OF step_abandon[OF refl]]]
    by (metis prod.collapse)
qed

text \<open>Abandoning is atomic and cannot fail on a consistent database: either the conversation
  has no open session and nothing changes, or its one open session becomes abandoned with the
  reason, the conversation is unpinned, one audit record with the row before and after is
  written, and the conversation has no open session any more.\<close>

theorem abandon_is_atomic:
  assumes "db_ok d"
  shows "(open_sessions c d = [] \<and> abandon c why actor d = (Inr None, d)) \<or>
    (\<exists>s d'. open_sessions c d = [s] \<and> abandon c why actor d = (Inr (Some (abandoned_row why (d_now d) s)), d')
      \<and> d_sess d' = map (\<lambda>x. if x = s then abandoned_row why (d_now d) s else x) (d_sess d)
      \<and> open_sessions c d' = [] \<and> (\<forall>x \<in> set (d_convs d'). cv_id x = c \<longrightarrow> cv_pinned_agent_id x = None)
      \<and> (\<exists>a. d_audit d' = d_audit d @ [a] \<and> au_action a = Session_abandon \<and> au_entity_id a = Some (sv_id s)
           \<and> au_before a = Some (Au_session s) \<and> au_actor a = actor \<and> au_note a = Some why))"
proof (cases "open_sessions c d")
  case Nil
  then show ?thesis using assms by (simp add: abandon_run)
next
  case (Cons s ss)
  let ?p = "\<lambda>x. sv_conversation_id x = c \<and> is_open x"
  have one: "open_sessions c d = [s]"
    using one_open[OF db_ok_sess[OF assms], of c] Cons by (simp add: open_sessions_def)
  then have mem: "?p x \<longleftrightarrow> x = s" if "x \<in> set (d_sess d)" for x
  proof -
    have "?p x \<longleftrightarrow> x \<in> set (open_sessions c d)" using that by (simp add: open_sessions_def)
    then show ?thesis using one by simp
  qed
  have rows: "upd_where ?p f (d_sess d) = map (\<lambda>x. if x = s then f s else x) (d_sess d)" for f
    unfolding upd_where_def using mem by (intro map_cong) auto
  have "d_sess (abandoned_db c why actor s d) = upd_where ?p (abandoned_row why (d_now d)) (d_sess d)"
    by (simp add: abandoned_db_def Let_def)
  moreover have "\<not> ?p (if ?p x then abandoned_row why (d_now d) x else x)" for x
    by (simp add: abandoned_row_def)
  ultimately have "open_sessions c (abandoned_db c why actor s d) = []"
    by (simp only: open_sessions_def filter_empty_conv set_upd_where ball_simps) blast
  moreover have "d_sess (abandoned_db c why actor s d) =
      map (\<lambda>x. if x = s then abandoned_row why (d_now d) s else x) (d_sess d)"
    by (simp add: abandoned_db_def Let_def rows)
  moreover have "\<forall>x \<in> set (d_convs (abandoned_db c why actor s d)).
      cv_id x = c \<longrightarrow> cv_pinned_agent_id x = None"
    by (simp add: abandoned_db_def Let_def ball_upd_where)
  moreover have "abandon c why actor d =
      (Inr (Some (abandoned_row why (d_now d) s)), abandoned_db c why actor s d)"
    using assms one by (simp add: abandon_run)
  moreover have "\<exists>a. d_audit (abandoned_db c why actor s d) = d_audit d @ [a]
      \<and> au_action a = Session_abandon \<and> au_entity_id a = Some (sv_id s)
      \<and> au_before a = Some (Au_session s) \<and> au_actor a = actor \<and> au_note a = Some why"
    by (simp add: abandoned_db_def Let_def abandoned_row_def)
  ultimately show ?thesis using one
    by (intro disjI2 exI[of _ s] exI[of _ "abandoned_db c why actor s d"] conjI)
qed

lemma abandon_is_atomic_witness: "\<exists>d'. abandon 3 ''x'' ''system'' sample_db =
    (Inr (Some (abandoned_row ''x'' 5 sample_session)), d') \<and> open_sessions 3 d' = []"
proof -
  have "open_sessions 3 sample_db = [sample_session]" "d_now sample_db = 5" by code_simp+
  with abandon_is_atomic[OF sample_db_ok, of 3 "''x''" "''system''"] show ?thesis
    by (elim disjE conjE exE) simp_all
qed

lemma abandoned_db_sess:
  "d_sess (abandoned_db c why actor s d) =
   upd_where (\<lambda>x. sv_conversation_id x = c \<and> is_open x) (abandoned_row why (d_now d)) (d_sess d)"
  by (simp add: abandoned_db_def Let_def)

lemma open_sessions_abandoned: "open_sessions c (abandoned_db c why actor s d) = []"
  unfolding open_sessions_def filter_empty_conv abandoned_db_sess ball_upd_where
  by (simp add: abandoned_row_def)

lemma abandoned_db_keys:
  "map cv_id (d_convs (abandoned_db c why actor s d)) = map cv_id (d_convs d)"
  "map sv_id (d_sess (abandoned_db c why actor s d)) = map sv_id (d_sess d)"
  "d_agents (abandoned_db c why actor s d) = d_agents d"
  "d_next (abandoned_db c why actor s d) = d_next d" "d_now (abandoned_db c why actor s d) = d_now d"
  by (simp_all add: abandoned_db_def Let_def abandoned_row_def map_upd_where)

lemma create_pending_run:
  assumes "db_ok d" and "list_all (\<lambda>r. sv_id r < d_next d) (d_sess d)"
    and "c \<in> set (map cv_id (d_convs d))" and "a \<in> set (map ag_id (d_agents d))"
    and "lang \<in> set languages" and "open_sessions c d = []"
  shows "create_pending c a lang d =
    (Inr (pending_row (d_next d) c a lang (d_now d)),
     d\<lparr> d_next := d_next d + 1, d_sess := d_sess d @ [pending_row (d_next d) c a lang (d_now d)] \<rparr>)"
proof -
  let ?r = "pending_row (d_next d) c a lang (d_now d)"
  have "db_ok (d\<lparr> d_sess := d_sess d @ [?r] \<rparr>)" using assms
    by (intro db_ok_append_sess)
      (auto simp: pending_row_def sess_row_ok_def open_sessions_def list_all_iff)
  then have "db_ok (d\<lparr> d_next := d_next d + 1, d_sess := d_sess d @ [?r] \<rparr>)"
    by (subst db_ok_cong[of _ "d\<lparr> d_sess := d_sess d @ [?r] \<rparr>"]) simp_all
  then show ?thesis by (simp add: create_pending_def andthen_run stmt_run Let_def)
qed

definition spec_language :: "agent_spec \<Rightarrow> string" where
  "spec_language sp = (case spec_remote sp of Some r \<Rightarrow> rm_default_language r | None \<Rightarrow> ''en'')"

text \<open>A session is never shared across agents. Whatever session the conversation had before,
  after \<open>open_for\<close> returns, the session handed out (if any) belongs to the requested agent and
  conversation and is the only open session of that conversation; if none is handed out, the
  conversation has no open session.\<close>

theorem open_for_never_shares:
  assumes "db_ok d" and "open_for c a sp d = (Inr res, d')"
  shows "open_sessions c d' = (case res of None \<Rightarrow> [] | Some s \<Rightarrow> [s])
    \<and> (\<forall>s. res = Some s \<longrightarrow> sv_agent_id s = a \<and> sv_conversation_id s = c \<and> is_open s)"
proof -
  have created: "open_sessions c e' = (case res of None \<Rightarrow> [] | Some s \<Rightarrow> [s])
      \<and> (\<forall>s. res = Some s \<longrightarrow> sv_agent_id s = a \<and> sv_conversation_id s = c \<and> is_open s)"
    if "open_create c a sp e = (Inr res, e')" and "open_sessions c e = []" for e e'
    using that
    by (auto simp: open_create_def create_pending_def andthen_run stmt_run Let_def open_sessions_def
        pending_row_def split: if_splits)
  show ?thesis
  proof (cases "open_sessions c d")
    case Nil
    then show ?thesis using assms created[of d d']
      by (simp add: open_for_def open_attach_def get_open_run)
  next
    case (Cons s ss)
    have one: "open_sessions c d = [s]"
      using one_open[OF db_ok_sess[OF assms(1)], of c] Cons by (simp add: open_sessions_def)
    then have s: "sv_conversation_id s = c" "is_open s"
      using filter_set unfolding open_sessions_def by (metis (mono_tags, lifting) list.set_intros(1) mem_Collect_eq set_filter)+
    show ?thesis
    proof (cases "sv_agent_id s = a")
      case True
      then show ?thesis using assms one s by (auto simp: open_for_def open_attach_def get_open_run)
    next
      case False
      then show ?thesis
        using assms one created[OF _ open_sessions_abandoned, of "''agent_switch''" "''system''" s d d']
        by (simp add: open_for_def open_attach_def get_open_run abandon_run)
    qed
  qed
qed

lemma open_for_never_shares_witness:
  "\<exists>s d'. open_for 3 2 sample_interview sample_db = (Inr (Some s), d') \<and> open_sessions 3 d' = [s]"
proof -
  have "fst (open_for 3 2 sample_interview sample_db) = Inr (Some sample_session)" by code_simp
  then show ?thesis
    using open_for_never_shares[OF sample_db_ok, of 3 2 sample_interview "Some sample_session"]
    by (cases "open_for 3 2 sample_interview sample_db") auto
qed

text \<open>Opening a session cannot fail on a consistent database: for a conversation and an agent
  that exist and a supported language, \<open>open_for\<close> returns, and a session exactly when the
  agent pins sessions or already holds the open one; no constraint can refuse it, in particular
  not the one-open-session index.\<close>

theorem open_for_total:
  assumes "db_ok d" and "ids_below d"
    and "c \<in> set (map cv_id (d_convs d))" and "a \<in> set (map ag_id (d_agents d))"
    and "spec_language sp \<in> set languages"
  shows "\<exists>res d'. open_for c a sp d = (Inr res, d')
    \<and> (res \<noteq> None \<longleftrightarrow> rt_pin_session (spec_routing sp) \<or> (\<exists>s \<in> set (open_sessions c d). sv_agent_id s = a))"
proof -
  have create: "\<exists>res e'. open_create c a sp e = (Inr res, e')
      \<and> (res \<noteq> None \<longleftrightarrow> rt_pin_session (spec_routing sp))"
    if "db_ok e" "open_sessions c e = []" "map cv_id (d_convs e) = map cv_id (d_convs d)"
      "d_agents e = d_agents d" "map sv_id (d_sess e) = map sv_id (d_sess d)" "d_next e = d_next d" for e
  proof -
    have "list_all (\<lambda>i. i < d_next e) (map sv_id (d_sess e))"
      using assms(2) that by (simp add: ids_below_def list_all_iff)
    then have "list_all (\<lambda>r. sv_id r < d_next e) (d_sess e)" by (simp add: list.pred_map comp_def)
    from create_pending_run[OF that(1) this _ _ assms(5) that(2), of a] assms(3,4) that(3,4)
    show ?thesis by (simp add: open_create_def spec_language_def)
  qed
  show ?thesis
  proof (cases "open_sessions c d")
    case Nil
    then show ?thesis using create[of d] assms(1)
      by (simp add: open_for_def open_attach_def get_open_run)
  next
    case (Cons s ss)
    have one: "open_sessions c d = [s]"
      using one_open[OF db_ok_sess[OF assms(1)], of c] Cons by (simp add: open_sessions_def)
    show ?thesis
    proof (cases "sv_agent_id s = a")
      case True
      then show ?thesis using assms one by (simp add: open_for_def open_attach_def get_open_run)
    next
      case False
      then show ?thesis
        using create[OF db_ok_abandoned_db[OF assms(1)] open_sessions_abandoned] assms(1) one
        by (simp add: open_for_def open_attach_def get_open_run abandon_run abandoned_db_keys)
    qed
  qed
qed

lemma open_for_total_witness:
  "\<exists>s d'. open_for 3 1 sample_interview sample_db = (Inr (Some s), d')"
proof -
  have "3 \<in> set (map cv_id (d_convs sample_db))" "1 \<in> set (map ag_id (d_agents sample_db))"
    "spec_language sample_interview \<in> set languages" "rt_pin_session (spec_routing sample_interview)"
    by code_simp+
  with open_for_total[OF sample_db_ok sample_ids_below] show ?thesis by fast
qed

lemma upd_where_twice:
  "(\<And>x. f (f x) = f x) \<Longrightarrow> (\<And>x. p (f x) = p x) \<Longrightarrow>
   upd_where p f (upd_where q f xs) = upd_where (\<lambda>x. q x \<or> p x) f xs"
  by (induction xs) auto

definition sweep_audit :: "time \<Rightarrow> session_row \<Rightarrow> audit_row" where
  "sweep_audit t r = \<lparr> au_action = Session_abandon, au_entity_type = ''agent_session'',
     au_entity_id = Some (sv_id r), au_actor = ''system'', au_before = None,
     au_after = Some (Au_session r), au_note = Some ''idle sweep'', au_created_at = t \<rparr>"

lemma sweep_loop_run:
  "db_ok d \<Longrightarrow> \<exists>d'. each (\<lambda>r. andthen (unpin (sv_conversation_id r)) (\<lambda>_.
         audit_insert Session_abandon ''agent_session'' (Some (sv_id r)) ''system'' None
           (Some (Au_session r)) (Some ''idle sweep''))) rs d = (Inr (), d')
     \<and> d_sess d' = d_sess d \<and> d_audit d' = d_audit d @ map (sweep_audit (d_now d)) rs
     \<and> d_convs d' = upd_where (\<lambda>c. cv_id c \<in> sv_conversation_id ` set rs)
          (\<lambda>c. c\<lparr> cv_pinned_agent_id := None, cv_updated_at := d_now d \<rparr>) (d_convs d)"
proof (induction rs arbitrary: d)
  case Nil
  then show ?case by (simp add: upd_where_idle)
next
  case (Cons r rs)
  let ?d = "d\<lparr> d_convs := upd_where (\<lambda>x. cv_id x = sv_conversation_id r)
        (\<lambda>x. x\<lparr> cv_pinned_agent_id := None, cv_updated_at := d_now d \<rparr>) (d_convs d),
      d_audit := d_audit d @ [sweep_audit (d_now d) r] \<rparr>"
  have ok: "db_ok ?d"
    using db_ok_unpin_rows[OF Cons.prems, of "\<lambda>x. cv_id x = sv_conversation_id r" "d_now d"]
    by (subst db_ok_cong[of _ "d\<lparr> d_convs := upd_where (\<lambda>x. cv_id x = sv_conversation_id r)
        (\<lambda>x. x\<lparr> cv_pinned_agent_id := None, cv_updated_at := d_now d \<rparr>) (d_convs d) \<rparr>"]) simp_all
  from Cons.IH[OF ok] show ?case
    using Cons.prems db_ok_unpin_rows[OF Cons.prems]
    by (auto simp: unpin_run audit_insert_run upd_where_twice andthen_run sweep_audit_def)
qed

text \<open>The idle sweep abandons exactly the open sessions with no activity since the cutoff,
  unpins each of their conversations and writes one audit record per session, in one pass that
  cannot fail on a consistent database; every other session row is untouched.\<close>

theorem sweep_abandons_exactly_idle:
  assumes "db_ok d"
  shows "\<exists>swept d'. sweep_abandoned fmt cutoff d = (Inr swept, d')
    \<and> map sv_id swept = map sv_id (filter (\<lambda>r. is_open r \<and> sr_last_activity_at r < cutoff) (d_sess d))
    \<and> (\<forall>r \<in> set swept. sv_state r = Abandoned \<and> r \<in> set (d_sess d'))
    \<and> (\<forall>r \<in> set (d_sess d). \<not> (is_open r \<and> sr_last_activity_at r < cutoff) \<longrightarrow> r \<in> set (d_sess d'))
    \<and> (\<forall>c \<in> set (d_convs d'). cv_id c \<in> sv_conversation_id ` set swept \<longrightarrow> cv_pinned_agent_id c = None)
    \<and> d_audit d' = d_audit d @ map (sweep_audit (d_now d)) swept"
proof -
  let ?p = "\<lambda>r. is_open r \<and> sr_last_activity_at r < cutoff"
  let ?f = "abandoned_row (''idle sweep: no activity before '' @ fmt cutoff) (d_now d)"
  let ?d = "d\<lparr> d_sess := upd_where ?p ?f (d_sess d) \<rparr>" and ?swept = "map ?f (filter ?p (d_sess d))"
  have ok: "db_ok ?d" using assms by (intro db_ok_abandon_rows) auto
  then have swept: "sweep_abandoned_older_than cutoff (''idle sweep: no activity before '' @ fmt cutoff) d
      = (Inr ?swept, ?d)"
    by (simp add: sweep_abandoned_older_than_def upd_sess_def stmt_run)
  from sweep_loop_run[OF ok, of ?swept] obtain d' where d':
    "sweep_abandoned fmt cutoff d = (Inr ?swept, d')" "d_sess d' = upd_where ?p ?f (d_sess d)"
    "d_audit d' = d_audit d @ map (sweep_audit (d_now d)) ?swept"
    "d_convs d' = upd_where (\<lambda>c. cv_id c \<in> sv_conversation_id ` set ?swept)
       (\<lambda>c. c\<lparr> cv_pinned_agent_id := None, cv_updated_at := d_now d \<rparr>) (d_convs d)"
    using swept by (fastforce simp: sweep_abandoned_def)
  have "map sv_id ?swept = map sv_id (filter ?p (d_sess d))" by (simp add: abandoned_row_def)
  moreover have "\<forall>r \<in> set ?swept. sv_state r = Abandoned \<and> r \<in> set (d_sess d')"
    unfolding d'(2) set_upd_where by (simp add: abandoned_row_def image_iff) blast
  moreover have "\<forall>r \<in> set (d_sess d). \<not> ?p r \<longrightarrow> r \<in> set (d_sess d')"
    unfolding d'(2) set_upd_where by (simp add: image_iff)
  moreover have "\<forall>c \<in> set (d_convs d'). cv_id c \<in> sv_conversation_id ` set ?swept \<longrightarrow> cv_pinned_agent_id c = None"
    unfolding d'(4) ball_upd_where by simp
  ultimately show ?thesis using d'(1,3)
    by (intro exI[of _ ?swept] exI[of _ d'] conjI)
qed

lemma sweep_abandons_exactly_idle_witness:
  "\<exists>swept d'. sweep_abandoned (\<lambda>t. []) 3 sample_db = (Inr swept, d') \<and> map sv_id swept = [4]"
proof -
  have "map sv_id (filter (\<lambda>r. is_open r \<and> sr_last_activity_at r < 3) (d_sess sample_db)) = [4]"
    by code_simp
  with sweep_abandons_exactly_idle[OF sample_db_ok, of "\<lambda>t. []" 3] show ?thesis
    by (elim exE conjE) (intro exI conjI, assumption, simp only:)
qed

end
