(* ===== verification/World.thy ===== *)
theory World
  imports Agent_Registry Channel_Pool Rest_Client Identifiers Session_Service
begin

text \<open>
  What one request acts on, and the code it calls that is not in the repository.

  \<^item> \<open>world\<close>: the database as the request's transaction sees it (\<open>w_db\<close>) and as it was last
    committed, the advisory locks with the connections that hold them (\<open>w_conn\<close> is the request's
    own, pinned for the whole request by \<open>get_db\<close>), the registry, the handler cache, the log of HTTP requests to
    Mitra, the channel pool with the monotonic clock, and the log of language-model calls.
  \<^item> \<open>env\<close>: Mitra's REST side (\<open>e_net\<close>), its WebSocket side (in \<open>e_pool\<close>), the language model
    (\<open>e_llm\<close>), the tools, Pydantic validation, \<open>json_repair\<close>, \<open>float\<close> of a string,
    \<open>os.environ\<close>, PostgreSQL's \<open>hashtext\<close>. \<open>e_client\<close> and \<open>e_pool\<close> are \<open>None\<close> when Mitra is not
    configured.

  A statement that violates a constraint aborts the transaction: every later one fails until
  the rollback; so does \<open>commit\<close>, which is how SQLAlchemy answers after a failed flush. (No commit
  of the orchestration is reached with an aborted transaction; the end of a request is
  \<open>end_request\<close> in \<open>Requests\<close>.) \<open>now()\<close> is the time of the first statement after a commit. Calls to the language model
  and to tools take the time \<open>e_llm_ms\<close> and the first component of a tool's result.
\<close>

datatype chat_msg =
    System_msg string
  | Human_msg string
  | Ai_msg string
  | Ai_tool_msg json "(string \<times> string \<times> json) list"  \<comment> \<open>content; id, name, arguments of each tool call\<close>
  | Tool_msg string string  \<comment> \<open>content, tool call id\<close>

record llm_call =
  lc_model :: model_spec
  lc_tools :: "string list"
  lc_messages :: "chat_msg list"

record llm_reply =
  lr_content :: json
  lr_tool_calls :: "(string \<times> string \<times> json) list"
  lr_prompt_tokens :: "int option"
  lr_completion_tokens :: "int option"

record env =
  e_net :: network
  e_client :: "rest_client option"
  e_pool :: "pool_cfg option"
  e_llm :: "llm_call list \<Rightarrow> llm_call \<Rightarrow> exc + llm_reply"
  e_llm_ms :: "llm_call list \<Rightarrow> llm_call \<Rightarrow> nat"
  e_tools :: "(string \<times> (json \<Rightarrow> nat \<times> (exc + string))) list"
  e_json_repair :: "string \<Rightarrow> exc + json"
  e_float :: "string \<Rightarrow> pyfloat option"
  e_validate :: validator
  e_environ :: "string \<Rightarrow> string option"
  e_router_model :: model_spec
  e_postgres :: bool
  e_hashtext :: "string \<Rightarrow> int"
  e_date_text :: "time \<Rightarrow> string"

record world =
  w_db :: db
  w_committed :: db
  w_in_tx :: bool
  w_aborted :: bool
  w_conn :: nat
  w_locks :: "(nat \<times> int) list"
  w_reg :: registry
  w_handlers :: "((string \<times> string) \<times> agent_spec) list"
  w_http :: "http_req list"
  w_pool :: pool_world
  w_llm :: "llm_call list"
  w_prompt :: "((nat \<times> string list) \<times> string) option"

type_synonym 'a wact = "(world, exc, 'a) act"

section \<open>Layers\<close>

definition wall_clock :: "world \<Rightarrow> time" where
  "wall_clock w = 1000 * pw_now (w_pool w)"

definition begin_tx :: "world \<Rightarrow> world" where
  "begin_tx w = (if w_in_tx w then w
     else w\<lparr> w_in_tx := True, w_db := (w_db w)\<lparr> d_now := wall_clock w \<rparr> \<rparr>)"

text \<open>A statement of the request's transaction.\<close>

definition dbx :: "'a dbact \<Rightarrow> 'a wact" where
  "dbx m = (\<lambda>w0. let w = begin_tx w0 in
     if w_aborted w then (Inl InFailedTransaction, w)
     else case m (w_db w) of (r, d) \<Rightarrow>
       (r, w\<lparr> w_db := d, w_aborted := (case r of Inl e \<Rightarrow> e = IntegrityError | Inr _ \<Rightarrow> False) \<rparr>))"

definition rollback :: "world \<Rightarrow> world" where
  "rollback w = w\<lparr> w_db := (w_committed w)\<lparr> d_next := d_next (w_db w) \<rparr>, w_in_tx := False,
     w_aborted := False \<rparr>"

definition commit :: "unit wact" where
  "commit = (\<lambda>w. if w_aborted w then (Inl InFailedTransaction, w)
     else (Inr (), w\<lparr> w_committed := w_db w, w_in_tx := False \<rparr>))"

definition monotonic :: "world \<Rightarrow> int" where
  "monotonic w = pw_now (w_pool w)"

definition tick :: "nat \<Rightarrow> world \<Rightarrow> world" where
  "tick n w = w\<lparr> w_pool := (w_pool w)\<lparr> pw_now := pw_now (w_pool w) + int n \<rparr> \<rparr>"

definition httpx :: "'a restact \<Rightarrow> 'a wact" where
  "httpx m = (\<lambda>w. case m (w_http w) of (r, h) \<Rightarrow> (r, w\<lparr> w_http := h \<rparr>))"

definition poolx :: "'a poolact \<Rightarrow> 'a wact" where
  "poolx m = (\<lambda>w. case m (w_pool w) of (r, p) \<Rightarrow> (r, w\<lparr> w_pool := p \<rparr>))"

definition llmx :: "env \<Rightarrow> llm_call \<Rightarrow> llm_reply wact" where
  "llmx env c = (\<lambda>w. (e_llm env (w_llm w) c, (tick (e_llm_ms env (w_llm w) c) w)\<lparr> w_llm := w_llm w @ [c] \<rparr>))"

definition toolx :: "(json \<Rightarrow> nat \<times> (exc + string)) \<Rightarrow> json \<Rightarrow> string wact" where
  "toolx f args = (\<lambda>w. case f args of (n, r) \<Rightarrow> (r, tick n w))"

definition regx :: "(registry \<Rightarrow> 'a \<times> registry) \<Rightarrow> 'a wact" where
  "regx f = (\<lambda>w. case f (w_reg w) of (x, reg) \<Rightarrow> (Inr x, w\<lparr> w_reg := reg \<rparr>))"

text \<open>\<open>except Exception\<close> around a block whose failure is logged and dropped.\<close>

definition attempt :: "'a wact \<Rightarrow> (exc + 'a) wact" where
  "attempt m = (\<lambda>w. case m w of (r, w') \<Rightarrow> (Inr r, w'))"

lemma begin_tx_sel [simp]:
  "w_aborted (begin_tx w) = w_aborted w" "w_committed (begin_tx w) = w_committed w"
  "w_locks (begin_tx w) = w_locks w" "w_conn (begin_tx w) = w_conn w" "w_reg (begin_tx w) = w_reg w" "w_http (begin_tx w) = w_http w"
  "w_pool (begin_tx w) = w_pool w" "w_llm (begin_tx w) = w_llm w" "w_handlers (begin_tx w) = w_handlers w"
  "db_ok (w_db (begin_tx w)) = db_ok (w_db w)"
  by (simp_all add: begin_tx_def)

section \<open>Preservation across layers\<close>

lemma preserves_dbx:
  assumes "preserves P m" and "\<And>d t. P d \<Longrightarrow> P (d\<lparr> d_now := t \<rparr>)"
  shows "preserves (\<lambda>w. P (w_db w)) (dbx m)"
proof (rule preservesI)
  fix w :: world assume "P (w_db w)"
  then have P: "P (w_db (begin_tx w))" by (simp add: begin_tx_def assms(2))
  then have "P (snd (m (w_db (begin_tx w))))" by (rule preservesD[OF assms(1)])
  then show "P (w_db (snd (dbx m w)))" using P
    by (auto simp: dbx_def Let_def split: prod.splits)
qed

lemma dbx_frame: "\<exists>d b t. snd (dbx m w) = w\<lparr> w_db := d, w_aborted := b, w_in_tx := t \<rparr>"
  by (cases w) (auto simp: dbx_def begin_tx_def Let_def split: prod.splits)

lemma preserves_dbx_other:
  assumes "\<And>w d b t. P w \<Longrightarrow> P (w\<lparr> w_db := d, w_aborted := b, w_in_tx := t \<rparr>)"
  shows "preserves P (dbx m)"
  by (rule preservesI) (metis assms dbx_frame)

text \<open>What leaves the database side alone.\<close>

definition same_db :: "world \<Rightarrow> world \<Rightarrow> bool" where
  "same_db w w' \<longleftrightarrow> w_db w' = w_db w \<and> w_committed w' = w_committed w \<and> w_in_tx w' = w_in_tx w
     \<and> w_aborted w' = w_aborted w \<and> w_locks w' = w_locks w \<and> w_conn w' = w_conn w"

interpretation outside: progress same_db
  by unfold_locales (auto simp: same_db_def)

lemma httpx_outside: "advances same_db (httpx m)"
  by (auto simp: advances_def same_db_def httpx_def split: prod.splits)

lemma poolx_outside: "advances same_db (poolx m)"
  by (auto simp: advances_def same_db_def poolx_def split: prod.splits)

lemma llmx_outside: "advances same_db (llmx env c)"
  by (auto simp: advances_def same_db_def llmx_def tick_def)

lemma toolx_outside: "advances same_db (toolx f args)"
  by (auto simp: advances_def same_db_def toolx_def tick_def split: prod.splits)

lemma regx_outside: "advances same_db (regx f)"
  by (auto simp: advances_def same_db_def regx_def split: prod.splits)

lemma attempt_outside: "advances same_db m \<Longrightarrow> advances same_db (attempt m)"
  by (auto simp: advances_def attempt_def split_beta)

lemmas outside_adv = outside.adv httpx_outside poolx_outside llmx_outside toolx_outside regx_outside attempt_outside

lemma dbx_Inr:
  "\<not> w_aborted w \<Longrightarrow> m (w_db (begin_tx w)) = (Inr x, d) \<Longrightarrow>
   dbx m w = (Inr x, (begin_tx w)\<lparr> w_db := d, w_aborted := False \<rparr>)"
  by (simp add: dbx_def Let_def)

lemma begin_tx_convs [simp]:
  "d_convs (w_db (begin_tx w)) = d_convs (w_db w)" "d_sess (w_db (begin_tx w)) = d_sess (w_db w)"
  "d_msgs (w_db (begin_tx w)) = d_msgs (w_db w)" "d_agents (w_db (begin_tx w)) = d_agents (w_db w)"
  "d_next (w_db (begin_tx w)) = d_next (w_db w)" "d_cfgs (w_db (begin_tx w)) = d_cfgs (w_db w)"
  "d_audit (w_db (begin_tx w)) = d_audit (w_db w)" "d_tools (w_db (begin_tx w)) = d_tools (w_db w)"
  by (simp_all add: begin_tx_def)

text \<open>A usable transaction on a consistent database.\<close>

definition healthy :: "world \<Rightarrow> bool" where
  "healthy w \<longleftrightarrow> db_ok (w_db w) \<and> \<not> w_aborted w"

lemma healthy_after: "db_ok d \<Longrightarrow> healthy ((begin_tx w)\<lparr> w_db := d, w_aborted := False \<rparr>)"
  by (simp add: healthy_def)

text \<open>An action that, on a usable transaction, returns and leaves it usable.\<close>

definition sure :: "'a wact \<Rightarrow> bool" where
  "sure m \<longleftrightarrow> (\<forall>w. healthy w \<longrightarrow> (\<exists>x w'. m w = (Inr x, w') \<and> healthy w'))"

lemma sureD: "sure m \<Longrightarrow> healthy w \<Longrightarrow> \<exists>x w'. m w = (Inr x, w') \<and> healthy w'"
  by (simp add: sure_def)

lemma sure_andthen: "sure m \<Longrightarrow> (\<And>x. sure (f x)) \<Longrightarrow> sure (andthen m f)"
  unfolding sure_def by (metis andthen_Inr)

lemma sure_ret: "sure (ret x)"
  by (simp add: sure_def)

lemma sure_asks: "sure (asks f)"
  by (simp add: sure_def)

lemma sure_dbx:
  assumes "\<And>d. db_ok d \<Longrightarrow> \<exists>x d'. m d = (Inr x, d') \<and> db_ok d'"
  shows "sure (dbx m)"
  unfolding sure_def
proof (intro allI impI)
  fix w assume w: "healthy w"
  then have "db_ok (w_db (begin_tx w))" by (simp add: healthy_def)
  from assms[OF this] obtain x d' where "m (w_db (begin_tx w)) = (Inr x, d')" "db_ok d'" by blast
  then show "\<exists>x w'. dbx m w = (Inr x, w') \<and> healthy w'"
    using w by (intro exI[of _ x] exI) (auto simp: dbx_Inr healthy_def)
qed

section \<open>Requests and time, through the layers\<close>

abbreviation requests :: "(http_req \<Rightarrow> bool) \<Rightarrow> nat \<Rightarrow> 'a wact \<Rightarrow> bool" where
  "requests \<equiv> grows w_http"

lemma requests_httpx: "sends P n m \<Longrightarrow> requests P n (httpx m)"
  unfolding grows_def httpx_def by (auto split: prod.splits) (metis snd_conv)

lemma requests_dbx: "requests P n (dbx m)"
proof -
  have "w_http (snd (dbx m w)) = w_http w" for w using dbx_frame[of m w] by auto
  then show ?thesis by (rule grows_still)
qed

lemma requests_quiet_layers:
  "requests P n (poolx p)" "requests P n (llmx env c)" "requests P n (toolx f args)" "requests P n (regx g)"
  "requests P n commit"
  by (auto intro!: grows_still simp: poolx_def llmx_def toolx_def regx_def tick_def commit_def split: prod.splits)

lemma grows_attempt: "grows lg P n m \<Longrightarrow> grows lg P n (attempt m)"
  unfolding grows_def attempt_def by (auto split: prod.splits) (metis snd_conv)

lemmas requests_rules = grows_rules requests_dbx requests_quiet_layers requests_httpx grows_attempt

definition clock_flows :: "world \<Rightarrow> world \<Rightarrow> bool" where
  "clock_flows w w' \<longleftrightarrow> monotonic w \<le> monotonic w'"

interpretation wclock: progress clock_flows
  by unfold_locales (auto simp: clock_flows_def)

lemma wclock_poolx: "advances time_flows m \<Longrightarrow> advances clock_flows (poolx m)"
  unfolding advances_def clock_flows_def time_flows_def poolx_def monotonic_def
  by (auto split: prod.splits) (metis snd_conv)

lemma wclock_layers:
  "advances clock_flows (httpx h)" "advances clock_flows (llmx env c)" "advances clock_flows (toolx f args)"
  by (auto simp: advances_def clock_flows_def monotonic_def httpx_def llmx_def toolx_def tick_def
      split: prod.splits)

lemmas wclock_adv = wclock.adv wclock_layers wclock_poolx pclock_acquire pclock_reacquire pclock_turn

end
