(* ===== verification/Sample_World.thy ===== *)
theory Sample_World
  imports World
begin

text \<open>
  The surroundings of the sample deployment: a Mitra that answers every request and every
  message, a language model that always says the same, a registry loaded from a catalogue with a
  configuration for both agents. The witnesses about whole requests evaluate on it.
\<close>

definition sample_net :: network where
  "sample_net hist req = Reply 200 (Some (JObj [(''id'', JStr ''p1''), (''sessionid'', JStr ''r1''),
     (''content'', JStr ''a story''), (''results'', JList [JObj [(''status'', JStr ''COMPLETED'')]])]))"

definition bot_says :: "string \<Rightarrow> frame" where
  "bot_says t = (blank_frame Bot_final)\<lparr> fr_source := ''bot'', fr_msg := t, fr_step := 2,
     fr_finish_reason := Some ''stop'' \<rparr>"

definition ack_frame :: frame where
  "ack_frame = (blank_frame System_frame)\<lparr> fr_source := ''authenticated'' \<rparr>"

definition sample_wire :: wire where
  "sample_wire n msgs = (if length msgs = 1 then Inr [(10, In ack_frame)]
     else Inr [(100, In (bot_says ''And then?''))])"

definition silent_wire :: wire where
  "silent_wire n msgs = (if length msgs = 1 then Inr [(10, In ack_frame)] else Inr [])"

definition sample_pool_cfg :: pool_cfg where
  "sample_pool_cfg = \<lparr> pc_max = 2, pc_idle_close = 600000, pc_wire = sample_wire, pc_address = JNull \<rparr>"

definition sample_env :: env where
  "sample_env = \<lparr> e_net = sample_net, e_client = Some sample_client, e_pool = Some sample_pool_cfg,
     e_llm = (\<lambda>cs c. Inr \<lparr> lr_content = JStr ''hello'', lr_tool_calls = [], lr_prompt_tokens = None,
        lr_completion_tokens = None \<rparr>),
     e_llm_ms = (\<lambda>cs c. 7), e_tools = [], e_json_repair = (\<lambda>s. Inr (JObj [])), e_float = (\<lambda>s. None),
     e_validate = (\<lambda>j. if jget (case j of JObj kvs \<Rightarrow> kvs | _ \<Rightarrow> []) ''key'' = JStr ''record_stories''
        then Some sample_interview else Some sample_llm),
     e_environ = (\<lambda>n. Some (''/'' @ n)),
     e_router_model = \<lparr> ms_name = ''r'', ms_temperature = 0, ms_max_tokens = None, ms_timeout_s = 30 \<rparr>,
     e_postgres = True, e_hashtext = (\<lambda>s. int (length s) + (if s = [] then 0 else int (of_char (last s)))),
     e_date_text = (\<lambda>t. '' - today'') \<rparr>"

definition sample_ra :: "uuid \<Rightarrow> string \<Rightarrow> agent_type \<Rightarrow> bool \<Rightarrow> agent_spec \<Rightarrow> registered_agent" where
  "sample_ra i k t dflt sp = \<lparr> ra_id = i, ra_key = k, ra_name = k, ra_description = k,
     ra_agent_type = t, ra_is_default = dflt, ra_checksum = ''c'', ra_spec = sp \<rparr>"

definition sample_registry :: registry where
  "sample_registry = (empty_registry 60)\<lparr>
     rg_snapshot := [(''general'', sample_ra 1 ''general'' Llm True sample_llm),
       (''record_stories'', sample_ra 2 ''record_stories'' Remote_flow False sample_interview)],
     rg_legacy_names := [(''General'', ''general'')], rg_version := 1 \<rparr>"

definition sample_world :: world where
  "sample_world = \<lparr> w_db = sample_db, w_committed = sample_db, w_in_tx = False, w_aborted = False,
     w_conn = 1, w_locks = [], w_reg = sample_registry, w_handlers = [], w_http = [],
     w_pool = \<lparr> pw_pool = empty_pool, pw_now = 0, pw_serial = 0 \<rparr>, w_llm = [], w_prompt = None \<rparr>"

lemma sample_healthy: "healthy sample_world"
  using sample_db_ok by (simp add: healthy_def sample_world_def)

end
