(* ===== verification/Router.thy ===== *)
theory Router
  imports Sample_World
begin

text \<open>
  \<open>services/router_service.py\<close>: the five gates that choose the agent of a turn.

  The characters of \<open>_COMMAND_PUNCTUATION\<close> above U+00FF (ellipsis and dashes) cannot occur in a
  modelled text and are left out of the list.
\<close>

datatype route_reason = Explicit | Pinned | Keyword | By_llm | Default_route | Exit_to_default

fun reason_text :: "route_reason \<Rightarrow> string" where
  "reason_text Explicit = ''explicit''"
| "reason_text Pinned = ''pinned''"
| "reason_text Keyword = ''keyword''"
| "reason_text By_llm = ''llm''"
| "reason_text Default_route = ''default''"
| "reason_text Exit_to_default = ''exit_to_default''"

text \<open>The agent of a decision is \<open>None\<close> when the registry has no default agent.\<close>

record route_decision =
  rd_agent :: "registered_agent option"
  rd_reason :: route_reason
  rd_confidence :: pyfloat
  rd_unpinned :: bool

definition decision :: "registered_agent option \<Rightarrow> route_reason \<Rightarrow> pyfloat \<Rightarrow> route_decision" where
  "decision a r c = \<lparr> rd_agent = a, rd_reason = r, rd_confidence = c, rd_unpinned = False \<rparr>"

section \<open>Commands and keywords\<close>

definition command_punctuation :: string where
  "command_punctuation = [CHR '' '', char_of (9::nat), char_of (13::nat), char_of (10::nat),
     single_quote, double_quote, char_of (96::nat)] @ ''.,!?;:-()[]{}''"

definition normalise_command :: "string \<Rightarrow> string" where
  "normalise_command t = join '' '' (split_ws (lower (strip_chars command_punctuation (strip t))))"

definition is_exit :: "string \<Rightarrow> string list \<Rightarrow> bool" where
  "is_exit t kws = (let n = normalise_command t in
     n \<noteq> [] \<and> list_ex (\<lambda>kw. kw \<noteq> [] \<and> strip kw \<noteq> [] \<and> n = normalise_command kw) kws)"

definition kw_match :: "string \<Rightarrow> string list \<Rightarrow> bool" where
  "kw_match t kws = list_ex (\<lambda>kw. occurs_in (lower kw) (lower t)) kws"

definition visible :: "registry \<Rightarrow> user_context \<Rightarrow> registered_agent list" where
  "visible reg u = filter (\<lambda>a. access_matches (sp_access (spec_base (ra_spec a))) (Some u)) (routable reg)"

definition keyword_agent :: "string \<Rightarrow> registered_agent list \<Rightarrow> registered_agent option" where
  "keyword_agent t vis = max_by (\<lambda>a. rt_priority (spec_routing (ra_spec a)))
     (filter (\<lambda>a. kw_match t (rt_keywords (spec_routing (ra_spec a)))) vis)"

section \<open>The router prompt\<close>

definition dquoted :: "string \<Rightarrow> string" where
  "dquoted s = [double_quote] @ s @ [double_quote]"

definition agent_lines :: "registered_agent \<Rightarrow> string list" where
  "agent_lines a = [''- agent_key: '' @ dquoted (ra_key a), ''  name: '' @ ra_name a,
      ''  handles: '' @ ra_description a]
    @ (let caps = sp_capabilities (spec_base (ra_spec a)) in
       if caps = [] then [] else [''  capabilities: '' @ join '', '' caps])"

definition build_router_prompt :: "registry \<Rightarrow> registered_agent list \<Rightarrow> string" where
  "build_router_prompt reg vis = join [char_of (10::nat)]
     ([''You are the router for the Saarthi assistant.'',
       ''Choose exactly one agent for the LATEST user message.'',
       ''Use the prior conversation for context -- a short reply such as a name'',
       ''or a number is usually a continuation of the previous agent'' @ [single_quote] @ ''s topic.'',
       [], ''Agents:'']
      @ concat (map agent_lines vis)
      @ [[], ''Reply with ONLY a JSON object: {'' @ dquoted ''agent_key'' @ '': ''
           @ dquoted ''<one of the keys above>'' @ '', '' @ dquoted ''confidence'' @ '': <0.0-1.0>}'']
      @ (case default_agent reg of None \<Rightarrow> []
         | Some a \<Rightarrow> [''If nothing fits, use '' @ dquoted (ra_key a) @ '' with low confidence.'']))"

definition history_message :: "history_turn \<Rightarrow> chat_msg" where
  "history_message h = (if ht_role h = User then Human_msg (ht_content h) else Ai_msg (ht_content h))"

text \<open>\<open>xs[-n:]\<close>.\<close>

definition last_n :: "nat \<Rightarrow> 'a list \<Rightarrow> 'a list" where
  "last_n n xs = drop (length xs - n) xs"

text \<open>\<open>_router_messages\<close>: the prompt is cached per registry version and set of visible keys.\<close>

definition router_messages :: "turn_context \<Rightarrow> registered_agent list \<Rightarrow> chat_msg list wact" where
  "router_messages ctx vis = (\<lambda>w.
     let ck = (rg_version (w_reg w), sort (map ra_key vis));
         prompt = (case w_prompt w of
                     Some (k, p) \<Rightarrow> if k = ck then p else build_router_prompt (w_reg w) vis
                   | None \<Rightarrow> build_router_prompt (w_reg w) vis)
     in (Inr ([System_msg prompt] @ map history_message (last_n 6 (tc_history ctx)) @ [Human_msg (tc_text ctx)]),
         w\<lparr> w_prompt := Some (ck, prompt) \<rparr>))"

text \<open>\<open>_as_text\<close> of a model reply: blocks of a list are joined by spaces; \<open>join\<close> raises on a
  block whose \<open>text\<close> is not a string.\<close>

definition block_text :: "json \<Rightarrow> string option" where
  "block_text b = (case b of
      JObj d \<Rightarrow> (case jget_default d ''text'' (JStr []) of JStr s \<Rightarrow> Some s | _ \<Rightarrow> None)
    | _ \<Rightarrow> Some (py_str b))"

definition as_text :: "json \<Rightarrow> exc + string" where
  "as_text v = (case v of
      JList bs \<Rightarrow> if list_all (\<lambda>b. block_text b \<noteq> None) bs
        then Inr (join '' '' (List.map_filter block_text bs))
        else Inl (TypeError ''sequence item: expected str instance'')
    | _ \<Rightarrow> Inr (if truthy v then py_str v else []))"

definition invoke_router :: "env \<Rightarrow> turn_context \<Rightarrow> registered_agent list \<Rightarrow> string wact" where
  "invoke_router env ctx vis =
     andthen (router_messages ctx vis) (\<lambda>msgs.
     andthen (llmx env \<lparr> lc_model = e_router_model env, lc_tools = [], lc_messages = msgs \<rparr>) (\<lambda>r.
     of_sum (as_text (lr_content r))))"

section \<open>Gate 4: reading the answer\<close>

text \<open>\<open>float(v)\<close>. An integer beyond the range of a double raises.\<close>

definition double_limit :: int where
  "double_limit = 2 ^ 1024 - 2 ^ 970"

fun py_float :: "(string \<Rightarrow> pyfloat option) \<Rightarrow> json \<Rightarrow> exc + pyfloat" where
  "py_float fparse (JInt i) =
     (if \<bar>i\<bar> < double_limit then Inr (Fin (of_int i)) else Inl (ValueError ''int too large to convert to float''))"
| "py_float fparse (JBool b) = Inr (Fin (if b then 1 else 0))"
| "py_float fparse (JFloat f _) = Inr f"
| "py_float fparse (JStr s) = (case fparse s of None \<Rightarrow> Inl (ValueError ''could not convert string to float'') | Some f \<Rightarrow> Inr f)"
| "py_float fparse v = Inl (TypeError ''float() argument'')"

fun float_ge :: "pyfloat \<Rightarrow> rat \<Rightarrow> bool" where
  "float_ge (Fin q) t = (t \<le> q)"
| "float_ge PosInf t = True"
| "float_ge NegInf t = False"
| "float_ge NaN t = False"

text \<open>\<open>get_by_key_exact\<close> of a parsed value; \<open>.strip()\<close> of a truthy non-string raises.\<close>

definition lookup_key :: "registry \<Rightarrow> json \<Rightarrow> exc + registered_agent option" where
  "lookup_key reg v = (if \<not> truthy v then Inr None
     else case v of JStr k \<Rightarrow> Inr (get_by_key_exact reg k) | _ \<Rightarrow> Inl (AttributeError ''strip''))"

definition read_answer :: "env \<Rightarrow> registry \<Rightarrow> string \<Rightarrow> exc + (registered_agent \<times> pyfloat) option" where
  "read_answer env reg raw =
     (case e_json_repair env raw of
        Inl e \<Rightarrow> Inl e
      | Inr parsed \<Rightarrow>
          (let d = (case parsed of JObj d \<Rightarrow> Some d | _ \<Rightarrow> None);
               key = (case d of Some d \<Rightarrow> jget d ''agent_key'' | None \<Rightarrow> JNull);
               conf = (case d of Some d \<Rightarrow> py_float (e_float env) (jget_default d ''confidence'' (JInt 0))
                       | None \<Rightarrow> Inr (Fin 0))
           in case conf of
                Inl e \<Rightarrow> Inl e
              | Inr c \<Rightarrow>
                  (case lookup_key reg key of
                     Inl e \<Rightarrow> Inl e
                   | Inr None \<Rightarrow> Inr None
                   | Inr (Some a) \<Rightarrow>
                       Inr (if rt_router_selectable (spec_routing (ra_spec a))
                               \<and> float_ge c (rt_confidence_threshold (spec_routing (ra_spec a)))
                            then Some (a, c) else None))))"

definition gate4 :: "env \<Rightarrow> turn_context \<Rightarrow> registered_agent list \<Rightarrow> (registered_agent \<times> pyfloat) option wact" where
  "gate4 env ctx vis =
     andthen (invoke_router env ctx vis) (\<lambda>raw.
     andthen (asks w_reg) (\<lambda>reg. of_sum (read_answer env reg raw)))"

section \<open>The gates\<close>

definition pin_for :: "conv_row \<Rightarrow> registered_agent option wact" where
  "pin_for conv =
     andthen (asks w_reg) (\<lambda>reg.
     case (case cv_pinned_agent_id conv of None \<Rightarrow> None | Some i \<Rightarrow> get_by_id reg i) of
       Some a \<Rightarrow> ret (Some a)
     | None \<Rightarrow>
         andthen (dbx (get_open_for_conversation (cv_id conv))) (\<lambda>s.
         ret (case s of None \<Rightarrow> None | Some r \<Rightarrow> get_by_id reg (sv_agent_id r))))"

definition exit_to_default :: "conv_row \<Rightarrow> route_decision wact" where
  "exit_to_default conv =
     andthen (dbx (abandon (cv_id conv) ''user_exit'' ''system'')) (\<lambda>_.
     andthen (dbx (unpin (cv_id conv))) (\<lambda>_.
     andthen (asks w_reg) (\<lambda>reg.
     ret ((decision (default_agent reg) Exit_to_default (Fin 1))\<lparr> rd_unpinned := True \<rparr>))))"

definition select_unpinned :: "env \<Rightarrow> turn_context \<Rightarrow> route_decision wact" where
  "select_unpinned env ctx =
     andthen (asks w_reg) (\<lambda>reg. let vis = visible reg (tc_user ctx) in
     case keyword_agent (tc_text ctx) vis of
       Some a \<Rightarrow> ret (decision (Some a) Keyword (Fin 1))
     | None \<Rightarrow>
         andthen (attempt (gate4 env ctx vis)) (\<lambda>ans.
         case ans of
           Inr (Some (a, c)) \<Rightarrow> ret (decision (Some a) By_llm c)
         | _ \<Rightarrow> ret (decision (default_agent reg) Default_route (Fin 0))))"

definition select :: "env \<Rightarrow> conv_row \<Rightarrow> turn_context \<Rightarrow> string option \<Rightarrow> route_decision wact" where
  "select env conv ctx explicit_key =
     andthen (asks w_reg) (\<lambda>reg.
     case explicit_key of
       Some (c # cs) \<Rightarrow>
         (case registry_get reg (c # cs) of
            Some a \<Rightarrow>
              if \<not> rt_direct_selectable (spec_routing (ra_spec a)) then throw (AgentNotFound (c # cs))
              else if is_exit (tc_text ctx) (rt_exit_keywords (spec_routing (ra_spec a)))
              then exit_to_default conv
              else ret (decision (Some a) Explicit (Fin 1))
          | None \<Rightarrow> throw (AgentNotFound (c # cs)))
     | _ \<Rightarrow>
         andthen (pin_for conv) (\<lambda>p.
         case p of
           Some a \<Rightarrow>
             if is_exit (tc_text ctx) (rt_exit_keywords (spec_routing (ra_spec a)))
             then exit_to_default conv
             else ret (decision (Some a) Pinned (Fin 1))
         | None \<Rightarrow> select_unpinned env ctx))"

section \<open>Exit commands\<close>

text \<open>\<open>s.split()\<close> and \<open>' '.join\<close>: words hold no space and are not empty.\<close>

lemma words_acc_words:
  "w \<in> set (words_acc cur s) \<Longrightarrow> \<forall>c \<in> set cur. \<not> py_isspace c \<Longrightarrow> w \<noteq> [] \<and> (\<forall>c \<in> set w. \<not> py_isspace c)"
proof (induction cur s rule: words_acc.induct)
  case (1 cur)
  then show ?case by (cases "cur = []") simp_all
next
  case (2 cur c cs)
  show ?case
  proof (cases "py_isspace c")
    case True
    show ?thesis
    proof (cases "cur = []")
      case True
      with 2(4) \<open>py_isspace c\<close> have "w \<in> set (words_acc [] cs)" by simp
      then show ?thesis by (rule 2(1)[OF \<open>py_isspace c\<close> True]) simp
    next
      case False
      then consider "w = rev cur" | "w \<in> set (words_acc [] cs)"
        using 2(4) \<open>py_isspace c\<close> by auto
      then show ?thesis using 2(2)[OF \<open>py_isspace c\<close> False] 2(5) False by cases simp_all
    qed
  next
    case False
    with 2(4) have "w \<in> set (words_acc (c # cur) cs)" by simp
    then show ?thesis by (rule 2(3)[OF False]) (use 2(5) False in simp)
  qed
qed

lemma words_acc_word:
  "\<forall>c \<in> set s. \<not> py_isspace c \<Longrightarrow> words_acc cur s = (if cur = [] \<and> s = [] then [] else [rev cur @ s])"
  by (induction cur s rule: words_acc.induct) auto

lemma words_acc_append_space:
  "\<forall>c \<in> set w. \<not> py_isspace c \<Longrightarrow> cur \<noteq> [] \<or> w \<noteq> [] \<Longrightarrow>
   words_acc cur (w @ CHR '' '' # s) = (rev cur @ w) # words_acc [] s"
proof (induction w arbitrary: cur)
  case Nil
  have "py_isspace (CHR '' '')" by code_simp
  with Nil show ?case by simp
next
  case (Cons c w)
  then show ?case by simp
qed

lemma split_join:
  "\<forall>w \<in> set ws. w \<noteq> [] \<and> (\<forall>c \<in> set w. \<not> py_isspace c) \<Longrightarrow> split_ws (join '' '' ws) = ws"
proof (induction "'' ''" ws rule: join.induct)
  case 1
  then show ?case by (simp add: split_ws_def)
next
  case (2 w)
  then show ?case by (simp add: split_ws_def words_acc_word)
next
  case (3 w w' ws)
  then show ?case by (simp add: split_ws_def words_acc_append_space)
qed

text \<open>An exit is an exact match, never a containment. A message is taken for an exit command
  only if its words, without surrounding punctuation and in lower case, are exactly the words of
  one of the agent's exit keywords; so a message with a word that the keyword does not have
  never aborts an interview.\<close>

theorem exit_is_exact:
  assumes "is_exit t kws"
  shows "\<exists>kw \<in> set kws. split_ws (lower (strip_chars command_punctuation (strip t))) =
      split_ws (lower (strip_chars command_punctuation (strip kw)))
    \<and> split_ws (lower (strip_chars command_punctuation (strip t))) \<noteq> []"
proof -
  let ?ws = "\<lambda>t. split_ws (lower (strip_chars command_punctuation (strip t)))"
  have split: "split_ws (normalise_command x) = ?ws x" for x
    unfolding normalise_command_def
    by (rule split_join) (use words_acc_words[of _ "[]"] in \<open>auto simp: split_ws_def\<close>)
  from assms obtain kw where "kw \<in> set kws" "normalise_command t = normalise_command kw"
    "normalise_command t \<noteq> []" by (auto simp: is_exit_def Let_def list_ex_iff)
  moreover from this(3) have "?ws t \<noteq> []" by (auto simp: normalise_command_def)
  ultimately show ?thesis using split by metis
qed

lemma exit_is_exact_witness:
  "is_exit '' /Exit! '' [''cancel'', ''/exit''] \<and> \<not> is_exit ''we had to stop the dropouts'' [''stop'']
   \<and> split_ws (lower (strip_chars command_punctuation (strip '' /Exit! ''))) \<noteq> []"
proof -
  have "is_exit '' /Exit! '' [''cancel'', ''/exit'']" by code_simp
  moreover have "\<not> is_exit ''we had to stop the dropouts'' [''stop'']" by code_simp
  ultimately show ?thesis using exit_is_exact[of "'' /Exit! ''" "[''cancel'', ''/exit'']"] by blast
qed

section \<open>What the gates decide\<close>

lemma sure_get_open: "sure (dbx (get_open_for_conversation c))"
  by (rule sure_dbx) (auto simp: get_open_run)

lemma sure_abandon: "sure (dbx (abandon c why actor))"
  by (rule sure_dbx) (auto simp: abandon_run db_ok_abandoned_db split: list.splits)

lemma sure_unpin: "sure (dbx (unpin c))"
  by (rule sure_dbx) (auto simp: unpin_run db_ok_unpin_rows)

lemma sure_exit_to_default: "sure (exit_to_default conv)"
  unfolding exit_to_default_def by (intro sure_andthen sure_abandon sure_unpin sure_asks sure_ret)

lemma sure_pin_for: "sure (pin_for conv)"
  unfolding pin_for_def
  by (intro sure_andthen sure_asks) (auto split: option.splits intro!: sure_andthen sure_get_open sure_ret)

text \<open>The LLM log: nothing but gate 4 adds to it, and it adds one call.\<close>

abbreviation llm_grows :: "nat \<Rightarrow> 'a wact \<Rightarrow> bool" where
  "llm_grows \<equiv> grows w_llm (\<lambda>_. True)"

lemma llm_grows_dbx: "llm_grows n (dbx m)"
proof -
  have "w_llm (snd (dbx m w)) = w_llm w" for w using dbx_frame[of m w] by auto
  then show ?thesis by (rule grows_still)
qed

lemma llm_grows_llmx: "llm_grows 1 (llmx env c)"
  unfolding grows_def by (simp add: llmx_def tick_def)

lemma llm_grows_messages: "llm_grows n (router_messages ctx vis)"
  by (rule grows_still) (simp add: router_messages_def Let_def)

lemma llm_grows_gate4: "llm_grows 1 (gate4 env ctx vis)"
  unfolding gate4_def invoke_router_def
  by (rule grows_andthen_le[of _ _ 1 _ 0] grows_andthen_quiet llm_grows_messages llm_grows_llmx grows_basic
      | simp)+

lemma llm_grows_exit: "llm_grows 0 (exit_to_default conv)"
  unfolding exit_to_default_def by (intro grows_andthen_quiet grows_basic llm_grows_dbx)

lemma llm_grows_pin_for: "llm_grows 0 (pin_for conv)"
  unfolding pin_for_def by (intro grows_andthen_quiet grows_rules llm_grows_dbx)

lemma dbx_reg: "dbx m w = (r, w') \<Longrightarrow> w_reg w' = w_reg w"
  using dbx_frame[of m w] by auto

lemma pin_for_reg: "pin_for conv w = (Inr p, w') \<Longrightarrow> w_reg w' = w_reg w"
  by (auto simp: pin_for_def elim!: andthen_InrE split: option.splits dest: dbx_reg)

text \<open>What a decision says, per reason.\<close>

definition decision_sound :: "registry \<Rightarrow> turn_context \<Rightarrow> string option \<Rightarrow> route_decision \<Rightarrow> bool" where
  "decision_sound reg ctx explicit_key d \<longleftrightarrow>
     (case rd_reason d of
        Explicit \<Rightarrow> \<exists>a k. explicit_key = Some k \<and> k \<noteq> [] \<and> registry_get reg k = Some a \<and> rd_agent d = Some a
          \<and> rt_direct_selectable (spec_routing (ra_spec a))
      | Pinned \<Rightarrow> \<exists>a \<in> set (agents_of reg). rd_agent d = Some a
          \<and> \<not> is_exit (tc_text ctx) (rt_exit_keywords (spec_routing (ra_spec a)))
      | Keyword \<Rightarrow> \<exists>a \<in> set (visible reg (tc_user ctx)). rd_agent d = Some a
          \<and> kw_match (tc_text ctx) (rt_keywords (spec_routing (ra_spec a)))
          \<and> (\<forall>b \<in> set (visible reg (tc_user ctx)). kw_match (tc_text ctx) (rt_keywords (spec_routing (ra_spec b)))
               \<longrightarrow> rt_priority (spec_routing (ra_spec b)) \<le> rt_priority (spec_routing (ra_spec a)))
      | By_llm \<Rightarrow> \<exists>a. rd_agent d = Some a \<and> rt_router_selectable (spec_routing (ra_spec a))
          \<and> float_ge (rd_confidence d) (rt_confidence_threshold (spec_routing (ra_spec a)))
      | Default_route \<Rightarrow> rd_agent d = default_agent reg
      | Exit_to_default \<Rightarrow> rd_agent d = default_agent reg \<and> rd_unpinned d)"

lemma exit_decision:
  "exit_to_default conv w = (Inr d, w') \<Longrightarrow>
   rd_reason d = Exit_to_default \<and> rd_agent d = default_agent (w_reg w) \<and> rd_unpinned d"
  by (auto simp: exit_to_default_def decision_def elim!: andthen_InrE) (metis dbx_reg)

lemma keyword_agent_sound:
  "keyword_agent t vis = Some a \<Longrightarrow> a \<in> set vis \<and> kw_match t (rt_keywords (spec_routing (ra_spec a)))
   \<and> (\<forall>b \<in> set vis. kw_match t (rt_keywords (spec_routing (ra_spec b)))
        \<longrightarrow> rt_priority (spec_routing (ra_spec b)) \<le> rt_priority (spec_routing (ra_spec a)))"
  unfolding keyword_agent_def by (frule max_by_in, auto dest: max_by_ge)

lemma gate4_sound:
  "gate4 env ctx vis w = (Inr (Some (a, c)), w') \<Longrightarrow>
   rt_router_selectable (spec_routing (ra_spec a)) \<and> float_ge c (rt_confidence_threshold (spec_routing (ra_spec a)))"
  by (auto simp: gate4_def read_answer_def Let_def elim!: andthen_InrE
      split: sum.splits option.splits json.splits if_splits)

lemma get_by_id_in: "get_by_id reg i = Some a \<Longrightarrow> a \<in> set (agents_of reg)"
  by (auto simp: get_by_id_def dest: find_Some_in)

lemma pin_for_in: "pin_for conv w = (Inr (Some a), w') \<Longrightarrow> a \<in> set (agents_of (w_reg w))"
  by (auto simp: pin_for_def elim!: andthen_InrE split: option.splits dest: get_by_id_in)

text \<open>A decision that is sound in \<open>w\<close>, after at most one call of the language model since \<open>w\<close>.\<close>

abbreviation routed :: "world \<Rightarrow> turn_context \<Rightarrow> string option \<Rightarrow> route_decision \<Rightarrow> world \<Rightarrow> bool" where
  "routed w ctx k d w' \<equiv> decision_sound (w_reg w) ctx k d
    \<and> (\<exists>cs. w_llm w' = w_llm w @ cs \<and> length cs \<le> 1
         \<and> (rd_reason d \<noteq> By_llm \<and> rd_reason d \<noteq> Default_route \<longrightarrow> cs = []))"

lemma exit_routed:
  assumes "exit_to_default conv v = (Inr d, w')" "w_llm v = w_llm w" "w_reg v = w_reg w"
  shows "routed w ctx k d w'"
  using exit_decision[OF assms(1)] grows_quiet[OF llm_grows_exit assms(1)] assms
  by (auto simp: decision_sound_def)

lemma unpinned_routed:
  assumes "select_unpinned env ctx v = (Inr d, w')" "w_llm v = w_llm w" "w_reg v = w_reg w"
  shows "routed w ctx k d w'"
proof (cases "keyword_agent (tc_text ctx) (visible (w_reg v) (tc_user ctx))")
  case (Some a)
  then show ?thesis using assms keyword_agent_sound[OF Some]
    by (auto simp: select_unpinned_def Let_def decision_def decision_sound_def)
next
  case None
  let ?vis = "visible (w_reg v) (tc_user ctx)"
  obtain r v1 where g: "gate4 env ctx ?vis v = (r, v1)" by (meson surj_pair)
  have grow: "\<exists>cs. w_llm v1 = w_llm v @ cs \<and> length cs \<le> 1"
    using growsD[OF llm_grows_gate4 g] by blast
  have run: "select_unpinned env ctx v = (case r of Inr (Some (a, c)) \<Rightarrow> ret (decision (Some a) By_llm c)
      | _ \<Rightarrow> ret (decision (default_agent (w_reg v)) Default_route (Fin 0))) v1"
    using None g by (simp add: select_unpinned_def Let_def attempt_def)
  show ?thesis
  proof (cases "\<exists>a c. r = Inr (Some (a, c))")
    case True
    then obtain a c where "r = Inr (Some (a, c))" by blast
    then show ?thesis using assms run grow gate4_sound[of env ctx ?vis v a c v1] g
      by (auto simp: decision_def decision_sound_def)
  next
    case False
    then have "select_unpinned env ctx v = (Inr (decision (default_agent (w_reg v)) Default_route (Fin 0)), v1)"
      using run by (auto split: sum.splits option.splits)
    then show ?thesis using assms grow by (auto simp: decision_def decision_sound_def)
  qed
qed

lemma pinned_routed:
  assumes "andthen (pin_for conv) (\<lambda>p. case p of
         Some a \<Rightarrow> if is_exit (tc_text ctx) (rt_exit_keywords (spec_routing (ra_spec a)))
           then exit_to_default conv else ret (decision (Some a) Pinned (Fin 1))
       | None \<Rightarrow> select_unpinned env ctx) w = (Inr d, w')"
  shows "routed w ctx k d w'"
proof -
  from assms obtain p v where p: "pin_for conv w = (Inr p, v)"
    and rest: "(case p of
         Some a \<Rightarrow> if is_exit (tc_text ctx) (rt_exit_keywords (spec_routing (ra_spec a)))
           then exit_to_default conv else ret (decision (Some a) Pinned (Fin 1))
       | None \<Rightarrow> select_unpinned env ctx) v = (Inr d, w')" by (elim andthen_InrE)
  have v: "w_llm v = w_llm w" "w_reg v = w_reg w"
    using grows_quiet[OF llm_grows_pin_for p] pin_for_reg[OF p] by simp_all
  show ?thesis
  proof (cases p)
    case None
    then show ?thesis using unpinned_routed[OF _ v] rest by simp
  next
    case (Some a)
    then show ?thesis using rest exit_routed[OF _ v] v pin_for_in[of conv w a v] p
      by (auto simp: decision_def decision_sound_def split: if_splits)
  qed
qed


definition sample_ctx :: "string \<Rightarrow> turn_context" where
  "sample_ctx t = \<lparr> tc_request_id = ''q'', tc_conversation_id = 3, tc_user = sample_user, tc_text = t,
     tc_option_id = None, tc_history = [], tc_session = None, tc_locale = ''en'' \<rparr>"

definition sample_conv :: conv_row where
  "sample_conv = (new_conv_row 3 sample_user 0)\<lparr> cv_pinned_agent_id := Some 2 \<rparr>"


text \<open>Routing fails only for an agent the client named. On a consistent database, whatever the
  language model and its reply do, \<open>select\<close> returns a decision, unless the client named an agent
  that is unknown or not directly selectable.\<close>

theorem select_fails_only_not_found:
  assumes "healthy w"
  shows "(\<exists>d w'. select env conv ctx explicit_key w = (Inr d, w')) \<or>
    (\<exists>k. explicit_key = Some k \<and> k \<noteq> [] \<and> select env conv ctx explicit_key w = (Inl (AgentNotFound k), w)
       \<and> (\<forall>a. registry_get (w_reg w) k = Some a \<longrightarrow> \<not> rt_direct_selectable (spec_routing (ra_spec a))))"
proof -
  have exit: "\<exists>d w'. exit_to_default conv v = (Inr d, w')" if "healthy v" for v
    using sureD[OF sure_exit_to_default that] by blast
  have unpinned: "\<exists>d w'. select_unpinned env ctx v = (Inr d, w')" for v
    by (auto simp: select_unpinned_def Let_def attempt_def andthen_run
        split: option.splits sum.splits prod.splits)
  have pin: "\<exists>d w'. andthen (pin_for conv) (\<lambda>p. case p of
           Some a \<Rightarrow> if is_exit (tc_text ctx) (rt_exit_keywords (spec_routing (ra_spec a)))
             then exit_to_default conv else ret (decision (Some a) Pinned (Fin 1))
         | None \<Rightarrow> select_unpinned env ctx) w = (Inr d, w')"
  proof -
    obtain p v where p: "pin_for conv w = (Inr p, v)" "healthy v" using sureD[OF sure_pin_for assms] by blast
    then show ?thesis using exit[OF p(2)] unpinned[of v] by (cases p) auto
  qed
  show ?thesis
  proof (cases explicit_key)
    case None
    then show ?thesis using pin by (simp add: select_def)
  next
    case (Some k)
    then show ?thesis using pin exit[OF assms]
      by (cases k) (auto simp: select_def split: option.splits)
  qed
qed

lemma select_fails_only_not_found_witness:
  "let r = select sample_env sample_conv (sample_ctx ''hi'') (Some ''nobody'') sample_world
   in fst r = Inl (AgentNotFound ''nobody'') \<and> snd r = sample_world"
proof -
  let ?r = "select sample_env sample_conv (sample_ctx ''hi'') (Some ''nobody'') sample_world"
  have "(case fst ?r of Inr d \<Rightarrow> False | Inl e \<Rightarrow> True)" by code_simp
  then have "\<not> (\<exists>d w'. ?r = (Inr d, w'))" by auto
  then show ?thesis
    using select_fails_only_not_found[OF sample_healthy, of sample_env sample_conv "sample_ctx ''hi''" "Some ''nobody''"]
    by (auto simp: Let_def)
qed

end
