(* ===== verification/Handlers.thy ===== *)
theory Handlers
  imports Router
begin

text \<open>
  The agent handlers: \<open>agents/factory.py\<close>, \<open>agents/llm_handler.py\<close>,
  \<open>agents/remote_flow_handler.py\<close> and the lookup of \<open>tools/registry.py\<close>.

  A handler object is represented by the specification it was constructed with. The locale
  \<open>agent_handler\<close> is what the orchestration relies on: a handler does not touch the database,
  asks only for the state \<open>awaiting_user\<close>, and records tool calls the table accepts.
\<close>

section \<open>Tools\<close>

definition missing_tools :: "env \<Rightarrow> string list \<Rightarrow> string list" where
  "missing_tools env names = filter (\<lambda>n. map_of (e_tools env) n = None) names"

text \<open>\<open>ToolRegistry.resolve\<close>, as far as its error: the tools themselves are looked up by name.\<close>

definition resolve_tools :: "env \<Rightarrow> string list \<Rightarrow> exc + string list" where
  "resolve_tools env names =
     (if missing_tools env names \<noteq> [] then Inl (UnknownTool (join '', '' (missing_tools env names)))
      else Inr names)"

section \<open>The language-model handler\<close>

record loop_state =
  lp_messages :: "chat_msg list"
  lp_traces :: "tool_trace list"
  lp_last :: string

definition prompt_messages :: "base_spec \<Rightarrow> llm_spec \<Rightarrow> turn_context \<Rightarrow> chat_msg list" where
  "prompt_messages b l ctx =
     [System_msg (ll_prompt l)]
     @ (if mem_strategy_recent (sp_memory b) \<and> 0 < mem_history_turns (sp_memory b)
        then map history_message (last_n (2 * nat (mem_history_turns (sp_memory b))) (tc_history ctx))
        else [])
     @ [Human_msg (tc_text ctx)]"

definition invoke_llm :: "env \<Rightarrow> llm_spec \<Rightarrow> chat_msg list \<Rightarrow> llm_reply wact" where
  "invoke_llm env l msgs = llmx env \<lparr> lc_model = ll_model l, lc_tools = ll_tools l, lc_messages = msgs \<rparr>"

definition llm_turn :: "llm_spec \<Rightarrow> llm_reply \<Rightarrow> tool_trace list \<Rightarrow> int \<Rightarrow> string \<Rightarrow> agent_turn wact" where
  "llm_turn l r traces t0 t =
     andthen (asks monotonic) (\<lambda>t1.
     ret ((turn_of_text t)\<lparr> at_tool_traces := traces, at_model := Some (ms_name (ll_model l)),
       at_latency_ms := t1 - t0, at_prompt_tokens := lr_prompt_tokens r,
       at_completion_tokens := lr_completion_tokens r \<rparr>))"

definition no_answer :: string where
  "no_answer = ''I couldn'' @ [single_quote] @ ''t generate a clear answer.''"

definition answer_turn :: "llm_spec \<Rightarrow> llm_reply \<Rightarrow> tool_trace list \<Rightarrow> int \<Rightarrow> agent_turn wact" where
  "answer_turn l r traces t0 =
     andthen (of_sum (as_text (lr_content r))) (\<lambda>t.
     llm_turn l r traces t0 (if t = [] then no_answer else t))"

definition run_tool :: "env \<Rightarrow> llm_spec \<Rightarrow> int \<Rightarrow> string \<Rightarrow> json \<Rightarrow> (tool_trace \<times> string) wact" where
  "run_tool env l i name args =
     andthen (asks monotonic) (\<lambda>t0.
     andthen (case (if name \<in> set (ll_tools l) then map_of (e_tools env) name else None) of
         None \<Rightarrow> ret (''Unknown tool '' @ repr_str name, Tool_error, Some ''unknown_tool'')
       | Some f \<Rightarrow> andthen (toolx f args) (\<lambda>out. ret (out, Tool_success, None))) (\<lambda>(out, st, err).
     andthen (asks monotonic) (\<lambda>t1.
     ret (\<lparr> tt_tool_name = name, tt_iteration = i, tt_result_excerpt = take 4096 out, tt_status = st,
            tt_error = err, tt_duration_ms = t1 - t0 \<rparr>, out))))"

fun run_calls :: "env \<Rightarrow> llm_spec \<Rightarrow> int \<Rightarrow> (string \<times> string \<times> json) list \<Rightarrow> loop_state \<Rightarrow> loop_state wact" where
  "run_calls env l i [] st = ret st"
| "run_calls env l i ((cid, name, args) # cs) st =
     andthen (run_tool env l i name args) (\<lambda>(tr, out).
     run_calls env l i cs (st\<lparr> lp_traces := lp_traces st @ [tr], lp_last := out,
       lp_messages := lp_messages st @ [Tool_msg out cid] \<rparr>))"

text \<open>\<open>for i in range(1, max + 1)\<close>: \<open>Inl\<close> the turn of a reply without tool calls, \<open>Inr\<close> the state
  when the iterations are used up.\<close>

fun tool_loop :: "env \<Rightarrow> llm_spec \<Rightarrow> int \<Rightarrow> nat \<Rightarrow> int \<Rightarrow> loop_state \<Rightarrow> (agent_turn + loop_state) wact" where
  "tool_loop env l t0 0 i st = ret (Inr st)"
| "tool_loop env l t0 (Suc n) i st =
     andthen (invoke_llm env l (lp_messages st)) (\<lambda>r.
     if lr_tool_calls r = [] then andthen (answer_turn l r (lp_traces st) t0) (\<lambda>t. ret (Inl t))
     else andthen (run_calls env l i (lr_tool_calls r)
            (st\<lparr> lp_messages := lp_messages st @ [Ai_tool_msg (lr_content r) (lr_tool_calls r)] \<rparr>))
          (tool_loop env l t0 n (i + 1)))"

definition llm_handle :: "env \<Rightarrow> base_spec \<Rightarrow> llm_spec \<Rightarrow> turn_context \<Rightarrow> agent_turn wact" where
  "llm_handle env b l ctx =
     andthen (asks monotonic) (\<lambda>t0.
     let msgs = prompt_messages b l ctx in
     if ll_tools l = [] then andthen (invoke_llm env l msgs) (\<lambda>r. answer_turn l r [] t0)
     else
       andthen (tool_loop env l t0 (nat (lim_max_tool_iterations (sp_limits b))) 1
          \<lparr> lp_messages = msgs, lp_traces = [], lp_last = [] \<rparr>) (\<lambda>res.
       case res of
         Inl t \<Rightarrow> ret t
       | Inr st \<Rightarrow>
           andthen (invoke_llm env l (lp_messages st)) (\<lambda>r.
           andthen (of_sum (as_text (lr_content r))) (\<lambda>t.
           llm_turn l r (lp_traces st) t0
             (if t = [] then ''Here is the raw data I found:'' @ [char_of (10::nat)] @ lp_last st else t)))))"

section \<open>The remote-flow handler\<close>

definition not_configured :: "base_spec \<Rightarrow> exc" where
  "not_configured b = RuntimeError (''agent '' @ repr_str (sp_key b) @ '' is agent_type='' @ quoted ''remote_flow''
     @ '' but Mitra is not configured'')"

definition require_env :: "env \<Rightarrow> string \<Rightarrow> exc + string" where
  "require_env env name =
     (case e_environ env name of
        Some (c # cs) \<Rightarrow> Inr (c # cs)
      | _ \<Rightarrow> Inl (RuntimeError (''environment variable '' @ repr_str name @ '' is not set'')))"

text \<open>The remote identity of the turn: created on the first turn, kept afterwards.\<close>

definition remote_identity :: "env \<Rightarrow> rest_client \<Rightarrow> remote_spec \<Rightarrow> user_context \<Rightarrow> session_view \<Rightarrow>
    string \<Rightarrow> session_view wact" where
  "remote_identity env rest r u s bot_route =
     (if sv_remote_session_id s = None then
        andthen (of_sum (require_env env (rm_company_env r))) (\<lambda>company.
        andthen (httpx (upsert_profile (e_net env) rest (u_email u) (rm_flow_name r) company)) (\<lambda>pid.
        andthen (httpx (generate_session (e_net env) rest)) (\<lambda>sid.
        ret (s\<lparr> sv_remote_session_id := Some sid, sv_remote_profile_id := Some pid,
                sv_remote_bot_route := Some bot_route \<rparr>))))
      else ret (s\<lparr> sv_remote_bot_route := Some bot_route \<rparr>))"

text \<open>One attempt, and exactly one more on a fresh socket when the channel was closed.\<close>

definition exchange :: "pool_cfg \<Rightarrow> remote_spec \<Rightarrow> session_view \<Rightarrow> string \<Rightarrow> int \<Rightarrow> bot_turn wact" where
  "exchange cfg r s t timeout =
     andthen (poolx (acquire cfg r s)) (\<lambda>_.
     on_error (poolx (channel_turn cfg (sv_conversation_id s) t timeout (ts_idle_gap_ms (rm_turn r)))) (\<lambda>e.
       case e of
         Mitra (MitraChannelClosed why) \<Rightarrow>
           andthen (poolx (reacquire cfg r s)) (\<lambda>_.
           poolx (channel_turn cfg (sv_conversation_id s) t timeout (ts_idle_gap_ms (rm_turn r))))
       | _ \<Rightarrow> throw e))"

definition turn_option_of :: "parsed_option \<Rightarrow> turn_option" where
  "turn_option_of o' = \<lparr> op_id = po_id o', op_label = po_label o', op_value = po_value o' \<rparr>"

definition remote_turn :: "remote_spec \<Rightarrow> session_view \<Rightarrow> string \<Rightarrow> bot_turn \<Rightarrow> bool \<Rightarrow> int \<Rightarrow> agent_turn" where
  "remote_turn r s bot_route bt done ms = (turn_of_text (bt_text bt))\<lparr>
     at_options := map turn_option_of (bt_options bt),
     at_session_delta := Some ((delta_of Awaiting_user)\<lparr>
       sd_remote_session_id := sv_remote_session_id s, sd_remote_profile_id := sv_remote_profile_id s,
       sd_remote_flow := Some (rm_flow_name r), sd_remote_bot_route := Some bot_route,
       sd_step := bt_step bt \<rparr>),
     at_latency_ms := ms, at_terminal := done \<rparr>"

definition remote_handle :: "env \<Rightarrow> base_spec \<Rightarrow> remote_spec \<Rightarrow> turn_context \<Rightarrow> agent_turn wact" where
  "remote_handle env b r ctx =
     (case (e_client env, e_pool env) of
        (Some rest, Some cfg) \<Rightarrow>
          andthen (asks monotonic) (\<lambda>t0.
          case tc_session ctx of
            None \<Rightarrow> throw (RuntimeError (''agent '' @ repr_str (sp_key b) @ '': handle() called with no prior session row''))
          | Some s0 \<Rightarrow>
              andthen (of_sum (require_env env (rm_bot_route_env r))) (\<lambda>bot_route.
              andthen (remote_identity env rest r (tc_user ctx) s0 bot_route) (\<lambda>s.
              andthen (exchange cfg r s (tc_text ctx)
                (if sv_remote_session_id s0 = None then ts_first_turn_timeout_ms (rm_turn r)
                 else ts_turn_timeout_ms (rm_turn r))) (\<lambda>bt.
              andthen (if rm_completion_poll_every_turn r
                       then httpx (is_session_completed (e_net env) rest (opt_json (sv_remote_session_id s)))
                       else ret False) (\<lambda>done.
              andthen (asks monotonic) (\<lambda>t1.
              ret (remote_turn r s bot_route bt done (t1 - t0))))))))
      | _ \<Rightarrow> throw (not_configured b))"

section \<open>The factory\<close>

text \<open>The constructors: both agent types of the discriminated union have a handler, so
  \<open>UnknownAgentType\<close> is not reached.\<close>

fun construct :: "env \<Rightarrow> agent_spec \<Rightarrow> exc + agent_spec" where
  "construct env (LlmAgentSpec b l) =
     (if ll_tools l = [] then Inr (LlmAgentSpec b l)
      else (case resolve_tools env (ll_tools l) of Inl e \<Rightarrow> Inl e | Inr _ \<Rightarrow> Inr (LlmAgentSpec b l)))"
| "construct env (RemoteFlowAgentSpec b r) =
     (if e_client env = None \<or> e_pool env = None then Inl (not_configured b)
      else Inr (RemoteFlowAgentSpec b r))"

definition build_handler :: "env \<Rightarrow> agent_spec \<Rightarrow> string \<Rightarrow> agent_spec wact" where
  "build_handler env sp checksum = (\<lambda>w. let ck = (sp_key (spec_base sp), checksum) in
     case map_of (w_handlers w) ck of
       Some h \<Rightarrow> (Inr h, w)
     | None \<Rightarrow>
         let w1 = (if 64 < length (w_handlers w) then w\<lparr> w_handlers := [] \<rparr> else w)
         in (case construct env sp of
               Inl e \<Rightarrow> (Inl e, w1)
             | Inr h \<Rightarrow> (Inr h, w1\<lparr> w_handlers := w_handlers w1 @ [(ck, h)] \<rparr>)))"

fun handle :: "env \<Rightarrow> agent_spec \<Rightarrow> turn_context \<Rightarrow> agent_turn wact" where
  "handle env (LlmAgentSpec b l) ctx = llm_handle env b l ctx"
| "handle env (RemoteFlowAgentSpec b r) ctx = remote_handle env b r ctx"

section \<open>The contract of a handler\<close>

definition trace_fits :: "int \<Rightarrow> tool_trace \<Rightarrow> bool" where
  "trace_fits mx t \<longleftrightarrow> 1 \<le> tt_iteration t \<and> tt_iteration t \<le> mx \<and> 0 \<le> tt_duration_ms t
     \<and> length (tt_result_excerpt t) \<le> 4096
     \<and> (tt_status t = Tool_success \<or> (\<exists>c cs. tt_error t = Some (c # cs)))"

definition turn_fits :: "int \<Rightarrow> agent_turn \<Rightarrow> bool" where
  "turn_fits mx t \<longleftrightarrow> 0 \<le> at_latency_ms t \<and> list_all (trace_fits mx) (at_tool_traces t)
     \<and> (\<forall>\<delta>. at_session_delta t = Some \<delta> \<longrightarrow> sd_state \<delta> = Awaiting_user)"

lemma tool_rows_fit:
  "list_all (trace_fits mx) ts \<Longrightarrow> mx \<le> 10 \<Longrightarrow>
   \<exists>rows. tool_rows mid aid rid ts = Inr rows \<and> length rows = length ts
     \<and> list_all (\<lambda>t. tool_row_ok t \<and> tl_message_id t = mid \<and> tl_agent_id t = aid) rows"
proof (induction ts)
  case (Cons t ts)
  then obtain rows where "tool_rows mid aid rid ts = Inr rows" "length rows = length ts"
    "list_all (\<lambda>t. tool_row_ok t \<and> tl_message_id t = mid \<and> tl_agent_id t = aid) rows" by auto
  moreover have "\<exists>row. tool_row_of mid aid rid t = Inr row \<and> tool_row_ok row \<and> tl_message_id row = mid
      \<and> tl_agent_id row = aid"
    using Cons.prems by (auto simp: tool_row_of_def trace_fits_def tool_row_ok_def)
  ultimately show ?case by auto
qed simp

locale agent_handler =
  fixes serve :: "env \<Rightarrow> 'spec \<Rightarrow> turn_context \<Rightarrow> agent_turn wact"
    and tool_limit :: "'spec \<Rightarrow> int"
  assumes serve_outside: "advances same_db (serve env sp ctx)"
    and serve_clock: "advances clock_flows (serve env sp ctx)"
    and serve_fits: "serve env sp ctx w = (Inr t, w') \<Longrightarrow> turn_fits (tool_limit sp) t"
begin

lemma serve_keeps_db: "serve env sp ctx w = (r, w') \<Longrightarrow> same_db w w'"
  by (rule advancesD[OF serve_outside])

lemma serve_traces_insertable:
  assumes "serve env sp ctx w = (Inr t, w')" and "tool_limit sp \<le> 10"
  shows "\<exists>rows. tool_rows mid aid rid (at_tool_traces t) = Inr rows \<and> length rows = length (at_tool_traces t)
    \<and> list_all (\<lambda>t. tool_row_ok t \<and> tl_message_id t = mid \<and> tl_agent_id t = aid) rows"
  using tool_rows_fit[OF _ assms(2)] serve_fits[OF assms(1)] by (simp add: turn_fits_def)

lemma serve_transition:
  assumes "serve env sp ctx w = (Inr t, w')" and "at_session_delta t = Some \<delta>"
    and "s \<in> {Pending, In_progress, Awaiting_user}"
  shows "sd_state \<delta> \<in> set (allowed s)"
  using serve_fits[OF assms(1)] assms(2,3) by (auto simp: turn_fits_def)

end

section \<open>The language-model handler keeps it\<close>

lemma run_tool_outside: "advances same_db (run_tool env l i name args)"
  unfolding run_tool_def by (intro outside_adv)

lemma run_calls_outside: "advances same_db (run_calls env l i cs st)"
  by (induction env l i cs st rule: run_calls.induct) (simp only: run_calls.simps, intro outside_adv run_tool_outside, assumption?)+

lemma answer_turn_outside: "advances same_db (answer_turn l r ts t0)"
  unfolding answer_turn_def llm_turn_def by (intro outside_adv)

lemma tool_loop_outside: "advances same_db (tool_loop env l t0 n i st)"
  by (induction env l t0 n i st rule: tool_loop.induct)
    (simp only: tool_loop.simps invoke_llm_def, intro outside_adv run_calls_outside answer_turn_outside, assumption?)+

lemma llm_handle_outside: "advances same_db (llm_handle env b l ctx)"
  unfolding llm_handle_def Let_def invoke_llm_def llm_turn_def
  by (intro outside_adv tool_loop_outside answer_turn_outside)

lemma run_tool_clock: "advances clock_flows (run_tool env l i name args)"
  unfolding run_tool_def by (intro wclock_adv)

lemma run_calls_clock: "advances clock_flows (run_calls env l i cs st)"
  by (induction env l i cs st rule: run_calls.induct) (simp only: run_calls.simps, intro wclock_adv run_tool_clock, assumption?)+

lemma answer_turn_clock: "advances clock_flows (answer_turn l r ts t0)"
  unfolding answer_turn_def llm_turn_def by (intro wclock_adv)

lemma tool_loop_clock: "advances clock_flows (tool_loop env l t0 n i st)"
  by (induction env l t0 n i st rule: tool_loop.induct)
    (simp only: tool_loop.simps invoke_llm_def, intro wclock_adv run_calls_clock answer_turn_clock, assumption?)+

lemma llm_handle_clock: "advances clock_flows (llm_handle env b l ctx)"
  unfolding llm_handle_def Let_def invoke_llm_def llm_turn_def
  by (intro wclock_adv tool_loop_clock answer_turn_clock)

lemma run_tool_fits:
  assumes "run_tool env l i name args w = (Inr (tr, out), w')" and "1 \<le> i" and "i \<le> mx"
  shows "trace_fits mx tr"
proof -
  from assms(1) obtain out' st err w1 where
    call: "(case (if name \<in> set (ll_tools l) then map_of (e_tools env) name else None) of
         None \<Rightarrow> ret (''Unknown tool '' @ repr_str name, Tool_error, Some ''unknown_tool'')
       | Some f \<Rightarrow> andthen (toolx f args) (\<lambda>out. ret (out, Tool_success, None))) w = (Inr (out', st, err), w1)"
    and tr: "tr = \<lparr> tt_tool_name = name, tt_iteration = i, tt_result_excerpt = take 4096 out', tt_status = st,
            tt_error = err, tt_duration_ms = monotonic w1 - monotonic w \<rparr>"
    by (auto simp: run_tool_def elim!: andthen_InrE)
  from call have "monotonic w \<le> monotonic w1 \<and> (st = Tool_success \<or> err = Some ''unknown_tool'')"
    by (auto simp: toolx_def tick_def monotonic_def elim!: andthen_InrE split: option.splits if_splits prod.splits)
  then show ?thesis using tr assms(2,3) by (auto simp: trace_fits_def)
qed

lemma run_calls_fits:
  "run_calls env l i cs st w = (Inr st', w') \<Longrightarrow> 1 \<le> i \<Longrightarrow> i \<le> mx \<Longrightarrow>
   list_all (trace_fits mx) (lp_traces st) \<Longrightarrow> list_all (trace_fits mx) (lp_traces st')"
proof (induction env l i cs st arbitrary: w rule: run_calls.induct)
  case (1 env l i st)
  then show ?case by simp
next
  case (2 env l i cid name args cs st)
  from 2(2) obtain tr out w1 where tool: "run_tool env l i name args w = (Inr (tr, out), w1)"
    and rest: "run_calls env l i cs (st\<lparr> lp_traces := lp_traces st @ [tr], lp_last := out,
       lp_messages := lp_messages st @ [Tool_msg out cid] \<rparr>) w1 = (Inr st', w')"
    by (auto elim!: andthen_InrE)
  from 2(1)[OF rest 2(3,4)] show ?case
    using run_tool_fits[OF tool 2(3,4)] 2(5) by simp
qed

lemma answer_turn_fits:
  "answer_turn l r ts t0 w = (Inr t, w') \<Longrightarrow> t0 \<le> monotonic w \<Longrightarrow> list_all (trace_fits mx) ts \<Longrightarrow> turn_fits mx t"
  by (auto simp: answer_turn_def llm_turn_def turn_fits_def turn_of_text_def elim!: andthen_InrE)

lemma invoke_llm_clock: "invoke_llm env l msgs w = (r, w') \<Longrightarrow> monotonic w \<le> monotonic w'"
  using advancesD[OF wclock_layers(2)] by (auto simp: invoke_llm_def clock_flows_def)

lemma tool_loop_fits:
  "tool_loop env l t0 n i st w = (Inr res, w') \<Longrightarrow> 1 \<le> i \<Longrightarrow> i + int n \<le> mx + 1 \<Longrightarrow> t0 \<le> monotonic w \<Longrightarrow>
   list_all (trace_fits mx) (lp_traces st) \<Longrightarrow>
   (case res of Inl t \<Rightarrow> turn_fits mx t | Inr st' \<Rightarrow> list_all (trace_fits mx) (lp_traces st'))"
proof (induction env l t0 n i st arbitrary: w rule: tool_loop.induct)
  case (1 env l t0 i st)
  then show ?case by auto
next
  case (2 env l t0 n i st)
  from 2(2) obtain r w1 where r: "invoke_llm env l (lp_messages st) w = (Inr r, w1)"
    and rest: "(if lr_tool_calls r = [] then andthen (answer_turn l r (lp_traces st) t0) (\<lambda>t. ret (Inl t))
     else andthen (run_calls env l i (lr_tool_calls r)
            (st\<lparr> lp_messages := lp_messages st @ [Ai_tool_msg (lr_content r) (lr_tool_calls r)] \<rparr>))
          (tool_loop env l t0 n (i + 1))) w1 = (Inr res, w')"
    by (auto elim!: andthen_InrE)
  have t0: "t0 \<le> monotonic w1" using invoke_llm_clock[OF r] 2(5) by simp
  show ?case
  proof (cases "lr_tool_calls r = []")
    case True
    then show ?thesis using rest answer_turn_fits[OF _ t0 2(6)] by (auto elim!: andthen_InrE)
  next
    case False
    let ?st = "st\<lparr> lp_messages := lp_messages st @ [Ai_tool_msg (lr_content r) (lr_tool_calls r)] \<rparr>"
    from rest False obtain st1 w2 where calls: "run_calls env l i (lr_tool_calls r) ?st w1 = (Inr st1, w2)"
      and loop: "tool_loop env l t0 n (i + 1) st1 w2 = (Inr res, w')"
      by (auto elim!: andthen_InrE)
    have "list_all (trace_fits mx) (lp_traces st1)"
      using run_calls_fits[OF calls 2(3)] 2(4,6) by simp
    moreover have "t0 \<le> monotonic w2"
      using advancesD[OF run_calls_clock calls] t0 by (simp add: clock_flows_def)
    ultimately show ?thesis
      using 2(1)[OF False loop] 2(3,4) by simp
  qed
qed

lemma llm_turn_fits:
  "llm_turn l r ts t0 s w = (Inr t, w') \<Longrightarrow> t0 \<le> monotonic w \<Longrightarrow> list_all (trace_fits mx) ts \<Longrightarrow> turn_fits mx t"
  by (auto simp: llm_turn_def turn_fits_def turn_of_text_def elim!: andthen_InrE)

lemma llm_handle_fits:
  assumes "llm_handle env b l ctx w = (Inr t, w')"
  shows "turn_fits (lim_max_tool_iterations (sp_limits b)) t"
proof (cases "ll_tools l = []")
  case True
  then obtain r w1 where "invoke_llm env l (prompt_messages b l ctx) w = (Inr r, w1)"
    "answer_turn l r [] (monotonic w) w1 = (Inr t, w')"
    using assms by (auto simp: llm_handle_def Let_def elim!: andthen_InrE)
  then show ?thesis using answer_turn_fits invoke_llm_clock by fastforce
next
  case False
  let ?mx = "lim_max_tool_iterations (sp_limits b)"
  let ?st = "\<lparr> lp_messages = prompt_messages b l ctx, lp_traces = [], lp_last = [] \<rparr>"
  from assms False obtain res w1
    where loop: "tool_loop env l (monotonic w) (nat ?mx) 1 ?st w = (Inr res, w1)"
      and rest: "(case res of
         Inl t \<Rightarrow> ret t
       | Inr st \<Rightarrow>
           andthen (invoke_llm env l (lp_messages st)) (\<lambda>r.
           andthen (of_sum (as_text (lr_content r))) (\<lambda>t.
           llm_turn l r (lp_traces st) (monotonic w)
             (if t = [] then ''Here is the raw data I found:'' @ [char_of (10::nat)] @ lp_last st else t)))) w1
         = (Inr t, w')"
    by (auto simp: llm_handle_def Let_def elim!: andthen_InrE)
  have fits: "case res of Inl t \<Rightarrow> turn_fits ?mx t | Inr st' \<Rightarrow> list_all (trace_fits ?mx) (lp_traces st')"
  proof (cases "0 \<le> ?mx")
    case True
    then show ?thesis using tool_loop_fits[OF loop, of ?mx] by simp
  next
    case False
    then show ?thesis using loop by auto
  qed
  have clock: "monotonic w \<le> monotonic w1"
    using advancesD[OF tool_loop_clock loop] by (simp add: clock_flows_def)
  show ?thesis
  proof (cases res)
    case (Inl t')
    then show ?thesis using fits rest by simp
  next
    case (Inr st)
    from rest Inr obtain r w2 s where r: "invoke_llm env l (lp_messages st) w1 = (Inr r, w2)"
      and turn: "llm_turn l r (lp_traces st) (monotonic w) s w2 = (Inr t, w')"
      by (auto elim!: andthen_InrE)
    show ?thesis
      by (rule llm_turn_fits[OF turn]) (use invoke_llm_clock[OF r] clock fits Inr in auto)
  qed
qed

interpretation llm_handler: agent_handler "\<lambda>env (b, l). llm_handle env b l"
    "\<lambda>(b, l). lim_max_tool_iterations (sp_limits b)"
  by unfold_locales (auto simp: llm_handle_outside llm_handle_clock dest: llm_handle_fits)

section \<open>The remote-flow handler keeps it\<close>

lemmas remote_defs = remote_handle_def remote_identity_def exchange_def

lemma adv_case_exc:
  assumes "\<And>why. advances R (f why)" and "advances R g"
  shows "advances R (case e of Mitra (MitraChannelClosed why) \<Rightarrow> f why | _ \<Rightarrow> g)"
  using assms by (auto split: exc.split mitra_exc.split)

lemma remote_handle_outside: "advances same_db (remote_handle env b r ctx)"
  unfolding remote_defs by (intro outside_adv adv_case_exc)

lemma exchange_clock: "advances clock_flows (exchange cfg r s t timeout)"
  unfolding exchange_def by (intro wclock_adv adv_case_exc)

lemma remote_handle_clock: "advances clock_flows (remote_handle env b r ctx)"
  unfolding remote_handle_def remote_identity_def by (intro wclock_adv exchange_clock)

text \<open>The run of a remote turn that returns, in its parts.\<close>

lemma remote_handle_run:
  assumes "remote_handle env b r ctx w = (Inr t, w')"
  obtains rest cfg s0 s w1 w2 w3 bot_route bt fin where
    "e_client env = Some rest" "e_pool env = Some cfg" "tc_session ctx = Some s0"
    "remote_identity env rest r (tc_user ctx) s0 bot_route w = (Inr s, w1)"
    "exchange cfg r s (tc_text ctx) (if sv_remote_session_id s0 = None then ts_first_turn_timeout_ms (rm_turn r)
       else ts_turn_timeout_ms (rm_turn r)) w1 = (Inr bt, w2)"
    "(if rm_completion_poll_every_turn r
      then httpx (is_session_completed (e_net env) rest (opt_json (sv_remote_session_id s)))
      else ret False) w2 = (Inr fin, w3)"
    "w' = w3" "t = remote_turn r s bot_route bt fin (monotonic w3 - monotonic w)"
  using assms that unfolding remote_handle_def
  by (auto elim!: andthen_InrE split: option.splits simp del: if_split if_split_asm) 

lemma remote_handle_fits:
  assumes "remote_handle env b r ctx w = (Inr t, w')"
  shows "turn_fits 0 t"
proof -
  have "monotonic w \<le> monotonic w'"
    using advancesD[OF remote_handle_clock assms] by (simp add: clock_flows_def)
  with assms show ?thesis
    by (elim remote_handle_run) (auto simp: turn_fits_def remote_turn_def turn_of_text_def delta_of_def)
qed

interpretation remote_handler: agent_handler "\<lambda>env (b, r). remote_handle env b r" "\<lambda>_. 0"
  by unfold_locales (auto simp: remote_handle_outside remote_handle_clock dest: remote_handle_fits)

fun spec_tool_limit :: "agent_spec \<Rightarrow> int" where
  "spec_tool_limit (LlmAgentSpec b _) = lim_max_tool_iterations (sp_limits b)"
| "spec_tool_limit (RemoteFlowAgentSpec _ _) = 0"

interpretation handler: agent_handler handle spec_tool_limit
proof
  fix env sp ctx w t w'
  show "advances same_db (handle env sp ctx)"
    by (cases sp) (simp_all add: llm_handle_outside remote_handle_outside)
  show "advances clock_flows (handle env sp ctx)"
    by (cases sp) (simp_all add: llm_handle_clock remote_handle_clock)
  show "handle env sp ctx w = (Inr t, w') \<Longrightarrow> turn_fits (spec_tool_limit sp) t"
    by (cases sp) (auto dest: llm_handle_fits remote_handle_fits)
qed

section \<open>Properties\<close>


definition tool_env :: env where
  "tool_env = sample_env\<lparr> e_tools := [(''search'', \<lambda>args. (3, Inr ''found it''))],
     e_llm := (\<lambda>cs c. Inr \<lparr> lr_content = JStr (if length cs < 2 then [] else ''done''),
        lr_tool_calls = (if length cs = 0 then [(''c1'', ''search'', JObj []), (''c2'', ''nosuch'', JObj [])] else []),
        lr_prompt_tokens = None, lr_completion_tokens = None \<rparr>) \<rparr>"

definition tool_agent :: agent_spec where
  "tool_agent = LlmAgentSpec sample_base \<lparr> ll_prompt = ''Be helpful'', ll_tools = [''search''],
     ll_model = \<lparr> ms_name = ''m'', ms_temperature = 0, ms_max_tokens = None, ms_timeout_s = 30 \<rparr> \<rparr>"


section \<open>Bounded use of the language model\<close>

lemma llm_quiet_layers:
  "grows w_llm P n (toolx f args)" "grows w_llm P n (httpx h)" "grows w_llm P n (poolx p)"
  by (auto intro!: grows_still simp: toolx_def tick_def httpx_def poolx_def split: prod.splits)

lemma llm_grows_invoke: "grows w_llm (\<lambda>c. lc_model c = ll_model l \<and> lc_tools c = ll_tools l) 1 (invoke_llm env l msgs)"
  unfolding grows_def by (simp add: invoke_llm_def llmx_def tick_def)

lemma llm_quiet_tool: "grows w_llm P 0 (run_tool env l i name args)"
  unfolding run_tool_def by (intro grows_andthen_quiet grows_rules llm_quiet_layers)

lemma llm_quiet_calls: "grows w_llm P 0 (run_calls env l i cs st)"
  by (induction env l i cs st rule: run_calls.induct)
    (simp only: run_calls.simps, intro grows_andthen_quiet grows_rules llm_quiet_tool, assumption?)+

lemma llm_quiet_answer: "grows w_llm P 0 (answer_turn l r ts t0)"
  unfolding answer_turn_def llm_turn_def by (intro grows_andthen_quiet grows_rules)

lemma llm_grows_loop:
  "grows w_llm (\<lambda>c. lc_model c = ll_model l \<and> lc_tools c = ll_tools l) n (tool_loop env l t0 n i st)"
proof (induction env l t0 n i st rule: tool_loop.induct)
  case (2 env l t0 n i st)
  show ?case
    unfolding tool_loop.simps
    by (rule grows_andthen_le[OF llm_grows_invoke, where j = n], rule grows_if)
      (rule grows_mono[where i = 0], intro grows_andthen_quiet grows_rules llm_quiet_answer, simp,
       intro grows_andthen_quiet llm_quiet_calls 2, simp_all)
qed (simp only: tool_loop.simps, rule grows_basic)

lemma llm_calls_grow:
  "\<exists>calls. w_llm (snd (handle env sp ctx w)) = w_llm w @ calls
     \<and> (case sp of
          LlmAgentSpec b l \<Rightarrow> length calls \<le> nat (lim_max_tool_iterations (sp_limits b)) + 1
            \<and> list_all (\<lambda>c. lc_model c = ll_model l \<and> lc_tools c = ll_tools l) calls
        | RemoteFlowAgentSpec b r \<Rightarrow> calls = [])"
proof (cases sp)
  case (LlmAgentSpec b l)
  let ?P = "\<lambda>c. lc_model c = ll_model l \<and> lc_tools c = ll_tools l"
  have "grows w_llm ?P (nat (lim_max_tool_iterations (sp_limits b)) + 1) (llm_handle env b l ctx)"
    unfolding llm_handle_def Let_def llm_turn_def
    by (intro grows_andthen_quiet[OF grows_basic(3)] grows_if;
        (rule grows_andthen_le[OF llm_grows_invoke, where j = 0] grows_andthen_le[OF llm_grows_loop, where j = 1],
         intro grows_andthen_le[OF llm_grows_invoke, where j = 0] grows_andthen_quiet grows_rules llm_quiet_answer)?)
      simp_all
  then show ?thesis using LlmAgentSpec unfolding grows_def by auto
next
  case (RemoteFlowAgentSpec b r)
  have "grows w_llm (\<lambda>_. True) 0 (remote_handle env b r ctx)"
    unfolding remote_defs
    by (intro grows_andthen_quiet grows_rules llm_quiet_layers grows_on_error[where i = 0 and j = 0, simplified])
      (auto split: exc.split mitra_exc.split intro!: grows_andthen_quiet grows_rules llm_quiet_layers)
  then show ?thesis using RemoteFlowAgentSpec unfolding grows_def by auto
qed

text \<open>C20: the tool loop is bounded. Whatever the model answers, handling a turn makes at most one
  call more than the agent's limit of tool iterations, every call with the agent's own model and
  the tools of its configuration, and no call at all from a remote-flow agent.\<close>

theorem llm_calls_are_bounded:
  "\<exists>calls. w_llm (snd (handle env sp ctx w)) = w_llm w @ calls
     \<and> (case sp of
          LlmAgentSpec b l \<Rightarrow> length calls \<le> nat (lim_max_tool_iterations (sp_limits b)) + 1
            \<and> list_all (\<lambda>c. lc_model c = ll_model l \<and> lc_tools c = ll_tools l) calls
        | RemoteFlowAgentSpec b r \<Rightarrow> calls = [])"
  by (rule llm_calls_grow)

section \<open>One remote session per interview\<close>

lemma exchange_requests: "requests P 0 (exchange cfg r s t timeout)"
  unfolding exchange_def
  by (intro grows_andthen_quiet requests_rules grows_on_error[where i = 0 and j = 0, simplified])
    (auto split: exc.split mitra_exc.split intro!: grows_andthen_quiet requests_rules)

lemma requests_completed: "requests is_get 1 (httpx (is_session_completed net c sid))"
  by (rule requests_httpx[OF sends_completed])

lemma remote_handle_requests:
  assumes "\<And>rest u br. requests P n (remote_identity env rest r u s0 br)" and "\<And>q. is_get q \<Longrightarrow> P q"
    and "tc_session ctx = Some s0"
  shows "requests P (n + 1) (remote_handle env b r ctx)"
proof (cases "e_client env = None \<or> e_pool env = None")
  case True
  then show ?thesis by (auto simp: remote_handle_def intro: grows_basic split: option.split)
next
  case False
  then obtain rest cfg where c: "e_client env = Some rest" "e_pool env = Some cfg" by auto
  have poll: "requests P 1 (if rm_completion_poll_every_turn r
      then httpx (is_session_completed (e_net env) rest sid) else ret False)" for sid
    by (intro grows_if grows_basic) (rule grows_weaken[OF requests_completed assms(2)])
  show ?thesis
    unfolding remote_handle_def c assms(3) option.case prod.case
    by (rule grows_andthen_quiet[OF grows_basic(3)], rule grows_andthen_quiet[OF grows_basic(4)],
        rule grows_andthen_le[OF assms(1), where j = 1], rule grows_andthen_quiet[OF exchange_requests],
        rule grows_andthen_le[OF poll, where j = 0], intro grows_andthen_quiet grows_basic) simp_all
qed



section \<open>The handler cache\<close>

text \<open>Requests build handlers in any order; a build that fails leaves the cache it found or an
  empty one.\<close>

definition cache_ok :: "env \<Rightarrow> world \<Rightarrow> bool" where
  "cache_ok env w \<longleftrightarrow> length (w_handlers w) \<le> 65 \<and> distinct (map fst (w_handlers w))
     \<and> (\<forall>(ck, h) \<in> set (w_handlers w). fst ck = sp_key (spec_base h) \<and> construct env h = Inr h)"

lemma construct_same: "construct env sp = Inr h \<Longrightarrow> h = sp"
  by (cases sp) (auto split: if_splits sum.splits)

lemma build_handler_cache_ok:
  assumes "cache_ok env w"
  shows "cache_ok env (snd (build_handler env sp checksum w))"
proof (cases "map_of (w_handlers w) (sp_key (spec_base sp), checksum)")
  case (Some h)
  then show ?thesis using assms by (simp add: build_handler_def Let_def)
next
  case None
  then have new: "(sp_key (spec_base sp), checksum) \<notin> fst ` set (w_handlers w)" by (simp add: map_of_eq_None_iff)
  show ?thesis
  proof (cases "construct env sp")
    case (Inl e)
    then show ?thesis using None assms by (auto simp: build_handler_def Let_def cache_ok_def)
  next
    case (Inr h)
    then have "h = sp" by (rule construct_same)
    then show ?thesis using None Inr assms new by (auto simp: build_handler_def Let_def cache_ok_def)
  qed
qed

text \<open>The handler cache is bounded and never mixes configurations. From an empty cache, after
  any sequence of builds, at most 65 handlers are kept, each constructible and filed under its own
  agent key; and a build returns the handler filed under exactly the key and checksum asked for,
  so two configurations with different checksums never share one.\<close>

theorem handler_cache_is_bounded:
  assumes "w_handlers w = []"
  shows "let w1 = fold (\<lambda>(sp, chk) v. snd (build_handler env sp chk v)) builds w in
    length (w_handlers w1) \<le> 65 \<and>
    (\<forall>sp chk h w2. build_handler env sp chk w1 = (Inr h, w2) \<longrightarrow>
       map_of (w_handlers w2) (sp_key (spec_base sp), chk) = Some h \<and> sp_key (spec_base h) = sp_key (spec_base sp))"
proof -
  let ?w1 = "fold (\<lambda>(sp, chk) v. snd (build_handler env sp chk v)) builds w"
  have "cache_ok env w \<Longrightarrow> cache_ok env ?w1"
    by (induction builds arbitrary: w) (auto intro: build_handler_cache_ok)
  then have ok: "cache_ok env ?w1" using assms by (simp add: cache_ok_def)
  have "map_of (w_handlers w2) (sp_key (spec_base sp), chk) = Some h \<and> sp_key (spec_base h) = sp_key (spec_base sp)"
    if run: "build_handler env sp chk ?w1 = (Inr h, w2)" for sp chk h w2
  proof (cases "map_of (w_handlers ?w1) (sp_key (spec_base sp), chk)")
    case (Some h')
    then have "((sp_key (spec_base sp), chk), h') \<in> set (w_handlers ?w1)" by (rule map_of_SomeD)
    then show ?thesis using run Some ok by (auto simp: build_handler_def Let_def cache_ok_def)
  next
    case None
    then show ?thesis using run
      by (auto simp: build_handler_def Let_def map_add_def dest!: construct_same split: sum.splits option.splits)
  qed
  then show ?thesis using ok by (simp add: Let_def cache_ok_def)
qed

lemma handler_cache_is_bounded_witness:
  "w_handlers sample_world = [] \<and>
   (\<exists>w2. build_handler sample_env sample_llm ''c2''
      (snd (build_handler sample_env sample_llm ''c1'' sample_world)) = (Inr sample_llm, w2)
    \<and> map_of (w_handlers w2) (''general'', ''c2'') = Some sample_llm)"
proof -
  have e: "w_handlers sample_world = []" by (simp add: sample_world_def)
  have b: "fst (build_handler sample_env sample_llm ''c2''
      (snd (build_handler sample_env sample_llm ''c1'' sample_world))) = Inr sample_llm" by code_simp
  have k: "sp_key (spec_base sample_llm) = ''general''" by code_simp
  obtain w2 where w2: "build_handler sample_env sample_llm ''c2''
      (snd (build_handler sample_env sample_llm ''c1'' sample_world)) = (Inr sample_llm, w2)"
    using b by (metis prod.collapse)
  from handler_cache_is_bounded[OF e, of sample_env "[(sample_llm, ''c1'')]", unfolded Let_def fold.simps
      comp_def id_def prod.case, THEN conjunct2, rule_format, OF w2]
  have "map_of (w_handlers w2) (''general'', ''c2'') = Some sample_llm" unfolding k by (rule conjunct1)
  then show ?thesis using e w2 by blast
qed

end
