(* ===== verification/Orchestration.thy ===== *)
theory Orchestration
  imports Handlers
begin

text \<open>
  \<open>services/orchestration.py\<close>: one turn of a conversation, from the user's message to the stored
  reply, with the lock that keeps turns of a conversation apart, the recovery of a reply that came
  too late, and the finalisation of an interview.

  \<open>handle_turn\<close> is cut at the commit of step 9: \<open>admit_turn\<close> (steps 2 to 9, one transaction),
  \<open>answer_turn_call\<close> (step 10, outside every transaction) and \<open>store_turn\<close> (steps 11 to 14).
\<close>

section \<open>Titles and inputs\<close>

definition conversation_title :: "string \<Rightarrow> string" where
  "conversation_title t = (if length t \<le> 60 then t else take 57 t @ ''...'')"

text \<open>\<open>e_date_text\<close> is the suffix of the title, the dash included.\<close>

definition agent_fallback_title :: "env \<Rightarrow> registered_agent \<Rightarrow> time \<Rightarrow> string" where
  "agent_fallback_title env a now = conversation_title (ra_name a @ e_date_text env now)"

definition to_session_view :: "session_row \<Rightarrow> session_view" where
  "to_session_view r = session_view.truncate r"

record turn_input =
  ti_request_id :: "string option"
  ti_conversation_id :: "uuid option"
  ti_user :: user_context
  ti_text :: string
  ti_option_id :: "string option"
  ti_agent_key :: "string option"
  ti_autostart :: bool

record turn_result =
  tr_conv :: conv_row
  tr_message :: msg_row
  tr_agent :: registered_agent
  tr_decision :: route_decision
  tr_turn :: agent_turn
  tr_session :: "session_row option"

record resume_result =
  rr_outcome :: turn_outcome
  rr_session :: session_row
  rr_text :: string
  rr_message :: "msg_row option"

section \<open>Rate limits\<close>

definition minute :: time where
  "minute = 60000000"

definition recent_user_messages :: "uuid \<Rightarrow> db \<Rightarrow> int" where
  "recent_user_messages c d = int (length (filter (\<lambda>m. mg_conversation_id m = c \<and> mg_role m = User
     \<and> d_now d - minute < mg_created_at m) (d_msgs d)))"

definition too_many_turns :: "int \<Rightarrow> exc" where
  "too_many_turns n = TurnLimitExceeded ''max_turns''
     (''This interview has reached its limit of '' @ show_int n @ '' turns.'')"

definition too_fast :: exc where
  "too_fast = TurnLimitExceeded ''rate_limit_per_conversation_per_min''
     (''You'' @ [single_quote] @ ''re sending messages too quickly. Please wait a moment.'')"

definition check_limits :: "uuid \<Rightarrow> limits_spec \<Rightarrow> unit dbact" where
  "check_limits c lm =
     andthen (case lim_max_turns lm of
         None \<Rightarrow> ret ()
       | Some n \<Rightarrow>
           if n = 0 then ret ()
           else andthen (get_open_for_conversation c) (\<lambda>s.
             case s of
               None \<Rightarrow> ret ()
             | Some r \<Rightarrow> if n \<le> sv_turn_count r then throw (too_many_turns n) else ret ())) (\<lambda>_.
     if lim_per_conversation_per_min lm = 0 then ret ()
     else andthen (asks (recent_user_messages c)) (\<lambda>k.
       if lim_per_conversation_per_min lm < k then throw too_fast else ret ()))"

section \<open>The turn lock\<close>

definition turn_lock_key :: "env \<Rightarrow> uuid \<Rightarrow> int" where
  "turn_lock_key env c = e_hashtext env (''saarthi:turn:'' @ uuid_text c)"

text \<open>\<open>pg_try_advisory_lock\<close>: granted unless another connection holds the key; a connection may
  hold it several times.\<close>

definition try_lock_conversation :: "env \<Rightarrow> uuid \<Rightarrow> bool wact" where
  "try_lock_conversation env c = (\<lambda>w0.
     if \<not> e_postgres env then (Inr True, w0)
     else let w = begin_tx w0; k = turn_lock_key env c in
       if w_aborted w then (Inl InFailedTransaction, w)
       else if list_ex (\<lambda>(o', j). j = k \<and> o' \<noteq> w_conn w) (w_locks w) then (Inr False, w)
       else (Inr True, w\<lparr> w_locks := (w_conn w, k) # w_locks w \<rparr>))"

text \<open>\<open>pg_advisory_unlock\<close>; an exception is logged and dropped.\<close>

definition unlock_conversation :: "env \<Rightarrow> uuid \<Rightarrow> world \<Rightarrow> world" where
  "unlock_conversation env c w0 =
     (if \<not> e_postgres env then w0
      else let w = begin_tx w0 in
        if w_aborted w then w
        else w\<lparr> w_locks := remove1 (w_conn w, turn_lock_key env c) (w_locks w) \<rparr>)"

definition close_remote_channel :: "env \<Rightarrow> uuid \<Rightarrow> unit wact" where
  "close_remote_channel env c =
     (if e_pool env = None then ret ()
      else andthen (attempt (poolx (pool_close c))) (\<lambda>_. ret ()))"

section \<open>Recovery of a lost turn\<close>

definition reconcile_turn ::
  "env \<Rightarrow> registered_agent \<Rightarrow> session_row option \<Rightarrow> string \<Rightarrow> reconciliation option wact" where
  "reconcile_turn env a s sent =
     (case (e_client env, s) of
        (Some rest, Some r) \<Rightarrow>
          if spec_type (ra_spec a) \<noteq> Remote_flow then ret None
          else (case (sv_remote_session_id r, sv_remote_profile_id r) of
                  (Some (c # cs), Some (p # ps)) \<Rightarrow>
                    andthen (httpx (recent_chat (e_net env) rest (c # cs) (p # ps))) (\<lambda>rows.
                    ret (Some (reconcile rows sent)))
                | _ \<Rightarrow> ret None)
      | _ \<Rightarrow> ret None)"

definition recovered_turn :: "registered_agent \<Rightarrow> session_row option \<Rightarrow> string \<Rightarrow> bool \<Rightarrow> agent_turn" where
  "recovered_turn a s t done = (turn_of_text t)\<lparr>
     at_session_delta := Some ((delta_of Awaiting_user)\<lparr>
       sd_remote_session_id := (case s of None \<Rightarrow> None | Some r \<Rightarrow> sv_remote_session_id r),
       sd_remote_profile_id := (case s of None \<Rightarrow> None | Some r \<Rightarrow> sv_remote_profile_id r),
       sd_remote_flow := map_option rm_flow_name (spec_remote (ra_spec a)),
       sd_remote_bot_route := (case s of None \<Rightarrow> None | Some r \<Rightarrow> sv_remote_bot_route r) \<rparr>),
     at_terminal := done \<rparr>"

text \<open>\<open>completion_poll_every_turn and is_session_completed(...)\<close>, on behalf of the handler.\<close>

definition poll_completed :: "env \<Rightarrow> registered_agent \<Rightarrow> session_row option \<Rightarrow> bool wact" where
  "poll_completed env a s =
     (case (spec_remote (ra_spec a), e_client env, s) of
        (Some rm, Some rest, Some r) \<Rightarrow>
          if rm_completion_poll_every_turn rm
          then httpx (is_session_completed (e_net env) rest (opt_json (sv_remote_session_id r)))
          else ret False
      | _ \<Rightarrow> throw (AttributeError ''remote''))"

definition recover_timed_out_turn ::
  "env \<Rightarrow> registered_agent \<Rightarrow> session_row option \<Rightarrow> string \<Rightarrow> agent_turn option wact" where
  "recover_timed_out_turn env a s sent =
     andthen (attempt (reconcile_turn env a s sent)) (\<lambda>res.
     case res of
       Inr (Some rc) \<Rightarrow>
         if rc_outcome rc \<noteq> Answered then ret None
         else andthen (attempt (poll_completed env a s)) (\<lambda>polled.
           ret (Some (recovered_turn a s (rc_bot_text rc) (case polled of Inr b \<Rightarrow> b | Inl _ \<Rightarrow> False))))
     | _ \<Rightarrow> ret None)"

section \<open>Finalisation\<close>

text \<open>\<open>str(e)\<close> as it is stored in the session's \<open>error\<close>.\<close>

fun exc_text :: "exc \<Rightarrow> string" where
  "exc_text (Mitra m) = mitra_text m"
| "exc_text (RuntimeError m) = m"
| "exc_text (ValueError m) = m"
| "exc_text (AttributeError m) = m"
| "exc_text (TypeError m) = m"
| "exc_text (KeyError m) = m"
| "exc_text _ = []"

definition finalize_call ::
  "env \<Rightarrow> registered_agent option \<Rightarrow> session_row \<Rightarrow> user_context \<Rightarrow> (string \<times> string) wact" where
  "finalize_call env a s u =
     (case (e_client env, Option.bind a (\<lambda>x. spec_remote (ra_spec x))) of
        (Some rest, Some rm) \<Rightarrow>
          httpx (finalize_story (e_net env) rest (sv_remote_session_id s) (sv_remote_profile_id s)
            (rm_flow_name rm) (sv_language s) (u_token u) (rm_finalize_path rm) (rm_finalize_as_guest rm))
      | _ \<Rightarrow> throw (AttributeError ''finalize''))"

text \<open>The report's URL: only a \<open>MitraError\<close> is caught.\<close>

definition report_call :: "env \<Rightarrow> registered_agent option \<Rightarrow> session_row \<Rightarrow> string option wact" where
  "report_call env a s =
     (case (e_client env, Option.bind a (\<lambda>x. spec_remote (ra_spec x))) of
        (Some rest, Some rm) \<Rightarrow>
          on_error (httpx (get_report (e_net env) rest (opt_json (sv_remote_session_id s)) (rm_report_media_type rm)))
            (\<lambda>e. case e of Mitra _ \<Rightarrow> ret None | _ \<Rightarrow> throw e)
      | _ \<Rightarrow> throw (AttributeError ''get_report''))"

definition completed_delta :: "string \<Rightarrow> string option \<Rightarrow> session_delta" where
  "completed_delta story url = (delta_of Completed)\<lparr> sd_result_ref := Some story,
     sd_report_url := (case url of Some (c # cs) \<Rightarrow> Some (c # cs) | _ \<Rightarrow> None) \<rparr>"

text \<open>What follows a won claim.\<close>

definition finalize_claimed ::
  "env \<Rightarrow> session_row \<Rightarrow> session_row \<Rightarrow> registered_agent option \<Rightarrow> user_context \<Rightarrow> session_row wact" where
  "finalize_claimed env prior claimed a u =
     andthen (dbx (audit_insert Session_finalize ''agent_session'' (Some (sv_id claimed)) ''system''
        (Some (Au_session prior)) (Some (Au_session claimed)) None)) (\<lambda>_.
     andthen (if e_pool env = None then ret () else poolx (pool_close (sv_conversation_id claimed))) (\<lambda>_.
     andthen (on_error (finalize_call env a claimed u) (\<lambda>e.
        andthen (dbx (apply_delta claimed ((delta_of Failed)\<lparr> sd_error := Some (exc_text e) \<rparr>))) (\<lambda>_. throw e)))
       (\<lambda>(story, _).
     andthen (report_call env a claimed) (\<lambda>url.
     andthen (dbx (apply_delta claimed (completed_delta story url))) (\<lambda>completed.
     andthen (dbx (unpin (sv_conversation_id claimed))) (\<lambda>_.
     ret completed))))))"

definition finalize ::
  "env \<Rightarrow> session_row \<Rightarrow> registered_agent option \<Rightarrow> user_context \<Rightarrow> session_row wact" where
  "finalize env s a u =
     andthen (dbx (claim_finalizing (sv_id s))) (\<lambda>claimed.
     case claimed of
       None \<Rightarrow> andthen (dbx (sessions_get (sv_id s))) (\<lambda>cur.
         ret (case cur of None \<Rightarrow> s | Some r \<Rightarrow> r))
     | Some c \<Rightarrow> finalize_claimed env s c a u)"

definition finalize_now :: "env \<Rightarrow> uuid \<Rightarrow> user_context \<Rightarrow> session_row option wact" where
  "finalize_now env sid u =
     andthen (dbx (sessions_get sid)) (\<lambda>found.
     case found of
       None \<Rightarrow> ret None
     | Some s \<Rightarrow>
         andthen (asks (\<lambda>w. get_by_id (w_reg w) (sv_agent_id s))) (\<lambda>a.
         andthen (finalize env s a u) (\<lambda>r. ret (Some r))))"

section \<open>Messages of a turn\<close>

text \<open>\<open>insert(conv, next_seq_for_update(conv), ...)\<close>.\<close>

definition append_message :: "msg_row \<Rightarrow> msg_row dbact" where
  "append_message m = andthen (next_seq_for_update (mg_conversation_id m)) (\<lambda>n.
     message_insert (m\<lparr> mg_seq := n \<rparr>))"

definition history_turn_of :: "msg_row \<Rightarrow> history_turn" where
  "history_turn_of m = \<lparr> ht_role = mg_role m, ht_content = mg_content m \<rparr>"

definition user_message :: "turn_input \<Rightarrow> uuid \<Rightarrow> msg_row" where
  "user_message ti c = (blank_message c 0 User (ti_text ti))\<lparr> mg_selected_option_id := ti_option_id ti,
     mg_request_id := ti_request_id ti \<rparr>"

text \<open>A \<open>NUMERIC(4,3)\<close> column; a value that is not finite fits no row.\<close>

definition numeric_confidence :: "pyfloat \<Rightarrow> rat" where
  "numeric_confidence f = (case f of Fin q \<Rightarrow> of_int (round (q * 1000)) / 1000 | NegInf \<Rightarrow> -1 | _ \<Rightarrow> 2)"

definition agent_message ::
  "turn_input \<Rightarrow> uuid \<Rightarrow> registered_agent \<Rightarrow> route_decision \<Rightarrow> session_row option \<Rightarrow> agent_turn \<Rightarrow> msg_row" where
  "agent_message ti c a dec s t = (blank_message c 0 Assistant (at_text t))\<lparr>
     mg_agent_id := Some (ra_id a), mg_agent_session_id := map_option sv_id s,
     mg_route_reason := Some (reason_text (rd_reason dec)),
     mg_route_confidence := Some (numeric_confidence (rd_confidence dec)),
     mg_options := (if at_options t = [] then None else Some (at_options t)),
     mg_model := at_model t, mg_prompt_tokens := at_prompt_tokens t,
     mg_completion_tokens := at_completion_tokens t, mg_latency_ms := Some (at_latency_ms t),
     mg_error := at_error t, mg_request_id := ti_request_id ti \<rparr>"

section \<open>Steps 2 to 9: admission\<close>

definition record_user_message :: "turn_input \<Rightarrow> uuid \<Rightarrow> unit wact" where
  "record_user_message ti c =
     andthen (dbx (append_message (user_message ti c))) (\<lambda>_.
     if ti_autostart ti then dbx (touch c None)
     else andthen (dbx (touch c (Some (conversation_title (ti_text ti))))) (\<lambda>_.
       dbx (replace_placeholder_title c (conversation_title (ti_text ti)))))"

definition turn_context_of ::
  "turn_input \<Rightarrow> uuid \<Rightarrow> msg_row list \<Rightarrow> session_row option \<Rightarrow> turn_context" where
  "turn_context_of ti c hist s = \<lparr> tc_request_id = opt_text (ti_request_id ti), tc_conversation_id = c,
     tc_user = ti_user ti, tc_text = ti_text ti, tc_option_id = ti_option_id ti,
     tc_history = map history_turn_of hist, tc_session = map_option to_session_view s,
     tc_locale = u_locale (ti_user ti) \<rparr>"

definition router_history :: "uuid \<Rightarrow> msg_row list wact" where
  "router_history c =
     andthen (asks (\<lambda>w. default_agent (w_reg w))) (\<lambda>a.
     case a of None \<Rightarrow> ret [] | Some x \<Rightarrow> dbx (messages_recent c (sp_memory (spec_base (ra_spec x)))))"

text \<open>\<open>resolve_for_scope\<close> on the request's connection. A routing decision without an agent makes
  \<open>agent.key\<close> or, for the default scope, \<open>agent.spec\<close> raise.\<close>

definition resolve_agent :: "env \<Rightarrow> user_context \<Rightarrow> registered_agent option \<Rightarrow> registered_agent wact" where
  "resolve_agent env u a =
     (case a of
        None \<Rightarrow> throw (AttributeError ''spec'')
      | Some x \<Rightarrow> (\<lambda>w0. let w = begin_tx w0 in
          regx (resolve_for_scope (e_validate env) (if w_aborted w then None else Some (w_db w)) x
             (or_default (u_tenant_code u))
             (case u_active_org_id u of None \<Rightarrow> default_scope | Some org \<Rightarrow> or_default org)) w))"

definition open_session :: "env \<Rightarrow> uuid \<Rightarrow> registered_agent \<Rightarrow> session_row option wact" where
  "open_session env c a =
     andthen (dbx (open_attach c (ra_id a))) (\<lambda>att.
     case att of
       Inl s \<Rightarrow> ret (Some s)
     | Inr displaced \<Rightarrow>
         andthen (if displaced then close_remote_channel env c else ret ()) (\<lambda>_.
         dbx (open_create c (ra_id a) (ra_spec a))))"

definition admit_turn ::
  "env \<Rightarrow> turn_input \<Rightarrow> conv_row \<Rightarrow>
   (route_decision \<times> registered_agent \<times> session_row option \<times> msg_row list) wact" where
  "admit_turn env ti conv = (let c = cv_id conv in
     andthen (record_user_message ti c) (\<lambda>_.
     andthen (router_history c) (\<lambda>rh.
     andthen (select env conv (turn_context_of ti c rh None) (ti_agent_key ti)) (\<lambda>dec.
     andthen (resolve_agent env (ti_user ti) (rd_agent dec)) (\<lambda>a.
     andthen (dbx (check_limits c (sp_limits (spec_base (ra_spec a))))) (\<lambda>_.
     andthen (open_session env c a) (\<lambda>s.
     andthen (if rt_pin_session (spec_routing (ra_spec a)) then dbx (pin c (ra_id a)) else ret ()) (\<lambda>_.
     andthen (dbx (messages_recent c (sp_memory (spec_base (ra_spec a))))) (\<lambda>hist.
     andthen commit (\<lambda>_.
     ret (dec, a, s, hist)))))))))))"

section \<open>Step 10: the answer\<close>

definition answer_turn_call ::
  "env \<Rightarrow> turn_input \<Rightarrow> uuid \<Rightarrow> registered_agent \<Rightarrow> session_row option \<Rightarrow> msg_row list \<Rightarrow> agent_turn wact" where
  "answer_turn_call env ti c a s hist =
     andthen (build_handler env (ra_spec a) (ra_checksum a)) (\<lambda>h.
     on_error (handle env h (turn_context_of ti c hist s)) (\<lambda>e.
       case e of
         Mitra (MitraTurnTimeout st) \<Rightarrow>
           andthen (recover_timed_out_turn env a s (ti_text ti)) (\<lambda>rec.
           case rec of None \<Rightarrow> throw e | Some t \<Rightarrow> ret t)
       | _ \<Rightarrow> throw e))"

section \<open>Steps 11 to 14: the record\<close>

definition settle_session ::
  "env \<Rightarrow> user_context \<Rightarrow> registered_agent \<Rightarrow> session_row option \<Rightarrow> agent_turn \<Rightarrow> session_row option wact" where
  "settle_session env u a s t =
     (case s of
        None \<Rightarrow> ret None
      | Some r \<Rightarrow>
          andthen (case at_session_delta t of None \<Rightarrow> ret r | Some \<delta> \<Rightarrow> dbx (apply_delta r \<delta>)) (\<lambda>r1.
          andthen (if at_terminal t then finalize env r1 (Some a) u else ret r1) (\<lambda>r2.
          ret (Some r2))))"

definition retitle :: "env \<Rightarrow> turn_input \<Rightarrow> uuid \<Rightarrow> registered_agent \<Rightarrow> unit wact" where
  "retitle env ti c a =
     (if ti_autostart ti then
        andthen (dbx (touch c None)) (\<lambda>_.
        andthen (asks wall_clock) (\<lambda>now.
        dbx (set_placeholder_title c (agent_fallback_title env a now))))
      else dbx (touch c (Some (conversation_title (ti_text ti)))))"

definition store_turn ::
  "env \<Rightarrow> turn_input \<Rightarrow> uuid \<Rightarrow> registered_agent \<Rightarrow> route_decision \<Rightarrow> session_row option \<Rightarrow> agent_turn \<Rightarrow>
   (msg_row \<times> session_row option) wact" where
  "store_turn env ti c a dec s t =
     andthen (settle_session env (ti_user ti) a s t) (\<lambda>s1.
     andthen (dbx (append_message (agent_message ti c a dec s1 t))) (\<lambda>msg.
     andthen (if ft_record_tool_executions (sp_features (spec_base (ra_spec a)))
              then dbx (tools_bulk_insert (mg_id msg) (Some (ra_id a)) (at_tool_traces t) (ti_request_id ti))
              else ret ()) (\<lambda>_.
     andthen (retitle env ti c a) (\<lambda>_.
     andthen commit (\<lambda>_.
     ret (msg, s1))))))"

section \<open>The turn\<close>

definition handle_turn_locked :: "env \<Rightarrow> turn_input \<Rightarrow> conv_row \<Rightarrow> turn_result wact" where
  "handle_turn_locked env ti conv =
     andthen (admit_turn env ti conv) (\<lambda>(dec, a, s, hist).
     andthen (answer_turn_call env ti (cv_id conv) a s hist) (\<lambda>t.
     andthen (store_turn env ti (cv_id conv) a dec s t) (\<lambda>(msg, s1).
     ret \<lparr> tr_conv = conv, tr_message = msg, tr_agent = a, tr_decision = dec, tr_turn = t,
           tr_session = s1 \<rparr>)))"

definition handle_turn :: "env \<Rightarrow> turn_input \<Rightarrow> turn_result wact" where
  "handle_turn env ti =
     andthen (dbx (get_or_create (ti_conversation_id ti) (ti_user ti))) (\<lambda>conv.
     andthen (try_lock_conversation env (cv_id conv)) (\<lambda>got.
     if \<not> got then throw (ConcurrentTurnError (cv_id conv))
     else always_after (handle_turn_locked env ti conv) (unlock_conversation env (cv_id conv))))"

section \<open>Resuming\<close>

definition store_resumed :: "registered_agent \<Rightarrow> session_row \<Rightarrow> string \<Rightarrow> resume_result wact" where
  "store_resumed a s t =
     andthen (dbx (append_message ((blank_message (sv_conversation_id s) 0 Assistant t)\<lparr>
        mg_agent_id := Some (ra_id a), mg_agent_session_id := Some (sv_id s) \<rparr>))) (\<lambda>msg.
     andthen (dbx (apply_delta s (delta_of Awaiting_user))) (\<lambda>updated.
     andthen (dbx (touch (sv_conversation_id s) None)) (\<lambda>_.
     andthen commit (\<lambda>_.
     ret \<lparr> rr_outcome = Answered, rr_session = updated, rr_text = t, rr_message = Some msg \<rparr>))))"

definition resume_outcome :: "turn_outcome \<Rightarrow> session_row \<Rightarrow> resume_result" where
  "resume_outcome out s = \<lparr> rr_outcome = out, rr_session = s, rr_text = [], rr_message = None \<rparr>"

definition resume_turn :: "env \<Rightarrow> uuid \<Rightarrow> resume_result option wact" where
  "resume_turn env sid =
     andthen (dbx (sessions_get sid)) (\<lambda>found.
     case found of
       None \<Rightarrow> ret None
     | Some s \<Rightarrow>
         andthen (asks (\<lambda>w. get_by_id (w_reg w) (sv_agent_id s))) (\<lambda>ag.
         andthen (dbx (last_user_content (sv_conversation_id s))) (\<lambda>last_text.
         case (ag, last_text) of
           (Some a, Some (c # cs)) \<Rightarrow>
             andthen (reconcile_turn env a (Some s) (c # cs)) (\<lambda>res.
             case res of
               None \<Rightarrow> ret (Some (resume_outcome Not_delivered s))
             | Some rc \<Rightarrow>
                 if rc_outcome rc \<noteq> Answered then ret (Some (resume_outcome (rc_outcome rc) s))
                 else andthen (store_resumed a s (rc_bot_text rc)) (\<lambda>r. ret (Some r)))
         | _ \<Rightarrow> ret (Some (resume_outcome Not_delivered s)))))"

end
