(* ===== verification/Turn_Contract.thy ===== *)
theory Turn_Contract
  imports Orchestration
begin

text \<open>
  What a whole turn does to the database, from what its statements do to it.

  The locales \<open>statement_relation\<close> and \<open>turn_relation\<close> take a relation \<open>Q\<close> between databases that
  every repository operation of a turn moves along, and derive that \<open>handle_turn\<close>, \<open>resume_turn\<close> and
  \<open>finalize_now\<close> move along it, whatever the agents, Mitra and the language model do and wherever
  an exception is raised (\<open>tx_le\<close>). It is interpreted with the constraints, the lifecycle of the
  sessions, and the numbering of the messages.
\<close>

section \<open>Relations between worlds\<close>

text \<open>A statement that fails with a constraint violation may leave anything: the transaction is
  aborted and its contents are discarded.\<close>

definition moves :: "(db \<Rightarrow> db \<Rightarrow> bool) \<Rightarrow> 'a dbact \<Rightarrow> bool" where
  "moves Q m \<longleftrightarrow> (\<forall>d r d'. m d = (r, d') \<and> r \<noteq> Inl IntegrityError \<longrightarrow> Q d d')"

lemma movesI: "(\<And>d r d'. m d = (r, d') \<Longrightarrow> r \<noteq> Inl IntegrityError \<Longrightarrow> Q d d') \<Longrightarrow> moves Q m"
  by (simp add: moves_def)

lemma movesD: "moves Q m \<Longrightarrow> m d = (r, d') \<Longrightarrow> r \<noteq> Inl IntegrityError \<Longrightarrow> Q d d'"
  by (simp add: moves_def)

lemma moves_advances: "advances Q m \<Longrightarrow> moves Q m"
  by (auto simp: moves_def dest: advancesD)

definition tx_le :: "(db \<Rightarrow> db \<Rightarrow> bool) \<Rightarrow> world \<Rightarrow> world \<Rightarrow> bool" where
  "tx_le Q w w' \<longleftrightarrow> (w_aborted w' \<or> \<not> w_aborted w \<and> Q (w_db w) (w_db w'))
     \<and> (w_committed w' = w_committed w \<or> \<not> w_aborted w \<and> Q (w_db w) (w_committed w'))"

lemma readonly_sessions_get: "readonly (sessions_get i)"
  by (simp add: readonly_def sessions_get_def)

lemma readonly_get_open: "readonly (get_open_for_conversation c)"
  by (simp add: readonly_def get_open_for_conversation_def)

lemma readonly_recent: "readonly (messages_recent c mem)"
  unfolding messages_recent_def by (intro readonly_rules)

lemma readonly_last_user: "readonly (last_user_content c)"
  unfolding last_user_content_def by (intro readonly_rules)

lemma readonly_limits: "readonly (check_limits c lm)"
  unfolding check_limits_def by (intro readonly_rules readonly_get_open)

text \<open>What of a turn does not touch the database at all.\<close>

lemma gate4_outside: "advances same_db (gate4 env ctx vis)"
proof -
  have "advances same_db (router_messages ctx vis)"
    by (simp add: advances_def same_db_def router_messages_def Let_def)
  then show ?thesis unfolding gate4_def invoke_router_def by (intro outside_adv)
qed

lemma build_handler_outside: "advances same_db (build_handler env sp chk)"
  by (auto simp: advances_def same_db_def build_handler_def Let_def split: option.split sum.split)

lemma reconcile_outside: "advances same_db (reconcile_turn env a s sent)"
  unfolding reconcile_turn_def
  by (auto split: option.split list.split prod.split intro!: outside_adv)

lemma poll_outside: "advances same_db (poll_completed env a s)"
  unfolding poll_completed_def by (auto split: option.split intro!: outside_adv)

lemma recover_outside: "advances same_db (recover_timed_out_turn env a s sent)"
  unfolding recover_timed_out_turn_def by (intro outside_adv reconcile_outside poll_outside)

lemma answer_turn_outside': "advances same_db (answer_turn_call env ti c a s hist)"
proof -
  have "advances same_db (case e of Mitra (MitraTurnTimeout st) \<Rightarrow>
           andthen (recover_timed_out_turn env a s (ti_text ti)) (\<lambda>rec.
           case rec of None \<Rightarrow> throw e | Some t \<Rightarrow> ret t)
       | _ \<Rightarrow> throw e)" for e
    by (auto split: exc.split mitra_exc.split intro!: outside_adv recover_outside)
  then show ?thesis
    unfolding answer_turn_call_def by (intro outside_adv build_handler_outside handler.serve_outside)
qed

lemma finalize_call_outside: "advances same_db (finalize_call env a s u)"
  unfolding finalize_call_def by (auto split: option.split intro!: outside_adv)

lemma report_call_outside: "advances same_db (report_call env a s)"
proof -
  have "advances same_db (case e of Mitra _ \<Rightarrow> ret None | _ \<Rightarrow> throw e)" for e
    by (auto split: exc.split intro!: outside_adv)
  then show ?thesis unfolding report_call_def by (auto split: option.split intro!: outside_adv)
qed

lemma adv_case_key:
  "(\<And>c cs. k = Some (c # cs) \<Longrightarrow> advances R (f c cs)) \<Longrightarrow> advances R g \<Longrightarrow>
   advances R (case k of Some (c # cs) \<Rightarrow> f c cs | _ \<Rightarrow> g)"
  by (auto split: option.split list.split)

lemma adv_case_answer:
  "(\<And>a c. advances R (f a c)) \<Longrightarrow> advances R g \<Longrightarrow>
   advances R (case ans of Inr (Some (a, c)) \<Rightarrow> f a c | _ \<Rightarrow> g)"
  by (auto split: option.split sum.split)

lemma adv_case_resume:
  "(\<And>a c cs. advances R (f a c cs)) \<Longrightarrow> advances R g \<Longrightarrow>
   advances R (case (ag, t) of (Some a, Some (c # cs)) \<Rightarrow> f a c cs | _ \<Rightarrow> g)"
  by (auto split: option.split list.split)

text \<open>What holds of any relation that does not look at the clock: a statement that moves along it moves
  a world along it, a commit and whatever is outside the database do.\<close>

locale store_relation = progress Q for Q :: "db \<Rightarrow> db \<Rightarrow> bool" +
  assumes Q_now: "Q d (d\<lparr> d_now := t \<rparr>)"
begin

lemma moves_readonly: "readonly m \<Longrightarrow> moves Q m"
  by (metis movesI readonly_def R_refl snd_conv)

lemma tx_le_refl: "tx_le Q w w"
  by (simp add: tx_le_def R_refl)

lemma tx_le_trans: "tx_le Q u v \<Longrightarrow> tx_le Q v w \<Longrightarrow> tx_le Q u w"
  unfolding tx_le_def by (metis R_trans)

lemma tx_progress: "progress (tx_le Q)"
  by unfold_locales (auto intro: tx_le_refl tx_le_trans)

lemmas tx_adv = progress.adv[OF tx_progress]

lemma tx_le_begin: "tx_le Q w (begin_tx w)"
  by (simp add: tx_le_def begin_tx_def R_refl Q_now)

lemma tx_dbx:
  assumes "moves Q m" shows "advances (tx_le Q) (dbx m)"
proof (rule advancesI)
  fix w r w' assume run: "dbx m w = (r, w')"
  have "tx_le Q (begin_tx w) w'"
  proof (cases "w_aborted w")
    case True
    then show ?thesis using run by (auto simp: dbx_def Let_def tx_le_def)
  next
    case False
    obtain r' d where m: "m (w_db (begin_tx w)) = (r', d)" by (meson surj_pair)
    show ?thesis
    proof (cases "r' = Inl IntegrityError")
      case True
      then show ?thesis using run False m by (auto simp: dbx_def Let_def tx_le_def)
    next
      case nf: False
      then have "Q (w_db (begin_tx w)) d" by (rule movesD[OF assms m])
      then show ?thesis using run False m by (auto simp: dbx_def Let_def tx_le_def)
    qed
  qed
  with tx_le_begin show "tx_le Q w w'" by (rule tx_le_trans)
qed

lemma tx_commit: "advances (tx_le Q) commit"
  by (auto simp: advances_def tx_le_def commit_def R_refl)

lemma tx_outside: "advances same_db m \<Longrightarrow> advances (tx_le Q) m"
  by (auto simp: advances_def tx_le_def same_db_def R_refl)

lemma tx_attempt: "advances (tx_le Q) m \<Longrightarrow> advances (tx_le Q) (attempt m)"
  by (auto simp: advances_def attempt_def split_beta)

end

text \<open>The operations of a turn that write, and what is required of the relation.\<close>

locale statement_relation = store_relation +
  assumes mv_touch: "moves Q (touch c tf)"
    and mv_titles: "moves Q (replace_placeholder_title c s)" "moves Q (set_placeholder_title c s)"
    and mv_pins: "moves Q (pin c a)" "moves Q (unpin c)"
    and mv_abandon: "moves Q (abandon c why actor)"
    and mv_open: "moves Q (open_attach c a)" "moves Q (open_create c a sp)"
    and mv_apply: "moves Q (apply_delta row \<delta>)"
    and mv_claim: "moves Q (claim_finalizing i)"
    and mv_audit: "moves Q (audit_insert act et ei ac bef aft note)"
    and mv_tools: "moves Q (tools_bulk_insert mid aid tr rid)"
begin

lemmas mv_readonly = moves_readonly[OF readonly_sessions_get] moves_readonly[OF readonly_get_open]
  moves_readonly[OF readonly_recent] moves_readonly[OF readonly_last_user] moves_readonly[OF readonly_limits]

lemmas mv = mv_readonly mv_touch mv_titles mv_pins mv_abandon mv_open mv_apply
  mv_claim mv_audit mv_tools

lemmas tx_rules = tx_adv tx_commit tx_attempt tx_dbx mv

lemma tx_select: "advances (tx_le Q) (select env conv ctx key)"
  unfolding select_def select_unpinned_def exit_to_default_def pin_for_def Let_def
  by (intro tx_rules adv_case_key tx_outside[OF gate4_outside] adv_case_answer)

lemma tx_resolve: "advances (tx_le Q) (resolve_agent env u a)"
  unfolding resolve_agent_def
  by (cases a) (auto simp: Let_def intro!: tx_adv advancesI
      intro: tx_le_trans[OF tx_le_begin] dest: advancesD[OF tx_outside[OF regx_outside]])

lemma tx_close_remote: "advances (tx_le Q) (close_remote_channel env c)"
  unfolding close_remote_channel_def by (intro tx_rules tx_outside[OF poolx_outside])

lemma tx_open_session: "advances (tx_le Q) (open_session env c a)"
  unfolding open_session_def by (intro tx_rules tx_close_remote)

lemma tx_router_history: "advances (tx_le Q) (router_history c)"
  unfolding router_history_def by (intro tx_rules)

lemma tx_answer: "advances (tx_le Q) (answer_turn_call env ti c a s hist)"
  by (rule tx_outside[OF answer_turn_outside'])

lemma tx_finalize: "advances (tx_le Q) (finalize env s a u)"
  unfolding finalize_def finalize_claimed_def
  by (intro tx_rules tx_outside[OF finalize_call_outside] tx_outside[OF report_call_outside]
      tx_outside[OF poolx_outside])

lemma tx_settle: "advances (tx_le Q) (settle_session env u a s t)"
  unfolding settle_session_def by (intro tx_rules tx_finalize)

lemma tx_retitle: "advances (tx_le Q) (retitle env ti c a)"
  unfolding retitle_def by (intro tx_rules)

lemma tx_finalize_now: "advances (tx_le Q) (finalize_now env sid u)"
  unfolding finalize_now_def by (intro tx_rules tx_finalize)

end

text \<open>A whole turn also appends messages and may create the conversation.\<close>

locale turn_relation = statement_relation +
  assumes mv_get_or_create: "moves Q (get_or_create ci u)"
    and mv_append: "moves Q (append_message m)"
begin

lemma tx_admit: "advances (tx_le Q) (admit_turn env ti conv)"
  unfolding admit_turn_def record_user_message_def Let_def
  by (intro tx_rules mv_append tx_select tx_resolve tx_open_session tx_router_history)

lemma tx_store: "advances (tx_le Q) (store_turn env ti c a dec s t)"
  unfolding store_turn_def by (intro tx_rules mv_append tx_settle tx_retitle)

lemma tx_locked: "advances (tx_le Q) (handle_turn_locked env ti conv)"
  unfolding handle_turn_locked_def by (intro tx_rules tx_admit tx_answer tx_store)

lemma tx_le_unlock: "tx_le Q w (unlock_conversation env c w)"
  using tx_le_begin[of w] by (auto simp: unlock_conversation_def Let_def tx_le_refl) (simp add: tx_le_def)

lemma tx_try_lock: "advances (tx_le Q) (try_lock_conversation env c)"
proof (rule advancesI)
  fix w r w' assume "try_lock_conversation env c w = (r, w')"
  then show "tx_le Q w w'"
    using tx_le_begin[of w] by (auto simp: try_lock_conversation_def Let_def tx_le_refl split: if_splits)
      (simp add: tx_le_def)
qed

lemma tx_handle_turn: "advances (tx_le Q) (handle_turn env ti)"
  unfolding handle_turn_def
proof (intro tx_rules mv_get_or_create tx_try_lock)
  fix conv
  show "advances (tx_le Q) (always_after (handle_turn_locked env ti conv) (unlock_conversation env (cv_id conv)))"
    unfolding advances_def always_after_run
    by (metis advancesD prod.collapse snd_conv tx_le_trans tx_le_unlock tx_locked)
qed

lemma tx_resume_turn: "advances (tx_le Q) (resume_turn env sid)"
  unfolding resume_turn_def store_resumed_def
  by (intro tx_rules mv_append adv_case_resume tx_outside[OF reconcile_outside])

end

section \<open>The constraints\<close>

abbreviation stays :: "(db \<Rightarrow> bool) \<Rightarrow> db \<Rightarrow> db \<Rightarrow> bool" where
  "stays P d d' \<equiv> P d \<longrightarrow> P d'"

lemma moves_stays: "preserves P m \<Longrightarrow> moves (stays P) m"
  by (auto simp: moves_def dest: preserves_run)

lemma preserves_db_ok_append_message [pres]: "preserves db_ok (append_message m)"
  unfolding append_message_def by (intro pres)

interpretation constraints: turn_relation "stays db_ok"
  by unfold_locales (auto intro!: moves_stays pres)

section \<open>The lifecycle of the sessions\<close>

lemma moves_evolve: "advances sessions_evolve m \<Longrightarrow> moves sessions_evolve m"
  by (rule moves_advances)

lemma other_repos_evolve:
  "advances sessions_evolve (get_or_create ci u)" "advances sessions_evolve (append_message m)"
  "advances sessions_evolve (touch c tf)" "advances sessions_evolve (replace_placeholder_title c s)"
  "advances sessions_evolve (set_placeholder_title c s)" "advances sessions_evolve (pin c a)"
  "advances sessions_evolve (tools_bulk_insert mid aid tr rid)"
  unfolding append_message_def repo_defs Let_def upd_conv_def
  by (intro sess_adv stmt_keeps_sessions; simp split: option.split list.split)+

interpretation lifecycle: turn_relation sessions_evolve
proof
  show "sessions_evolve d (d\<lparr> d_now := t \<rparr>)" for d t by (rule sessions_evolve_same) simp
qed (rule moves_evolve repo_sessions_evolve session_service_evolves apply_delta_evolves other_repos_evolve)+

section \<open>The numbering of the messages\<close>

text \<open>The messages of a conversation are numbered from 1, in the order they were inserted, and the
  conversation counts them.\<close>

definition numbered :: "db \<Rightarrow> bool" where
  "numbered d \<longleftrightarrow> (\<forall>c \<in> set (d_convs d).
     map mg_seq (filter (\<lambda>m. mg_conversation_id m = cv_id c) (d_msgs d)) = [1..cv_message_count c])"

definition conv_counts :: "db \<Rightarrow> (uuid \<times> int) list" where
  "conv_counts d = map (\<lambda>c. (cv_id c, cv_message_count c)) (d_convs d)"

definition same_messages :: "db \<Rightarrow> db \<Rightarrow> bool" where
  "same_messages d d' \<longleftrightarrow> d_msgs d' = d_msgs d \<and> conv_counts d' = conv_counts d"

lemma numbered_counts:
  "numbered d \<longleftrightarrow> (\<forall>(c, n) \<in> set (conv_counts d).
     map mg_seq (filter (\<lambda>m. mg_conversation_id m = c) (d_msgs d)) = [1..n])"
  by (simp add: numbered_def conv_counts_def)

lemma numbered_same: "same_messages d d' \<Longrightarrow> numbered d \<Longrightarrow> numbered d'"
  by (simp add: numbered_counts same_messages_def)

interpretation msgs: progress same_messages
  by unfold_locales (auto simp: same_messages_def)

definition well_numbered :: "db \<Rightarrow> bool" where
  "well_numbered d \<longleftrightarrow> db_ok d \<and> numbered d"

lemma stmt_same_messages: "(\<And>d. same_messages d (f d)) \<Longrightarrow> advances same_messages (stmt f)"
  by (auto simp: advances_def stmt_def msgs.R_refl)

lemma upd_sess_same_messages: "advances same_messages (upd_sess p f)"
  by (auto simp: advances_def upd_sess_def stmt_def same_messages_def conv_counts_def)

lemma fresh_id_same_messages: "advances same_messages fresh_id"
  by (simp add: advances_def same_messages_def conv_counts_def)

lemma fetch_one_same_messages: "advances same_messages (fetch_one q)"
  by (simp add: advances_def msgs.R_refl)

lemma upd_conv_same_messages:
  assumes "\<And>c. cv_id (f c) = cv_id c \<and> cv_message_count (f c) = cv_message_count c"
  shows "advances same_messages (upd_conv i p f)"
  unfolding upd_conv_def
  by (rule stmt_same_messages)
    (simp add: same_messages_def conv_counts_def map_upd_where assms)

lemma append_same_messages:
  "advances same_messages (stmt (\<lambda>d. d\<lparr> d_sess := d_sess d @ [row] \<rparr>))"
  "advances same_messages (stmt (\<lambda>d. d\<lparr> d_tools := d_tools d @ rows \<rparr>))"
  by (rule stmt_same_messages, simp add: same_messages_def conv_counts_def)+

lemmas msgs_adv = msgs.adv upd_sess_same_messages fresh_id_same_messages fetch_one_same_messages
  append_same_messages

lemma audit_same_messages: "advances same_messages (audit_insert act et ei ac bef aft note)"
  unfolding audit_insert_def by (rule stmt_same_messages) (simp add: same_messages_def conv_counts_def)

lemma conv_fields_same_messages:
  "advances same_messages (pin c a)" "advances same_messages (unpin c)"
  "advances same_messages (replace_placeholder_title c s)" "advances same_messages (set_placeholder_title c s)"
  unfolding pin_def unpin_def replace_placeholder_title_def set_placeholder_title_def
  by (rule upd_conv_same_messages, simp)+

lemma touch_same_messages: "advances same_messages (touch c tf)"
  unfolding touch_def
  by (intro msgs_adv upd_conv_same_messages) (simp split: option.split list.split)

lemma session_ops_same_messages:
  "advances same_messages (abandon c why actor)" "advances same_messages (open_attach c a)"
  "advances same_messages (open_create c a sp)" "advances same_messages (apply_delta s \<delta>)"
  "advances same_messages (claim_finalizing i)"
  unfolding abandon_def open_attach_def open_create_def apply_delta_def claim_finalizing_def
    get_open_for_conversation_def abandon_open_session_def create_pending_def check_transition_def
    update_state_and_fields_def repo_claim_finalizing_def Let_def
  by (intro msgs_adv audit_same_messages conv_fields_same_messages)+

lemma tools_same_messages: "advances same_messages (tools_bulk_insert mid aid tr rid)"
  unfolding tools_bulk_insert_def by (intro msgs_adv)

lemma moves_numbered:
  assumes "advances same_messages m" and "preserves db_ok m"
  shows "moves (stays well_numbered) m"
  by (rule movesI) (use assms in \<open>auto simp: well_numbered_def dest: advancesD preserves_run numbered_same\<close>)

lemma numbered_new_conversation:
  assumes "well_numbered d" and "db_ok (d\<lparr> d_next := n, d_convs := d_convs d @ [new_conv_row i u t] \<rparr>)"
  shows "numbered (d\<lparr> d_next := n, d_convs := d_convs d @ [new_conv_row i u t] \<rparr>)"
proof -
  have "i \<notin> cv_id ` set (d_convs d)"
    using db_ok_convs[OF assms(2)] by (auto simp: convs_ok_def new_conv_row_def)
  moreover have "\<forall>m \<in> set (d_msgs d). mg_conversation_id m \<in> cv_id ` set (d_convs d)"
    using assms(1) by (simp add: well_numbered_def db_ok_def msgs_ok_def list_all_iff)
  ultimately have "filter (\<lambda>m. mg_conversation_id m = i) (d_msgs d) = []"
    by (auto simp: filter_empty_conv)
  then show ?thesis using assms(1) by (simp add: well_numbered_def numbered_def new_conv_row_def)
qed

lemma get_or_create_numbered: "moves (stays well_numbered) (get_or_create ci u)"
proof (rule movesI, rule impI)
  fix d r d'
  assume run: "get_or_create ci u d = (r, d')" and nf: "r \<noteq> Inl IntegrityError" and w: "well_numbered d"
  have ok: "db_ok d'" using run w by (auto simp: well_numbered_def intro: preserves_run[OF preserves_db_ok_repos(12)])
  have "numbered d'"
  proof (cases "d_convs d' = d_convs d \<and> d_msgs d' = d_msgs d")
    case True
    then show ?thesis using w by (simp add: well_numbered_def numbered_def)
  next
    case False
    have "(case ci of Some i \<Rightarrow> get_scoped i u | None \<Rightarrow> latest_active u) d =
        (fst ((case ci of Some i \<Rightarrow> get_scoped i u | None \<Rightarrow> latest_active u) d), d)"
      by (cases ci) (simp_all add: latest_active_def get_scoped_def)
    with False run have "conv_create_new u d = (r, d')"
      by (auto simp: get_or_create_def andthen_run split: sum.splits option.splits prod.splits)
    with False nf have "d' = d\<lparr> d_next := d_next d + 1, d_convs := d_convs d @ [new_conv_row (d_next d) u (d_now d)] \<rparr>"
      by (auto simp: conv_create_new_def Let_def andthen_run stmt_run split: if_splits)
    then show ?thesis using numbered_new_conversation[OF w] ok by simp
  qed
  then show "well_numbered d'" using ok by (simp add: well_numbered_def)
qed

lemma preserves_db_ok_misc [pres]:
  "preserves db_ok (latest_active u)"
  by (simp add: latest_active_def pres)

lemma upto_Suc: "0 \<le> n \<Longrightarrow> [1..n + 1] = [1..n] @ [n + 1]" for n :: int
  by (simp add: upto_rec2)

lemma append_message_numbered: "moves (stays well_numbered) (append_message m)"
proof (rule movesI, rule impI)
  fix d r d'
  assume run: "append_message m d = (r, d')" and nf: "r \<noteq> Inl IntegrityError" and w: "well_numbered d"
  let ?c = "mg_conversation_id m"
  have ok: "db_ok d" using w by (simp add: well_numbered_def)
  have ok': "db_ok d'" using preserves_run[OF preserves_db_ok_append_message ok run] .
  have dist: "distinct (map cv_id (d_convs d))" using db_ok_convs[OF ok] by (simp add: convs_ok_def)
  show "well_numbered d'"
  proof (cases "filter (\<lambda>c. cv_id c = ?c) (d_convs d)")
    case Nil
    then have "d' = d \<or> r = Inl IntegrityError"
      using run by (auto simp: append_message_def next_seq_for_update_def andthen_run upd_conv_def stmt_run
          filter_empty_conv upd_where_idle split: if_splits)
    then show ?thesis using w nf by auto
  next
    case (Cons c cs)
    have "c \<in> set (filter (\<lambda>c. cv_id c = ?c) (d_convs d))" unfolding Cons by simp
    then have c: "c \<in> set (d_convs d)" "cv_id c = ?c" by simp_all
    have "\<exists>x. one_or_none () (c # cs) = Inr x"
      using one_or_none_filter_distinct[OF dist, of "()" ?c] unfolding Cons .
    then have "cs = []" by (cases cs) simp_all
    with Cons have one: "filter (\<lambda>c. cv_id c = ?c) (d_convs d) = [c]" by simp
    obtain row where d': "d_convs d' = upd_where (\<lambda>c. cv_id c = ?c)
        (\<lambda>c. c\<lparr> cv_message_count := cv_message_count c + 1, cv_updated_at := d_now d \<rparr>) (d_convs d)"
      "d_msgs d' = d_msgs d @ [row]" "mg_seq row = cv_message_count c + 1" "mg_conversation_id row = ?c"
      using run nf one
      by (auto simp: append_message_def next_seq_for_update_def message_insert_def andthen_run upd_conv_def
          stmt_run Let_def split: if_splits)
    have same: "x = c" if "x \<in> set (d_convs d)" "cv_id x = ?c" for x
      using that c dist by (metis distinct_map_eq)
    have nonneg': "0 \<le> cv_message_count c"
      using db_ok_convs[OF ok] c(1) by (auto simp: convs_ok_def list_all_iff conv_row_ok_def)
    have num: "map mg_seq (filter (\<lambda>m. mg_conversation_id m = cv_id x) (d_msgs d)) = [1..cv_message_count x]"
      if "x \<in> set (d_convs d)" for x using w that by (simp add: well_numbered_def numbered_def)
    have "numbered d'"
      unfolding numbered_def d'(1,2) ball_upd_where
    proof
      fix x assume x: "x \<in> set (d_convs d)"
      show "map mg_seq (filter (\<lambda>m. mg_conversation_id m = cv_id (if cv_id x = ?c
            then x\<lparr> cv_message_count := cv_message_count x + 1, cv_updated_at := d_now d \<rparr> else x)) (d_msgs d @ [row]))
          = [1..cv_message_count (if cv_id x = ?c
            then x\<lparr> cv_message_count := cv_message_count x + 1, cv_updated_at := d_now d \<rparr> else x)]"
      proof (cases "cv_id x = ?c")
        case True
        then show ?thesis using num[OF x] same[OF x True] nonneg' by (simp add: d'(3,4) upto_Suc)
      next
        case False
        then show ?thesis using num[OF x] by (simp add: d'(4))
      qed
    qed
    then show ?thesis using ok' by (simp add: well_numbered_def)
  qed
qed

interpretation numbering: turn_relation "stays well_numbered"
proof
  show "stays well_numbered d (d\<lparr> d_now := t \<rparr>)" for d t
    by (simp add: well_numbered_def numbered_def)
  show "stays well_numbered s s" for s by simp
  show "stays well_numbered s t \<Longrightarrow> stays well_numbered t u \<Longrightarrow> stays well_numbered s u" for s t u by simp
qed (rule get_or_create_numbered append_message_numbered moves_numbered audit_same_messages
    conv_fields_same_messages touch_same_messages session_ops_same_messages tools_same_messages pres)+

section \<open>The history is append-only\<close>

definition messages_grow :: "db \<Rightarrow> db \<Rightarrow> bool" where
  "messages_grow d d' \<longleftrightarrow> (\<exists>ms. d_msgs d' = d_msgs d @ ms)"

lemma grow_same: "d_msgs d' = d_msgs d \<Longrightarrow> messages_grow d d'"
  by (simp add: messages_grow_def)

interpretation grow: progress messages_grow
  by unfold_locales (auto simp: messages_grow_def)

lemma append_grows: "advances messages_grow (append_message m)"
proof -
  have "advances messages_grow (message_insert m)" for m
    unfolding message_insert_def Let_def
    by (intro grow.adv) (auto simp: advances_def stmt_def messages_grow_def)
  moreover have "advances messages_grow (upd_conv i p f)" for i p f
    by (auto simp: advances_def upd_conv_def stmt_def messages_grow_def)
  ultimately show ?thesis
    unfolding append_message_def next_seq_for_update_def by (intro grow.adv)
qed

lemma get_or_create_grows: "advances messages_grow (get_or_create ci u)"
  unfolding get_or_create_def latest_active_def get_scoped_def conv_create_new_def Let_def
  by (intro grow.adv) (auto simp: advances_def stmt_def messages_grow_def)

text \<open>Statements that leave the messages alone.\<close>

abbreviation same_history :: "db \<Rightarrow> db \<Rightarrow> bool" where
  "same_history d d' \<equiv> d_msgs d' = d_msgs d"

lemma moves_same_history: "advances same_messages m \<Longrightarrow> moves same_history m"
  by (auto simp: moves_def same_messages_def dest!: advancesD)

lemma moves_grow: "advances same_messages m \<Longrightarrow> moves messages_grow m"
  by (auto simp: moves_def same_messages_def messages_grow_def dest!: advancesD)

lemmas same_messages_ops = audit_same_messages conv_fields_same_messages touch_same_messages
  session_ops_same_messages tools_same_messages

interpretation still: statement_relation same_history
proof
  show "d_msgs (d\<lparr> d_now := t \<rparr>) = d_msgs d" for d t by simp
qed (simp | rule moves_same_history same_messages_ops)+

interpretation append_only: turn_relation messages_grow
proof
  show "messages_grow d (d\<lparr> d_now := t \<rparr>)" for d t by (simp add: messages_grow_def)
qed (rule moves_advances[OF get_or_create_grows] moves_advances[OF append_grows] moves_grow same_messages_ops)+

section \<open>The locks\<close>

definition same_locks :: "world \<Rightarrow> world \<Rightarrow> bool" where
  "same_locks w w' \<longleftrightarrow> w_locks w' = w_locks w \<and> w_conn w' = w_conn w"

interpretation locks: progress same_locks
  by unfold_locales (auto simp: same_locks_def)

lemma locks_dbx: "advances same_locks (dbx m)"
  unfolding advances_def
proof
  fix w
  obtain d b t where "snd (dbx m w) = w\<lparr> w_db := d, w_aborted := b, w_in_tx := t \<rparr>" using dbx_frame by blast
  then show "same_locks w (snd (dbx m w))" by (simp add: same_locks_def)
qed

lemma locks_commit: "advances same_locks commit"
  by (simp add: advances_def same_locks_def commit_def)

lemma locks_outside: "advances same_db m \<Longrightarrow> advances same_locks m"
  by (simp add: advances_def same_locks_def same_db_def)

lemma locks_attempt: "advances same_locks m \<Longrightarrow> advances same_locks (attempt m)"
  by (auto simp: advances_def attempt_def split_beta)

lemmas locks_adv = locks.adv locks_dbx locks_commit locks_attempt

lemma locks_select: "advances same_locks (select env conv ctx key)"
  unfolding select_def select_unpinned_def exit_to_default_def pin_for_def Let_def
  by (intro locks_adv adv_case_key locks_outside[OF gate4_outside] adv_case_answer)

lemma locks_resolve: "advances same_locks (resolve_agent env u a)"
  unfolding resolve_agent_def
  by (cases a) (auto simp: advances_def Let_def same_locks_def regx_def split: prod.splits)

lemma locks_finalize: "advances same_locks (finalize env s a u)"
  unfolding finalize_def finalize_claimed_def
  by (intro locks_adv locks_outside[OF finalize_call_outside] locks_outside[OF report_call_outside]
      locks_outside[OF poolx_outside])

lemma locks_locked: "advances same_locks (handle_turn_locked env ti conv)"
  unfolding handle_turn_locked_def admit_turn_def record_user_message_def router_history_def open_session_def
    store_turn_def settle_session_def retitle_def close_remote_channel_def Let_def
  by (intro locks_adv locks_select locks_resolve locks_outside[OF answer_turn_outside'] locks_finalize
      locks_outside[OF poolx_outside])

end
