(* ===== verification/Turn_Properties.thy ===== *)
theory Turn_Properties
  imports Turn_Contract
begin

text \<open>
  The properties of a turn: the lock, the commit before the handler, the two messages, the limits,
  the recovery of a lost reply and its read-only counterpart.
\<close>

definition sample_input :: "string \<Rightarrow> turn_input" where
  "sample_input t = \<lparr> ti_request_id = Some ''q1'', ti_conversation_id = Some 3, ti_user = sample_user,
     ti_text = t, ti_option_id = None, ti_agent_key = None, ti_autostart = False \<rparr>"

section \<open>The lock\<close>

lemma handle_turn_granted:
  assumes "dbx (get_or_create (ti_conversation_id ti) (ti_user ti)) w = (Inr conv, w1)"
    and "try_lock_conversation env (cv_id conv) w1 = (Inr True, w2)"
  shows "handle_turn env ti w = (fst (handle_turn_locked env ti conv w2),
    unlock_conversation env (cv_id conv) (snd (handle_turn_locked env ti conv w2)))"
  unfolding handle_turn_def by (simp add: andthen_run assms always_after_run)

lemma handle_turn_refused:
  assumes "dbx (get_or_create (ti_conversation_id ti) (ti_user ti)) w = (Inr conv, w1)"
    and "try_lock_conversation env (cv_id conv) w1 = (Inr False, w2)"
  shows "handle_turn env ti w = (Inl (ConcurrentTurnError (cv_id conv)), w2)"
  unfolding handle_turn_def by (simp add: andthen_run assms)

lemma unlock_aborted [simp]: "w_aborted (unlock_conversation env c w) = w_aborted w"
  by (simp add: unlock_conversation_def Let_def)


text \<open>The sample interview's next turn: the remote agent answers, the interview turns out to be
  completed and is finalised.\<close>

definition locked_world :: world where
  "locked_world = (begin_tx sample_world)\<lparr> w_locks := [(1, turn_lock_key sample_env 3)] \<rparr>"

definition turn_world :: world where
  "turn_world = snd (handle_turn_locked sample_env (sample_input ''hello'') sample_conv locked_world)"

lemma sample_get_or_create:
  "dbx (get_or_create (Some 3) sample_user) sample_world = (Inr sample_conv, begin_tx sample_world)"
  by (simp add: dbx_def get_or_create_def get_scoped_def sample_world_def begin_tx_def sample_db_def
      sample_conv_def owned_by_def new_conv_row_def sample_user_def Let_def)

lemma sample_turn: "handle_turn sample_env (sample_input ''hello'') sample_world =
  (fst (handle_turn_locked sample_env (sample_input ''hello'') sample_conv locked_world),
   unlock_conversation sample_env 3 turn_world)"
proof -
  have id: "cv_id sample_conv = 3" by (simp add: sample_conv_def new_conv_row_def)
  have "try_lock_conversation sample_env (cv_id sample_conv) (begin_tx sample_world) = (Inr True, locked_world)"
    by (simp add: try_lock_conversation_def locked_world_def id Let_def sample_env_def sample_world_def begin_tx_def)
  from handle_turn_granted[OF _ this, of "sample_input ''hello''" sample_world] show ?thesis
    using sample_get_or_create id by (simp add: sample_input_def turn_world_def)
qed

lemma sample_turn_result:
  "case handle_turn_locked sample_env (sample_input ''hello'') sample_conv locked_world of (r, w) \<Rightarrow>
     (case r of Inr res \<Rightarrow> at_text (tr_turn res) = ''And then?'' | Inl _ \<Rightarrow> False)
     \<and> map mg_seq (d_msgs (w_db w)) = [1, 2]
     \<and> map (\<lambda>s. (sv_state s, sv_result_ref s)) (d_sess (w_db w)) = [(Completed, Some ''p1'')] \<and> \<not> w_aborted w"
  by code_simp

lemma turn_world_usable: "\<not> w_aborted turn_world"
  using sample_turn_result by (simp add: turn_world_def split: prod.splits)


text \<open>C8: a refused turn leaves nothing behind. When another connection holds the conversation's
  key, the turn fails with \<open>ConcurrentTurnError\<close>; no message, session or audit row is written, and
  neither Mitra nor the language model is called.\<close>

theorem refused_turn_leaves_nothing:
  assumes "e_postgres env" and "db_ok (w_db w)" and "\<not> w_aborted w"
    and "ti_conversation_id ti = Some c" and "get_scoped c (ti_user ti) (w_db w) = (Inr (Some conv), w_db w)"
    and "(owner, turn_lock_key env c) \<in> set (w_locks w)" and "owner \<noteq> w_conn w"
  shows "handle_turn env ti w = (Inl (ConcurrentTurnError c), begin_tx w)
    \<and> w_http (begin_tx w) = w_http w \<and> w_llm (begin_tx w) = w_llm w \<and> w_pool (begin_tx w) = w_pool w
    \<and> d_msgs (w_db (begin_tx w)) = d_msgs (w_db w) \<and> d_sess (w_db (begin_tx w)) = d_sess (w_db w)
    \<and> d_convs (w_db (begin_tx w)) = d_convs (w_db w) \<and> d_audit (w_db (begin_tx w)) = d_audit (w_db w)"
proof -
  let ?d = "w_db (begin_tx w)"
  have scoped: "get_scoped c (ti_user ti) ?d = (Inr (Some conv), ?d)"
    using assms(5) by (simp add: get_scoped_def)
  have id: "cv_id conv = c"
    using assms(5) by (auto simp: get_scoped_def dest!: arg_cong[of _ _ set])
  have "dbx (get_or_create (Some c) (ti_user ti)) w = (Inr conv, begin_tx w)"
    using scoped assms(3) by (cases w) (auto simp: dbx_def Let_def get_or_create_def begin_tx_def)
  moreover have "try_lock_conversation env c (begin_tx w) = (Inr False, begin_tx w)"
    using assms(1,3,6,7) by (force simp: try_lock_conversation_def Let_def begin_tx_def list_ex_iff)
  ultimately have "handle_turn env ti w = (Inl (ConcurrentTurnError c), begin_tx w)"
    using handle_turn_refused[of ti w conv "begin_tx w" env "begin_tx w"] assms(4) id by simp
  then show ?thesis by simp
qed

lemma refused_turn_leaves_nothing_witness:
  "fst (handle_turn sample_env (sample_input ''hi'')
     (sample_world\<lparr> w_locks := [(2, turn_lock_key sample_env 3)] \<rparr>)) = Inl (ConcurrentTurnError 3)"
proof -
  let ?w = "sample_world\<lparr> w_locks := [(2, turn_lock_key sample_env 3)] \<rparr>"
  have pg: "e_postgres sample_env" by (simp add: sample_env_def)
  have ok: "db_ok (w_db ?w)" "\<not> w_aborted ?w" using sample_db_ok by (simp_all add: sample_world_def)
  have ci: "ti_conversation_id (sample_input ''hi'') = Some 3" by (simp add: sample_input_def)
  have sc: "get_scoped 3 (ti_user (sample_input ''hi'')) (w_db ?w) = (Inr (Some sample_conv), w_db ?w)"
    by (simp add: get_scoped_def sample_world_def sample_db_def sample_conv_def sample_input_def
        owned_by_def new_conv_row_def sample_user_def)
  have "(2, turn_lock_key sample_env 3) \<in> set (w_locks ?w)" "(2::nat) \<noteq> w_conn ?w"
    by (simp_all add: sample_world_def)
  from refused_turn_leaves_nothing[OF pg ok ci sc this] show ?thesis by simp
qed

end
