(* ===== verification/Turn_Record.thy ===== *)
theory Turn_Record
  imports Turn_Properties
begin

text \<open>
  What a turn leaves in the database: the user's message, committed before the handler runs, and
  the reply. Then the limits that may refuse a turn and the titles.
\<close>

section \<open>Unaborted transactions\<close>

lemma dbx_ok: "dbx m w = (Inr x, w') \<Longrightarrow> \<not> w_aborted w \<and> \<not> w_aborted w' \<and> w_committed w' = w_committed w
    \<and> m (w_db (begin_tx w)) = (Inr x, w_db w')"
  by (auto simp: dbx_def Let_def split: if_splits prod.splits)

lemma commit_ok: "commit w = (Inr x, w') \<Longrightarrow>
    \<not> w_aborted w \<and> w' = w\<lparr> w_committed := w_db w, w_in_tx := False \<rparr>"
  by (auto simp: commit_def split: if_splits)

text \<open>The row an insert stores.\<close>

lemma append_message_stores:
  assumes "append_message m d = (Inr row, d')"
  shows "d_msgs d' = d_msgs d @ [row] \<and> mg_conversation_id row = mg_conversation_id m \<and> mg_role row = mg_role m
    \<and> mg_content row = mg_content m \<and> mg_request_id row = mg_request_id m \<and> mg_agent_id row = mg_agent_id m
    \<and> mg_agent_session_id row = mg_agent_session_id m \<and> mg_options row = mg_options m"
  using assms
  by (auto simp: append_message_def next_seq_for_update_def message_insert_def upd_conv_def andthen_run stmt_run
      Let_def split: if_splits sum.splits list.splits)

lemma dbx_append:
  assumes "dbx (append_message m) w = (Inr row, w')"
  shows "d_msgs (w_db w') = d_msgs (w_db w) @ [row] \<and> mg_conversation_id row = mg_conversation_id m
    \<and> mg_role row = mg_role m \<and> mg_content row = mg_content m \<and> mg_request_id row = mg_request_id m
    \<and> mg_agent_id row = mg_agent_id m \<and> mg_agent_session_id row = mg_agent_session_id m"
  using append_message_stores[of m "w_db (begin_tx w)" row "w_db w'"] dbx_ok[OF assms] by simp

text \<open>A step that leaves the messages alone, seen from an unaborted state.\<close>

lemma still_step:
  "advances (tx_le same_history) m \<Longrightarrow> m w = (r, w') \<Longrightarrow> \<not> w_aborted w' \<Longrightarrow> d_msgs (w_db w') = d_msgs (w_db w)"
  by (auto dest: advancesD simp: tx_le_def)

section \<open>Admission\<close>

lemma admit_turn_stores:
  assumes "admit_turn env ti conv w = (Inr (dec, a, s, hist), w')"
  shows "\<exists>m. d_msgs (w_db w') = d_msgs (w_db w) @ [m] \<and> mg_conversation_id m = cv_id conv \<and> mg_role m = User
    \<and> mg_content m = ti_text ti \<and> mg_request_id m = ti_request_id ti
    \<and> w_committed w' = w_db w' \<and> \<not> w_in_tx w' \<and> \<not> w_aborted w'"
proof -
  let ?rest = "andthen (router_history (cv_id conv)) (\<lambda>rh.
     andthen (select env conv (turn_context_of ti (cv_id conv) rh None) (ti_agent_key ti)) (\<lambda>dec.
     andthen (resolve_agent env (ti_user ti) (rd_agent dec)) (\<lambda>a.
     andthen (dbx (check_limits (cv_id conv) (sp_limits (spec_base (ra_spec a))))) (\<lambda>_.
     andthen (open_session env (cv_id conv) a) (\<lambda>s.
     andthen (if rt_pin_session (spec_routing (ra_spec a)) then dbx (pin (cv_id conv) (ra_id a)) else ret ()) (\<lambda>_.
     andthen (dbx (messages_recent (cv_id conv) (sp_memory (spec_base (ra_spec a))))) (\<lambda>hist.
     andthen commit (\<lambda>_.
     ret (dec, a, s, hist)))))))))"
  from assms obtain w1 where u: "record_user_message ti (cv_id conv) w = (Inr (), w1)"
    and rest: "?rest w1 = (Inr (dec, a, s, hist), w')"
    by (auto simp: admit_turn_def Let_def elim!: andthen_InrE)
  from rest obtain w2 where "commit w2 = (Inr (), w')" by (auto elim!: andthen_InrE)
  then have c: "w_committed w' = w_db w'" "\<not> w_in_tx w'" "\<not> w_aborted w'" by (auto dest!: commit_ok)
  have "advances (tx_le same_history) ?rest"
    by (intro still.tx_rules still.tx_router_history still.tx_select still.tx_resolve still.tx_open_session)
  from still_step[OF this rest c(3)] have e1: "d_msgs (w_db w') = d_msgs (w_db w1)" .
  let ?tail = "if ti_autostart ti then dbx (touch (cv_id conv) None)
     else andthen (dbx (touch (cv_id conv) (Some (conversation_title (ti_text ti))))) (\<lambda>_.
       dbx (replace_placeholder_title (cv_id conv) (conversation_title (ti_text ti))))"
  from u obtain m w3 where m: "dbx (append_message (user_message ti (cv_id conv))) w = (Inr m, w3)"
    and t: "?tail w3 = (Inr (), w1)"
    unfolding record_user_message_def by (elim andthen_InrE)
  have "advances (tx_le same_history) ?tail" by (intro still.tx_rules)
  moreover have "\<not> w_aborted w1" using t by (auto elim!: andthen_InrE dest!: dbx_ok split: if_splits)
  ultimately have "d_msgs (w_db w1) = d_msgs (w_db w3)"
    using still_step[where m = ?tail and w = w3 and r = "Inr ()" and w' = w1] t by blast
  with dbx_append[OF m] e1 c show ?thesis by (intro exI[of _ m]) (simp add: user_message_def blank_message_def)
qed

text \<open>C2: the handler runs after the commit and outside every transaction. When a turn is admitted,
  the user's message is the newest message and already committed, no transaction is open, and
  whatever the handler, Mitra or the recovery of a timeout then do, they touch neither the
  database nor the transaction nor the locks.\<close>

theorem handler_runs_after_commit:
  assumes "admit_turn env ti conv w = (Inr (dec, a, s, hist), w')"
  shows "(\<exists>m. d_msgs (w_committed w') = d_msgs (w_db w) @ [m] \<and> mg_role m = User \<and> mg_content m = ti_text ti
        \<and> mg_conversation_id m = cv_id conv)
    \<and> \<not> w_in_tx w' \<and> (\<forall>r w2. answer_turn_call env ti (cv_id conv) a s hist w' = (r, w2) \<longrightarrow> same_db w' w2)"
  using admit_turn_stores[OF assms] advancesD[OF answer_turn_outside'] by fastforce

lemma handler_runs_after_commit_witness:
  "\<exists>dec a s hist w' m. admit_turn sample_env (sample_input ''hello'') sample_conv sample_world = (Inr (dec, a, s, hist), w')
     \<and> d_msgs (w_committed w') = [m] \<and> mg_content m = ''hello'' \<and> \<not> w_in_tx w'"
proof -
  let ?r = "admit_turn sample_env (sample_input ''hello'') sample_conv sample_world"
  have "(case fst ?r of Inr _ \<Rightarrow> True | Inl _ \<Rightarrow> False)" by code_simp
  then obtain dec a s hist where r: "?r = (Inr (dec, a, s, hist), snd ?r)"
    by (auto simp: prod_eq_iff split: sum.splits)
  have "d_msgs (w_db sample_world) = []" by (simp add: sample_world_def sample_db_def empty_db_def)
  then show ?thesis using handler_runs_after_commit[OF r] r by (fastforce simp: sample_input_def)
qed

section \<open>The whole turn\<close>

lemma store_turn_stores:
  assumes "store_turn env ti c a dec s t w = (Inr (msg, s1), w')"
  shows "d_msgs (w_db w') = d_msgs (w_db w) @ [msg] \<and> mg_conversation_id msg = c \<and> mg_role msg = Assistant
    \<and> mg_content msg = at_text t \<and> mg_agent_id msg = Some (ra_id a) \<and> mg_agent_session_id msg = map_option sv_id s1
    \<and> w_committed w' = w_db w' \<and> \<not> w_aborted w'"
proof -
  let ?tail = "\<lambda>msg. andthen (if ft_record_tool_executions (sp_features (spec_base (ra_spec a)))
              then dbx (tools_bulk_insert (mg_id msg) (Some (ra_id a)) (at_tool_traces t) (ti_request_id ti))
              else ret ()) (\<lambda>_.
     andthen (retitle env ti c a) (\<lambda>_. andthen commit (\<lambda>_. ret (msg, s1))))"
  from assms obtain w1 w2 where s: "settle_session env (ti_user ti) a s t w = (Inr s1, w1)"
    and m: "dbx (append_message (agent_message ti c a dec s1 t)) w1 = (Inr msg, w2)"
    and t: "?tail msg w2 = (Inr (msg, s1), w')"
    unfolding store_turn_def by (auto elim!: andthen_InrE)
  from t obtain w3 where "commit w3 = (Inr (), w')" by (auto elim!: andthen_InrE)
  then have c: "w_committed w' = w_db w'" "\<not> w_aborted w'" by (auto dest!: commit_ok)
  have "advances (tx_le same_history) (?tail msg)" by (intro still.tx_rules still.tx_retitle)
  from still_step[OF this t c(2)] have "d_msgs (w_db w') = d_msgs (w_db w2)" .
  moreover have "d_msgs (w_db w1) = d_msgs (w_db w)"
    using still_step[OF still.tx_settle s] dbx_ok[OF m] by blast
  ultimately show ?thesis using dbx_append[OF m] c by (simp add: agent_message_def blank_message_def)
qed

text \<open>C3: a turn that succeeds adds exactly two messages, the user's and then the reply of the
  agent that was routed to, and both are committed when it returns.\<close>

theorem turn_stores_two_messages:
  assumes "handle_turn_locked env ti conv w = (Inr res, w')"
  shows "\<exists>m. d_msgs (w_committed w') = d_msgs (w_db w) @ [m, tr_message res] \<and> w_db w' = w_committed w'
    \<and> mg_role m = User \<and> mg_content m = ti_text ti \<and> mg_conversation_id m = cv_id conv
    \<and> mg_role (tr_message res) = Assistant \<and> mg_content (tr_message res) = at_text (tr_turn res)
    \<and> mg_conversation_id (tr_message res) = cv_id conv
    \<and> mg_agent_id (tr_message res) = Some (ra_id (tr_agent res))"
proof -
  from assms obtain dec a s hist w1 t w2 msg s1 where
    ad: "admit_turn env ti conv w = (Inr (dec, a, s, hist), w1)"
    and an: "answer_turn_call env ti (cv_id conv) a s hist w1 = (Inr t, w2)"
    and st: "store_turn env ti (cv_id conv) a dec s t w2 = (Inr (msg, s1), w')"
    and res: "res = \<lparr> tr_conv = conv, tr_message = msg, tr_agent = a, tr_decision = dec, tr_turn = t, tr_session = s1 \<rparr>"
    unfolding handle_turn_locked_def by (auto elim!: andthen_InrE)
  have "same_db w1 w2" by (rule advancesD[OF answer_turn_outside' an])
  then show ?thesis using admit_turn_stores[OF ad] store_turn_stores[OF st] res by (auto simp: same_db_def)
qed

lemma turn_stores_two_messages_witness:
  "\<exists>res w' m. handle_turn_locked sample_env (sample_input ''hello'') sample_conv locked_world = (Inr res, w')
     \<and> d_msgs (w_committed w') = [m, tr_message res] \<and> mg_content (tr_message res) = ''And then?''"
proof -
  obtain r w where run: "handle_turn_locked sample_env (sample_input ''hello'') sample_conv locked_world = (r, w)"
    by (meson surj_pair)
  with sample_turn_result obtain res where res: "r = Inr res" "at_text (tr_turn res) = ''And then?''"
    by (auto split: sum.splits)
  have "d_msgs (w_db locked_world) = []" by (simp add: locked_world_def begin_tx_def sample_world_def sample_db_def empty_db_def)
  then show ?thesis using turn_stores_two_messages[OF run[unfolded res(1)]] run res by fastforce
qed

section \<open>Limits and titles\<close>

definition over_turns :: "uuid \<Rightarrow> limits_spec \<Rightarrow> db \<Rightarrow> bool" where
  "over_turns c lm d \<longleftrightarrow> (case lim_max_turns lm of None \<Rightarrow> False | Some n \<Rightarrow> n \<noteq> 0
     \<and> list_ex (\<lambda>r. sv_conversation_id r = c \<and> is_open r \<and> n \<le> sv_turn_count r) (d_sess d))"

definition over_rate :: "uuid \<Rightarrow> limits_spec \<Rightarrow> db \<Rightarrow> bool" where
  "over_rate c lm d \<longleftrightarrow> lim_per_conversation_per_min lm \<noteq> 0
     \<and> lim_per_conversation_per_min lm < recent_user_messages c d"



text \<open>Titles are bounded and the first one stays. A title is at most sixty characters and
  begins like the message it was taken from; touching a titled conversation never changes its
  title, and a placeholder is only replaced when the conversation is marked as having one.\<close>

theorem titles_are_bounded_and_stable:
  "length (conversation_title t) \<le> 60
   \<and> take (min (length t) 57) (conversation_title t) = take (min (length t) 57) t
   \<and> (\<forall>d r d' x. touch i tf d = (r, d') \<and> x \<in> set (d_convs d) \<and> cv_title x \<noteq> None \<longrightarrow>
        (\<exists>y \<in> set (d_convs d'). cv_id y = cv_id x \<and> cv_title y = cv_title x))
   \<and> (\<forall>d r d' x. replace_placeholder_title i t d = (r, d') \<and> x \<in> set (d_convs d)
        \<and> \<not> meta_true placeholder_flag (cv_metadata x) \<longrightarrow> x \<in> set (d_convs d'))"
proof (intro conjI allI impI)
  show "length (conversation_title t) \<le> 60" by (simp add: conversation_title_def)
  show "take (min (length t) 57) (conversation_title t) = take (min (length t) 57) t"
    by (simp add: conversation_title_def)
next
  fix d r d' x
  assume a: "touch i tf d = (r, d') \<and> x \<in> set (d_convs d) \<and> cv_title x \<noteq> None"
  show "\<exists>y \<in> set (d_convs d'). cv_id y = cv_id x \<and> cv_title y = cv_title x"
  proof (cases "d' = d")
    case True
    then show ?thesis using a by blast
  next
    case False
    let ?f = "\<lambda>c. (case tf of
         Some (x # xs) \<Rightarrow> c\<lparr> cv_last_message_at := Some (d_now d),
           cv_title := (case cv_title c of None \<Rightarrow> Some (x # xs) | Some t \<Rightarrow> Some t) \<rparr>
       | _ \<Rightarrow> c\<lparr> cv_last_message_at := Some (d_now d) \<rparr>)\<lparr> cv_updated_at := d_now d \<rparr>"
    have d': "d_convs d' = upd_where (\<lambda>c. cv_id c = i \<and> True) ?f (d_convs d)"
      using a False by (simp add: touch_def upd_conv_def stmt_run andthen_run split: if_split_asm) auto
    let ?y = "if cv_id x = i \<and> True then ?f x else x"
    have "?y \<in> set (d_convs d')" using a unfolding d' set_upd_where by (intro image_eqI[of _ _ x]) simp_all
    moreover have "cv_id ?y = cv_id x" by (simp split: option.split list.split)
    moreover have "cv_title ?y = cv_title x"
      using a by (simp split: option.split list.split) auto
    ultimately show ?thesis by blast
  qed
next
  fix d r d' x
  assume a: "replace_placeholder_title i t d = (r, d') \<and> x \<in> set (d_convs d)
        \<and> \<not> meta_true placeholder_flag (cv_metadata x)"
  then show "x \<in> set (d_convs d')"
    by (auto simp: replace_placeholder_title_def upd_conv_def stmt_run set_upd_where image_iff split: if_splits
        intro: bexI[of _ x])
qed

lemma titles_are_bounded_and_stable_witness:
  "length (conversation_title (replicate 100 CHR ''a'')) \<le> 60
   \<and> sample_conv \<in> set (d_convs (snd (replace_placeholder_title 3 ''x'' sample_db)))"
proof -
  have "sample_conv \<in> set (d_convs sample_db)" by (simp add: sample_db_def sample_conv_def)
  moreover have "\<not> meta_true placeholder_flag (cv_metadata sample_conv)" by code_simp
  ultimately show ?thesis
    using titles_are_bounded_and_stable[of "replicate 100 CHR ''a''" 3 None]
      titles_are_bounded_and_stable[of "''x''" 3 None] by (metis prod.collapse)
qed

end
