(* ===== verification/Finalisation.thy ===== *)
theory Finalisation
  imports Turn_Record
begin

text \<open>
  The finalisation of an interview and the recovery of a lost reply: what reaches Mitra, and what
  the session says afterwards.
\<close>

section \<open>The requests of a finalisation\<close>

abbreviation is_post :: "http_req \<Rightarrow> bool" where
  "is_post q \<equiv> rq_method q = ''POST''"

lemma finalize_call_requests: "requests is_post 1 (finalize_call env a s u)"
proof -
  have post: "sends is_post 1 (request net c ''POST'' path body params headers)" for net c path body params headers
    by (rule sends_request) simp
  have "sends is_post 1 (finalize_story net c sid pid flow lang token path as_guest)"
    for net c sid pid flow lang token path as_guest
    unfolding finalize_story_def Let_def
    by (intro grows_case_prod, rule grows_andthen_le[OF post, where j = 0])
      (intro grows_andthen_quiet grows_rules, simp)
  then show ?thesis
    unfolding finalize_call_def by (auto split: option.split intro!: requests_httpx grows_basic)
qed

lemma report_call_requests: "requests is_get 1 (report_call env a s)"
proof -
  have "requests is_get 0 (case e of Mitra _ \<Rightarrow> ret None | _ \<Rightarrow> throw e)" for e
    by (auto split: exc.split intro!: grows_basic)
  from grows_on_error[OF requests_httpx[OF sends_report] this]
  show ?thesis unfolding report_call_def by (auto split: option.split intro!: grows_basic)
qed

text \<open>One request that posts, then at most one that reads.\<close>

definition posts_then_reads :: "http_req list \<Rightarrow> bool" where
  "posts_then_reads reqs \<longleftrightarrow> length (filter is_post reqs) \<le> 1 \<and> length reqs \<le> 2"

lemma finalize_claimed_requests:
  "\<exists>reqs. w_http (snd (finalize_claimed env p c a u w)) = w_http w @ reqs \<and> posts_then_reads reqs"
proof -
  let ?pre = "andthen (dbx (audit_insert Session_finalize ''agent_session'' (Some (sv_id c)) ''system''
        (Some (Au_session p)) (Some (Au_session c)) None)) (\<lambda>_.
     if e_pool env = None then ret () else poolx (pool_close (sv_conversation_id c)))"
  let ?call = "on_error (finalize_call env a c u) (\<lambda>e.
        andthen (dbx (apply_delta c ((delta_of Failed)\<lparr> sd_error := Some (exc_text e) \<rparr>))) (\<lambda>_. throw e))"
  let ?tail = "\<lambda>(story, _). andthen (report_call env a c) (\<lambda>url.
     andthen (dbx (apply_delta c (completed_delta story url))) (\<lambda>completed.
     andthen (dbx (unpin (sv_conversation_id c))) (\<lambda>_. ret completed)))"
  have all: "finalize_claimed env p c a u = andthen ?pre (\<lambda>_. andthen ?call ?tail)"
    by (rule ext) (simp add: finalize_claimed_def andthen_run split: sum.split prod.split)
  have pre: "requests P 0 ?pre" for P by (intro grows_andthen_quiet requests_rules)
  have call: "requests is_post (1 + 0) ?call"
    by (rule grows_on_error[OF finalize_call_requests]) (intro grows_andthen_quiet requests_rules)
  have tail: "requests is_get 1 (?tail x)" for x
    by (intro grows_case_prod, rule grows_andthen_le[OF report_call_requests, where j = 0])
      (intro grows_andthen_quiet requests_rules, simp)
  obtain r1 w1 where 1: "?pre w = (r1, w1)" by (meson surj_pair)
  obtain r2 w2 where 2: "?call w1 = (r2, w2)" by (meson surj_pair)
  have h1: "w_http w1 = w_http w" by (rule grows_quiet[OF pre 1])
  from growsD[OF call 2] obtain xs where xs: "w_http w2 = w_http w1 @ xs" "length xs \<le> 1" "list_all is_post xs" by auto
  show ?thesis
  proof (cases r1)
    case (Inl e)
    then show ?thesis using 1 h1 unfolding all by (auto simp: andthen_run posts_then_reads_def)
  next
    case (Inr x1)
    show ?thesis
    proof (cases r2)
      case (Inl e)
      have "length (filter is_post xs) \<le> 1" by (rule le_trans[OF length_filter_le xs(2)])
      then show ?thesis using 1 2 Inr Inl h1 xs unfolding all
        by (intro exI[of _ xs]) (simp add: andthen_run posts_then_reads_def)
    next
      case (Inr x)
      obtain r3 w3 where 3: "?tail x w2 = (r3, w3)" by (meson surj_pair)
      from growsD[OF tail 3] obtain ys where ys: "w_http w3 = w_http w2 @ ys" "length ys \<le> 1" "list_all is_get ys" by auto
      have "filter is_post ys = []" using ys(3) by (auto simp: filter_empty_conv list_all_iff)
      moreover have "length (filter is_post xs) \<le> 1" by (rule le_trans[OF length_filter_le xs(2)])
      ultimately show ?thesis using 1 2 3 Inr \<open>r1 = Inr x1\<close> h1 xs ys unfolding all
        by (intro exI[of _ "xs @ ys"]) (simp add: andthen_run posts_then_reads_def split: prod.splits)
    qed
  qed
qed

section \<open>One story per interview\<close>

lemma claim_won:
  assumes "dbx (claim_finalizing i) w = (Inr (Some c), w1)" and "db_ok (w_db w)"
  shows "sv_id c = i \<and> sv_state c = Finalizing \<and> c \<in> set (d_sess (w_db w1)) \<and> \<not> w_aborted w1
    \<and> db_ok (w_db w1) \<and> (\<exists>x \<in> set (d_sess (w_db w)). sv_id x = i \<and> claimable (sv_state x) \<and> c = x\<lparr> sv_state := Finalizing \<rparr>)"
proof -
  let ?d = "w_db (begin_tx w)"
  have ok: "db_ok ?d" using assms(2) by simp
  from dbx_ok[OF assms(1)] have run: "claim_finalizing i ?d = (Inr (Some c), w_db w1)" and na: "\<not> w_aborted w1" by auto
  from run obtain x where x: "find (\<lambda>r. sv_id r = i \<and> claimable (sv_state r)) (d_sess ?d) = Some x"
    and c: "c = x\<lparr> sv_state := Finalizing \<rparr>"
    by (auto simp: repo_claim_run[OF ok] Let_def)
  have "w_db w1 = snd (claim_finalizing i ?d)" using run by simp
  then have d1: "d_sess (w_db w1) = upd_where (\<lambda>r. sv_id r = i \<and> claimable (sv_state r)) (\<lambda>r. r\<lparr> sv_state := Finalizing \<rparr>) (d_sess ?d)"
    by (simp add: repo_claim_run[OF ok] Let_def)
  from x have x': "x \<in> set (d_sess ?d)" "sv_id x = i" "claimable (sv_state x)" by (auto dest: find_Some_in)
  have "c \<in> set (d_sess (w_db w1))"
    unfolding d1 set_upd_where c using x' by (intro image_eqI[of _ _ x]) auto
  moreover have "db_ok (w_db w1)" using preserves_run[OF preserves_db_ok_session_service(3) ok run] .
  ultimately show ?thesis using x' c na by auto
qed

text \<open>Who does not win the claim sends nothing.\<close>

lemma unclaimed_sends_nothing:
  assumes "\<forall>c v1. dbx (claim_finalizing (sv_id s)) v \<noteq> (Inr (Some c), v1)"
  shows "w_http (snd (finalize env s a u v)) = w_http v"
proof -
  obtain rc v1 where c: "dbx (claim_finalizing (sv_id s)) v = (rc, v1)" by (meson surj_pair)
  have "w_http v1 = w_http v" using grows_quiet[OF requests_dbx c] .
  moreover have "w_http (snd (andthen (dbx (sessions_get (sv_id s))) (\<lambda>cur. ret (case cur of None \<Rightarrow> s | Some r \<Rightarrow> r)) v1))
      = w_http v1"
  proof -
    have "requests (\<lambda>_. True) 0 (andthen (dbx (sessions_get (sv_id s))) (\<lambda>cur. ret (case cur of None \<Rightarrow> s | Some r \<Rightarrow> r)))"
      by (intro grows_andthen_quiet requests_rules)
    then show ?thesis by (rule grows_quiet[OF _ prod.collapse[symmetric]])
  qed
  ultimately show ?thesis using assms c by (cases rc; cases "projr rc") (auto simp: finalize_def andthen_run)
qed

text \<open>A session that was claimed is not claimed again, whatever the service does with it.\<close>

lemma claimed_sends_no_more:
  assumes "dbx (claim_finalizing (sv_id s)) w = (Inr (Some c), w1)" and "db_ok (w_db w)"
    and "sessions_evolve (w_db w1) (w_db v)" and "db_ok (w_db v)" and "sv_id s' = sv_id s"
  shows "w_http (snd (finalize env' s' a' u' v)) = w_http v"
proof (rule unclaimed_sends_nothing, intro allI notI)
  fix c' v1 assume c': "dbx (claim_finalizing (sv_id s')) v = (Inr (Some c'), v1)"
  note won = claim_won[OF assms(1,2)]
  then obtain y where y: "y \<in> set (d_sess (w_db v))" "session_le c y"
    using assms(3) by (auto simp: sessions_evolve_def)
  have "edge\<^sup>*\<^sup>* Finalizing (sv_state y)" and id: "sv_id y = sv_id s" using y won by (auto simp: session_le_def)
  then have "\<not> claimable (sv_state y)"
    using edges_from_finalizing[of Finalizing "sv_state y"] by (auto simp: claimable_def)
  moreover from claim_won[OF c' assms(4)] obtain x where "x \<in> set (d_sess (w_db v))" "sv_id x = sv_id s" "claimable (sv_state x)"
    using assms(5) by auto
  ultimately show False using sess_ok_id[OF db_ok_sess[OF assms(4)] y(1)] id by metis
qed

lemma finalize_claimed_evolves:
  assumes "finalize_claimed env s c a u w = (r, w')" and "\<not> w_aborted w'"
  shows "sessions_evolve (w_db w) (w_db w')"
proof -
  have "advances (tx_le sessions_evolve) (finalize_claimed env s c a u)"
    unfolding finalize_claimed_def
    by (intro lifecycle.tx_rules lifecycle.tx_outside[OF finalize_call_outside]
        lifecycle.tx_outside[OF report_call_outside] lifecycle.tx_outside[OF poolx_outside])
  then show ?thesis using assms by (auto dest: advancesD simp: tx_le_def)
qed

text \<open>C4: at most one story per interview. A finalisation posts to Mitra at most once, and only
  after winning the claim on a session that was in progress or awaiting the user. Once it has
  sent anything, then as long as its transaction is not rolled back and whatever the session
  service does to the database afterwards, no later finalisation of that session sends anything.\<close>

theorem finalize_posts_at_most_once:
  assumes "db_ok (w_db w)" and "finalize env s a u w = (r, w')"
  shows "\<exists>reqs. w_http w' = w_http w @ reqs \<and> length (filter is_post reqs) \<le> 1
    \<and> (reqs \<noteq> [] \<longrightarrow> (\<exists>x \<in> set (d_sess (w_db w)). sv_id x = sv_id s \<and> claimable (sv_state x)))
    \<and> (reqs \<noteq> [] \<and> \<not> w_aborted w' \<longrightarrow> (\<forall>v env' s' a' u'. sessions_evolve (w_db w') (w_db v) \<and> db_ok (w_db v)
         \<and> sv_id s' = sv_id s \<longrightarrow> w_http (snd (finalize env' s' a' u' v)) = w_http v))"
proof -
  obtain rc w1 where claim: "dbx (claim_finalizing (sv_id s)) w = (rc, w1)" by (meson surj_pair)
  have h1: "w_http w1 = w_http w" using grows_quiet[OF requests_dbx claim] .
  show ?thesis
  proof (cases "\<exists>c. rc = Inr (Some c)")
    case False
    then have "w_http w' = w_http w" using unclaimed_sends_nothing[of s w env a u] claim assms(2) by auto
    then show ?thesis by (intro exI[of _ "[]"]) simp
  next
    case True
    then obtain c where c: "rc = Inr (Some c)" by blast
    note won = claim_won[OF claim[unfolded c] assms(1)]
    have fin: "finalize_claimed env s c a u w1 = (r, w')"
      using assms(2) claim c by (simp add: finalize_def andthen_run)
    from finalize_claimed_requests[of env s c a u w1] obtain reqs
      where reqs: "w_http w' = w_http w1 @ reqs" "posts_then_reads reqs" using fin by auto
    have later: "w_http (snd (finalize env' s' a' u' v)) = w_http v"
      if "\<not> w_aborted w'" and ev: "sessions_evolve (w_db w') (w_db v)" and "db_ok (w_db v)"
        and "sv_id s' = sv_id s" for env' s' a' u' v
      using claimed_sends_no_more[OF claim[unfolded c] assms(1) _ that(3,4)]
        sess.R_trans[OF finalize_claimed_evolves[OF fin that(1)] ev] .
    show ?thesis
      using reqs h1 won later by (intro exI[of _ reqs]) (auto simp: posts_then_reads_def)
  qed
qed

definition interview_agent :: registered_agent where
  "interview_agent = sample_ra 2 ''record_stories'' Remote_flow False sample_interview"

lemma sample_finalize: "case finalize sample_env sample_session (Some interview_agent) sample_user sample_world of (r, w) \<Rightarrow>
    length (w_http w) = 2 \<and> \<not> w_aborted w \<and> db_ok (w_db w)"
  by code_simp

lemma finalize_posts_at_most_once_witness:
  "let w = snd (finalize sample_env sample_session (Some interview_agent) sample_user sample_world) in
   w_http w \<noteq> [] \<and> w_http (snd (finalize sample_env sample_session (Some interview_agent) sample_user w)) = w_http w"
proof -
  obtain r w where run: "finalize sample_env sample_session (Some interview_agent) sample_user sample_world = (r, w)"
    by (meson surj_pair)
  have ok: "db_ok (w_db sample_world)" using sample_db_ok by (simp add: sample_world_def)
  have w: "length (w_http w) = 2" "\<not> w_aborted w" "db_ok (w_db w)" using sample_finalize run by simp_all
  have "w_http sample_world = []" by (simp add: sample_world_def)
  then obtain reqs where "w_http w = reqs" "reqs \<noteq> [] \<and> \<not> w_aborted w \<longrightarrow> (\<forall>v env' s' a' u'.
      sessions_evolve (w_db w) (w_db v) \<and> db_ok (w_db v) \<and> sv_id s' = sv_id sample_session
      \<longrightarrow> w_http (snd (finalize env' s' a' u' v)) = w_http v)"
    using finalize_posts_at_most_once[OF ok run] by auto
  then have "w_http (snd (finalize sample_env sample_session (Some interview_agent) sample_user w)) = w_http w"
    using w sess.R_refl[of "w_db w"] by force
  moreover have "w_http w \<noteq> []" using w(1) by auto
  ultimately show ?thesis by (simp add: Let_def run)
qed

section \<open>How a finalisation ends\<close>

lemma finalizing_applies:
  assumes ok: "db_ok d" and r: "r \<in> set (d_sess d)" and st: "sv_state r = Finalizing"
    and tgt: "sd_state \<delta> = Failed \<or> sd_state \<delta> = Completed \<and> sd_result_ref \<delta> \<noteq> None"
    and ids: "sd_remote_session_id \<delta> = None" "sd_step \<delta> = None"
  shows "\<exists>d'. apply_delta r \<delta> d = (Inr (delta_row \<delta> (d_now d) r), d') \<and> db_ok d' \<and> d_now d' = d_now d
    \<and> delta_row \<delta> (d_now d) r \<in> set (d_sess d')"
proof -
  let ?p = "\<lambda>x. sv_id x = sv_id r \<and> sv_state x = sv_state r"
  let ?f = "delta_row \<delta> (d_now d)"
  have same: "x = r" if "x \<in> set (d_sess d)" "?p x" for x
    using sess_ok_id[OF db_ok_sess[OF ok] that(1) r] that(2) by simp
  have "find ?p (d_sess d) \<noteq> None" using r by (auto simp: find_None_iff)
  then obtain x where x: "find ?p (d_sess d) = Some x" by blast
  then have "x = r" using same find_Some_in[OF x] by blast
  with x have found: "find ?p (d_sess d) = Some r" by simp
  have row: "sess_row_ok r" by (rule sess_ok_row[OF db_ok_sess[OF ok] r])
  have f: "sess_row_ok (?f r) \<and> sv_id (?f r) = sv_id r \<and> sv_conversation_id (?f r) = sv_conversation_id r
      \<and> sv_agent_id (?f r) = sv_agent_id r \<and> sv_remote_session_id (?f r) = sv_remote_session_id r
      \<and> (is_open (?f r) \<longrightarrow> is_open r)"
    using row tgt ids st by (auto simp: sess_row_ok_def delta_row_def keep_or_def)
  have "db_ok (d\<lparr> d_sess := upd_where ?p ?f (d_sess d) \<rparr>)"
    by (rule db_ok_upd_sess[OF ok]) (use same f in blast)
  moreover have "sd_state \<delta> \<in> set (allowed (sv_state r))" using tgt st by auto
  moreover have "?f r \<in> set (upd_where ?p ?f (d_sess d))"
    unfolding set_upd_where using r by (intro image_eqI[of _ _ r]) simp_all
  ultimately show ?thesis by (simp add: apply_delta_run[OF ok] Let_def found)
qed

lemma dbx_run: "healthy w \<Longrightarrow> m (w_db (begin_tx w)) = (Inr x, d) \<Longrightarrow>
    dbx m w = (Inr x, (begin_tx w)\<lparr> w_db := d, w_aborted := False \<rparr>)"
  by (simp add: dbx_Inr healthy_def)

text \<open>A session that is being finalised by this transaction.\<close>

definition finalizing_here :: "session_row \<Rightarrow> world \<Rightarrow> bool" where
  "finalizing_here c w \<longleftrightarrow> healthy w \<and> c \<in> set (d_sess (w_db w)) \<and> sv_state c = Finalizing"

lemma finalizing_dbx:
  assumes "finalizing_here c w"
    and "sd_state \<delta> = Failed \<or> sd_state \<delta> = Completed \<and> sd_result_ref \<delta> \<noteq> None"
    and "sd_remote_session_id \<delta> = None" "sd_step \<delta> = None"
  shows "\<exists>t w'. dbx (apply_delta c \<delta>) w = (Inr (delta_row \<delta> t c), w') \<and> healthy w'
    \<and> delta_row \<delta> t c \<in> set (d_sess (w_db w'))"
proof -
  have "db_ok (w_db (begin_tx w))" "c \<in> set (d_sess (w_db (begin_tx w)))" "sv_state c = Finalizing"
    using assms(1) by (simp_all add: finalizing_here_def healthy_def)
  from finalizing_applies[OF this assms(2-4)] obtain d' where
    "apply_delta c \<delta> (w_db (begin_tx w)) = (Inr (delta_row \<delta> (d_now (w_db (begin_tx w))) c), d')"
    "db_ok d'" "delta_row \<delta> (d_now (w_db (begin_tx w))) c \<in> set (d_sess d')" by blast
  then show ?thesis using dbx_run[of w] assms(1)
    by (fastforce simp: finalizing_here_def healthy_def)
qed

lemma finalizing_same_db: "finalizing_here c w \<Longrightarrow> same_db w w' \<Longrightarrow> finalizing_here c w'"
  by (simp add: finalizing_here_def healthy_def same_db_def)

text \<open>What the row of a session says after its finalisation.\<close>

definition final_state :: "exc + session_row \<Rightarrow> session_row \<Rightarrow> bool" where
  "final_state r row \<longleftrightarrow> (case r of
      Inr x \<Rightarrow> x = row \<and> sv_state row = Completed \<and> sv_result_ref row \<noteq> None \<and> sr_finalized_at row \<noteq> None
    | Inl e \<Rightarrow> sv_state row = Failed \<and> sv_error row = Some (exc_text e)
        \<or> sv_state row = Finalizing \<and> (\<forall>m. e \<noteq> Mitra m))"

lemma report_call_error: "report_call env a s w = (Inl e, w') \<Longrightarrow> \<forall>m. e \<noteq> Mitra m"
  by (auto simp: report_call_def on_error_run split: option.splits sum.splits prod.splits exc.splits)

lemma finalize_claimed_ends:
  assumes fh: "finalizing_here c w" and run: "finalize_claimed env p c a u w = (r, w')"
  shows "healthy w' \<and> (\<exists>row \<in> set (d_sess (w_db w')). sv_id row = sv_id c \<and> final_state r row)"
proof -
  obtain ra w1 where au: "dbx (audit_insert Session_finalize ''agent_session'' (Some (sv_id c)) ''system''
        (Some (Au_session p)) (Some (Au_session c)) None) w = (ra, w1)" by (meson surj_pair)
  have "db_ok (w_db (begin_tx w))" using fh by (simp add: finalizing_here_def healthy_def)
  then have au': "ra = Inr ()" and f1: "finalizing_here c w1"
    using au fh by (auto simp: dbx_def Let_def audit_insert_run finalizing_here_def healthy_def)
  obtain w2 where cl: "(if e_pool env = None then ret () else poolx (pool_close (sv_conversation_id c))) w1 = (Inr (), w2)"
    by (cases "e_pool env") (auto simp: poolx_def pool_close_def)
  have "same_db w1 w2"
    using cl by (cases "e_pool env") (auto simp: poolx_def pool_close_def same_db_def)
  then have f2: "finalizing_here c w2" by (rule finalizing_same_db[OF f1])
  obtain rc w3 where call: "finalize_call env a c u w2 = (rc, w3)" by (meson surj_pair)
  have f3: "finalizing_here c w3" using finalizing_same_db[OF f2 advancesD[OF finalize_call_outside call]] .
  show ?thesis
  proof (cases rc)
    case (Inl e)
    let ?\<delta> = "(delta_of Failed)\<lparr> sd_error := Some (exc_text e) \<rparr>"
    from finalizing_dbx[OF f3, of ?\<delta>] obtain t w4 where
      ap: "dbx (apply_delta c ?\<delta>) w3 = (Inr (delta_row ?\<delta> t c), w4)" "healthy w4"
        "delta_row ?\<delta> t c \<in> set (d_sess (w_db w4))" by (auto simp: delta_of_def)
    have "r = Inl e" "w' = w4"
      using run au au' cl call Inl ap(1) by (simp_all add: finalize_claimed_def andthen_run on_error_run)
    then show ?thesis using ap(2,3)
      by (intro conjI bexI[of _ "delta_row ?\<delta> t c"]) (auto simp: final_state_def delta_row_def keep_or_def delta_of_def)
  next
    case (Inr x)
    obtain story content where x: "x = (story, content)" by (cases x)
    obtain rr w4 where rep: "report_call env a c w3 = (rr, w4)" by (meson surj_pair)
    have f4: "finalizing_here c w4" using finalizing_same_db[OF f3 advancesD[OF report_call_outside rep]] .
    show ?thesis
    proof (cases rr)
      case (Inl e)
      have "r = Inl e" "w' = w4"
        using run au au' cl call Inr x rep Inl by (simp_all add: finalize_claimed_def andthen_run on_error_run)
      then show ?thesis using f4 report_call_error[of env a c w3 e w4] rep Inl
        by (auto simp: finalizing_here_def final_state_def)
    next
      case url: (Inr url)
      let ?\<delta> = "completed_delta story url"
      from finalizing_dbx[OF f4, of ?\<delta>] obtain t w5 where
        ap: "dbx (apply_delta c ?\<delta>) w4 = (Inr (delta_row ?\<delta> t c), w5)" "healthy w5"
          "delta_row ?\<delta> t c \<in> set (d_sess (w_db w5))" by (auto simp: delta_of_def completed_delta_def)
      have okb: "db_ok (w_db (begin_tx w5))" using ap(2) by (simp add: healthy_def)
      obtain w6 where un: "dbx (unpin (sv_conversation_id c)) w5 = (Inr (), w6)" "healthy w6" "d_sess (w_db w6) = d_sess (w_db w5)"
        using dbx_run[of w5 "unpin (sv_conversation_id c)", OF ap(2) unpin_run[OF okb]]
          db_ok_unpin_rows[OF okb] by (simp add: healthy_def)
      have "r = Inr (delta_row ?\<delta> t c)" "w' = w6"
        using run au au' cl call Inr x rep url ap(1) un(1)
        by (simp_all add: finalize_claimed_def andthen_run on_error_run)
      then show ?thesis using ap(3) un(2,3)
        by (intro conjI bexI[of _ "delta_row ?\<delta> t c"])
          (auto simp: final_state_def delta_row_def keep_or_def delta_of_def completed_delta_def)
    qed
  qed
qed



text \<open>The exception is real: a report that is not a JSON object strands the session, with its
  story submitted.\<close>

lemma report_failure_strands_session:
  "let net = (\<lambda>h q. if rq_method q = ''POST'' then Reply 200 (Some (JObj [(''id'', JStr ''story'')]))
                     else Reply 200 (Some (JList [])));
       (r, w) = finalize (sample_env\<lparr> e_net := net \<rparr>) sample_session (Some interview_agent) sample_user sample_world
   in (case r of Inl (AttributeError _) \<Rightarrow> True | _ \<Rightarrow> False) \<and> map sv_state (d_sess (w_db w)) = [Finalizing]
      \<and> length (filter is_post (w_http w)) = 1"
  by code_simp

end
