(* ===== verification/Recovery.thy ===== *)
theory Recovery
  imports Finalisation
begin

text \<open>
  The recovery of a reply that came after the timeout: \<open>_recover_timed_out_turn\<close> inside a turn, and
  \<open>resume_turn\<close> from outside.
\<close>

section \<open>Recovery only reads\<close>

lemma reconcile_requests: "requests is_get 2 (reconcile_turn env a s sent)"
proof -
  have "requests is_get 2 (andthen (httpx (recent_chat net rest sid pid)) (\<lambda>rows. ret (Some (reconcile rows sent))))"
    for net rest sid pid
    by (rule grows_andthen_le[OF requests_httpx[OF sends_recent], where j = 0]) (auto intro: grows_basic)
  then show ?thesis
    unfolding reconcile_turn_def by (auto split: option.split list.split prod.split intro: grows_basic)
qed

lemma poll_requests: "requests is_get 1 (poll_completed env a s)"
  unfolding poll_completed_def
  by (auto split: option.split intro!: requests_completed[unfolded One_nat_def] grows_basic)

lemma recover_requests: "requests is_get 3 (recover_timed_out_turn env a s sent)"
proof -
  have "requests is_get 1 (case res of
       Inr (Some rc) \<Rightarrow>
         if rc_outcome rc \<noteq> Answered then ret None
         else andthen (attempt (poll_completed env a s)) (\<lambda>polled.
           ret (Some (recovered_turn a s (rc_bot_text rc) (case polled of Inr b \<Rightarrow> b | Inl _ \<Rightarrow> False))))
     | _ \<Rightarrow> ret None)" for res
    by (auto split: sum.split option.split intro!: grows_basic
        grows_andthen_le[OF grows_attempt[OF poll_requests], where j = 0])
  from grows_andthen_le[OF grows_attempt[OF reconcile_requests] this, of 3]
  show ?thesis unfolding recover_timed_out_turn_def by simp
qed

text \<open>What a recovered turn rests on: rows Mitra returned, in which the text we sent was answered.\<close>

definition answered_by_mitra ::
  "env \<Rightarrow> registered_agent \<Rightarrow> session_row option \<Rightarrow> string \<Rightarrow> string \<Rightarrow> http_req list \<Rightarrow> bool" where
  "answered_by_mitra env a s sent reply h \<longleftrightarrow> (\<exists>rest row sid pid rows. e_client env = Some rest \<and> s = Some row
     \<and> spec_type (ra_spec a) = Remote_flow \<and> sv_remote_session_id row = Some sid \<and> sv_remote_profile_id row = Some pid
     \<and> fst (recent_chat (e_net env) rest sid pid h) = Inr rows
     \<and> rc_outcome (reconcile rows sent) = Answered \<and> reply = rc_bot_text (reconcile rows sent))"

lemma reconcile_turn_result:
  assumes "reconcile_turn env a s sent w = (Inr (Some rc), w')" and "rc_outcome rc = Answered"
  shows "answered_by_mitra env a s sent (rc_bot_text rc) (w_http w)"
  using assms unfolding answered_by_mitra_def reconcile_turn_def
  by (auto simp: andthen_run httpx_def split: option.splits list.splits if_splits prod.splits sum.splits)

lemma recover_result:
  assumes "recover_timed_out_turn env a s sent w = (res, w')"
  shows "res = Inr None \<or> (\<exists>t. res = Inr (Some t) \<and> answered_by_mitra env a s sent (at_text t) (w_http w)
     \<and> at_options t = [] \<and> at_tool_traces t = [])"
proof -
  obtain rr w1 where r: "reconcile_turn env a s sent w = (rr, w1)" by (meson surj_pair)
  show ?thesis
  proof (cases "\<exists>rc. rr = Inr (Some rc) \<and> rc_outcome rc = Answered")
    case True
    then obtain rc where rc: "rr = Inr (Some rc)" "rc_outcome rc = Answered" by blast
    then show ?thesis
      using assms r reconcile_turn_result[OF r[unfolded rc(1)] rc(2)]
      by (auto simp: recover_timed_out_turn_def attempt_def andthen_run recovered_turn_def turn_of_text_def
          split: prod.splits)
  next
    case False
    then show ?thesis using assms r
      by (auto simp: recover_timed_out_turn_def attempt_def andthen_run split: sum.splits option.splits if_splits)
  qed
qed

text \<open>C6: a timeout is recovered truthfully or surfaces unchanged. When the handler times out, the
  turn either fails with that very timeout, whatever recovery itself ran into, or goes on with a
  reply that Mitra's own records show as the answer to the text we sent, without options; and
  recovery sends Mitra nothing but three reads at most.\<close>

theorem timeout_is_never_masked:
  assumes "build_handler env (ra_spec a) (ra_checksum a) w = (Inr h, w0)"
    and "handle env h (turn_context_of ti c hist s) w0 = (Inl (Mitra (MitraTurnTimeout st)), w1)"
  shows "\<exists>r w2 reqs. answer_turn_call env ti c a s hist w = (r, w2)
    \<and> w_http w2 = w_http w1 @ reqs \<and> length reqs \<le> 3 \<and> list_all is_get reqs
    \<and> (r = Inl (Mitra (MitraTurnTimeout st))
       \<or> (\<exists>t. r = Inr t \<and> answered_by_mitra env a s (ti_text ti) (at_text t) (w_http w1) \<and> at_options t = []))"
proof -
  obtain res w2 where rec: "recover_timed_out_turn env a s (ti_text ti) w1 = (res, w2)" by (meson surj_pair)
  from growsD[OF recover_requests rec] obtain reqs
    where reqs: "w_http w2 = w_http w1 @ reqs" "length reqs \<le> 3" "list_all is_get reqs" by blast
  from recover_result[OF rec] show ?thesis
  proof
    assume "res = Inr None"
    then have "answer_turn_call env ti c a s hist w = (Inl (Mitra (MitraTurnTimeout st)), w2)"
      using assms rec by (simp add: answer_turn_call_def andthen_run on_error_run)
    then show ?thesis using reqs by blast
  next
    assume "\<exists>t. res = Inr (Some t) \<and> answered_by_mitra env a s (ti_text ti) (at_text t) (w_http w1)
      \<and> at_options t = [] \<and> at_tool_traces t = []"
    then obtain t where t: "res = Inr (Some t)" "answered_by_mitra env a s (ti_text ti) (at_text t) (w_http w1)"
      "at_options t = []" by blast
    then have "answer_turn_call env ti c a s hist w = (Inr t, w2)"
      using assms rec by (simp add: answer_turn_call_def andthen_run on_error_run)
    then show ?thesis using reqs t by blast
  qed
qed

text \<open>A Mitra that answers late: silent on the socket, but its records show the reply.\<close>

definition late_net :: network where
  "late_net h q = Reply 200 (Some (JObj [(''count'', JInt 2), (''results'', JList
     [JObj [(''id'', JInt 1), (''sender'', JObj [(''id'', JStr ''p1'')]), (''message'', JStr ''hello'')],
      JObj [(''id'', JInt 2), (''sender'', JObj [(''id'', JStr ''bot'')]), (''message'', JStr ''Late reply'')]])]))"

definition late_env :: env where
  "late_env = sample_env\<lparr> e_net := late_net,
     e_pool := Some (sample_pool_cfg\<lparr> pc_wire := silent_wire \<rparr>) \<rparr>"

lemma late_times_out:
  "case build_handler late_env sample_interview ''c'' sample_world of (r, w0) \<Rightarrow>
    (case r of Inr h \<Rightarrow>
      (case handle late_env h (turn_context_of (sample_input ''hello'') 3 [] (Some sample_session)) w0 of (r1, w1) \<Rightarrow>
         (case r1 of Inl (Mitra (MitraTurnTimeout None)) \<Rightarrow> True | _ \<Rightarrow> False)) | Inl _ \<Rightarrow> False)"
  by code_simp

lemma late_recovered:
  "case answer_turn_call late_env (sample_input ''hello'') 3 interview_agent (Some sample_session) [] sample_world of
     (r, w) \<Rightarrow> (case r of Inr t \<Rightarrow> at_text t = ''Late reply'' | Inl _ \<Rightarrow> False)"
  by code_simp

lemma timeout_is_never_masked_witness:
  "\<exists>w1 :: world. answered_by_mitra late_env interview_agent (Some sample_session) ''hello'' ''Late reply'' (w_http w1)"
proof -
  have a: "ra_spec interview_agent = sample_interview" "ra_checksum interview_agent = ''c''"
    by (simp_all add: interview_agent_def sample_ra_def)
  obtain r w0 where b: "build_handler late_env sample_interview ''c'' sample_world = (r, w0)" by (meson surj_pair)
  with late_times_out obtain h where h: "r = Inr h" by (auto split: sum.splits)
  obtain r1 w1 where hd: "handle late_env h (turn_context_of (sample_input ''hello'') 3 [] (Some sample_session)) w0 = (r1, w1)"
    by (meson surj_pair)
  have "r1 = Inl (Mitra (MitraTurnTimeout None))"
    using late_times_out b h hd by (auto split: sum.splits exc.splits mitra_exc.splits option.splits)
  with timeout_is_never_masked[of late_env interview_agent sample_world h w0 "sample_input ''hello''" 3 "[]" "Some sample_session" None w1]
  obtain r2 w2 where r2: "answer_turn_call late_env (sample_input ''hello'') 3 interview_agent (Some sample_session) [] sample_world = (r2, w2)"
    "r2 = Inl (Mitra (MitraTurnTimeout None)) \<or> (\<exists>t. r2 = Inr t \<and>
       answered_by_mitra late_env interview_agent (Some sample_session) (ti_text (sample_input ''hello'')) (at_text t) (w_http w1))"
    using a b h hd by auto
  have "answered_by_mitra late_env interview_agent (Some sample_session) ''hello'' ''Late reply'' (w_http w1)"
    using r2 late_recovered by (auto simp: sample_input_def split: sum.splits)
  then show ?thesis by blast
qed

section \<open>Resuming\<close>

definition same_talk :: "world \<Rightarrow> world \<Rightarrow> bool" where
  "same_talk w w' \<longleftrightarrow> w_llm w' = w_llm w \<and> w_pool w' = w_pool w \<and> w_handlers w' = w_handlers w \<and> w_locks w' = w_locks w"

interpretation talk: progress same_talk
  by unfold_locales (auto simp: same_talk_def)

lemma talk_dbx: "advances same_talk (dbx m)"
  unfolding advances_def
proof
  fix w
  obtain d b t where "snd (dbx m w) = w\<lparr> w_db := d, w_aborted := b, w_in_tx := t \<rparr>" using dbx_frame by blast
  then show "same_talk w (snd (dbx m w))" by (simp add: same_talk_def)
qed

lemma talk_layers: "advances same_talk (httpx m)" "advances same_talk commit"
  by (auto simp: advances_def same_talk_def httpx_def commit_def split: prod.splits)

lemma talk_reconcile: "advances same_talk (reconcile_turn env a s sent)"
  unfolding reconcile_turn_def by (auto split: option.split list.split prod.split intro!: talk.adv talk_layers)

lemma requests_case_resume:
  "(\<And>a c cs. requests P n (f a c cs)) \<Longrightarrow> requests P n g \<Longrightarrow>
   requests P n (case (ag, t) of (Some a, Some (c # cs)) \<Rightarrow> f a c cs | _ \<Rightarrow> g)"
  by (auto split: option.split list.split)

text \<open>Resuming a turn is read-only against Mitra: whatever the state of the session and whatever
  Mitra answers, at most two GET requests are sent, no message goes out on a socket, no channel is
  opened or closed, and neither a handler nor the language model is called.\<close>

theorem resume_only_reads:
  "\<exists>reqs. w_http (snd (resume_turn env sid w)) = w_http w @ reqs \<and> length reqs \<le> 2 \<and> list_all is_get reqs
    \<and> same_talk w (snd (resume_turn env sid w))"
proof -
  have "requests is_get 0 (store_resumed a s t)" for a s t
    unfolding store_resumed_def by (intro grows_andthen_quiet requests_rules)
  then have "requests is_get 2 (resume_turn env sid)"
    unfolding resume_turn_def
    by (intro grows_andthen_quiet requests_rules requests_case_resume
        grows_andthen_le[OF reconcile_requests, where j = 0]) simp_all
  moreover have "advances same_talk (resume_turn env sid)"
    unfolding resume_turn_def store_resumed_def
    by (intro talk.adv talk_dbx talk_layers talk_reconcile adv_case_resume)
  ultimately show ?thesis unfolding grows_def advances_def by blast
qed

lemma read_leaves_all:
  assumes "dbx m v = (Inr x, v')" and "readonly m"
  shows "d_msgs (w_db v') = d_msgs (w_db v) \<and> w_committed v' = w_committed v \<and> \<not> w_aborted v'"
  using dbx_ok[OF assms(1)] assms(2) by (metis begin_tx_convs(3) readonly_def snd_conv)

lemma store_resumed_stores:
  assumes "store_resumed a s t w = (Inr rr, w')"
  shows "rr_outcome rr = Answered \<and> rr_text rr = t \<and> sv_state (rr_session rr) = Awaiting_user
    \<and> (\<exists>m. rr_message rr = Some m \<and> d_msgs (w_committed w') = d_msgs (w_db w) @ [m] \<and> mg_content m = t
         \<and> mg_role m = Assistant)"
proof -
  let ?m = "(blank_message (sv_conversation_id s) 0 Assistant t)\<lparr>
      mg_agent_id := Some (ra_id a), mg_agent_session_id := Some (sv_id s) \<rparr>"
  from assms obtain msg v1 up v2 v3 where v: "dbx (append_message ?m) w = (Inr msg, v1)"
    "dbx (apply_delta s (delta_of Awaiting_user)) v1 = (Inr up, v2)"
    "dbx (touch (sv_conversation_id s) None) v2 = (Inr (), v3)" "commit v3 = (Inr (), w')"
    and rr: "rr = \<lparr> rr_outcome = Answered, rr_session = up, rr_text = t, rr_message = Some msg \<rparr>"
    unfolding store_resumed_def by (auto elim!: andthen_InrE)
  have "d_msgs (w_db v2) = d_msgs (w_db v1)"
    using still_step[OF still.tx_dbx[OF still.mv_apply] v(2)] dbx_ok[OF v(3)] by blast
  moreover have "d_msgs (w_db v3) = d_msgs (w_db v2)"
    using still_step[OF still.tx_dbx[OF still.mv_touch] v(3)] dbx_ok[OF v(3)] by blast
  moreover have "sv_state up = Awaiting_user"
    using dbx_ok[OF v(2)] by (auto simp: apply_delta_def check_transition_def update_state_and_fields_def
        upd_sess_def andthen_run stmt_run delta_row_def delta_of_def split: if_splits option.splits sum.splits)
  ultimately show ?thesis
    using dbx_append[OF v(1)] commit_ok[OF v(4)] rr by (simp add: blank_message_def)
qed

text \<open>What \<open>resume_turn\<close> does once the session and the user's last message are read.\<close>

abbreviation resume_from :: "env \<Rightarrow> session_row \<Rightarrow> registered_agent option \<Rightarrow> string option \<Rightarrow> resume_result option wact" where
  "resume_from env s ag lt \<equiv> (case (ag, lt) of
     (Some a, Some (c # cs)) \<Rightarrow>
       andthen (reconcile_turn env a (Some s) (c # cs)) (\<lambda>res.
       case res of
         None \<Rightarrow> ret (Some (resume_outcome Not_delivered s))
       | Some rc \<Rightarrow>
           if rc_outcome rc \<noteq> Answered then ret (Some (resume_outcome (rc_outcome rc) s))
           else andthen (store_resumed a s (rc_bot_text rc)) (\<lambda>r. ret (Some r)))
   | _ \<Rightarrow> ret (Some (resume_outcome Not_delivered s)))"

lemma resume_from_cases:
  assumes "resume_from env s ag lt w = (Inr res, w')"
  obtains (silent) out where "res = Some (resume_outcome out s)" "out \<noteq> Answered" "same_db w w'"
    | (stored) a t v rr where "same_db w v" "store_resumed a s t v = (Inr rr, w')" "res = Some rr"
proof (cases "\<exists>a c cs. ag = Some a \<and> lt = Some (c # cs)")
  case False
  then have "res = Some (resume_outcome Not_delivered s)" "w' = w"
    using assms by (auto split: option.splits list.splits)
  then show ?thesis using silent outside.R_refl by blast
next
  case True
  then obtain a c cs where k: "ag = Some a" "lt = Some (c # cs)" by blast
  from assms k obtain rc v where r: "reconcile_turn env a (Some s) (c # cs) w = (Inr rc, v)"
    and rest: "(case rc of
           None \<Rightarrow> ret (Some (resume_outcome Not_delivered s))
         | Some rc \<Rightarrow>
             if rc_outcome rc \<noteq> Answered then ret (Some (resume_outcome (rc_outcome rc) s))
             else andthen (store_resumed a s (rc_bot_text rc)) (\<lambda>r. ret (Some r))) v = (Inr res, w')"
    by (auto elim!: andthen_InrE)
  have v: "same_db w v" by (rule advancesD[OF reconcile_outside r])
  show ?thesis
  proof (cases "\<exists>x. rc = Some x \<and> rc_outcome x = Answered")
    case False
    then show ?thesis using rest v silent by (auto split: option.splits if_splits)
  next
    case True
    then show ?thesis using rest v stored by (auto elim!: andthen_InrE)
  qed
qed

text \<open>Resuming stores exactly what it reports. When the outcome is \<open>answered\<close>, the reply is the
  conversation's newest message, committed, and the session awaits the user with one more turn;
  every other outcome, and the absence of the session, leaves the messages untouched.\<close>

theorem resume_stores_what_it_reports:
  assumes "resume_turn env sid w = (Inr res, w')"
  shows "case res of
      Some rr \<Rightarrow>
        (if rr_outcome rr = Answered
         then \<exists>m. rr_message rr = Some m \<and> d_msgs (w_committed w') = d_msgs (w_db w) @ [m] \<and> mg_content m = rr_text rr
           \<and> mg_role m = Assistant \<and> sv_state (rr_session rr) = Awaiting_user
         else d_msgs (w_db w') = d_msgs (w_db w) \<and> w_committed w' = w_committed w)
    | None \<Rightarrow> d_msgs (w_db w') = d_msgs (w_db w)"
proof -
  from assms obtain found w1 where f: "dbx (sessions_get sid) w = (Inr found, w1)"
    and rest: "(case found of None \<Rightarrow> ret None
     | Some s \<Rightarrow> andthen (asks (\<lambda>w. get_by_id (w_reg w) (sv_agent_id s))) (\<lambda>ag.
         andthen (dbx (last_user_content (sv_conversation_id s))) (\<lambda>lt. resume_from env s ag lt))) w1 = (Inr res, w')"
    unfolding resume_turn_def by (elim andthen_InrE)
  note w1 = read_leaves_all[OF f readonly_sessions_get]
  show ?thesis
  proof (cases found)
    case None
    then show ?thesis using rest w1 by simp
  next
    case (Some s)
    from rest Some obtain lt w2 where l: "dbx (last_user_content (sv_conversation_id s)) w1 = (Inr lt, w2)"
      and from_here: "resume_from env s (get_by_id (w_reg w1) (sv_agent_id s)) lt w2 = (Inr res, w')"
      by (auto elim!: andthen_InrE)
    note w2 = read_leaves_all[OF l readonly_last_user]
    from from_here show ?thesis
    proof (cases rule: resume_from_cases)
      case silent
      then show ?thesis using w1 w2 by (simp add: resume_outcome_def same_db_def)
    next
      case stored
      then show ?thesis using store_resumed_stores[OF stored(2)] w1 w2 by (auto simp: same_db_def)
    qed
  qed
qed

lemma resume_stores_what_it_reports_witness:
  "\<exists>rr w'. resume_turn late_env 4 (snd (dbx (append_message (user_message (sample_input ''hello'') 3)) sample_world))
      = (Inr (Some rr), w') \<and> (\<exists>m. rr_message rr = Some m \<and> mg_content m = ''Late reply'' \<and> mg_role m = Assistant)"
proof -
  let ?w = "snd (dbx (append_message (user_message (sample_input ''hello'') 3)) sample_world)"
  have e: "case fst (resume_turn late_env 4 ?w) of Inr (Some rr) \<Rightarrow> rr_outcome rr = Answered \<and> rr_text rr = ''Late reply'' | _ \<Rightarrow> False"
    by code_simp
  then obtain rr where rr: "fst (resume_turn late_env 4 ?w) = Inr (Some rr)" "rr_outcome rr = Answered" "rr_text rr = ''Late reply''"
    by (auto split: sum.splits option.splits)
  then have run: "resume_turn late_env 4 ?w = (Inr (Some rr), snd (resume_turn late_env 4 ?w))" by (simp add: prod_eq_iff)
  from resume_stores_what_it_reports[OF run] rr run show ?thesis by fastforce
qed

text \<open>A first turn that timed out has no remote session in its row yet, so nothing can be asked of
  Mitra: the answer is always \<open>not_delivered\<close>, although Mitra may hold the user's text.\<close>

lemma first_turn_is_never_reconciled:
  "sv_remote_session_id r = None \<Longrightarrow> reconcile_turn env a (Some r) sent w = (Inr None, w)"
  by (auto simp: reconcile_turn_def split: option.splits)

text \<open>Resuming twice stores the same reply twice.\<close>

lemma resume_is_not_idempotent:
  "let w0 = snd (dbx (append_message (user_message (sample_input ''hello'') 3)) sample_world);
       w1 = snd (resume_turn late_env 4 w0); w2 = snd (resume_turn late_env 4 w1)
   in map mg_content (d_msgs (w_db w2)) = [''hello'', ''Late reply'', ''Late reply'']"
  by code_simp

end
