(* ===== verification/Web.thy ===== *)
theory Web
  imports Turn_Contract
begin

text \<open>
  What every HTTP request shares: the JSON responses and their error envelope
  (\<open>utils/responses.py\<close>, \<open>exceptions/envelope.py\<close>, \<open>exceptions/handlers.py\<close>), the projections of
  \<open>utils/serializers.py\<close>, the body parsing of \<open>dependencies/body.py\<close>, the per-request
  database session of \<open>dependencies/db.py\<close> and the conversation service of
  \<open>services/conversations.py\<close>.

  \<open>with_db\<close> is \<open>get_db\<close> around a route: it checks out a connection, reloads the registry when its
  time has come, and ends the transaction, with a commit when the route returned and a rollback when
  an exception escaped. When the transaction is aborted the commit stores nothing; whether SQLAlchemy
  then raises (after a failed flush) or the server turns COMMIT into ROLLBACK (after a failed
  statement) is the parameter \<open>wb_commit_raises\<close>.
\<close>

section \<open>Responses\<close>

record response =
  rp_status :: int
  rp_body :: json

record web =
  wb_env :: env
  wb_isoformat :: "time \<Rightarrow> string"  \<comment> \<open>in the time zone of the connection\<close>
  wb_request_id :: "string option"
  wb_commit_raises :: "world \<Rightarrow> bool"

definition json_response :: "json \<Rightarrow> int \<Rightarrow> response" where
  "json_response v status = \<lparr> rp_status = status, rp_body = v \<rparr>"

definition opt_str :: "string option \<Rightarrow> json" where
  "opt_str s = (case s of None \<Rightarrow> JNull | Some x \<Rightarrow> JStr x)"

definition error_response :: "web \<Rightarrow> string \<Rightarrow> string \<Rightarrow> int \<Rightarrow> response" where
  "error_response wb message ecode status = json_response (JObj
     [(''status'', JStr ''error''), (''error'', JStr message), (''error_code'', JStr ecode),
      (''request_id'', opt_str (wb_request_id wb))]) status"

definition mitra_error_response :: "web \<Rightarrow> mitra_exc \<Rightarrow> response" where
  "mitra_error_response wb e =
     (case e of
        MitraTurnTimeout _ \<Rightarrow> error_response wb (mitra_text e) ''UPSTREAM_TIMEOUT'' 504
      | MitraConcurrentTurnError \<Rightarrow> error_response wb (mitra_text e) ''CONCURRENT_TURN_REJECTED'' 429
      | _ \<Rightarrow> error_response wb (mitra_text e) ''UPSTREAM_UNAVAILABLE'' 502)"

text \<open>\<open>_unhandled\<close>: what the client sees of an exception that no route mapped.\<close>

definition internal_error :: "web \<Rightarrow> response" where
  "internal_error wb = error_response wb ''An internal error occurred.'' ''INTERNAL'' 500"

text \<open>\<open>_admin_gate\<close>, \<open>_unauthorized\<close>, \<open>_validation\<close>.\<close>

definition admin_gate_response :: "string \<Rightarrow> int \<Rightarrow> response" where
  "admin_gate_response msg status = json_response (JObj [(''error'', JStr msg)]) status"

definition unauthorized_response :: "web \<Rightarrow> string \<Rightarrow> response" where
  "unauthorized_response wb msg = error_response wb msg ''UNAUTHORIZED'' 401"

definition validation_response :: "web \<Rightarrow> response" where
  "validation_response wb = error_response wb ''Invalid request'' ''INVALID_REQUEST'' 400"

section \<open>Bodies\<close>

text \<open>\<open>json_body_strict\<close> and \<open>json_body_silent\<close>: the argument is what \<open>json.loads\<close> makes of the raw
  body, \<open>None\<close> when it is empty or malformed.\<close>

definition json_body_strict :: "json option \<Rightarrow> (string \<times> json) list option" where
  "json_body_strict parsed = (case parsed of Some (JObj d) \<Rightarrow> Some d | _ \<Rightarrow> None)"

definition json_body_silent :: "json option \<Rightarrow> (string \<times> json) list" where
  "json_body_silent parsed = (case json_body_strict parsed of None \<Rightarrow> [] | Some d \<Rightarrow> d)"

section \<open>Serializers\<close>

fun state_text :: "session_state \<Rightarrow> string" where
  "state_text Pending = ''pending''"
| "state_text Authenticating = ''authenticating''"
| "state_text In_progress = ''in_progress''"
| "state_text Awaiting_user = ''awaiting_user''"
| "state_text Finalizing = ''finalizing''"
| "state_text Completed = ''completed''"
| "state_text Failed = ''failed''"
| "state_text Abandoned = ''abandoned''"

fun role_text :: "role \<Rightarrow> string" where
  "role_text User = ''user''"
| "role_text Assistant = ''assistant''"
| "role_text System = ''system''"
| "role_text Tool = ''tool''"

fun type_text :: "agent_type \<Rightarrow> string" where
  "type_text Llm = ''llm''"
| "type_text Remote_flow = ''remote_flow''"

definition iso_opt :: "web \<Rightarrow> time option \<Rightarrow> json" where
  "iso_opt wb t = (case t of None \<Rightarrow> JNull | Some x \<Rightarrow> JStr (wb_isoformat wb x))"

definition serialize_session :: "web \<Rightarrow> session_row \<Rightarrow> string option \<Rightarrow> json" where
  "serialize_session wb r key = JObj
     [(''id'', JStr (uuid_text (sv_id r))), (''conversation_id'', JStr (uuid_text (sv_conversation_id r))),
      (''agent_key'', opt_str key), (''state'', JStr (state_text (sv_state r))), (''step'', JInt (sv_step r)),
      (''turn_count'', JInt (sv_turn_count r)), (''result_ref'', opt_str (sv_result_ref r)),
      (''report_url'', opt_str (sv_report_url r)), (''error'', opt_str (sv_error r)),
      (''error_code'', opt_str (sv_error_code r)), (''started_at'', JStr (wb_isoformat wb (sr_started_at r))),
      (''last_activity_at'', JStr (wb_isoformat wb (sr_last_activity_at r))),
      (''finalized_at'', iso_opt wb (sr_finalized_at r)), (''ended_at'', iso_opt wb (sr_ended_at r))]"

definition serialize_session_summary :: "session_row \<Rightarrow> string option \<Rightarrow> json" where
  "serialize_session_summary r key = JObj
     [(''id'', JStr (uuid_text (sv_id r))), (''state'', JStr (state_text (sv_state r))),
      (''step'', JInt (sv_step r)), (''agent_key'', opt_str key), (''result_ref'', opt_str (sv_result_ref r)),
      (''report_url'', opt_str (sv_report_url r))]"

definition agent_key_for :: "registry \<Rightarrow> session_row \<Rightarrow> string option" where
  "agent_key_for reg r = map_option ra_key (get_by_id reg (sv_agent_id r))"

section \<open>The database session of a request\<close>

definition registry_check :: "env \<Rightarrow> world \<Rightarrow> world" where
  "registry_check env w =
     (if monotonic w - rg_loaded_at (w_reg w) < rg_ttl (w_reg w) then w
      else let w1 = begin_tx w in
        w1\<lparr> w_reg := maybe_reload (e_validate env) (monotonic w) (Some (w_db w1)) (w_reg w) \<rparr>)"

definition end_request :: "web \<Rightarrow> exc + response \<Rightarrow> world \<Rightarrow> response \<times> world" where
  "end_request wb r w =
     (case r of
        Inl e \<Rightarrow> (internal_error wb, rollback w)
      | Inr resp \<Rightarrow>
          if w_aborted w then (if wb_commit_raises wb w then internal_error wb else resp, rollback w)
          else (resp, snd (commit w)))"

definition with_db :: "web \<Rightarrow> nat \<Rightarrow> response wact \<Rightarrow> world \<Rightarrow> response \<times> world" where
  "with_db wb conn route w0 =
     (case route (registry_check (wb_env wb) (w0\<lparr> w_conn := conn \<rparr>)) of (r, w) \<Rightarrow> end_request wb r w)"

section \<open>The conversation service\<close>

text \<open>\<open>{row.id: row.name for row in ...}\<close> of the agents with the given ids.\<close>

definition resolve_agent_names :: "uuid list \<Rightarrow> (uuid \<times> string) list dbact" where
  "resolve_agent_names ids = asks (\<lambda>d.
     map (\<lambda>a. (ag_id a, ag_name a)) (filter (\<lambda>a. ag_id a \<in> set ids) (d_agents d)))"

definition flow_payload :: "uuid \<Rightarrow> json dbact" where
  "flow_payload c =
     andthen (asks (\<lambda>d. find (\<lambda>r. cv_id r = c) (d_convs d))) (\<lambda>row.
     andthen (distinct_agent_sequence c) (\<lambda>ids.
     andthen (resolve_agent_names ids) (\<lambda>names.
     let stops = List.map_filter (map_of names) ids in
     ret (JObj
       [(''title'', opt_str (Option.bind row cv_title)), (''stops'', JList (map JStr stops)),
        (''current_index'', JInt (if stops = [] then -1 else int (length stops) - 1))]))))"

definition history :: "uuid \<Rightarrow> memory_spec \<Rightarrow> (string \<times> string) list dbact" where
  "history c mem = andthen (messages_recent c mem) (\<lambda>ms.
     ret (map (\<lambda>m. (role_text (mg_role m), mg_content m)) ms))"

definition list_recent :: "user_context \<Rightarrow> nat \<Rightarrow> conv_row list dbact" where
  "list_recent u limit = andthen (list_for_user u None limit) (\<lambda>page. ret (fst page))"

definition list_messages :: "uuid \<Rightarrow> msg_row list dbact" where
  "list_messages c = andthen (messages_page c 0 500) (\<lambda>page. ret (fst page))"

definition find_current :: "uuid option \<Rightarrow> user_context \<Rightarrow> conv_row option dbact" where
  "find_current ci u =
     (case ci of
        Some i \<Rightarrow> get_scoped i u
      | None \<Rightarrow> andthen (list_recent u 1) (\<lambda>cs. ret (case cs of [] \<Rightarrow> None | c # _ \<Rightarrow> Some c)))"

definition start_new :: "user_context \<Rightarrow> conv_row dbact" where
  "start_new u =
     andthen (find_empty_for_user u) (\<lambda>existing.
     case existing of Some c \<Rightarrow> ret c | None \<Rightarrow> conv_create_new u)"

lemma readonly_service:
  "readonly (resolve_agent_names ids)" "readonly (flow_payload c)" "readonly (list_recent u n)"
  "readonly (list_messages c)" "readonly (find_current ci u)" "readonly (history c mem)"
proof -
  have p: "readonly (list_for_user u cur n)" "readonly (messages_page c q n)" "readonly (distinct_agent_sequence c)"
      "readonly (get_scoped i u)" for u cur n c q i
    by (simp_all add: readonly_def list_for_user_def messages_page_def distinct_agent_sequence_def get_scoped_def Let_def)
  show names: "readonly (resolve_agent_names ids)" for ids by (simp add: readonly_def resolve_agent_names_def)
  show "readonly (flow_payload c)" unfolding flow_payload_def Let_def by (intro readonly_rules p names)
  show recent: "readonly (list_recent u n)" for u n unfolding list_recent_def by (intro readonly_rules p)
  show "readonly (list_messages c)" unfolding list_messages_def by (intro readonly_rules p)
  show "readonly (find_current ci u)" unfolding find_current_def
    by (cases ci) (auto intro!: readonly_rules p recent)
  show "readonly (history c mem)" unfolding history_def by (intro readonly_rules readonly_recent)
qed

end
