(* ===== verification/Requests.thy ===== *)
theory Requests
  imports Web
begin

text \<open>
  The user-facing routes: \<open>routers/chat.py\<close>, \<open>routers/sessions.py\<close>, \<open>routers/conversations.py\<close>
  and \<open>routers/agents.py\<close>, each as an action on the world that returns the response; the theorems
  are in \<open>Request_Properties\<close>.

  A body is modelled with the types its client gives it (\<open>chat_body\<close>): a value of another JSON
  type reaches the database driver and the router untyped and is outside the model. A path segment
  is a string.
\<close>

section \<open>\<open>POST /api/chat\<close>\<close>

record chat_body =
  cb_message :: "string option"  \<comment> \<open>\<open>None\<close> when the key is missing\<close>
  cb_agent_key :: "string option"
  cb_agent_name :: "string option"
  cb_conversation_id :: "string option"
  cb_option_id :: "string option"
  cb_autostart :: bool

text \<open>\<open>a or b\<close> of two optional strings.\<close>

definition or_else :: "string option \<Rightarrow> string option \<Rightarrow> string option" where
  "or_else a b = (case a of Some (c # cs) \<Rightarrow> a | _ \<Rightarrow> b)"

definition given :: "string option \<Rightarrow> string option" where
  "given s = (case s of Some (c # cs) \<Rightarrow> s | _ \<Rightarrow> None)"

text \<open>The conversation id of a body: \<open>Inl\<close> when it is malformed.\<close>

definition body_conversation :: "string option \<Rightarrow> unit + uuid option" where
  "body_conversation cid =
     (case given cid of
        None \<Rightarrow> Inr None
      | Some s \<Rightarrow> (case parse_uuid (JStr s) of None \<Rightarrow> Inl () | Some i \<Rightarrow> Inr (Some i)))"

definition chat_input :: "web \<Rightarrow> user_context \<Rightarrow> chat_body \<Rightarrow> string \<Rightarrow> uuid option \<Rightarrow> turn_input" where
  "chat_input wb u b message cid =
     \<lparr> ti_request_id = wb_request_id wb, ti_conversation_id = cid, ti_user = u, ti_text = message,
       ti_option_id = cb_option_id b,
       ti_agent_key = (case given (or_else (cb_agent_key b) (cb_agent_name b)) of
         None \<Rightarrow> None | Some k \<Rightarrow> if k = ''Saarthi'' then None else Some k),
       ti_autostart = cb_autostart b \<rparr>"

definition option_json :: "turn_option \<Rightarrow> json" where
  "option_json x = JObj [(''id'', JStr (op_id x)), (''label'', JStr (op_label x)), (''value'', JStr (op_value x))]"

definition chat_payload :: "turn_result \<Rightarrow> json \<Rightarrow> response" where
  "chat_payload res flow = json_response (JObj
     [(''agent_name'', JStr (ra_name (tr_agent res))), (''response'', JStr (at_text (tr_turn res))),
      (''status'', JStr ''success''), (''flow'', flow),
      (''conversation_id'', JStr (uuid_text (cv_id (tr_conv res)))),
      (''agent_key'', JStr (ra_key (tr_agent res))),
      (''agent_type'', JStr (type_text (spec_type (ra_spec (tr_agent res))))),
      (''options'', JList (map option_json (at_options (tr_turn res)))),
      (''session'', case tr_session res of None \<Rightarrow> JNull
         | Some s \<Rightarrow> serialize_session_summary s (Some (ra_key (tr_agent res))))]) 200"

definition chat_failure :: "web \<Rightarrow> exc \<Rightarrow> response" where
  "chat_failure wb e =
     (case e of
        ConcurrentTurnError _ \<Rightarrow> error_response wb
          ''A reply is already on its way. Please wait for it before sending again.'' ''CONCURRENT_TURN'' 409
      | TurnLimitExceeded _ detail \<Rightarrow> error_response wb detail ''RATE_LIMITED'' 429
      | Mitra m \<Rightarrow> mitra_error_response wb m
      | AgentNotFound _ \<Rightarrow> error_response wb ''Agent not found'' ''AGENT_NOT_FOUND'' 404
      | _ \<Rightarrow> internal_error wb)"

definition chat :: "web \<Rightarrow> user_context \<Rightarrow> chat_body option \<Rightarrow> response wact" where
  "chat wb u body =
     (case body of
        None \<Rightarrow> ret (error_response wb ''No message provided'' ''INVALID_REQUEST'' 400)
      | Some b \<Rightarrow>
          (case cb_message b of
             None \<Rightarrow> ret (error_response wb ''No message provided'' ''INVALID_REQUEST'' 400)
           | Some message \<Rightarrow>
               (case body_conversation (cb_conversation_id b) of
                  Inl _ \<Rightarrow> ret (error_response wb ''conversation_id must be a UUID'' ''INVALID_REQUEST'' 400)
                | Inr cid \<Rightarrow>
                    on_error
                      (andthen (handle_turn (wb_env wb) (chat_input wb u b message cid)) (\<lambda>res.
                       andthen (dbx (flow_payload (cv_id (tr_conv res)))) (\<lambda>flow.
                       ret (chat_payload res flow))))
                      (\<lambda>e. ret (chat_failure wb e)))))"

section \<open>\<open>POST /api/reset\<close>\<close>

text \<open>\<open>container.mitra_sessions.close\<close>, when Mitra is configured.\<close>

definition close_channel_of :: "env \<Rightarrow> uuid \<Rightarrow> unit wact" where
  "close_channel_of env c = (if e_pool env = None then ret () else poolx (pool_close c))"

definition reset :: "web \<Rightarrow> user_context \<Rightarrow> string option \<Rightarrow> response wact" where
  "reset wb u conversation_id =
     (case body_conversation conversation_id of
        Inl _ \<Rightarrow> ret (error_response wb ''conversation_id must be a UUID'' ''INVALID_REQUEST'' 400)
      | Inr cid \<Rightarrow>
          andthen (dbx (find_current cid u)) (\<lambda>conv.
          andthen (case conv of
              None \<Rightarrow> ret ()
            | Some c \<Rightarrow>
                andthen (dbx (abandon (cv_id c) ''reset'' (u_user_id u))) (\<lambda>abandoned.
                if abandoned = None then ret () else close_channel_of (wb_env wb) (cv_id c))) (\<lambda>_.
          andthen (dbx (start_new u)) (\<lambda>new_conv.
          ret (json_response (JObj [(''status'', JStr ''success''),
            (''conversation_id'', JStr (uuid_text (cv_id new_conv)))]) 200)))))"

section \<open>The session routes\<close>

definition session_not_found :: "web \<Rightarrow> response" where
  "session_not_found wb = error_response wb ''Session not found'' ''SESSION_NOT_FOUND'' 404"

definition scoped_session :: "uuid \<Rightarrow> user_context \<Rightarrow> session_row option dbact" where
  "scoped_session i u =
     andthen (sessions_get i) (\<lambda>found.
     case found of
       None \<Rightarrow> ret None
     | Some s \<Rightarrow>
         andthen (get_scoped (sv_conversation_id s) u) (\<lambda>conv.
         ret (if conv = None then None else Some s)))"

text \<open>\<open>_resolve\<close> and the early return of its miss, around the body of a route.\<close>

definition resolved :: "web \<Rightarrow> user_context \<Rightarrow> string \<Rightarrow> (session_row \<Rightarrow> response wact) \<Rightarrow> response wact" where
  "resolved wb u session_id body =
     (case parse_uuid (JStr session_id) of
        None \<Rightarrow> ret (session_not_found wb)
      | Some i \<Rightarrow>
          andthen (dbx (scoped_session i u)) (\<lambda>found.
          case found of None \<Rightarrow> ret (session_not_found wb) | Some s \<Rightarrow> body s))"

definition session_body :: "web \<Rightarrow> session_row \<Rightarrow> json wact" where
  "session_body wb s = asks (\<lambda>w. serialize_session wb s (agent_key_for (w_reg w) s))"

definition session_answer :: "web \<Rightarrow> session_row \<Rightarrow> response wact" where
  "session_answer wb s = andthen (session_body wb s) (\<lambda>v. ret (json_response v 200))"

definition get_session :: "web \<Rightarrow> user_context \<Rightarrow> string \<Rightarrow> response wact" where
  "get_session wb u session_id = resolved wb u session_id (session_answer wb)"

text \<open>\<open>except MitraError\<close>: every other exception escapes.\<close>

definition on_mitra_error :: "'a wact \<Rightarrow> (mitra_exc \<Rightarrow> 'a wact) \<Rightarrow> 'a wact" where
  "on_mitra_error m h = on_error m (\<lambda>e. case e of Mitra x \<Rightarrow> h x | _ \<Rightarrow> throw e)"

definition finalize_session :: "web \<Rightarrow> user_context \<Rightarrow> string \<Rightarrow> response wact" where
  "finalize_session wb u session_id = resolved wb u session_id (\<lambda>s.
     andthen (on_mitra_error (andthen (finalize_now (wb_env wb) (sv_id s) u) (\<lambda>r. ret (Inr r)))
        (\<lambda>e. ret (Inl (mitra_error_response wb e)))) (\<lambda>res.
     case res of
       Inl resp \<Rightarrow> ret resp
     | Inr None \<Rightarrow> ret (session_not_found wb)
     | Inr (Some r) \<Rightarrow> session_answer wb r))"

definition outcome_text :: "turn_outcome \<Rightarrow> string" where
  "outcome_text x = (case x of Answered \<Rightarrow> ''answered'' | Pending_reply \<Rightarrow> ''pending''
     | Not_delivered \<Rightarrow> ''not_delivered'')"

definition resume_payload :: "web \<Rightarrow> resume_result \<Rightarrow> response wact" where
  "resume_payload wb r =
     (case rr_outcome r of
        Answered \<Rightarrow>
          andthen (session_body wb (rr_session r)) (\<lambda>s.
          ret (json_response (JObj [(''status'', JStr ''success''), (''outcome'', JStr (outcome_text Answered)),
            (''response'', JStr (rr_text r)), (''options'', JList []), (''session'', s)]) 200))
      | Pending_reply \<Rightarrow> ret (json_response (JObj [(''status'', JStr ''pending''),
            (''outcome'', JStr (outcome_text Pending_reply)), (''retry_after'', JInt 3)]) 202)
      | Not_delivered \<Rightarrow> ret (json_response (JObj [(''status'', JStr ''success''),
            (''outcome'', JStr (outcome_text Not_delivered)), (''can_resend'', JBool True)]) 200))"

definition resume_session :: "web \<Rightarrow> user_context \<Rightarrow> string \<Rightarrow> response wact" where
  "resume_session wb u session_id = resolved wb u session_id (\<lambda>s.
     andthen (on_mitra_error (andthen (resume_turn (wb_env wb) (sv_id s)) (\<lambda>r. ret (Inr r)))
        (\<lambda>e. ret (Inl (mitra_error_response wb e)))) (\<lambda>res.
     case res of
       Inl resp \<Rightarrow> ret resp
     | Inr None \<Rightarrow> ret (session_not_found wb)
     | Inr (Some r) \<Rightarrow> resume_payload wb r))"

definition abandon_session :: "web \<Rightarrow> user_context \<Rightarrow> string \<Rightarrow> response wact" where
  "abandon_session wb u session_id = resolved wb u session_id (\<lambda>s.
     andthen (dbx (abandon (sv_conversation_id s) ''user_requested'' (u_user_id u))) (\<lambda>updated.
     andthen (if updated = None then ret () else close_channel_of (wb_env wb) (sv_conversation_id s)) (\<lambda>_.
     session_answer wb (case updated of None \<Rightarrow> s | Some r \<Rightarrow> r))))"

text \<open>The media type of the agent's report. \<open>agent.spec.remote\<close> of an agent that is not remote
  raises.\<close>

definition report_media_of :: "registry \<Rightarrow> session_row \<Rightarrow> exc + string" where
  "report_media_of reg s =
     (case get_by_id reg (sv_agent_id s) of
        None \<Rightarrow> Inr ''application/pdf''
      | Some a \<Rightarrow> (case spec_remote (ra_spec a) of
            None \<Rightarrow> Inl (AttributeError ''remote'') | Some rm \<Rightarrow> Inr (rm_report_media_type rm)))"

definition report_answer :: "session_row \<Rightarrow> string \<Rightarrow> string \<Rightarrow> response" where
  "report_answer s media url = json_response (JObj
     [(''report_url'', JStr url), (''media_type'', JStr media), (''story_id'', opt_str (sv_result_ref s))]) 200"

definition report_later :: response where
  "report_later = json_response (JObj [(''retry_after'', JInt 5)]) 202"

definition get_report_route :: "web \<Rightarrow> user_context \<Rightarrow> string \<Rightarrow> response wact" where
  "get_report_route wb u session_id = resolved wb u session_id (\<lambda>s.
     andthen (asks (\<lambda>w. report_media_of (w_reg w) s)) (\<lambda>m.
     andthen (of_sum m) (\<lambda>media.
     case given (sv_report_url s) of
       Some url \<Rightarrow> ret (report_answer s media url)
     | None \<Rightarrow>
         (case (e_client (wb_env wb), given (sv_remote_session_id s)) of
            (Some rest, Some sid) \<Rightarrow>
              if sv_state s \<noteq> Completed then ret report_later
              else andthen (on_mitra_error (httpx (get_report (e_net (wb_env wb)) rest (JStr sid) media))
                     (\<lambda>_. ret None)) (\<lambda>url.
                   ret (case given url of None \<Rightarrow> report_later | Some x \<Rightarrow> report_answer s media x))
          | _ \<Rightarrow> ret report_later))))"

section \<open>The conversation routes\<close>

definition conversation_json :: "web \<Rightarrow> conv_row \<Rightarrow> json" where
  "conversation_json wb c = JObj
     [(''id'', JStr (uuid_text (cv_id c))),
      (''title'', JStr (case given (cv_title c) of None \<Rightarrow> ''New conversation'' | Some t \<Rightarrow> t)),
      (''last_message_at'', iso_opt wb (cv_last_message_at c)), (''message_count'', JInt (cv_message_count c))]"

definition list_conversations :: "web \<Rightarrow> user_context \<Rightarrow> string \<Rightarrow> response wact" where
  "list_conversations wb u limit =
     (case py_int_base 10 limit of
        None \<Rightarrow> ret (error_response wb ''limit must be an integer'' ''INVALID_REQUEST'' 400)
      | Some n \<Rightarrow>
          andthen (dbx (list_recent u (nat (max 1 (min n 20))))) (\<lambda>cs.
          ret (json_response (JObj [(''conversations'', JList (map (conversation_json wb) cs))]) 200)))"

definition conversation_not_found :: "web \<Rightarrow> response" where
  "conversation_not_found wb = error_response wb ''Conversation not found'' ''CONVERSATION_NOT_FOUND'' 404"

definition message_json :: "web \<Rightarrow> (uuid \<times> string) list \<Rightarrow> msg_row \<Rightarrow> json" where
  "message_json wb names m = JObj
     [(''id'', JStr (uuid_text (mg_id m))), (''role'', JStr (role_text (mg_role m))),
      (''content'', JStr (mg_content m)),
      (''agent_name'', opt_str (Option.bind (mg_agent_id m) (map_of names))),
      (''agent_session_id'', opt_str (map_option uuid_text (mg_agent_session_id m))),
      (''options'', case mg_options m of None \<Rightarrow> JNull | Some os \<Rightarrow> JList (map option_json os)),
      (''selected_option_id'', opt_str (mg_selected_option_id m)),
      (''created_at'', JStr (wb_isoformat wb (mg_created_at m)))]"

definition get_conversation_messages :: "web \<Rightarrow> user_context \<Rightarrow> string \<Rightarrow> response wact" where
  "get_conversation_messages wb u conversation_id =
     (case parse_uuid (JStr conversation_id) of
        None \<Rightarrow> ret (conversation_not_found wb)
      | Some c \<Rightarrow>
          andthen (dbx (get_scoped c u)) (\<lambda>conv.
          if conv = None then ret (conversation_not_found wb)
          else
            andthen (dbx (list_messages c)) (\<lambda>ms.
            andthen (dbx (resolve_agent_names (List.map_filter mg_agent_id ms))) (\<lambda>names.
            andthen (dbx (sessions_for_conversation c)) (\<lambda>ss.
            andthen (asks (\<lambda>w. map (\<lambda>s. serialize_session_summary s (agent_key_for (w_reg w) s)) ss)) (\<lambda>sjs.
            andthen (dbx (flow_payload c)) (\<lambda>flow.
            ret (json_response (JObj
              [(''conversation_id'', JStr (uuid_text c)), (''flow'', flow), (''sessions'', JList sjs),
               (''messages'', JList (map (message_json wb names) ms))]) 200)))))))) "

section \<open>\<open>GET /api/agents\<close>\<close>

definition saarthi_entry :: json where
  "saarthi_entry = JObj [(''name'', JStr ''Saarthi''),
     (''description'', JStr ''Automatically routes your request to the best agent'')]"

definition agent_entry :: "registered_agent \<Rightarrow> json" where
  "agent_entry a = (let b = spec_base (ra_spec a) in JObj
     [(''name'', JStr (ra_name a)), (''description'', JStr (ra_description a)), (''key'', JStr (ra_key a)),
      (''agent_type'', JStr (type_text (ra_agent_type a))), (''capabilities'', JList (map JStr (sp_capabilities b))),
      (''status'', JStr (if sp_enabled b then ''enabled'' else ''disabled'')), (''sort_order'', JInt (sp_sort_order b)),
      (''supports_options'', JBool (ft_emit_options (sp_features b))),
      (''pin_session'', JBool (rt_pin_session (sp_routing b)))])"

text \<open>Each routable agent resolved for the caller, kept when its access specification admits him.\<close>

fun visible_agents :: "env \<Rightarrow> user_context \<Rightarrow> registered_agent list \<Rightarrow> registered_agent list wact" where
  "visible_agents env u [] = ret []"
| "visible_agents env u (a # as) =
     andthen (resolve_agent env u (Some a)) (\<lambda>scoped.
     andthen (visible_agents env u as) (\<lambda>rest.
     ret (if access_matches (sp_access (spec_base (ra_spec scoped))) (Some u) then scoped # rest else rest)))"

definition get_agents :: "web \<Rightarrow> user_context \<Rightarrow> response wact" where
  "get_agents wb u =
     andthen (asks (\<lambda>w. sort_key (\<lambda>a. sp_sort_order (spec_base (ra_spec a))) (routable (w_reg w)))) (\<lambda>as.
     andthen (visible_agents (wb_env wb) u as) (\<lambda>vis.
     ret (json_response (JList (saarthi_entry # map agent_entry vis)) 200)))"

end
