(* ===== verification/Request_Contract.thy ===== *)
theory Request_Contract
  imports Requests
begin

text \<open>
  What a request does to the committed database, from what its statements do to it.

  The locale \<open>request_relation\<close> extends \<open>turn_relation\<close> to every route: whatever relation between
  databases all statements move along, a whole request moves the committed database along it,
  whichever way it ends (\<open>request_moves\<close>), and so does any sequence of requests
  (\<open>requests_move\<close>).
\<close>

section \<open>Requests one after the other\<close>

datatype route_call =
    Chat_call "chat_body option"
  | Reset_call "string option"
  | Get_session_call string
  | Finalize_call string
  | Resume_call string
  | Abandon_call string
  | Report_call string
  | List_call string
  | Messages_call string
  | Agents_call

fun serve :: "web \<Rightarrow> user_context \<Rightarrow> route_call \<Rightarrow> response wact" where
  "serve wb u (Chat_call b) = chat wb u b"
| "serve wb u (Reset_call c) = reset wb u c"
| "serve wb u (Get_session_call s) = get_session wb u s"
| "serve wb u (Finalize_call s) = finalize_session wb u s"
| "serve wb u (Resume_call s) = resume_session wb u s"
| "serve wb u (Abandon_call s) = abandon_session wb u s"
| "serve wb u (Report_call s) = get_report_route wb u s"
| "serve wb u (List_call n) = list_conversations wb u n"
| "serve wb u (Messages_call c) = get_conversation_messages wb u c"
| "serve wb u Agents_call = get_agents wb u"

text \<open>A request of any user to any route on any connection, or the time passing.\<close>

inductive request_step :: "world \<Rightarrow> world \<Rightarrow> bool" where
  request: "with_db wb conn (serve wb u call) w = (resp, w') \<Longrightarrow> request_step w w'"
| time: "request_step w (tick n w)"

inductive_cases request_stepE: "request_step w w'"

text \<open>Between two requests: no transaction is open, and the database read is the committed one, but
  for the clock and the supply of identifiers.\<close>

definition same_data :: "db \<Rightarrow> db \<Rightarrow> bool" where
  "same_data d d' \<longleftrightarrow> d_convs d' = d_convs d \<and> d_msgs d' = d_msgs d \<and> d_sess d' = d_sess d
     \<and> d_audit d' = d_audit d \<and> d_tools d' = d_tools d \<and> d_agents d' = d_agents d \<and> d_cfgs d' = d_cfgs d
     \<and> d_caps d' = d_caps d \<and> d_cap_agents d' = d_cap_agents d"

lemma same_data_eq: "same_data d d' \<Longrightarrow> d' = d\<lparr> d_next := d_next d', d_now := d_now d' \<rparr>"
  by (simp add: same_data_def)

lemma same_data_refl [simp]: "same_data d d"
  by (simp add: same_data_def)

lemma same_data_upd [simp]:
  "same_data d (d'\<lparr> d_next := n \<rparr>) = same_data d d'" "same_data d (d'\<lparr> d_now := t \<rparr>) = same_data d d'"
  by (simp_all add: same_data_def)

definition settled :: "world \<Rightarrow> bool" where
  "settled w \<longleftrightarrow> \<not> w_in_tx w \<and> \<not> w_aborted w
     \<and> same_data (w_committed w) (w_db w)"

lemma settled_commit: "\<not> w_aborted w \<Longrightarrow> settled (snd (commit w))"
  by (simp add: settled_def commit_def)

lemma settled_rollback: "settled (rollback w)"
  by (simp add: settled_def rollback_def)

lemma settled_end: "settled (snd (end_request wb r w))"
  by (auto simp: end_request_def settled_commit settled_rollback split: sum.split)

section \<open>The relation of a whole request\<close>

lemma adv_case_body:
  "advances R m \<Longrightarrow> (\<And>b t c. body = Some b \<Longrightarrow> cb_message b = Some t \<Longrightarrow> advances R (f b t c)) \<Longrightarrow>
   advances R (case body of None \<Rightarrow> m | Some b \<Rightarrow> (case cb_message b of None \<Rightarrow> m
     | Some t \<Rightarrow> (case g b of Inl _ \<Rightarrow> m' | Inr c \<Rightarrow> f b t c)))" if "advances R m'"
  using that by (auto split: option.split sum.split)

lemma adv_case_pair:
  "(\<And>a b. x = (Some a, Some b) \<Longrightarrow> advances R (f a b)) \<Longrightarrow> advances R g \<Longrightarrow>
   advances R (case x of (Some a, Some b) \<Rightarrow> f a b | _ \<Rightarrow> g)"
  by (auto split: option.split prod.split)

lemma adv_case_res:
  "(\<And>a. advances R (f a)) \<Longrightarrow> advances R g \<Longrightarrow> (\<And>r. advances R (h r)) \<Longrightarrow>
   advances R (case x of Inl a \<Rightarrow> f a | Inr None \<Rightarrow> g | Inr (Some r) \<Rightarrow> h r)"
  by (auto split: option.split sum.split)

lemma adv_case_outcome:
  "advances R a \<Longrightarrow> advances R b \<Longrightarrow> advances R c \<Longrightarrow>
   advances R (case x of Answered \<Rightarrow> a | Pending_reply \<Rightarrow> b | Not_delivered \<Rightarrow> c)"
  by (simp split: turn_outcome.split)

lemma adv_case_mitra:
  "(\<And>x. advances R (h x)) \<Longrightarrow> advances R g \<Longrightarrow> advances R (case e of Mitra x \<Rightarrow> h x | _ \<Rightarrow> g)"
  by (simp split: exc.split)

locale commit_relation = store_relation +
  assumes Q_next: "Q d (d\<lparr> d_next := n \<rparr>)"
begin

lemma tx_le_check: "tx_le Q w (registry_check env w)"
  using tx_le_begin[of w] by (auto simp: registry_check_def Let_def tx_le_refl) (simp add: tx_le_def)

lemma committed_moves:
  assumes "settled w" and "tx_le Q w w'"
  shows "Q (w_committed w) (w_committed (snd (end_request wb r w')))"
proof -
  have db: "w_db w = (w_committed w)\<lparr> d_next := d_next (w_db w), d_now := d_now (w_db w) \<rparr>"
    using assms(1) by (intro same_data_eq) (simp add: settled_def)
  have at: "Q (w_committed w) (w_db w)" by (subst db) (rule R_trans[OF Q_next Q_now])
  have kept: "Q (w_committed w) (w_committed w')"
    using assms(2) at R_refl R_trans unfolding tx_le_def by metis
  have moved: "Q (w_committed w) (w_db w')" if "\<not> w_aborted w'"
    using assms(2) that at R_trans unfolding tx_le_def by blast
  show ?thesis
    by (cases r) (simp_all add: end_request_def rollback_def commit_def kept moved)
qed

text \<open>A whole request, whatever its route: the registry check, the route, the commit or the rollback.\<close>

lemma route_moves:
  assumes route: "advances (tx_le Q) route" and "settled w" and "with_db wb conn route w = (resp, w')"
  shows "settled w' \<and> Q (w_committed w) (w_committed w')"
proof -
  let ?w0 = "w\<lparr> w_conn := conn \<rparr>"
  obtain r w2 where run: "route (registry_check (wb_env wb) ?w0) = (r, w2)" by (meson surj_pair)
  have fin: "w' = snd (end_request wb r w2)" using assms(3) run by (simp add: with_db_def)
  have "settled ?w0" using assms(2) by (simp add: settled_def)
  moreover have "tx_le Q ?w0 w2" by (rule tx_le_trans[OF tx_le_check advancesD[OF route run]])
  ultimately have "Q (w_committed ?w0) (w_committed w')" unfolding fin by (rule committed_moves)
  then show ?thesis by (simp add: fin settled_end)
qed

end

locale request_relation = turn_relation Q + commit_relation Q for Q +
  assumes mv_create: "moves Q (conv_create_new u)"
begin

lemma readonly_tx: "readonly m \<Longrightarrow> advances (tx_le Q) (dbx m)"
  by (rule tx_dbx[OF moves_readonly])

lemma readonly_scoped: "readonly (scoped_session i u)"
  unfolding scoped_session_def
  by (intro readonly_rules readonly_sessions_get) (simp_all add: readonly_def get_scoped_def)

lemma mv_start_new: "moves Q (start_new u)"
proof (rule movesI)
  fix d r d' assume run: "start_new u d = (r, d')" and nf: "r \<noteq> Inl IntegrityError"
  show "Q d d'"
  proof (cases "fst (find_empty_for_user u d)")
    case (Inl e)
    then show ?thesis using run by (simp add: find_empty_for_user_def)
  next
    case (Inr x)
    then show ?thesis using run nf movesD[OF mv_create]
      by (cases x) (auto simp: start_new_def find_empty_for_user_def andthen_run R_refl)
  qed
qed

lemma tx_close_channel: "advances (tx_le Q) (close_channel_of env c)"
  unfolding close_channel_of_def by (intro tx_rules tx_outside[OF poolx_outside])

lemma tx_on_mitra: "advances (tx_le Q) m \<Longrightarrow> (\<And>e. advances (tx_le Q) (h e)) \<Longrightarrow>
   advances (tx_le Q) (on_mitra_error m h)"
  unfolding on_mitra_error_def by (intro tx_rules adv_case_mitra)

lemmas route_rules = tx_rules readonly_tx readonly_scoped readonly_service tx_close_channel tx_on_mitra
  adv_case_pair adv_case_res adv_case_outcome tx_handle_turn tx_resume_turn tx_finalize_now mv_start_new
  tx_outside[OF httpx_outside] tx_resolve

lemma tx_session_answer: "advances (tx_le Q) (session_answer wb s)"
  unfolding session_answer_def session_body_def by (intro route_rules)

lemma tx_resolved: "(\<And>s. advances (tx_le Q) (body s)) \<Longrightarrow> advances (tx_le Q) (resolved wb u sid body)"
  unfolding resolved_def by (intro route_rules)

lemma tx_chat: "advances (tx_le Q) (chat wb u b)"
  unfolding chat_def by (intro adv_case_body route_rules)

lemma tx_visible: "advances (tx_le Q) (visible_agents env u as)"
  by (induction as) (simp_all only: visible_agents.simps, (intro route_rules | assumption)+)

lemma tx_serve: "advances (tx_le Q) (serve wb u call)"
proof (cases call)
  case (Chat_call b)
  then show ?thesis by (simp only: serve.simps tx_chat)
next
  case (Reset_call c)
  then show ?thesis unfolding Reset_call serve.simps reset_def by (intro route_rules)
next
  case (Get_session_call s)
  then show ?thesis unfolding Get_session_call serve.simps get_session_def
    by (intro tx_resolved tx_session_answer)
next
  case (Finalize_call s)
  then show ?thesis unfolding Finalize_call serve.simps finalize_session_def
    by (intro tx_resolved route_rules tx_session_answer)
next
  case (Resume_call s)
  then show ?thesis unfolding Resume_call serve.simps resume_session_def resume_payload_def session_body_def
    by (intro tx_resolved route_rules)
next
  case (Abandon_call s)
  then show ?thesis unfolding Abandon_call serve.simps abandon_session_def
    by (intro tx_resolved route_rules tx_session_answer)
next
  case (Report_call s)
  then show ?thesis unfolding Report_call serve.simps get_report_route_def
    by (intro tx_resolved route_rules)
next
  case (List_call s)
  then show ?thesis unfolding List_call serve.simps list_conversations_def by (intro route_rules)
next
  case (Messages_call s)
  have "readonly (get_scoped c u)" "readonly (sessions_for_conversation c)" for c
    by (simp_all add: readonly_def get_scoped_def sessions_for_conversation_def)
  then show ?thesis unfolding Messages_call serve.simps get_conversation_messages_def
    by (intro route_rules)
next
  case Agents_call
  then show ?thesis unfolding Agents_call serve.simps get_agents_def by (intro route_rules tx_visible)
qed

lemma request_moves:
  assumes "settled w" and "with_db wb conn (serve wb u call) w = (resp, w')"
  shows "settled w' \<and> Q (w_committed w) (w_committed w')"
  by (rule route_moves[OF tx_serve assms])

lemma requests_move: "request_step\<^sup>*\<^sup>* w w' \<Longrightarrow> settled w \<Longrightarrow> settled w' \<and> Q (w_committed w) (w_committed w')"
proof (induction rule: rtranclp_induct)
  case base
  then show ?case by (simp add: R_refl)
next
  case (step v w')
  then have v: "settled v" "Q (w_committed w) (w_committed v)" by simp_all
  from step.hyps(2) have "settled w' \<and> Q (w_committed v) (w_committed w')"
  proof cases
    case (request wb conn u call resp)
    then show ?thesis using request_moves[OF v(1)] by blast
  next
    case (time n)
    then show ?thesis using v(1) by (simp add: settled_def tick_def R_refl)
  qed
  then show ?case using v(2) R_trans by blast
qed

end

section \<open>The constraints, the numbering, the lifecycle and the history\<close>

lemma create_new_evolves: "advances sessions_evolve (conv_create_new u)"
  unfolding conv_create_new_def Let_def by (intro sess_adv stmt_keeps_sessions) simp

lemma create_new_grows: "advances messages_grow (conv_create_new u)"
  unfolding conv_create_new_def Let_def
  by (intro grow.adv) (auto simp: advances_def stmt_def messages_grow_def fresh_id_def)

lemma create_new_numbered: "moves (stays well_numbered) (conv_create_new u)"
proof (rule movesI, rule impI)
  fix d r d'
  assume run: "conv_create_new u d = (r, d')" and nf: "r \<noteq> Inl IntegrityError" and w: "well_numbered d"
  have ok: "db_ok d'" using run w by (auto simp: well_numbered_def intro: preserves_run[OF preserves_db_ok_repos(10)])
  from run nf have "d' = d\<lparr> d_next := d_next d + 1, d_convs := d_convs d @ [new_conv_row (d_next d) u (d_now d)] \<rparr>"
    by (auto simp: conv_create_new_def Let_def andthen_run stmt_run split: if_splits)
  then show "well_numbered d'" using numbered_new_conversation[OF w] ok by (simp add: well_numbered_def)
qed

interpretation numbered_requests: request_relation "stays well_numbered"
proof
  show "stays well_numbered d (d\<lparr> d_next := n \<rparr>)" for d n by (simp add: well_numbered_def numbered_def)
qed (rule create_new_numbered)

interpretation session_requests: request_relation sessions_evolve
  by unfold_locales (auto intro: moves_evolve create_new_evolves sessions_evolve_same)

interpretation history_requests: request_relation messages_grow
  by unfold_locales (auto intro: moves_advances create_new_grows simp: messages_grow_def)

end
