(* ===== verification/Request_Properties.thy ===== *)
theory Request_Properties
  imports Request_Contract Turn_Record
begin

text \<open>
  What a client can rely on over HTTP: the record survives every sequence of requests, foreign
  sessions and conversations do not exist for a caller, a chat request always gets an answer and
  what its failed turn wrote is kept, and a reset loses nothing.
\<close>

section \<open>Runs on a consistent database\<close>

lemma get_scoped_run:
  assumes "db_ok d"
  shows "get_scoped i u d = (Inr (find (\<lambda>c. cv_id c = i \<and> owned_by u c) (d_convs d)), d)"
proof -
  have "distinct (map cv_id (d_convs d))" using db_ok_convs[OF assms] by (simp add: convs_ok_def)
  then have "\<exists>r. one_or_none () (filter (\<lambda>c. cv_id c = i) (d_convs d)) = Inr r"
    by (rule one_or_none_filter_distinct)
  then have "\<not> 2 \<le> length (filter (\<lambda>c. cv_id c = i) (d_convs d))"
    using one_or_none_Inl[of "()" "filter (\<lambda>c. cv_id c = i) (d_convs d)" "()"] by auto
  then have "length (filter (\<lambda>c. cv_id c = i \<and> owned_by u c) (d_convs d)) \<le> 1"
    using length_filter_mono[of "\<lambda>c. cv_id c = i \<and> owned_by u c" "\<lambda>c. cv_id c = i" "d_convs d"] by simp
  then show ?thesis
    using one_or_none_map_filter[of _ "d_convs d" _ "\<lambda>c. c"] by (simp add: get_scoped_def option.map_ident)
qed

definition reachable_by :: "user_context \<Rightarrow> db \<Rightarrow> session_row \<Rightarrow> bool" where
  "reachable_by u d s \<longleftrightarrow> (\<exists>c \<in> set (d_convs d). cv_id c = sv_conversation_id s \<and> owned_by u c)"

lemma scoped_session_run:
  assumes "db_ok d"
  shows "scoped_session i u d =
    (Inr (case find (\<lambda>s. sv_id s = i) (d_sess d) of None \<Rightarrow> None
       | Some s \<Rightarrow> if reachable_by u d s then Some s else None), d)"
proof (cases "find (\<lambda>s. sv_id s = i) (d_sess d)")
  case None
  then show ?thesis using assms by (simp add: scoped_session_def andthen_run sessions_get_run)
next
  case (Some s)
  have "find (\<lambda>c. cv_id c = sv_conversation_id s \<and> owned_by u c) (d_convs d) = None \<longleftrightarrow> \<not> reachable_by u d s"
    by (simp add: find_None_all reachable_by_def)
  with Some show ?thesis using assms
    by (auto simp: scoped_session_def andthen_run sessions_get_run get_scoped_run)
qed

section \<open>The record survives\<close>

text \<open>The record survives everything. Between requests no transaction is open; and after any
  sequence of requests of any users to any routes, ending in answers or exceptions, the committed
  database still satisfies every constraint and numbers its messages from 1 without a gap, every
  session is still there with its terminal state final, and the messages have only been added to.\<close>

theorem record_survives_requests:
  assumes "request_step\<^sup>*\<^sup>* w w'" and "settled w" and "well_numbered (w_committed w)"
  shows "settled w' \<and> well_numbered (w_committed w') \<and> sessions_evolve (w_committed w) (w_committed w')
    \<and> messages_grow (w_committed w) (w_committed w')"
  using assms numbered_requests.requests_move[OF assms(1,2)] session_requests.requests_move[OF assms(1,2)]
    history_requests.requests_move[OF assms(1,2)] by blast

definition sample_web :: web where
  "sample_web = \<lparr> wb_env = sample_env, wb_isoformat = (\<lambda>t. show_int t), wb_request_id = Some ''q1'',
     wb_commit_raises = (\<lambda>w. False) \<rparr>"

lemma sample_settled: "settled sample_world"
  by (simp add: settled_def sample_world_def)

lemma sample_numbered: "well_numbered (w_committed sample_world)"
  using sample_db_ok by (simp add: well_numbered_def sample_world_def) code_simp

lemma record_survives_requests_witness:
  "well_numbered (w_committed (snd (with_db sample_web 1 (serve sample_web sample_user (Reset_call None)) sample_world)))"
proof -
  obtain resp w' where run: "with_db sample_web 1 (serve sample_web sample_user (Reset_call None)) sample_world = (resp, w')"
    by (meson surj_pair)
  then have "request_step\<^sup>*\<^sup>* sample_world w'" by (intro r_into_rtranclp request_step.request)
  from record_survives_requests[OF this sample_settled sample_numbered] run show ?thesis by simp
qed

section \<open>Foreign objects do not exist\<close>

text \<open>A route that answers without having touched anything but the registry and the clock.\<close>

definition untouched :: "world \<Rightarrow> world \<Rightarrow> bool" where
  "untouched w w' \<longleftrightarrow> same_data (w_committed w) (w_committed w')
     \<and> w_http w' = w_http w \<and> w_pool w' = w_pool w \<and> w_llm w' = w_llm w \<and> w_locks w' = w_locks w
     \<and> w_handlers w' = w_handlers w"

lemma check_keeps:
  assumes "settled w" and v_def: "v = registry_check env (w\<lparr> w_conn := k \<rparr>)"
  shows "\<not> w_aborted v" and "same_data (w_committed w) (w_db v)" and "w_http v = w_http w"
    and "w_pool v = w_pool w" and "w_llm v = w_llm w" and "w_locks v = w_locks w" and "w_handlers v = w_handlers w"
  using assms(1) by (auto simp: v_def registry_check_def Let_def settled_def begin_tx_def)

lemma answered_without_work:
  assumes "settled w"
    and route: "\<And>v :: world. \<not> w_aborted v \<Longrightarrow> same_data (w_committed w) (w_db v) \<Longrightarrow>
      route v = (Inr answer, v) \<or> route v = (Inr answer, begin_tx v)"
    and "with_db wb k route w = (resp, w')"
  shows "resp = answer \<and> untouched w w'"
proof -
  let ?v = "registry_check (wb_env wb) (w\<lparr> w_conn := k \<rparr>)"
  note v = check_keeps[OF assms(1) refl[of ?v]]
  from route[OF v(1,2)] have "route ?v = (Inr answer, ?v) \<or> route ?v = (Inr answer, begin_tx ?v)" .
  moreover have "same_data (w_committed w) (w_db (begin_tx ?v))" using v(2) by (simp add: begin_tx_def)
  ultimately show ?thesis using assms(3) v
    by (auto simp: with_db_def end_request_def commit_def untouched_def)
qed

text \<open>The five session routes, and the transcript of a conversation.\<close>

definition session_routes :: "web \<Rightarrow> user_context \<Rightarrow> string \<Rightarrow> response wact list" where
  "session_routes wb u sid = [get_session wb u sid, finalize_session wb u sid, resume_session wb u sid,
     abandon_session wb u sid, get_report_route wb u sid]"

lemma resolved_miss:
  assumes "db_ok d" and "\<forall>s \<in> set (d_sess d). parse_uuid (JStr sid) = Some (sv_id s) \<longrightarrow> \<not> reachable_by u d s"
    and "\<not> w_aborted v" and "same_data d (w_db v)"
  shows "resolved wb u sid body v = (Inr (session_not_found wb), v)
    \<or> resolved wb u sid body v = (Inr (session_not_found wb), begin_tx v)"
proof (cases "parse_uuid (JStr sid)")
  case None
  then show ?thesis by (simp add: resolved_def)
next
  case (Some i)
  have db: "same_data d (w_db (begin_tx v))" using assms(4) by (simp add: begin_tx_def)
  have ok: "db_ok (w_db (begin_tx v))"
    using assms(1) by (subst same_data_eq[OF db]) (simp add: db_ok_now db_ok_next)
  have "(case find (\<lambda>s. sv_id s = i) (d_sess (w_db (begin_tx v))) of None \<Rightarrow> None
       | Some s \<Rightarrow> if reachable_by u (w_db (begin_tx v)) s then Some s else None) = None"
    using assms(2) Some db by (auto simp: reachable_by_def same_data_def split: option.split dest!: find_Some_in)
  then have "dbx (scoped_session i u) v = (Inr None, begin_tx v)"
    using assms(3) scoped_session_run[OF ok, of i u] by (simp add: dbx_def Let_def)
  with Some show ?thesis by (simp add: resolved_def)
qed

text \<open>C23: a foreign session does not exist. For a session identifier that names no session of a
  conversation the caller owns (in his tenant), every session route answers with the same 404 and
  has no effect: nothing is written, sent, opened or closed.\<close>

theorem foreign_session_does_not_exist:
  assumes "settled w" and "db_ok (w_committed w)"
    and "\<forall>s \<in> set (d_sess (w_committed w)). parse_uuid (JStr sid) = Some (sv_id s) \<longrightarrow>
      \<not> reachable_by u (w_committed w) s"
    and "route \<in> set (session_routes wb u sid)" and "with_db wb k route w = (resp, w')"
  shows "resp = session_not_found wb \<and> untouched w w'"
proof (rule answered_without_work[OF assms(1) _ assms(5)])
  fix v :: world assume "\<not> w_aborted v" "same_data (w_committed w) (w_db v)"
  note miss = resolved_miss[OF assms(2,3) this]
  show "route v = (Inr (session_not_found wb), v) \<or> route v = (Inr (session_not_found wb), begin_tx v)"
    using assms(4) miss
    by (auto simp: session_routes_def get_session_def finalize_session_def resume_session_def abandon_session_def
        get_report_route_def)
qed

definition other_user :: user_context where
  "other_user = sample_user\<lparr> u_user_id := ''u2'' \<rparr>"

lemma foreign_session_does_not_exist_witness:
  "fst (with_db sample_web 1 (abandon_session sample_web other_user (uuid_text 4)) sample_world)
     = session_not_found sample_web"
proof -
  obtain resp w' where run: "with_db sample_web 1 (abandon_session sample_web other_user (uuid_text 4)) sample_world
      = (resp, w')" by (meson surj_pair)
  have "db_ok (w_committed sample_world)" using sample_db_ok by (simp add: sample_world_def)
  moreover have "\<forall>s \<in> set (d_sess (w_committed sample_world)). parse_uuid (JStr (uuid_text 4)) = Some (sv_id s) \<longrightarrow>
      \<not> reachable_by other_user (w_committed sample_world) s" by code_simp
  moreover have "abandon_session sample_web other_user (uuid_text 4)
      \<in> set (session_routes sample_web other_user (uuid_text 4))" by (simp add: session_routes_def)
  ultimately show ?thesis
    using foreign_session_does_not_exist[OF sample_settled _ _ _ run] run by simp
qed

section \<open>A chat request always gets an answer\<close>

lemma handle_turn_usable: "handle_turn env ti w = (Inr res, w') \<Longrightarrow> \<not> w_aborted w'"
proof -
  assume run: "handle_turn env ti w = (Inr res, w')"
  then obtain conv w1 w2 r w3 where "handle_turn_locked env ti conv w2 = (Inr r, w3)"
    and w': "w' = unlock_conversation env (cv_id conv) w3"
    by (auto simp: handle_turn_def always_after_run elim!: andthen_InrE split: if_splits) (metis prod.collapse)
  then obtain x t v1 v2 where "store_turn env ti (cv_id conv) x (fst t) (fst (snd t)) (snd (snd t)) v1 = (Inr v2, w3)"
    unfolding handle_turn_locked_def by (auto elim!: andthen_InrE split: prod.splits)
  then obtain v3 where "commit v3 = (Inr (), w3)"
    unfolding store_turn_def by (auto elim!: andthen_InrE)
  then have "\<not> w_aborted w3" by (auto dest: commit_ok)
  then show ?thesis unfolding w' by (simp add: unlock_conversation_def Let_def begin_tx_def)
qed

lemma flow_payload_runs: "\<exists>flow. flow_payload c d = (Inr flow, d)"
  by (simp add: flow_payload_def distinct_agent_sequence_def resolve_agent_names_def andthen_run Let_def)

text \<open>C24: a chat request always gets an answer, and what a failed turn wrote is kept. Whatever the
  turn raises becomes one of the responses 404, 409, 429, 500, 502 and 504, and no exception
  escapes the route: so the request ends with a commit and everything the failed turn did up to
  the exception stays, unless a violated constraint aborted its transaction. When the turn
  succeeds the answer is a 200 with its text.\<close>

theorem chat_always_answers:
  assumes "cb_message b = Some t" and "body_conversation (cb_conversation_id b) = Inr cid"
    and "handle_turn (wb_env wb) (chat_input wb u b t cid) (registry_check (wb_env wb) (w\<lparr> w_conn := k \<rparr>)) = (r, w1)"
    and "with_db wb k (chat wb u (Some b)) w = (resp, w')"
  shows "case r of
      Inl e \<Rightarrow> (\<not> w_aborted w1 \<longrightarrow> resp = chat_failure wb e \<and> w_committed w' = w_db w1)
        \<and> rp_status resp \<in> {404, 409, 429, 500, 502, 504}
    | Inr res \<Rightarrow> w_committed w' = w_db (begin_tx w1) \<and> (\<exists>flow. resp = chat_payload res flow)"
proof (cases r)
  case (Inl e)
  have "chat wb u (Some b) (registry_check (wb_env wb) (w\<lparr> w_conn := k \<rparr>)) = (Inr (chat_failure wb e), w1)"
    using assms(1-3) Inl by (simp add: chat_def on_error_run andthen_run)
  moreover have "rp_status (chat_failure wb e) \<in> {404, 409, 429, 500, 502, 504}"
    by (simp add: chat_failure_def mitra_error_response_def internal_error_def error_response_def json_response_def
        split: exc.split mitra_exc.split)
  ultimately show ?thesis using assms(4) Inl
    by (auto simp: with_db_def end_request_def commit_def internal_error_def error_response_def json_response_def
        split: if_splits)
next
  case (Inr res)
  then have ok: "\<not> w_aborted w1" using handle_turn_usable assms(3) by blast
  obtain flow where "flow_payload (cv_id (tr_conv res)) (w_db (begin_tx w1)) = (Inr flow, w_db (begin_tx w1))"
    using flow_payload_runs by blast
  then have "dbx (flow_payload (cv_id (tr_conv res))) w1 = (Inr flow, begin_tx w1)"
    using ok by (simp add: dbx_def Let_def)
  then have "chat wb u (Some b) (registry_check (wb_env wb) (w\<lparr> w_conn := k \<rparr>)) = (Inr (chat_payload res flow), begin_tx w1)"
    using assms(1-3) Inr by (simp add: chat_def on_error_run andthen_run)
  then show ?thesis using assms(4) Inr ok
    by (auto simp: with_db_def end_request_def commit_def)
qed

text \<open>The sample conversation while another connection runs a turn on it.\<close>

definition busy_world :: world where
  "busy_world = sample_world\<lparr> w_locks := [(2, turn_lock_key sample_env 3)] \<rparr>"

definition sample_body :: chat_body where
  "sample_body = \<lparr> cb_message = Some ''hello'', cb_agent_key = None, cb_agent_name = None,
     cb_conversation_id = Some (uuid_text 3), cb_option_id = None, cb_autostart = False \<rparr>"

lemma chat_always_answers_witness:
  "fst (with_db sample_web 1 (chat sample_web sample_user (Some sample_body)) busy_world)
     = chat_failure sample_web (ConcurrentTurnError 3)"
proof -
  let ?ti = "chat_input sample_web sample_user sample_body ''hello'' (Some 3)"
  have msg: "cb_message sample_body = Some ''hello''" by (simp add: sample_body_def)
  have cid: "body_conversation (cb_conversation_id sample_body) = Inr (Some 3)" by code_simp
  have check: "registry_check (wb_env sample_web) (busy_world\<lparr> w_conn := 1 \<rparr>) = busy_world"
    by (simp add: registry_check_def busy_world_def sample_world_def monotonic_def sample_registry_def empty_registry_def)
  have id: "cv_id sample_conv = 3" by (simp add: sample_conv_def new_conv_row_def)
  have found: "dbx (get_or_create (ti_conversation_id ?ti) (ti_user ?ti)) busy_world = (Inr sample_conv, begin_tx busy_world)"
    by (simp add: chat_input_def busy_world_def dbx_def get_or_create_def get_scoped_def sample_world_def begin_tx_def
        sample_db_def sample_conv_def owned_by_def new_conv_row_def sample_user_def Let_def)
  have held: "try_lock_conversation sample_env (cv_id sample_conv) (begin_tx busy_world) = (Inr False, begin_tx busy_world)"
    unfolding id
    by (simp add: try_lock_conversation_def busy_world_def Let_def sample_env_def sample_world_def begin_tx_def)
  have turn: "handle_turn (wb_env sample_web) ?ti (registry_check (wb_env sample_web) (busy_world\<lparr> w_conn := 1 \<rparr>))
      = (Inl (ConcurrentTurnError 3), begin_tx busy_world)"
    unfolding check using handle_turn_refused[OF found held] id by (simp add: sample_web_def)
  have usable: "\<not> w_aborted (begin_tx busy_world)" by (simp add: busy_world_def sample_world_def)
  obtain resp w' where run: "with_db sample_web 1 (chat sample_web sample_user (Some sample_body)) busy_world = (resp, w')"
    by (meson surj_pair)
  from chat_always_answers[OF msg cid turn run] usable run show ?thesis by simp
qed

section \<open>A reset loses nothing\<close>

lemma db_ok_append_conv:
  assumes "db_ok d" and "conv_row_ok c" and "cv_pinned_agent_id c = None" and "cv_id c \<notin> cv_id ` set (d_convs d)"
  shows "db_ok (d\<lparr> d_convs := d_convs d @ [c] \<rparr>)"
  using assms
  by (auto simp: db_ok_def convs_ok_def msgs_ok_def sess_ok_def tools_ok_def agents_ok_def cfgs_ok_def caps_ok_def
      list_all_iff opt_in_def)

lemma conv_create_new_run:
  assumes "db_ok d" and "list_all (\<lambda>c. cv_id c < d_next d) (d_convs d)"
    and "u_locale u \<in> set languages" and "u_tenant_code u \<noteq> []"
  shows "conv_create_new u d = (Inr (new_conv_row (d_next d) u (d_now d)),
    d\<lparr> d_next := d_next d + 1, d_convs := d_convs d @ [new_conv_row (d_next d) u (d_now d)] \<rparr>)"
proof -
  have "db_ok ((d\<lparr> d_next := d_next d + 1 \<rparr>)\<lparr> d_convs := d_convs (d\<lparr> d_next := d_next d + 1 \<rparr>)
      @ [new_conv_row (d_next d) u (d_now d)] \<rparr>)"
    using assms by (intro db_ok_append_conv)
      (auto simp: db_ok_next new_conv_row_def conv_row_ok_def list_all_iff)
  then show ?thesis by (simp add: conv_create_new_def andthen_run stmt_run Let_def)
qed

text \<open>The caller's empty conversation: the answer of \<open>start_new\<close>.\<close>

definition blank_for :: "user_context \<Rightarrow> db \<Rightarrow> conv_row \<Rightarrow> bool" where
  "blank_for u d c \<longleftrightarrow> c \<in> set (d_convs d) \<and> owned_by u c \<and> cv_status c = Active \<and> cv_message_count c = 0"

text \<open>Every conversation is still there with its title, status and count.\<close>

definition convs_kept :: "db \<Rightarrow> db \<Rightarrow> bool" where
  "convs_kept d d' \<longleftrightarrow> (\<forall>c \<in> set (d_convs d). \<exists>c' \<in> set (d_convs d'). cv_id c' = cv_id c \<and> cv_title c' = cv_title c
     \<and> cv_status c' = cv_status c \<and> cv_message_count c' = cv_message_count c)"

lemma start_new_run:
  assumes "db_ok d" and "list_all (\<lambda>c. cv_id c < d_next d) (d_convs d)"
    and "u_locale u \<in> set languages" and "u_tenant_code u \<noteq> []"
  shows "\<exists>c d'. start_new u d = (Inr c, d') \<and> blank_for u d' c \<and> d_msgs d' = d_msgs d \<and> d_sess d' = d_sess d
    \<and> set (d_convs d) \<subseteq> set (d_convs d')"
proof (cases "max_by cv_created_at (filter (\<lambda>c. owned_by u c \<and> cv_status c = Active \<and> cv_message_count c = 0) (d_convs d))")
  case None
  then have "start_new u d = conv_create_new u d"
    by (simp add: start_new_def find_empty_for_user_def andthen_run)
  then show ?thesis
    using conv_create_new_run[OF assms] by (auto simp: blank_for_def new_conv_row_def owned_by_def)
next
  case (Some c)
  then show ?thesis using max_by_in[OF Some]
    by (auto simp: start_new_def find_empty_for_user_def andthen_run blank_for_def)
qed

lemma convs_kept_abandoned: "convs_kept d (abandoned_db c why actor s d)"
  unfolding convs_kept_def
proof
  fix x assume "x \<in> set (d_convs d)"
  then have "(if cv_id x = c then x\<lparr> cv_pinned_agent_id := None, cv_updated_at := d_now d \<rparr> else x)
      \<in> set (d_convs (abandoned_db c why actor s d))"
    by (auto simp: abandoned_db_def Let_def set_upd_where)
  then show "\<exists>c' \<in> set (d_convs (abandoned_db c why actor s d)). cv_id c' = cv_id x \<and> cv_title c' = cv_title x
      \<and> cv_status c' = cv_status x \<and> cv_message_count c' = cv_message_count x"
    by (rule bexI[rotated]) simp
qed

lemma convs_kept_refl: "convs_kept d d"
  by (auto simp: convs_kept_def)

definition open_sessions_of :: "uuid option \<Rightarrow> db \<Rightarrow> session_row list" where
  "open_sessions_of left d = (case left of None \<Rightarrow> [] | Some c \<Rightarrow> open_sessions c d)"

text \<open>What abandoning the left conversation's session leaves of the sessions.\<close>

definition only_left_closed :: "uuid option \<Rightarrow> db \<Rightarrow> db \<Rightarrow> bool" where
  "only_left_closed left d d' \<longleftrightarrow> length (d_sess d') = length (d_sess d) \<and> open_sessions_of left d' = []
     \<and> (\<forall>r \<in> set (d_sess d). r \<in> set (d_sess d') \<or> r \<in> set (open_sessions_of left d))"

lemma find_current_now: "find_current ci u (d\<lparr> d_now := t \<rparr>) = (fst (find_current ci u d), d\<lparr> d_now := t \<rparr>)"
  by (cases ci) (auto simp: find_current_def list_recent_def list_for_user_def conv_listing_def get_scoped_def
      andthen_run Let_def split: option.splits)

lemma close_channel_run: "\<exists>p. close_channel_of env c w = (Inr (), w\<lparr> w_pool := p \<rparr>)"
proof (cases "e_pool env = None")
  case True
  then show ?thesis by (intro exI[of _ "w_pool w"]) (simp add: close_channel_of_def)
next
  case False
  then show ?thesis
    by (intro exI[of _ "(w_pool w)\<lparr> pw_pool := pool_drop c (pw_pool (w_pool w)) \<rparr>"])
      (auto simp: close_channel_of_def poolx_def pool_close_def)
qed

definition abandon_left :: "env \<Rightarrow> user_context \<Rightarrow> conv_row option \<Rightarrow> unit wact" where
  "abandon_left env u conv =
     (case conv of
        None \<Rightarrow> ret ()
      | Some c \<Rightarrow>
          andthen (dbx (abandon (cv_id c) ''reset'' (u_user_id u))) (\<lambda>abandoned.
          if abandoned = None then ret () else close_channel_of env (cv_id c)))"

lemma abandon_left_run:
  assumes "db_ok (w_db w)" and "\<not> w_aborted w" and "w_in_tx w"
  shows "\<exists>w'. abandon_left env u left w = (Inr (), w') \<and> db_ok (w_db w') \<and> \<not> w_aborted w' \<and> w_in_tx w'
    \<and> d_msgs (w_db w') = d_msgs (w_db w) \<and> d_next (w_db w') = d_next (w_db w)
    \<and> map cv_id (d_convs (w_db w')) = map cv_id (d_convs (w_db w))
    \<and> only_left_closed (map_option cv_id left) (w_db w) (w_db w') \<and> convs_kept (w_db w) (w_db w')"
proof (cases left)
  case None
  then show ?thesis using assms
    by (simp add: abandon_left_def only_left_closed_def open_sessions_of_def convs_kept_refl)
next
  case (Some c)
  note run = abandon_run[OF assms(1), of "cv_id c" "''reset''" "u_user_id u"]
  show ?thesis
  proof (cases "open_sessions (cv_id c) (w_db w)")
    case Nil
    then have "abandon_left env u left w = (Inr (), w)"
      using assms run Some by (simp add: abandon_left_def andthen_run dbx_def Let_def begin_tx_def)
    with Nil Some assms show ?thesis
      by (simp add: only_left_closed_def open_sessions_of_def convs_kept_refl)
  next
    case (Cons s ss)
    let ?d = "abandoned_db (cv_id c) ''reset'' (u_user_id u) s (w_db w)"
    obtain p where "close_channel_of env (cv_id c) (w\<lparr> w_db := ?d \<rparr>) = (Inr (), w\<lparr> w_db := ?d, w_pool := p \<rparr>)"
      using close_channel_run by fastforce
    then have "abandon_left env u left w = (Inr (), w\<lparr> w_db := ?d, w_pool := p \<rparr>)"
      using assms run Some Cons by (cases w) (simp add: abandon_left_def andthen_run dbx_def Let_def begin_tx_def)
    moreover have "only_left_closed (Some (cv_id c)) (w_db w) ?d"
      by (auto simp: only_left_closed_def open_sessions_of_def open_sessions_abandoned)
        (auto simp: abandoned_db_sess set_upd_where open_sessions_def)
    ultimately show ?thesis
      using Some assms db_ok_abandoned_db[OF assms(1)] convs_kept_abandoned
      by (simp add: abandoned_db_keys) (simp add: abandoned_db_def Let_def)
  qed
qed

lemma reset_alt: "body_conversation cid = Inr ci \<Longrightarrow> reset wb u cid =
    andthen (dbx (find_current ci u)) (\<lambda>left. andthen (abandon_left (wb_env wb) u left) (\<lambda>_.
    andthen (dbx (start_new u)) (\<lambda>new_conv.
    ret (json_response (JObj [(''status'', JStr ''success''),
      (''conversation_id'', JStr (uuid_text (cv_id new_conv)))]) 200))))"
  by (simp add: reset_def abandon_left_def)

text \<open>C25: a reset loses nothing. On a consistent database, whatever conversation the body names, the
  answer carries the id of an active, empty conversation of the caller; every message stays, every
  conversation keeps its title, status and count, and the only sessions that change are the open
  ones of the conversation being left, of which none remains.\<close>

theorem reset_loses_nothing:
  assumes "healthy w" and "ids_below (w_db w)" and "u_locale u \<in> set languages" and "u_tenant_code u \<noteq> []"
    and "body_conversation cid = Inr ci" and "fst (find_current ci u (w_db w)) = Inr left"
  shows "\<exists>c w'. reset wb u cid w = (Inr (json_response (JObj [(''status'', JStr ''success''),
        (''conversation_id'', JStr (uuid_text (cv_id c)))]) 200), w')
      \<and> blank_for u (w_db w') c \<and> d_msgs (w_db w') = d_msgs (w_db w) \<and> convs_kept (w_db w) (w_db w')
      \<and> only_left_closed (map_option cv_id left) (w_db w) (w_db w')"
proof -
  let ?v = "begin_tx w"
  have v: "db_ok (w_db ?v)" "\<not> w_aborted ?v" "w_in_tx ?v" "d_sess (w_db ?v) = d_sess (w_db w)"
    using assms(1) by (auto simp: healthy_def begin_tx_def)
  have left: "dbx (find_current ci u) w = (Inr left, ?v)"
  proof -
    have "find_current ci u (w_db ?v) = (Inr left, w_db ?v)"
      using assms(6) find_current_now[where d = "w_db w" and ci = ci and u = u] find_current_now[where d = "w_db w" and ci = ci and u = u and t = "d_now (w_db w)"]
      by (auto simp: begin_tx_def)
    then show ?thesis using v(2) by (simp add: dbx_def Let_def)
  qed
  obtain w1 where w1: "abandon_left (wb_env wb) u left ?v = (Inr (), w1)" "db_ok (w_db w1)" "\<not> w_aborted w1"
    "w_in_tx w1" "d_msgs (w_db w1) = d_msgs (w_db ?v)" "d_next (w_db w1) = d_next (w_db ?v)"
    "map cv_id (d_convs (w_db w1)) = map cv_id (d_convs (w_db ?v))"
    "only_left_closed (map_option cv_id left) (w_db ?v) (w_db w1)" "convs_kept (w_db ?v) (w_db w1)"
    using abandon_left_run[OF v(1-3)] by blast
  have "\<forall>i \<in> set (map cv_id (d_convs (w_db w))). i < d_next (w_db w)"
    using assms(2) by (auto simp: ids_below_def list_all_iff)
  then have "\<forall>i \<in> set (map cv_id (d_convs (w_db w1))). i < d_next (w_db w1)" using w1(6,7) by simp
  then have "list_all (\<lambda>c. cv_id c < d_next (w_db w1)) (d_convs (w_db w1))" by (simp add: list_all_iff)
  from start_new_run[OF w1(2) this assms(3,4)]
  obtain c d' where new: "start_new u (w_db w1) = (Inr c, d')" "blank_for u d' c" "d_msgs d' = d_msgs (w_db w1)"
    "d_sess d' = d_sess (w_db w1)" "set (d_convs (w_db w1)) \<subseteq> set (d_convs d')" by blast
  have "dbx (start_new u) w1 = (Inr c, w1\<lparr> w_db := d' \<rparr>)"
    using w1(3,4) new(1) by (cases w1) (simp add: dbx_def Let_def begin_tx_def)
  then have "reset wb u cid w = (Inr (json_response (JObj [(''status'', JStr ''success''),
        (''conversation_id'', JStr (uuid_text (cv_id c)))]) 200), w1\<lparr> w_db := d' \<rparr>)"
    using left w1(1) by (simp add: reset_alt[OF assms(5)])
  moreover have "only_left_closed (map_option cv_id left) (w_db w) d'"
    using w1(8) new(4) v(4) by (simp add: only_left_closed_def open_sessions_of_def open_sessions_def split: option.splits)
  moreover have "convs_kept (w_db w) d'"
    using w1(9) new(5) by (force simp: convs_kept_def)
  ultimately show ?thesis using new(2,3) w1(5) by (intro exI[of _ c] exI) auto
qed

lemma reset_loses_nothing_witness:
  "\<exists>c w'. blank_for sample_user (w_db w') c \<and> only_left_closed (Some 3) sample_db (w_db w')
     \<and> snd (reset sample_web sample_user (Some (uuid_text 3)) sample_world) = w'"
proof -
  have ids: "ids_below (w_db sample_world)" using sample_ids_below by (simp add: sample_world_def)
  have u: "u_locale sample_user \<in> set languages" "u_tenant_code sample_user \<noteq> []" by code_simp+
  have b: "body_conversation (Some (uuid_text 3)) = Inr (Some 3)" by code_simp
  have f: "fst (find_current (Some 3) sample_user (w_db sample_world)) = Inr (Some (hd (d_convs sample_db)))"
    by (simp add: find_current_def get_scoped_def sample_world_def sample_db_def owned_by_def new_conv_row_def
        sample_user_def)
  have "cv_id (hd (d_convs sample_db)) = 3" by (simp add: sample_db_def new_conv_row_def)
  with reset_loses_nothing[OF sample_healthy ids u b f, of sample_web] show ?thesis
    by (auto simp: sample_world_def)
qed

end
