(* ===== verification/Turn_Concurrency.thy ===== *)
theory Turn_Concurrency
  imports Turn_Properties
begin

text \<open>
  Turns of several requests at once. A worker thread runs one request on one connection; what the
  requests share of the turn lock is PostgreSQL's table of advisory locks. \<open>turn_step\<close> interleaves
  \<open>_try_lock_conversation\<close> and \<open>_unlock_conversation\<close> of any number of connections in any
  order; everything a turn does in between leaves the table alone (\<open>turn_lock_trace\<close>). Each
  connection brings its own transaction (\<open>w\<close> in the rules), which may be aborted when the turn
  ends: then the unlock fails.
\<close>

record turns =
  tn_locks :: "(nat \<times> int) list"
  tn_running :: "nat \<Rightarrow> uuid option"

definition idle_turns :: turns where
  "idle_turns = \<lparr> tn_locks = [], tn_running = (\<lambda>_. None) \<rparr>"

definition on_conn :: "turns \<Rightarrow> nat \<Rightarrow> world \<Rightarrow> world" where
  "on_conn S k w = w\<lparr> w_conn := k, w_locks := tn_locks S \<rparr>"

inductive turn_step :: "env \<Rightarrow> bool \<Rightarrow> turns \<Rightarrow> turns \<Rightarrow> bool" for env and aborts where
  granted: "tn_running S k = None \<Longrightarrow> try_lock_conversation env c (on_conn S k w) = (Inr True, w') \<Longrightarrow>
    turn_step env aborts S (S\<lparr> tn_locks := w_locks w', tn_running := (tn_running S)(k := Some c) \<rparr>)"
| refused: "tn_running S k = None \<Longrightarrow> try_lock_conversation env c (on_conn S k w) = (Inr False, w') \<Longrightarrow>
    turn_step env aborts S (S\<lparr> tn_locks := w_locks w' \<rparr>)"
| finished: "tn_running S k = Some c \<Longrightarrow> w_aborted w \<Longrightarrow> aborts \<Longrightarrow>
    turn_step env aborts S (S\<lparr> tn_locks := w_locks (unlock_conversation env c (on_conn S k w)),
      tn_running := (tn_running S)(k := None) \<rparr>)"
| finished_clean: "tn_running S k = Some c \<Longrightarrow> \<not> w_aborted w \<Longrightarrow>
    turn_step env aborts S (S\<lparr> tn_locks := w_locks (unlock_conversation env c (on_conn S k w)),
      tn_running := (tn_running S)(k := None) \<rparr>)"

section \<open>What one request does to the table\<close>

lemma try_lock_cases:
  assumes "e_postgres env" and "try_lock_conversation env c w = (r, w')"
  shows "(r = Inl InFailedTransaction \<and> w_locks w' = w_locks w)
    \<or> (r = Inr False \<and> w_locks w' = w_locks w \<and> (\<exists>k. k \<noteq> w_conn w \<and> (k, turn_lock_key env c) \<in> set (w_locks w)))
    \<or> (r = Inr True \<and> w_locks w' = (w_conn w, turn_lock_key env c) # w_locks w
        \<and> (\<forall>k. (k, turn_lock_key env c) \<in> set (w_locks w) \<longrightarrow> k = w_conn w))"
  using assms
  by (auto simp: try_lock_conversation_def Let_def list_ex_iff split: if_splits)

lemma unlock_locks:
  "w_locks (unlock_conversation env c w) =
     (if e_postgres env \<and> \<not> w_aborted w then remove1 (w_conn w, turn_lock_key env c) (w_locks w) else w_locks w)"
  by (simp add: unlock_conversation_def Let_def)

text \<open>A whole turn is one \<open>granted\<close> and one \<open>finished\<close> step, or one \<open>refused\<close> step.\<close>

lemma turn_lock_trace:
  assumes "handle_turn env ti w = (r, w')"
  shows "w_locks w' = w_locks w \<or> (\<exists>c v v' x. try_lock_conversation env c v = (Inr x, v') \<and> w_locks v = w_locks w
    \<and> (if x then \<exists>u. w' = unlock_conversation env c u \<and> w_locks u = w_locks v' \<and> w_conn u = w_conn v' else w' = v'))"
proof -
  obtain rc w1 where c: "dbx (get_or_create (ti_conversation_id ti) (ti_user ti)) w = (rc, w1)" by (meson surj_pair)
  have l1: "w_locks w1 = w_locks w" using advancesD[OF locks_dbx c] by (simp add: same_locks_def)
  show ?thesis
  proof (cases rc)
    case (Inl e)
    then have "w' = w1" using assms c by (simp add: handle_turn_def)
    with l1 show ?thesis by simp
  next
    case (Inr conv)
    obtain rl w2 where t: "try_lock_conversation env (cv_id conv) w1 = (rl, w2)" by (meson surj_pair)
    show ?thesis
    proof (cases rl)
      case (Inl e)
      then have "w' = w2" using assms c t Inr by (simp add: handle_turn_def)
      moreover have "w_locks w2 = w_locks w1"
        using t Inl by (auto simp: try_lock_conversation_def Let_def split: if_splits)
      ultimately show ?thesis using l1 by simp
    next
      case got: (Inr x)
      show ?thesis
      proof (cases x)
        case True
        then have "w' = unlock_conversation env (cv_id conv) (snd (handle_turn_locked env ti conv w2))"
          using assms handle_turn_granted c t Inr got by fastforce
        moreover have "same_locks w2 (snd (handle_turn_locked env ti conv w2))"
          using locks_locked[of env ti conv] by (simp add: advances_def)
        ultimately show ?thesis using t got True l1
          by (intro disjI2 exI[of _ "cv_id conv"] exI[of _ w1] exI[of _ w2] exI[of _ True])
            (auto simp: same_locks_def)
      next
        case False
        then have "w' = w2" using assms handle_turn_refused c t Inr got by fastforce
        then show ?thesis using t got False l1 by auto
      qed
    qed
  qed
qed

section \<open>Mutual exclusion\<close>

text \<open>Every running turn holds its key, and a key has one holder.\<close>

definition locks_sound :: "env \<Rightarrow> turns \<Rightarrow> bool" where
  "locks_sound env S \<longleftrightarrow>
     (\<forall>k c. tn_running S k = Some c \<longrightarrow> (k, turn_lock_key env c) \<in> set (tn_locks S))
     \<and> (\<forall>k key. (k, key) \<in> set (tn_locks S) \<longrightarrow> (\<forall>k'. (k', key) \<in> set (tn_locks S) \<longrightarrow> k = k'))"

lemma turn_step_sound:
  assumes "turn_step env aborts S S'" and "e_postgres env" and "locks_sound env S"
  shows "locks_sound env S'"
  using assms(1)
proof cases
  case (granted k c w w')
  then show ?thesis using try_lock_cases[OF assms(2) granted(3)] assms(3)
    unfolding locks_sound_def by (auto simp: on_conn_def)
next
  case (refused k c w w')
  then show ?thesis using try_lock_cases[OF assms(2) refused(3)] assms(3)
    unfolding locks_sound_def by (auto simp: on_conn_def)
next
  case (finished k c w)
  then show ?thesis using assms(3) unfolding locks_sound_def by (auto simp: unlock_locks on_conn_def)
next
  case (finished_clean k c w)
  have "(j, turn_lock_key env c') \<in> set (remove1 (k, turn_lock_key env c) (tn_locks S))"
    if "tn_running S j = Some c'" "j \<noteq> k" for j c'
    using that assms(3) by (auto simp: locks_sound_def)
  then have "\<forall>j c'. tn_running S' j = Some c' \<longrightarrow> (j, turn_lock_key env c') \<in> set (tn_locks S')"
    using finished_clean assms(2) by (auto simp: unlock_locks on_conn_def)
  moreover have "set (tn_locks S') \<subseteq> set (tn_locks S)"
    using finished_clean assms(2) by (simp add: unlock_locks on_conn_def set_remove1_subset)
  ultimately show ?thesis using assms(3) unfolding locks_sound_def by blast
qed

text \<open>C26: one turn per conversation. However the requests of any number of workers interleave, two
  connections never run turns of the same conversation at the same time, nor of two conversations
  whose keys hash alike, even when turns end in aborted transactions.\<close>

theorem one_turn_per_conversation:
  assumes "(turn_step env aborts)\<^sup>*\<^sup>* idle_turns S" and "e_postgres env"
    and "tn_running S k = Some c" and "tn_running S k' = Some c'" and "turn_lock_key env c = turn_lock_key env c'"
  shows "k = k'"
proof -
  have "locks_sound env S"
    using assms(1)
  proof (induction rule: rtranclp_induct)
    case base
    show ?case by (simp add: locks_sound_def idle_turns_def)
  next
    case (step T U)
    then show ?case using turn_step_sound assms(2) by blast
  qed
  then show ?thesis using assms(3-5) unfolding locks_sound_def by metis
qed

section \<open>Availability\<close>

text \<open>Without aborted transactions the table is exactly the running turns.\<close>

definition locks_exact :: "env \<Rightarrow> turns \<Rightarrow> bool" where
  "locks_exact env S \<longleftrightarrow> distinct (map fst (tn_locks S))
     \<and> (\<forall>k key. (k, key) \<in> set (tn_locks S) \<longleftrightarrow> (\<exists>c. tn_running S k = Some c \<and> key = turn_lock_key env c))"

lemma turn_step_exact:
  assumes "turn_step env False S S'" and "e_postgres env" and "locks_exact env S"
  shows "locks_exact env S'"
  using assms(1)
proof cases
  case (granted k c w w')
  then show ?thesis using try_lock_cases[OF assms(2) granted(3)] assms(3)
    unfolding locks_exact_def by (auto simp: on_conn_def)
next
  case (refused k c w w')
  then show ?thesis using try_lock_cases[OF assms(2) refused(3)] assms(3)
    unfolding locks_exact_def by (auto simp: on_conn_def)
next
  case (finished_clean k c w)
  have mem: "(k, turn_lock_key env c) \<in> set (tn_locks S)" using assms(3) finished_clean by (auto simp: locks_exact_def)
  have dist: "distinct (map fst (tn_locks S))" using assms(3) by (simp add: locks_exact_def)
  then have dl: "distinct (tn_locks S)" by (simp add: distinct_map)
  have new: "tn_locks S' = remove1 (k, turn_lock_key env c) (tn_locks S)" "tn_running S' = (tn_running S)(k := None)"
    using finished_clean assms(2) by (simp_all add: unlock_locks on_conn_def)
  have "set (tn_locks S') = set (tn_locks S) - {(k, turn_lock_key env c)}" using dl by (simp add: new)
  moreover have "distinct (map fst (tn_locks S'))"
    unfolding new(1) using dist dl mem by (auto simp: distinct_map distinct_remove1 inj_on_def dest: set_remove1_subset[THEN subsetD])
  ultimately show ?thesis using assms(3) finished_clean(2) unfolding locks_exact_def new(2) by auto
qed (simp add: assms)

text \<open>The lock is never left behind. As long as no turn ends in an aborted transaction, the table
  holds exactly one entry per running turn; so a conversation whose key no running turn has is
  granted its turn at once, on any idle connection with a usable transaction.\<close>

theorem idle_conversation_is_granted:
  assumes "(turn_step env False)\<^sup>*\<^sup>* idle_turns S" and "e_postgres env"
    and "\<forall>j c'. tn_running S j = Some c' \<longrightarrow> turn_lock_key env c' \<noteq> turn_lock_key env c"
    and "\<not> w_aborted w"
  shows "\<exists>w'. try_lock_conversation env c (on_conn S k w) = (Inr True, w')"
proof -
  have "locks_exact env S"
    using assms(1)
  proof (induction rule: rtranclp_induct)
    case base
    show ?case by (simp add: locks_exact_def idle_turns_def)
  next
    case (step T U)
    then show ?case using turn_step_exact assms(2) by blast
  qed
  then have "\<forall>j. (j, turn_lock_key env c) \<notin> set (tn_locks S)"
    using assms(3) unfolding locks_exact_def by metis
  moreover obtain r w' where run: "try_lock_conversation env c (on_conn S k w) = (r, w')" by (meson surj_pair)
  moreover have "r \<noteq> Inl InFailedTransaction"
    using run assms(4) by (auto simp: try_lock_conversation_def Let_def on_conn_def split: if_splits)
  ultimately show ?thesis using try_lock_cases[OF assms(2) run] by (auto simp: on_conn_def)
qed

section \<open>A concrete interleaving\<close>

definition one_running :: turns where
  "one_running = \<lparr> tn_locks = [(1, turn_lock_key sample_env 3)], tn_running = (\<lambda>_. None)(1 := Some 3) \<rparr>"

lemma one_running_reached: "(turn_step sample_env aborts)\<^sup>*\<^sup>* idle_turns one_running"
proof -
  have "try_lock_conversation sample_env 3 (on_conn idle_turns 1 sample_world)
      = (Inr True, (begin_tx (on_conn idle_turns 1 sample_world))\<lparr> w_locks := [(1, turn_lock_key sample_env 3)] \<rparr>)"
    by (simp add: try_lock_conversation_def on_conn_def idle_turns_def sample_world_def sample_env_def Let_def)
  from turn_step.granted[OF _ this, of aborts] show ?thesis
    by (intro r_into_rtranclp) (simp add: idle_turns_def one_running_def)
qed

lemma one_turn_per_conversation_witness: "{k. tn_running one_running k = Some 3} = {1}"
proof -
  have one: "tn_running one_running 1 = Some 3" by (simp add: one_running_def)
  have "k = 1" if "tn_running one_running k = Some 3" for k
    using one_turn_per_conversation[OF one_running_reached _ that one refl] by (simp add: sample_env_def)
  then show ?thesis using one by blast
qed

lemma idle_conversation_is_granted_witness:
  "\<exists>w'. try_lock_conversation sample_env 7 (on_conn one_running 2 sample_world) = (Inr True, w')"
proof -
  have "turn_lock_key sample_env 3 \<noteq> turn_lock_key sample_env 7" by code_simp
  then have "\<forall>j c'. tn_running one_running j = Some c' \<longrightarrow> turn_lock_key sample_env c' \<noteq> turn_lock_key sample_env 7"
    by (simp add: one_running_def)
  from idle_conversation_is_granted[OF one_running_reached _ this] show ?thesis
    by (simp add: sample_env_def sample_world_def)
qed

text \<open>The lock of a turn that ended in an aborted transaction stays with its pooled connection: the
  conversation is refused on every other one, although no turn is running.\<close>

lemma aborted_turn_keeps_its_lock:
  "\<exists>S. (turn_step sample_env True)\<^sup>*\<^sup>* idle_turns S \<and> tn_running S = (\<lambda>_. None)
     \<and> fst (try_lock_conversation sample_env 3 (on_conn S 2 sample_world)) = Inr False"
proof -
  let ?w = "sample_world\<lparr> w_aborted := True \<rparr>"
  let ?S = "one_running\<lparr> tn_locks := w_locks (unlock_conversation sample_env 3 (on_conn one_running 1 ?w)),
      tn_running := (tn_running one_running)(1 := None) \<rparr>"
  have "turn_step sample_env True one_running ?S"
    by (intro turn_step.finished) (simp_all add: one_running_def)
  then have "(turn_step sample_env True)\<^sup>*\<^sup>* idle_turns ?S"
    by (rule rtranclp.rtrancl_into_rtrancl[OF one_running_reached])
  moreover have "tn_locks ?S = [(1, turn_lock_key sample_env 3)]" "tn_running ?S = (\<lambda>_. None)"
    by (auto simp: unlock_locks on_conn_def one_running_def)
  then have "fst (try_lock_conversation sample_env 3 (on_conn ?S 2 sample_world)) = Inr False"
    by (simp add: try_lock_conversation_def on_conn_def sample_world_def sample_env_def Let_def turn_lock_key_def)
  ultimately show ?thesis using \<open>tn_running ?S = (\<lambda>_. None)\<close> by blast
qed

end
