(* ===== verification/Config_Sync.thy ===== *)
theory Config_Sync
  imports Agent_Registry Rest_Client
begin

text \<open>
  \<open>services/config_sync.py\<close>: the reconciliation of the agents' YAML files with the database at
  startup. A file is its name, what \<open>yaml.safe_load\<close> makes of it and, once validated, its
  specification; the files come sorted by path. \<open>Inl\<close> results are exceptions, which abort the
  startup and roll the transaction back.

  A query without \<open>ORDER BY\<close> yields the first matching row of the table, which is one of the rows
  PostgreSQL may return.
\<close>

datatype sync_mode = Sync_safe | Sync_force | Sync_off

record sync_report =
  sy_created :: "string list"
  sy_updated :: "string list"
  sy_unchanged :: "string list"
  sy_drifted :: "string list"
  sy_orphaned :: "string list"

definition empty_report :: sync_report where
  "empty_report = \<lparr> sy_created = [], sy_updated = [], sy_unchanged = [], sy_drifted = [], sy_orphaned = [] \<rparr>"

text \<open>The service's collaborators: the tool registry (\<open>None\<close> when there is none), Mitra's switch and
  paths, \<open>os.environ\<close>, Pydantic and SHA-256.\<close>

record sync_cfg =
  sc_tools :: "string list option"
  sc_mitra :: bool
  sc_paths :: mitra_paths
  sc_environ :: "string \<Rightarrow> string option"
  sc_validate :: validator
  sc_sha :: "string \<Rightarrow> string"

type_synonym yaml_file = "string \<times> json"
type_synonym spec_file = "string \<times> json \<times> agent_spec"

section \<open>The invariants checked before any write\<close>

fun unique_from :: "string list \<Rightarrow> string list \<Rightarrow> exc + unit" where
  "unique_from seen [] = Inr ()"
| "unique_from seen (x # xs) =
     (if x \<in> set seen then Inl (ValueError (''Duplicate item found: '' @ x)) else unique_from (x # seen) xs)"

definition assert_unique :: "string list \<Rightarrow> exc + unit" where
  "assert_unique items = unique_from [] items"

definition exactly_one :: "'a list \<Rightarrow> exc + unit" where
  "exactly_one items = (if length items = 1 then Inr ()
     else Inl (ValueError (''Expected exactly 1 item, got '' @ show_int (int (length items)))))"

fun parse_files :: "validator \<Rightarrow> yaml_file list \<Rightarrow> exc + spec_file list" where
  "parse_files validate [] = Inr []"
| "parse_files validate ((path, raw) # fs) =
     (case validate raw of
        None \<Rightarrow> Inl (ValueError ''validation error'')
      | Some sp \<Rightarrow> (case parse_files validate fs of Inl e \<Rightarrow> Inl e | Inr rest \<Rightarrow> Inr ((path, raw, sp) # rest)))"

definition spec_of :: "spec_file \<Rightarrow> base_spec" where
  "spec_of f = spec_base (snd (snd f))"

definition check_spec :: "sync_cfg \<Rightarrow> agent_spec \<Rightarrow> exc + unit" where
  "check_spec cfg sp =
     (case sp of
        LlmAgentSpec b l \<Rightarrow>
          (case sc_tools cfg of
             None \<Rightarrow> Inr ()
           | Some known \<Rightarrow> (let missing = filter (\<lambda>n. n \<notin> set known) (ll_tools l) in
               if missing \<noteq> [] then Inl (UnknownTool (join '', '' missing)) else Inr ()))
      | RemoteFlowAgentSpec b r \<Rightarrow>
          if \<not> sc_mitra cfg then Inr ()
          else if sc_environ cfg (rm_bot_route_env r) = None \<or> sc_environ cfg (rm_bot_route_env r) = Some []
            then Inl AssertionError
          else if \<not> is_known_finalize (sc_paths cfg) (rm_finalize_path r) then Inl AssertionError
          else Inr ())"

fun check_specs :: "sync_cfg \<Rightarrow> spec_file list \<Rightarrow> exc + unit" where
  "check_specs cfg [] = Inr ()"
| "check_specs cfg (f # fs) = (case check_spec cfg (snd (snd f)) of Inl e \<Rightarrow> Inl e | Inr _ \<Rightarrow> check_specs cfg fs)"

definition check_files :: "sync_cfg \<Rightarrow> spec_file list \<Rightarrow> exc + unit" where
  "check_files cfg fs =
     (case assert_unique (map (\<lambda>f. sp_key (spec_of f)) fs) of
        Inl e \<Rightarrow> Inl e
      | Inr _ \<Rightarrow>
          (case assert_unique (map (\<lambda>f. sp_name (spec_of f)) fs) of
             Inl e \<Rightarrow> Inl e
           | Inr _ \<Rightarrow>
               (case (let ds = filter (\<lambda>f. sp_default (spec_of f)) fs in if ds = [] then Inr () else exactly_one ds) of
                  Inl e \<Rightarrow> Inl e
                | Inr _ \<Rightarrow> check_specs cfg fs)))"

section \<open>Statements\<close>

definition upd_agents :: "(agent_row \<Rightarrow> bool) \<Rightarrow> (agent_row \<Rightarrow> agent_row) \<Rightarrow> unit dbact" where
  "upd_agents p f = stmt (\<lambda>d. d\<lparr> d_agents := upd_where p (\<lambda>a. (f a)\<lparr> ag_updated_at := d_now d \<rparr>) (d_agents d) \<rparr>)"

definition upd_cfgs :: "(config_row \<Rightarrow> bool) \<Rightarrow> (db \<Rightarrow> config_row \<Rightarrow> config_row) \<Rightarrow> unit dbact" where
  "upd_cfgs p f = stmt (\<lambda>d. d\<lparr> d_cfgs := upd_where p (f d) (d_cfgs d) \<rparr>)"

text \<open>\<open>INSERT INTO agent_configs\<close> without a scope: the columns default to the default scope.\<close>

definition insert_config :: "uuid \<Rightarrow> int \<Rightarrow> config_source \<Rightarrow> string \<Rightarrow> json \<Rightarrow> bool \<Rightarrow> unit dbact" where
  "insert_config a v src chk raw act =
     andthen fresh_id (\<lambda>i.
     stmt (\<lambda>d. d\<lparr> d_cfgs := d_cfgs d @ [\<lparr> cf_id = i, cf_agent_id = a, cf_tenant_id = default_scope,
       cf_organization_id = default_scope, cf_version = v, cf_source = src, cf_checksum = chk, cf_config = raw,
       cf_is_active = act, cf_activated_at = (if act then Some (d_now d) else None),
       cf_created_by = ''startup-sync'', cf_created_at = d_now d \<rparr>] \<rparr>))"

definition deactivate :: "(config_row \<Rightarrow> bool) \<Rightarrow> unit dbact" where
  "deactivate p = upd_cfgs p (\<lambda>d c. c\<lparr> cf_is_active := False \<rparr>)"

definition activate_version :: "uuid \<Rightarrow> int \<Rightarrow> unit dbact" where
  "activate_version a v = upd_cfgs (\<lambda>c. cf_agent_id c = a \<and> cf_version c = v)
     (\<lambda>d c. c\<lparr> cf_is_active := True, cf_activated_at := Some (d_now d) \<rparr>)"

definition configs_of :: "uuid \<Rightarrow> db \<Rightarrow> config_row list" where
  "configs_of a d = filter (\<lambda>c. cf_agent_id c = a) (d_cfgs d)"

definition latest_yaml :: "uuid \<Rightarrow> db \<Rightarrow> config_row option" where
  "latest_yaml a d = max_by cf_version (filter (\<lambda>c. cf_source c = Src_yaml) (configs_of a d))"

definition active_config :: "uuid \<Rightarrow> db \<Rightarrow> config_row option" where
  "active_config a d = find cf_is_active (configs_of a d)"

text \<open>\<open>COALESCE(MAX(version), 0) + 1\<close>.\<close>

definition next_version :: "uuid \<Rightarrow> db \<Rightarrow> int" where
  "next_version a d = (case max_by cf_version (configs_of a d) of None \<Rightarrow> 0 | Some c \<Rightarrow> cf_version c) + 1"

section \<open>One agent\<close>

definition effective_status :: "sync_cfg \<Rightarrow> agent_spec \<Rightarrow> agent_status" where
  "effective_status cfg sp =
     (if (spec_type sp = Llm \<or> sc_mitra cfg) \<and> sp_enabled (spec_base sp) then Enabled else Disabled)"

definition audit_config :: "audit_action \<Rightarrow> uuid \<Rightarrow> json option \<Rightarrow> json option \<Rightarrow> string option \<Rightarrow> unit dbact" where
  "audit_config act a bef aft note = audit_insert act ''agent_configuration'' (Some a) ''system''
     (map_option Au_json bef) (map_option Au_json aft) note"

definition create_agent :: "sync_cfg \<Rightarrow> spec_file \<Rightarrow> string \<Rightarrow> unit dbact" where
  "create_agent cfg f chk = (case f of (path, raw, sp) \<Rightarrow> let b = spec_base sp in
     andthen fresh_id (\<lambda>i.
     andthen (stmt (\<lambda>d. d\<lparr> d_agents := d_agents d @ [\<lparr> ag_id = i, ag_tenant_id = default_scope,
        ag_organization_id = default_scope, ag_key = sp_key b, ag_name = sp_name b,
        ag_description = sp_description b, ag_agent_type = spec_type sp, ag_status = effective_status cfg sp,
        ag_is_default = sp_default b, ag_sort_order = sp_sort_order b, ag_icon = None,
        ag_updated_at = d_now d \<rparr>] \<rparr>)) (\<lambda>_.
     andthen (insert_config i 1 Src_yaml chk raw True) (\<lambda>_.
     audit_config Config_sync i None (Some raw) (Some (''created from '' @ path))))))"

text \<open>The identity columns follow the YAML; the status only for a remote-flow agent.\<close>

definition follow_yaml :: "sync_cfg \<Rightarrow> agent_spec \<Rightarrow> uuid \<Rightarrow> unit dbact" where
  "follow_yaml cfg sp a = (let b = spec_base sp in
     andthen (upd_agents (\<lambda>r. ag_id r = a) (\<lambda>r. r\<lparr> ag_name := sp_name b, ag_description := sp_description b,
        ag_agent_type := spec_type sp, ag_sort_order := sp_sort_order b \<rparr>)) (\<lambda>_.
     if spec_type sp = Remote_flow
     then upd_agents (\<lambda>r. ag_id r = a) (\<lambda>r. r\<lparr> ag_status := effective_status cfg sp \<rparr>)
     else ret ()))"

datatype sync_outcome = Created | Updated | Unchanged | Drifted

definition vtext :: "config_row \<Rightarrow> string" where
  "vtext c = CHR ''v'' # show_int (cf_version c)"

text \<open>The YAML is the one synced last: only an active database override needs attention.\<close>

definition unchanged_yaml ::
  "sync_mode \<Rightarrow> uuid \<Rightarrow> json \<Rightarrow> config_row \<Rightarrow> config_row option \<Rightarrow> sync_outcome dbact" where
  "unchanged_yaml mode a raw latest active =
     (case active of
        None \<Rightarrow> ret Unchanged
      | Some c \<Rightarrow>
          if cf_source c \<noteq> Src_db then ret Unchanged
          else if mode = Sync_force then
            andthen (deactivate (\<lambda>r. cf_agent_id r = a \<and> cf_version r \<noteq> cf_version latest)) (\<lambda>_.
            andthen (activate_version a (cf_version latest)) (\<lambda>_.
            andthen (audit_config Config_activate a (Some (cf_config c)) (Some raw)
               (Some (''force mode: discarded db override '' @ vtext c @ ''; reactivated yaml '' @ vtext latest))) (\<lambda>_.
            ret Updated)))
          else
            andthen (audit_config Config_sync a None (Some (cf_config c))
               (Some (''drift: db override '' @ vtext c @ '' retained (yaml '' @ vtext latest @ '' unchanged)''))) (\<lambda>_.
            ret Drifted))"

definition changed_yaml ::
  "sync_mode \<Rightarrow> uuid \<Rightarrow> json \<Rightarrow> string \<Rightarrow> config_row option \<Rightarrow> sync_outcome dbact" where
  "changed_yaml mode a raw chk active =
     (let adopt = (mode = Sync_force \<or> (case active of None \<Rightarrow> True | Some c \<Rightarrow> cf_source c = Src_yaml)) in
      andthen (asks (next_version a)) (\<lambda>v.
      andthen (if adopt then deactivate (\<lambda>r. cf_agent_id r = a \<and> cf_is_active r) else ret ()) (\<lambda>_.
      andthen (insert_config a v Src_yaml chk raw adopt) (\<lambda>_.
      if adopt then
        andthen (audit_config Config_activate a (map_option cf_config active) (Some raw) None) (\<lambda>_. ret Updated)
      else
        andthen (audit_config Config_sync a None (Some raw) (Some (''drift: yaml v'' @ show_int v
           @ '' stored INACTIVE; db override '' @ (case active of None \<Rightarrow> [] | Some c \<Rightarrow> vtext c) @ '' retained'')))
          (\<lambda>_. ret Drifted)))))"

definition sync_agent :: "sync_cfg \<Rightarrow> sync_mode \<Rightarrow> spec_file \<Rightarrow> sync_outcome dbact" where
  "sync_agent cfg mode f = (case f of (path, raw, sp) \<Rightarrow>
     let chk = snd (canonical_json (sc_sha cfg) raw) in
     andthen (asks (\<lambda>d. find (\<lambda>a. ag_key a = sp_key (spec_base sp)) (d_agents d))) (\<lambda>found.
     case found of
       None \<Rightarrow> andthen (create_agent cfg f chk) (\<lambda>_. ret Created)
     | Some row \<Rightarrow>
         andthen (follow_yaml cfg sp (ag_id row)) (\<lambda>_.
         andthen (asks (latest_yaml (ag_id row))) (\<lambda>latest.
         andthen (asks (active_config (ag_id row))) (\<lambda>active.
         case latest of
           None \<Rightarrow> changed_yaml mode (ag_id row) raw chk active
         | Some l \<Rightarrow> if cf_checksum l = chk then unchanged_yaml mode (ag_id row) raw l active
                     else changed_yaml mode (ag_id row) raw chk active)))))"

definition note_outcome :: "string \<Rightarrow> sync_outcome \<Rightarrow> sync_report \<Rightarrow> sync_report" where
  "note_outcome key x rep =
     (case x of
        Created \<Rightarrow> rep\<lparr> sy_created := sy_created rep @ [key] \<rparr>
      | Updated \<Rightarrow> rep\<lparr> sy_updated := sy_updated rep @ [key] \<rparr>
      | Unchanged \<Rightarrow> rep\<lparr> sy_unchanged := sy_unchanged rep @ [key] \<rparr>
      | Drifted \<Rightarrow> rep\<lparr> sy_drifted := sy_drifted rep @ [key] \<rparr>)"

fun sync_agents :: "sync_cfg \<Rightarrow> sync_mode \<Rightarrow> spec_file list \<Rightarrow> sync_report \<Rightarrow> sync_report dbact" where
  "sync_agents cfg mode [] rep = ret rep"
| "sync_agents cfg mode (f # fs) rep =
     andthen (sync_agent cfg mode f) (\<lambda>x. sync_agents cfg mode fs (note_outcome (sp_key (spec_of f)) x rep))"

section \<open>Orphans\<close>

definition orphans :: "string list \<Rightarrow> db \<Rightarrow> agent_row list" where
  "orphans keys d = filter (\<lambda>a. ag_key a \<notin> set keys
     \<and> list_ex (\<lambda>c. cf_source c = Src_yaml \<and> cf_is_active c) (configs_of (ag_id a) d)) (d_agents d)"

definition disable_orphan :: "agent_row \<Rightarrow> unit dbact" where
  "disable_orphan a =
     andthen (upd_agents (\<lambda>r. ag_id r = ag_id a) (\<lambda>r. r\<lparr> ag_status := Disabled \<rparr>)) (\<lambda>_.
     audit_insert Agent_disable ''agent'' (Some (ag_id a)) ''system'' None None (Some ''yaml file removed''))"

definition sync_orphans :: "string list \<Rightarrow> sync_report \<Rightarrow> sync_report dbact" where
  "sync_orphans keys rep =
     andthen (asks (orphans keys)) (\<lambda>os.
     andthen (each disable_orphan os) (\<lambda>_.
     ret (rep\<lparr> sy_orphaned := sy_orphaned rep @ map ag_key os \<rparr>)))"

section \<open>The whole sync\<close>

definition sync :: "sync_cfg \<Rightarrow> sync_mode \<Rightarrow> yaml_file list \<Rightarrow> sync_report dbact" where
  "sync cfg mode files =
     (if mode = Sync_off then ret empty_report
      else
        andthen (of_sum (parse_files (sc_validate cfg) files)) (\<lambda>fs.
        andthen (of_sum (check_files cfg fs)) (\<lambda>_.
        andthen (sync_agents cfg mode fs empty_report) (\<lambda>rep.
        sync_orphans (map (\<lambda>f. sp_key (spec_of f)) fs) rep))))"

end
