(* ===== verification/Config_Sync_Properties.thy ===== *)
theory Config_Sync_Properties
  imports Config_Sync Session_Service
begin

text \<open>
  What the startup sync guarantees: nothing is written unless the whole set of files is
  consistent (the reference predicate \<open>consistent\<close>), a changed file yields one new version and at
  most one active configuration, a safe sync never displaces a database override, and repeating a
  sync changes nothing.
\<close>

section \<open>The checks\<close>

lemma unique_from_iff:
  "unique_from seen xs = Inr () \<longleftrightarrow> distinct xs \<and> set xs \<inter> set seen = {}"
  by (induction seen xs rule: unique_from.induct) auto

lemma assert_unique_iff: "assert_unique xs = Inr () \<longleftrightarrow> distinct xs"
  by (simp add: assert_unique_def unique_from_iff)

lemma guard_iff: "(case r of Inl e \<Rightarrow> Inl e | Inr _ \<Rightarrow> k) = Inr () \<longleftrightarrow> r = Inr () \<and> k = Inr ()"
  by (cases r) auto

text \<open>What a specification must satisfy in this deployment.\<close>

fun deployable :: "sync_cfg \<Rightarrow> agent_spec \<Rightarrow> bool" where
  "deployable cfg (LlmAgentSpec b l) =
     (case sc_tools cfg of None \<Rightarrow> True | Some known \<Rightarrow> set (ll_tools l) \<subseteq> set known)"
| "deployable cfg (RemoteFlowAgentSpec b r) =
     (\<not> sc_mitra cfg \<or> sc_environ cfg (rm_bot_route_env r) \<notin> {None, Some []}
        \<and> is_known_finalize (sc_paths cfg) (rm_finalize_path r))"

definition consistent :: "sync_cfg \<Rightarrow> spec_file list \<Rightarrow> bool" where
  "consistent cfg fs \<longleftrightarrow> distinct (map (\<lambda>f. sp_key (spec_of f)) fs)
     \<and> distinct (map (\<lambda>f. sp_name (spec_of f)) fs)
     \<and> length (filter (\<lambda>f. sp_default (spec_of f)) fs) \<le> 1
     \<and> list_all (\<lambda>f. deployable cfg (snd (snd f))) fs"

lemma check_spec_iff: "check_spec cfg sp = Inr () \<longleftrightarrow> deployable cfg sp"
  by (cases sp) (auto simp: check_spec_def Let_def filter_empty_conv subset_iff split: option.splits)

lemma check_specs_iff: "check_specs cfg fs = Inr () \<longleftrightarrow> list_all (\<lambda>f. deployable cfg (snd (snd f))) fs"
proof (induction fs)
  case (Cons f fs)
  show ?case using check_spec_iff[of cfg "snd (snd f)"] Cons.IH
    by (cases "check_spec cfg (snd (snd f))") auto
qed simp

lemma exactly_one_iff: "exactly_one xs = Inr () \<longleftrightarrow> length xs = 1"
  by (simp add: exactly_one_def)

lemma length_le_one_iff: "length xs \<le> 1 \<longleftrightarrow> xs = [] \<or> length xs = 1"
  by (cases xs) auto

lemma check_files_iff: "check_files cfg fs = Inr () \<longleftrightarrow> consistent cfg fs"
  unfolding check_files_def consistent_def Let_def length_le_one_iff guard_iff
  by (simp add: assert_unique_iff check_specs_iff exactly_one_iff)

text \<open>C27: an inconsistent set of files is refused before anything is written: with two agents of one
  key or one name, two defaults, an unknown tool, or a remote flow whose bot route or finalisation
  path is not configured, the sync fails and the database is untouched. These are the only files
  the checks refuse.\<close>

theorem inconsistent_files_write_nothing:
  assumes "mode \<noteq> Sync_off" and "parse_files (sc_validate cfg) files = Inr fs"
  shows "(\<exists>e. check_files cfg fs = Inl e \<and> sync cfg mode files d = (Inl e, d)) \<longleftrightarrow> \<not> consistent cfg fs"
  using assms check_files_iff[of cfg fs]
  by (cases "check_files cfg fs") (auto simp: sync_def andthen_run)

definition sync_sample :: sync_cfg where
  "sync_sample = \<lparr> sc_tools = Some [''search''], sc_mitra = False, sc_paths = default_paths,
     sc_environ = (\<lambda>x. None), sc_validate = (\<lambda>j. Some sample_llm), sc_sha = id \<rparr>"

lemma inconsistent_files_write_nothing_witness:
  "\<exists>e. sync sync_sample Sync_safe [(''a.yaml'', JNull), (''b.yaml'', JNull)] sample_db = (Inl e, sample_db)"
proof -
  let ?fs = "[(''a.yaml'', JNull, sample_llm), (''b.yaml'', JNull, sample_llm)]"
  have "parse_files (sc_validate sync_sample) [(''a.yaml'', JNull), (''b.yaml'', JNull)] = Inr ?fs" by code_simp
  moreover have "\<not> consistent sync_sample ?fs" by code_simp
  ultimately show ?thesis
    using inconsistent_files_write_nothing[of Sync_safe sync_sample "[(''a.yaml'', JNull), (''b.yaml'', JNull)]" ?fs sample_db]
    by auto
qed

section \<open>A changed file\<close>

definition shape_ok :: "json \<Rightarrow> bool" where
  "shape_ok j = (case j of
       JObj kvs \<Rightarrow> has_key kvs ''agent_type'' \<and> has_key kvs ''key'' \<and> has_key kvs ''name''
     | JList vs \<Rightarrow> list_all (\<lambda>k. JStr k \<in> set vs) [''agent_type'', ''key'', ''name'']
     | _ \<Rightarrow> False)"

lemma config_row_ok_iff:
  "config_row_ok c \<longleftrightarrow> 0 < cf_version c \<and> (cf_is_active c \<longrightarrow> cf_activated_at c \<noteq> None) \<and> shape_ok (cf_config c)"
  by (simp add: config_row_ok_def shape_ok_def)

lemma db_ok_set_cfgs: "db_ok d \<Longrightarrow> cfgs_ok (d\<lparr> d_cfgs := cs \<rparr>) \<Longrightarrow> db_ok (d\<lparr> d_cfgs := cs \<rparr>)"
  by (simp add: db_ok_def convs_ok_def msgs_ok_def sess_ok_def tools_ok_def agents_ok_def caps_ok_def)

definition active_of :: "uuid \<Rightarrow> db \<Rightarrow> config_row list" where
  "active_of a d = filter cf_is_active (configs_of a d)"

lemma next_version_above: "c \<in> set (configs_of a d) \<Longrightarrow> cf_version c < next_version a d"
  by (auto simp: next_version_def zless_add1_eq dest: max_by_ge split: option.split)

lemma next_version_pos:
  assumes "db_ok d"
  shows "0 < next_version a d"
proof (cases "max_by cf_version (configs_of a d)")
  case (Some c)
  then have "c \<in> set (d_cfgs d)" using max_by_in by (fastforce simp: configs_of_def)
  then have "0 < cf_version c" using assms by (simp add: db_ok_def cfgs_ok_def list_all_iff config_row_ok_iff)
  then show ?thesis using Some by (simp add: next_version_def)
qed (simp add: next_version_def)

lemma cfgs_ok_deactivate:
  assumes ok: "cfgs_ok d"
  shows "cfgs_ok (d\<lparr> d_cfgs := upd_where p (\<lambda>c. c\<lparr> cf_is_active := False \<rparr>) (d_cfgs d) \<rparr>)"
proof -
  let ?f = "\<lambda>c :: config_row. c\<lparr> cf_is_active := False \<rparr>"
  have "distinct (map cfg_scope (filter cf_is_active (upd_where p ?f (d_cfgs d))))"
    by (rule distinct_map_filter_upd) (use ok in \<open>simp_all add: cfgs_ok_def\<close>)
  moreover have "list_all config_row_ok (upd_where p ?f (d_cfgs d))"
    using ok by (simp add: cfgs_ok_def list_all_iff ball_upd_where config_row_ok_iff)
  moreover have "list_all (\<lambda>c. cf_agent_id c \<in> set (map ag_id (d_agents d))) (upd_where p ?f (d_cfgs d))"
    using ok by (simp add: cfgs_ok_def list_all_iff ball_upd_where)
  ultimately show ?thesis using ok by (simp add: cfgs_ok_def map_upd_where)
qed

lemma db_ok_deactivate:
  "db_ok d \<Longrightarrow> db_ok (d\<lparr> d_cfgs := upd_where p (\<lambda>c. c\<lparr> cf_is_active := False \<rparr>) (d_cfgs d) \<rparr>)"
  by (rule db_ok_set_cfgs) (simp_all add: cfgs_ok_deactivate db_ok_def)

lemma deactivate_run:
  "db_ok d \<Longrightarrow> deactivate p d = (Inr (), d\<lparr> d_cfgs := upd_where p (\<lambda>c. c\<lparr> cf_is_active := False \<rparr>) (d_cfgs d) \<rparr>)"
  by (simp add: deactivate_def upd_cfgs_def stmt_run db_ok_deactivate)

text \<open>The row \<open>insert_config\<close> adds.\<close>

definition fresh_config :: "db \<Rightarrow> uuid \<Rightarrow> int \<Rightarrow> config_source \<Rightarrow> string \<Rightarrow> json \<Rightarrow> bool \<Rightarrow> config_row" where
  "fresh_config d a v src chk raw act = \<lparr> cf_id = d_next d, cf_agent_id = a, cf_tenant_id = default_scope,
     cf_organization_id = default_scope, cf_version = v, cf_source = src, cf_checksum = chk, cf_config = raw,
     cf_is_active = act, cf_activated_at = (if act then Some (d_now d) else None),
     cf_created_by = ''startup-sync'', cf_created_at = d_now d \<rparr>"

lemma cfgs_ok_append:
  assumes ok: "cfgs_ok d" and "config_row_ok c" and "cf_id c \<notin> cf_id ` set (d_cfgs d)"
    and "cf_agent_id c \<in> ag_id ` set (d_agents d)"
    and v: "\<And>x. x \<in> set (configs_of (cf_agent_id c) d) \<Longrightarrow> cf_version x < cf_version c"
    and act: "cf_is_active c \<Longrightarrow> active_of (cf_agent_id c) d = []"
  shows "cfgs_ok (d\<lparr> d_cfgs := d_cfgs d @ [c] \<rparr>)"
proof -
  have "(cfg_scope c, cf_version c) \<notin> set (map (\<lambda>c. (cfg_scope c, cf_version c)) (d_cfgs d))"
    using v by (force simp: configs_of_def)
  moreover have "cf_is_active c \<Longrightarrow> cfg_scope c \<notin> set (map cfg_scope (filter cf_is_active (d_cfgs d)))"
    using act by (force simp: active_of_def configs_of_def filter_empty_conv)
  ultimately show ?thesis using assms(1-4) by (simp add: cfgs_ok_def)
qed

lemma insert_config_run:
  assumes "db_ok d" and "ids_below d" and "a \<in> ag_id ` set (d_agents d)" and "shape_ok raw"
    and v: "0 < v" "\<And>c. c \<in> set (configs_of a d) \<Longrightarrow> cf_version c < v"
    and act: "act \<Longrightarrow> active_of a d = []"
  shows "insert_config a v src chk raw act d =
    (Inr (), d\<lparr> d_next := d_next d + 1, d_cfgs := d_cfgs d @ [fresh_config d a v src chk raw act] \<rparr>)"
    and "db_ok (d\<lparr> d_next := d_next d + 1, d_cfgs := d_cfgs d @ [fresh_config d a v src chk raw act] \<rparr>)"
proof -
  let ?c = "fresh_config d a v src chk raw act"
  have "d_next d \<notin> cf_id ` set (d_cfgs d)" using assms(2) by (auto simp: ids_below_def list_all_iff)
  then have "cfgs_ok (d\<lparr> d_cfgs := d_cfgs d @ [?c] \<rparr>)"
    using assms by (intro cfgs_ok_append) (simp_all add: db_ok_def fresh_config_def config_row_ok_iff)
  then have "db_ok (d\<lparr> d_cfgs := d_cfgs d @ [?c] \<rparr>)" by (rule db_ok_set_cfgs[OF assms(1)])
  then show ok: "db_ok (d\<lparr> d_next := d_next d + 1, d_cfgs := d_cfgs d @ [?c] \<rparr>)"
    by (subst db_ok_cong[of _ "d\<lparr> d_cfgs := d_cfgs d @ [?c] \<rparr>"]) simp_all
  then show "insert_config a v src chk raw act d = (Inr (), d\<lparr> d_next := d_next d + 1, d_cfgs := d_cfgs d @ [?c] \<rparr>)"
    unfolding insert_config_def andthen_run fresh_id_run fresh_config_def
    by (cases act) (simp_all add: stmt_run)
qed

lemma noted: "db_ok d \<Longrightarrow> \<exists>as. andthen (audit_config act a b f n) (\<lambda>_. ret x) d = (Inr x, d\<lparr> d_audit := as \<rparr>)"
  by (simp add: audit_config_def andthen_run audit_insert_run) blast



section \<open>What one agent's sync leaves alone\<close>

text \<open>The rows and configurations of every agent other than \<open>a\<close>.\<close>

definition frame :: "uuid \<Rightarrow> db \<Rightarrow> db \<Rightarrow> bool" where
  "frame a d d' \<longleftrightarrow> filter (\<lambda>r. ag_id r \<noteq> a) (d_agents d') = filter (\<lambda>r. ag_id r \<noteq> a) (d_agents d)
     \<and> filter (\<lambda>c. cf_agent_id c \<noteq> a) (d_cfgs d') = filter (\<lambda>c. cf_agent_id c \<noteq> a) (d_cfgs d)"

interpretation framed: progress "frame a" for a
  by unfold_locales (auto simp: frame_def)

lemma stmt_advances: "(\<And>d. R d d) \<Longrightarrow> (\<And>d. R d (f d)) \<Longrightarrow> advances R (stmt f)"
  by (simp add: advances_def stmt_def)

lemma filter_upd_where_out: "(\<And>r. p r \<Longrightarrow> \<not> q r \<and> \<not> q (f r)) \<Longrightarrow> filter q (upd_where p f rs) = filter q rs"
  by (induction rs) auto

lemma upd_agents_frame:
  "(\<And>r. ag_id (f r) = ag_id r) \<Longrightarrow> advances (frame a) (upd_agents (\<lambda>r. ag_id r = a) f)"
  unfolding upd_agents_def by (rule stmt_advances) (simp_all add: frame_def filter_upd_where_out)

lemma upd_cfgs_frame:
  "(\<And>c. p c \<Longrightarrow> cf_agent_id c = a) \<Longrightarrow> (\<And>d c. cf_agent_id (f d c) = cf_agent_id c) \<Longrightarrow>
   advances (frame a) (upd_cfgs p f)"
  unfolding upd_cfgs_def by (rule stmt_advances) (simp_all add: frame_def filter_upd_where_out)

lemma fresh_id_frame: "advances (frame a) fresh_id"
  by (simp add: advances_def frame_def)

lemma audit_frame: "advances (frame a) (audit_insert act et ei ac bef aft n)"
  unfolding audit_insert_def by (rule stmt_advances) (simp_all add: frame_def)

lemma insert_config_frame: "advances (frame a) (insert_config a v src chk raw act)"
  unfolding insert_config_def
  by (intro framed.adv_andthen fresh_id_frame stmt_advances) (simp_all add: frame_def)

lemma one_agent_frame:
  "advances (frame a) (follow_yaml cfg sp a)"
  "advances (frame a) (unchanged_yaml mode a raw l act)"
  "advances (frame a) (changed_yaml mode a raw chk act)"
  unfolding follow_yaml_def unchanged_yaml_def changed_yaml_def deactivate_def activate_version_def audit_config_def
    Let_def
  by (intro framed.adv upd_agents_frame upd_cfgs_frame audit_frame insert_config_frame; simp)+

lemma create_agent_frame:
  assumes "create_agent cfg f chk d = (r, d')"
  shows "\<exists>b. b \<notin> ag_id ` set (d_agents d) \<and> frame b d d'"
proof (cases "d_next d \<in> ag_id ` set (d_agents d)")
  case True
  then have "\<not> agents_ok (d\<lparr> d_next := n, d_agents := d_agents d @ [x] \<rparr>)" if "ag_id x = d_next d" for n x
    using that by (auto simp: agents_ok_def)
  then have "frame b d d'" for b using assms
    by (cases f) (simp add: create_agent_def andthen_run stmt_run db_ok_def frame_def Let_def, auto)
  moreover obtain b where "b \<notin> ag_id ` set (d_agents d)" using ex_new_if_finite[OF infinite_UNIV_nat, of "ag_id ` set (d_agents d)"] by auto
  ultimately show ?thesis by blast
next
  case False
  have ins: "advances (frame (d_next d)) (andthen (insert_config (d_next d) 1 Src_yaml chk raw True) (\<lambda>_.
     audit_config Config_sync (d_next d) None (Some raw) (Some (''created from '' @ path))))" for raw path
    unfolding audit_config_def by (intro framed.adv insert_config_frame audit_frame)
  obtain path raw sp where f: "f = (path, raw, sp)" by (cases f)
  have "advances (frame (d_next d)) (stmt (\<lambda>e. e\<lparr> d_agents := d_agents e @ [x e] \<rparr>))"
    if "\<And>e. ag_id (x e) = d_next d" for x :: "db \<Rightarrow> agent_row"
    using that by (intro stmt_advances) (simp_all add: frame_def)
  note grow = framed.adv(5)[OF this ins]
  have "frame (d_next d) (d\<lparr> d_next := d_next d + 1 \<rparr>) d'"
    using assms unfolding f create_agent_def prod.case Let_def
    by (simp only: andthen_Inr[where m = fresh_id, OF fresh_id_run]) (rule advancesD[OF grow]; simp)
  then show ?thesis using False by (auto simp: frame_def)
qed

text \<open>What \<open>sync_agent\<close> does to the row it finds.\<close>

definition sync_row :: "sync_cfg \<Rightarrow> sync_mode \<Rightarrow> json \<Rightarrow> agent_spec \<Rightarrow> uuid \<Rightarrow> sync_outcome dbact" where
  "sync_row cfg mode raw sp a =
     andthen (follow_yaml cfg sp a) (\<lambda>_.
     andthen (asks (latest_yaml a)) (\<lambda>latest.
     andthen (asks (active_config a)) (\<lambda>active.
     let chk = snd (canonical_json (sc_sha cfg) raw) in
     case latest of
       None \<Rightarrow> changed_yaml mode a raw chk active
     | Some l \<Rightarrow> if cf_checksum l = chk then unchanged_yaml mode a raw l active
                 else changed_yaml mode a raw chk active)))"

lemma sync_agent_cases:
  "sync_agent cfg mode (path, raw, sp) d =
     (case find (\<lambda>a. ag_key a = sp_key (spec_base sp)) (d_agents d) of
        None \<Rightarrow> andthen (create_agent cfg (path, raw, sp) (snd (canonical_json (sc_sha cfg) raw))) (\<lambda>_. ret Created) d
      | Some row \<Rightarrow> sync_row cfg mode raw sp (ag_id row) d)"
  by (simp add: sync_agent_def sync_row_def andthen_asks Let_def split: option.split)

lemma sync_row_frame: "advances (frame a) (sync_row cfg mode raw sp a)"
  unfolding sync_row_def Let_def by (intro framed.adv one_agent_frame)

lemma sync_agent_frame:
  assumes "sync_agent cfg mode f d = (r, d')"
  shows "\<exists>b. frame b d d' \<and> (\<forall>row \<in> set (d_agents d). ag_id row = b \<and> distinct (map ag_id (d_agents d)) \<longrightarrow>
    ag_key row = sp_key (spec_of f))"
proof -
  obtain path raw sp where f: "f = (path, raw, sp)" by (cases f)
  show ?thesis
  proof (cases "find (\<lambda>a. ag_key a = sp_key (spec_base sp)) (d_agents d)")
    case None
    then obtain r' where "create_agent cfg f (snd (canonical_json (sc_sha cfg) raw)) d = (r', d')"
      using assms by (auto simp: f sync_agent_cases andthen_run split: prod.splits sum.splits)
    from create_agent_frame[OF this] show ?thesis by (metis imageI)
  next
    case (Some row)
    then have "frame (ag_id row) d d'"
      using assms advancesD[OF sync_row_frame] by (simp add: f sync_agent_cases)
    moreover have "row \<in> set (d_agents d) \<and> ag_key row = sp_key (spec_of f)"
      using find_Some_in[OF Some] by (simp add: f spec_of_def)
    ultimately show ?thesis by (metis distinct_map_eq)
  qed
qed

lemma frame_configs: "frame b d d' \<Longrightarrow> a \<noteq> b \<Longrightarrow> configs_of a d' = configs_of a d"
proof -
  assume fr: "frame b d d'" and "a \<noteq> b"
  then have "configs_of a e = filter (\<lambda>c. cf_agent_id c = a) (filter (\<lambda>c. cf_agent_id c \<noteq> b) (d_cfgs e))" for e
    by (auto simp: configs_of_def intro: filter_cong)
  then show ?thesis using fr by (simp only: frame_def)
qed

section \<open>Overrides survive a safe sync\<close>

definition same_active :: "uuid \<Rightarrow> db \<Rightarrow> db \<Rightarrow> bool" where
  "same_active a d d' \<longleftrightarrow> active_of a d' = active_of a d"

interpretation kept: progress "same_active a" for a
  by unfold_locales (auto simp: same_active_def)

lemma frame_same_active: "frame b d d' \<Longrightarrow> a \<noteq> b \<Longrightarrow> same_active a d d'"
  by (simp add: same_active_def active_of_def frame_configs)

lemma same_cfgs_active: "d_cfgs d' = d_cfgs d \<Longrightarrow> same_active a d d'"
  by (simp add: same_active_def active_of_def configs_of_def)

lemma fresh_id_kept: "advances (same_active a) fresh_id"
  by (simp add: advances_def same_cfgs_active)

lemma stmt_kept: "(\<And>d. active_of a (f d) = active_of a d) \<Longrightarrow> advances (same_active a) (stmt f)"
  by (rule stmt_advances) (simp_all add: same_active_def)

lemma kept_basic:
  "advances (same_active a) (upd_agents p f)" "advances (same_active a) (audit_insert act et ei ac bef aft n)"
  "advances (same_active a) (insert_config b v src chk raw False)"
  unfolding upd_agents_def audit_insert_def insert_config_def
  by (intro kept.adv_andthen stmt_kept fresh_id_kept; simp add: active_of_def configs_of_def)+

lemma active_config_hd: "active_config a d = (case active_of a d of [] \<Rightarrow> None | c # _ \<Rightarrow> Some c)"
  by (simp add: active_config_def active_of_def case_filter_find)

text \<open>A safe sync of the agent itself, an override being its one active configuration.\<close>

lemma safe_row_keeps:
  assumes "active_of a d = [c]" and "cf_source c = Src_db" and "sync_row cfg Sync_safe raw sp a d = (r, d')"
  shows "same_active a d d'"
proof -
  obtain r1 d1 where run: "follow_yaml cfg sp a d = (r1, d1)" by fastforce
  have "advances (same_active a) (follow_yaml cfg sp a)"
    unfolding follow_yaml_def Let_def by (intro kept.adv kept_basic)
  from advancesD[OF this run] have s1: "same_active a d d1" .
  have later: "advances (same_active a) (unchanged_yaml Sync_safe a raw l (Some c))"
    "advances (same_active a) (changed_yaml Sync_safe a raw chk (Some c))" for l chk
    unfolding unchanged_yaml_def changed_yaml_def audit_config_def Let_def using assms(2)
    by (simp_all) (intro kept.adv kept_basic fresh_id_kept)+
  have "active_config a d1 = Some c" using s1 assms(1) by (simp add: active_config_hd same_active_def)
  then have "same_active a d1 d'" if "r1 = Inr ()" using assms(3) run that later[THEN advancesD]
    by (simp add: sync_row_def andthen_run Let_def split: option.splits if_splits)
  moreover have "d' = d1" if "r1 = Inl e" for e using assms(3) run that by (simp add: sync_row_def andthen_run)
  ultimately show ?thesis using s1 kept.R_trans[of a d d1 d'] by (cases r1) auto
qed

lemma safe_agent_keeps:
  assumes "db_ok d" and "active_of a d = [c]" and "cf_source c = Src_db"
    and "sync_agent cfg Sync_safe f d = (r, d')"
  shows "same_active a d d'"
proof -
  obtain b where b: "frame b d d'" "\<forall>row \<in> set (d_agents d). ag_id row = b \<and> distinct (map ag_id (d_agents d)) \<longrightarrow>
      ag_key row = sp_key (spec_of f)"
    using sync_agent_frame[OF assms(4)] by blast
  show ?thesis
  proof (cases "a = b")
    case True
    obtain path raw sp where f: "f = (path, raw, sp)" by (cases f)
    have "c \<in> set (active_of a d)" using assms(2) by simp
    then have "a \<in> ag_id ` set (d_agents d)"
      using assms(1) by (auto simp: active_of_def configs_of_def db_ok_def cfgs_ok_def list_all_iff)
    then obtain row where row: "row \<in> set (d_agents d)" "ag_id row = a" by auto
    have dist: "distinct (map ag_id (d_agents d))" "distinct (map ag_key (d_agents d))"
      using assms(1) by (simp_all add: db_ok_def agents_ok_def)
    have key: "ag_key row = sp_key (spec_base sp)" using b(2) row True dist by (auto simp: f spec_of_def)
    obtain row' where found: "find (\<lambda>a. ag_key a = sp_key (spec_base sp)) (d_agents d) = Some row'"
      using row key by (cases "find (\<lambda>a. ag_key a = sp_key (spec_base sp)) (d_agents d)") (auto simp: find_None_all)
    then have "row' = row" using find_Some_in[OF found] row key distinct_map_eq[OF dist(2)] by metis
    then have "sync_row cfg Sync_safe raw sp a d = (r, d')"
      using assms(4) found row by (simp add: f sync_agent_cases)
    then show ?thesis by (rule safe_row_keeps[OF assms(2,3)])
  qed (use b in \<open>simp add: frame_same_active\<close>)
qed

lemma preserves_db_ok_sync [pres]:
  "preserves db_ok (sync_agent cfg mode f)" "preserves db_ok (disable_orphan x)"
  unfolding sync_agent_def create_agent_def follow_yaml_def unchanged_yaml_def changed_yaml_def insert_config_def
    deactivate_def activate_version_def audit_config_def upd_agents_def upd_cfgs_def disable_orphan_def Let_def
  by (intro pres)+

lemma safe_agents_keep:
  "db_ok d \<Longrightarrow> active_of a d = [c] \<Longrightarrow> cf_source c = Src_db \<Longrightarrow>
   sync_agents cfg Sync_safe fs rep d = (r, d') \<Longrightarrow> same_active a d d'"
proof (induction fs arbitrary: d rep)
  case Nil
  then show ?case by (simp add: same_active_def)
next
  case (Cons f fs)
  obtain r1 d1 where run: "sync_agent cfg Sync_safe f d = (r1, d1)" by fastforce
  have s: "same_active a d d1" by (rule safe_agent_keeps[OF Cons.prems(1-3) run])
  have ok: "db_ok d1" by (rule preserves_run[OF preserves_db_ok_sync(1) Cons.prems(1) run])
  show ?case
  proof (cases r1)
    case (Inl e)
    then show ?thesis using Cons.prems(4) run s by (simp add: andthen_run)
  next
    case (Inr x)
    then have "sync_agents cfg Sync_safe fs (note_outcome (sp_key (spec_of f)) x rep) d1 = (r, d')"
      using Cons.prems(4) run by (simp add: andthen_run)
    from Cons.IH[OF ok _ Cons.prems(3) this] s Cons.prems(2) show ?thesis by (simp add: same_active_def)
  qed
qed

lemma orphans_keep: "advances (same_active a) (sync_orphans keys rep)"
  unfolding sync_orphans_def disable_orphan_def by (intro kept.adv kept_basic)

lemma safe_sync_same_active:
  assumes "db_ok d" and "active_of a d = [c]" and "cf_source c = Src_db"
    and "sync cfg Sync_safe files d = (r, d')"
  shows "active_of a d' = [c]"
proof -
  have "same_active a d d'"
  proof (cases "parse_files (sc_validate cfg) files")
    case (Inr fs)
    show ?thesis
    proof (cases "check_files cfg fs")
      case (Inr u)
      obtain r1 d1 where run: "sync_agents cfg Sync_safe fs empty_report d = (r1, d1)" by fastforce
      have "same_active a d d1" by (rule safe_agents_keep[OF assms(1-3) run])
      moreover have "same_active a d1 d'"
        using assms(4) \<open>parse_files _ _ = _\<close> Inr run orphans_keep[THEN advancesD]
        by (cases r1) (auto simp: sync_def andthen_run same_active_def)
      ultimately show ?thesis by (rule kept.R_trans)
    qed (use assms(4) Inr in \<open>simp add: sync_def andthen_run same_active_def\<close>)
  qed (use assms(4) in \<open>simp add: sync_def andthen_run same_active_def\<close>)
  then show ?thesis using assms(2) by (simp add: same_active_def)
qed


definition sample_yaml :: json where
  "sample_yaml = JObj [(''agent_type'', JStr ''llm''), (''key'', JStr ''general''), (''name'', JStr ''General'')]"

definition sample_cfg_row :: "uuid \<Rightarrow> string \<Rightarrow> int \<Rightarrow> config_source \<Rightarrow> config_row" where
  "sample_cfg_row i tenant v src = \<lparr> cf_id = i, cf_agent_id = 1, cf_tenant_id = tenant,
     cf_organization_id = ''default'', cf_version = v, cf_source = src, cf_checksum = ''old'',
     cf_config = sample_yaml, cf_is_active = True, cf_activated_at = Some 0, cf_created_by = ''x'', cf_created_at = 0 \<rparr>"


text \<open>With a second active configuration the guarantee is lost: an override in a tenant's scope is
  deactivated by a safe sync of a changed file when the default scope runs the YAML, because
  neither the query for the active configuration nor the deactivation looks at the scope.\<close>

lemma safe_sync_discards_tenant_override:
  "let d = sample_db\<lparr> d_cfgs := [sample_cfg_row 5 ''default'' 1 Src_yaml, sample_cfg_row 6 ''t1'' 2 Src_db] \<rparr>;
       (r, d') = sync sync_sample Sync_safe [(''g.yaml'', sample_yaml)] d
   in db_ok d \<and> map cf_source (active_of 1 d') = [Src_yaml] \<and> map cf_tenant_id (active_of 1 d') = [''default'']"
  by code_simp

section \<open>Repeating a sync\<close>

definition row_follows :: "sync_cfg \<Rightarrow> agent_spec \<Rightarrow> agent_row \<Rightarrow> bool" where
  "row_follows cfg sp row \<longleftrightarrow> ag_key row = sp_key (spec_base sp) \<and> ag_name row = sp_name (spec_base sp)
     \<and> ag_description row = sp_description (spec_base sp) \<and> ag_agent_type row = spec_type sp
     \<and> ag_sort_order row = sp_sort_order (spec_base sp)
     \<and> (spec_type sp = Remote_flow \<longrightarrow> ag_status row = effective_status cfg sp)"

definition in_sync :: "sync_cfg \<Rightarrow> spec_file \<Rightarrow> db \<Rightarrow> bool" where
  "in_sync cfg f d = (case f of (path, raw, sp) \<Rightarrow>
     \<exists>row \<in> set (d_agents d). row_follows cfg sp row
       \<and> map_option cf_checksum (latest_yaml (ag_id row) d) = Some (snd (canonical_json (sc_sha cfg) raw)))"

lemma max_by_append_top: "(\<And>r. r \<in> set xs \<Longrightarrow> k r < k n) \<Longrightarrow> max_by k (xs @ [n]) = Some n"
  by (induction xs) (auto split: option.splits dest: leD)

lemma max_by_map: "(\<And>r. k (f r) = k r) \<Longrightarrow> max_by k (map f xs) = map_option f (max_by k xs)"
  by (induction xs) (auto split: option.splits)

lemma latest_yaml_frame: "frame b d d' \<Longrightarrow> a \<noteq> b \<Longrightarrow> latest_yaml a d' = latest_yaml a d"
  by (simp add: latest_yaml_def frame_configs)

lemma frame_in_sync:
  assumes "frame b d d'" and "in_sync cfg f d"
    and "\<And>row. row \<in> set (d_agents d) \<Longrightarrow> ag_key row = sp_key (spec_of f) \<Longrightarrow> ag_id row \<noteq> b"
  shows "in_sync cfg f d'"
proof -
  obtain path raw sp where f: "f = (path, raw, sp)" by (cases f)
  with assms(2) obtain row where row: "row \<in> set (d_agents d)" "row_follows cfg sp row"
    "map_option cf_checksum (latest_yaml (ag_id row) d) = Some (snd (canonical_json (sc_sha cfg) raw))"
    by (auto simp: in_sync_def)
  then have ne: "ag_id row \<noteq> b" using assms(3) by (simp add: f spec_of_def row_follows_def)
  then have "row \<in> set (filter (\<lambda>r. ag_id r \<noteq> b) (d_agents d))" using row by simp
  then have "row \<in> set (d_agents d')" using assms(1) unfolding frame_def by (metis filter_is_subset subsetD)
  then show ?thesis using row latest_yaml_frame[OF assms(1) ne] by (auto simp: f in_sync_def)
qed

lemma fresh_config_sel [simp]:
  "cf_agent_id (fresh_config d a v src chk raw act) = a" "cf_version (fresh_config d a v src chk raw act) = v"
  "cf_source (fresh_config d a v src chk raw act) = src" "cf_checksum (fresh_config d a v src chk raw act) = chk"
  "cf_config (fresh_config d a v src chk raw act) = raw" "cf_is_active (fresh_config d a v src chk raw act) = act"
  by (simp_all add: fresh_config_def)

lemma insert_config_InrD:
  "insert_config a v src chk raw act d = (Inr u, d') \<Longrightarrow> d_agents d' = d_agents d
   \<and> d_cfgs d' = d_cfgs d @ [fresh_config d a v src chk raw act]"
  unfolding insert_config_def andthen_run fresh_id_run by (auto simp: fresh_config_def dest!: stmt_InrD)

lemma audit_config_InrD:
  "audit_config act a b f n d = (Inr u, d') \<Longrightarrow> d_agents d' = d_agents d \<and> d_cfgs d' = d_cfgs d \<and> d_next d' = d_next d"
  unfolding audit_config_def audit_insert_def by (auto dest!: stmt_InrD)

lemma latest_yaml_cong: "d_cfgs d' = d_cfgs d \<Longrightarrow> latest_yaml a d' = latest_yaml a d"
  by (simp add: latest_yaml_def configs_of_def)

lemma changed_yaml_latest:
  assumes "changed_yaml mode a raw chk act d = (Inr x, d')"
  shows "d_agents d' = d_agents d \<and> map_option cf_checksum (latest_yaml a d') = Some chk"
proof -
  let ?v = "next_version a d"
  define adopt where "adopt \<longleftrightarrow> mode = Sync_force \<or> (case act of None \<Rightarrow> True | Some c \<Rightarrow> cf_source c = Src_yaml)"
  define trail :: "sync_outcome dbact" where "trail = (if adopt then
        andthen (audit_config Config_activate a (map_option cf_config act) (Some raw) None) (\<lambda>_. ret Updated)
      else
        andthen (audit_config Config_sync a None (Some raw) (Some (''drift: yaml v'' @ show_int ?v
           @ '' stored INACTIVE; db override '' @ (case act of None \<Rightarrow> [] | Some c \<Rightarrow> vtext c) @ '' retained'')))
          (\<lambda>_. ret Drifted))"
  note run = assms[unfolded changed_yaml_def adopt_def[symmetric] Let_def andthen_asks trail_def[symmetric]]
  from run obtain d1 u1 d2 u2
    where d1: "(if adopt then deactivate (\<lambda>r. cf_agent_id r = a \<and> cf_is_active r) else ret ()) d = (Inr u1, d1)"
      and d2: "insert_config a ?v Src_yaml chk raw adopt d1 = (Inr u2, d2)" and run2: "trail d2 = (Inr x, d')"
    by (elim andthen_InrE) (rule that)
  have same: "d_agents d' = d_agents d2 \<and> d_cfgs d' = d_cfgs d2"
    using run2 unfolding trail_def by (cases adopt) (auto elim!: andthen_InrE dest!: audit_config_InrD)
  have idle: "upd_where (\<lambda>c. False) g cs = cs" for g and cs :: "config_row list" by (simp add: upd_where_idle)
  have "d_agents d1 = d_agents d \<and> (\<exists>p. d_cfgs d1 = upd_where p (\<lambda>c. c\<lparr> cf_is_active := False \<rparr>) (d_cfgs d))"
    using d1 idle[symmetric] by (cases adopt) (auto simp: deactivate_def upd_cfgs_def dest!: stmt_InrD)
  then obtain p where one: "d_agents d1 = d_agents d"
    and cs: "d_cfgs d1 = upd_where p (\<lambda>c. c\<lparr> cf_is_active := False \<rparr>) (d_cfgs d)" by blast
  have low: "cf_version c < ?v" if "c \<in> set (configs_of a d1)" for c
  proof -
    from that obtain c0 where "c0 \<in> set (configs_of a d)" "cf_version c = cf_version c0"
      by (auto simp: configs_of_def cs set_upd_where split: if_splits)
    then show ?thesis using next_version_above by metis
  qed
  have "latest_yaml a d' = Some (fresh_config d1 a ?v Src_yaml chk raw adopt)"
    using same insert_config_InrD[OF d2]
    by (simp add: latest_yaml_def configs_of_def)
      (rule max_by_append_top, use low in \<open>auto simp: configs_of_def\<close>)
  then show ?thesis using same insert_config_InrD[OF d2] one by simp
qed

text \<open>The identity columns after \<open>follow_yaml\<close>.\<close>

definition followed :: "sync_cfg \<Rightarrow> agent_spec \<Rightarrow> time \<Rightarrow> agent_row \<Rightarrow> agent_row" where
  "followed cfg sp t r = r\<lparr> ag_name := sp_name (spec_base sp), ag_description := sp_description (spec_base sp),
     ag_agent_type := spec_type sp, ag_sort_order := sp_sort_order (spec_base sp),
     ag_status := (if spec_type sp = Remote_flow then effective_status cfg sp else ag_status r), ag_updated_at := t \<rparr>"

lemma follow_yaml_InrD:
  "follow_yaml cfg sp a d = (Inr u, d') \<Longrightarrow> d_cfgs d' = d_cfgs d
   \<and> d_agents d' = upd_where (\<lambda>r. ag_id r = a) (followed cfg sp (d_now d)) (d_agents d)"
  unfolding follow_yaml_def Let_def upd_agents_def
  by (auto simp: upd_where_def followed_def o_def split: if_splits elim!: andthen_InrE dest!: stmt_InrD)

text \<open>After the sync of an agent its row and latest YAML version are those of the file.\<close>

lemma safe_row_in_sync:
  assumes "sync_row cfg Sync_safe raw sp a d = (Inr x, d')" and "row \<in> set (d_agents d)" and "ag_id row = a"
    and "ag_key row = sp_key (spec_base sp)"
  shows "in_sync cfg (path, raw, sp) d'"
proof -
  let ?chk = "snd (canonical_json (sc_sha cfg) raw)"
  obtain u d1 where fw: "follow_yaml cfg sp a d = (Inr u, d1)"
    and run: "(case latest_yaml a d1 of None \<Rightarrow> changed_yaml Sync_safe a raw ?chk (active_config a d1)
      | Some l \<Rightarrow> if cf_checksum l = ?chk then unchanged_yaml Sync_safe a raw l (active_config a d1)
                  else changed_yaml Sync_safe a raw ?chk (active_config a d1)) d1 = (Inr x, d')"
    using assms(1) by (auto simp: sync_row_def andthen_asks Let_def elim!: andthen_InrE)
  have "d_agents d' = d_agents d1 \<and> map_option cf_checksum (latest_yaml a d') = Some ?chk"
  proof (cases "map_option cf_checksum (latest_yaml a d1) = Some ?chk")
    case True
    then have un: "\<exists>l. unchanged_yaml Sync_safe a raw l (active_config a d1) d1 = (Inr x, d')" using run by auto
    then have "d_agents d' = d_agents d1 \<and> d_cfgs d' = d_cfgs d1"
      by (auto simp: unchanged_yaml_def split: option.splits if_splits elim!: andthen_InrE dest!: audit_config_InrD)
    then show ?thesis using True latest_yaml_cong[of d' d1 a] by simp
  next
    case False
    then have "changed_yaml Sync_safe a raw ?chk (active_config a d1) d1 = (Inr x, d')"
      using run by (auto split: option.splits if_splits)
    from changed_yaml_latest[OF this] show ?thesis .
  qed
  moreover have "followed cfg sp (d_now d) row \<in> set (d_agents d1)"
    using follow_yaml_InrD[OF fw] assms(2,3) by (auto simp: set_upd_where image_iff intro!: bexI[of _ row])
  moreover have "row_follows cfg sp (followed cfg sp (d_now d) row)"
    using assms(4) by (simp add: row_follows_def followed_def)
  moreover have "ag_id (followed cfg sp (d_now d) row) = a" using assms(3) by (simp add: followed_def)
  ultimately show ?thesis by (auto simp: in_sync_def)
qed

lemma created_in_sync:
  assumes "create_agent cfg (path, raw, sp) chk d = (Inr u, d')" and "db_ok d"
    and chk: "chk = snd (canonical_json (sc_sha cfg) raw)"
  shows "in_sync cfg (path, raw, sp) d'"
proof -
  let ?i = "d_next d" and ?b = "spec_base sp"
  define row where "row e = \<lparr> ag_id = ?i, ag_tenant_id = default_scope,
        ag_organization_id = default_scope, ag_key = sp_key ?b, ag_name = sp_name ?b,
        ag_description = sp_description ?b, ag_agent_type = spec_type sp, ag_status = effective_status cfg sp,
        ag_is_default = sp_default ?b, ag_sort_order = sp_sort_order ?b, ag_icon = None,
        ag_updated_at = d_now e \<rparr>" for e :: db
  let ?d0 = "d\<lparr> d_next := d_next d + 1 \<rparr>"
  note run = assms(1)[unfolded create_agent_def prod.case Let_def andthen_Inr[where m = fresh_id, OF fresh_id_run]
      row_def[symmetric]]
  from run obtain u1 d1 u2 d2
    where d1: "stmt (\<lambda>e. e\<lparr> d_agents := d_agents e @ [row e] \<rparr>) ?d0 = (Inr u1, d1)"
      and d2: "insert_config ?i 1 Src_yaml chk raw True d1 = (Inr u2, d2)"
      and d3: "audit_config Config_sync ?i None (Some raw) (Some (''created from '' @ path)) d2 = (Inr u, d')"
    by (elim andthen_InrE) (rule that)
  from stmt_InrD[OF d1] have one: "d1 = ?d0\<lparr> d_agents := d_agents d @ [row ?d0] \<rparr>" by simp
  from stmt_InrD[OF d1] have "db_ok d1" by blast
  then have "?i \<notin> ag_id ` set (d_agents d)" using one by (auto simp: db_ok_def agents_ok_def row_def)
  then have "configs_of ?i d = []"
    using assms(2) by (force simp: configs_of_def filter_empty_conv db_ok_def cfgs_ok_def list_all_iff)
  then have none: "configs_of ?i d1 = []" by (simp add: configs_of_def one)
  have "latest_yaml ?i d' = Some (fresh_config d1 ?i 1 Src_yaml chk raw True)"
    using insert_config_InrD[OF d2] audit_config_InrD[OF d3] none by (simp add: latest_yaml_def configs_of_def)
  moreover have "row ?d0 \<in> set (d_agents d')" "ag_id (row ?d0) = ?i" "row_follows cfg sp (row ?d0)"
    using insert_config_InrD[OF d2] audit_config_InrD[OF d3] one by (simp_all add: row_def row_follows_def)
  ultimately show ?thesis unfolding in_sync_def chk by fastforce
qed

lemma agent_in_sync:
  assumes "sync_agent cfg Sync_safe f d = (Inr x, d')" and "db_ok d"
  shows "in_sync cfg f d'"
proof -
  obtain path raw sp where f: "f = (path, raw, sp)" by (cases f)
  show ?thesis
  proof (cases "find (\<lambda>a. ag_key a = sp_key (spec_base sp)) (d_agents d)")
    case None
    then obtain u where "create_agent cfg (path, raw, sp) (snd (canonical_json (sc_sha cfg) raw)) d = (Inr u, d')"
      using assms(1) by (auto simp: f sync_agent_cases elim: andthen_InrE)
    then show ?thesis unfolding f by (rule created_in_sync[OF _ assms(2) refl])
  next
    case (Some row)
    then show ?thesis
      using assms(1) find_Some_in[OF Some] safe_row_in_sync[of cfg raw sp "ag_id row" d x d' row]
      by (simp add: f sync_agent_cases)
  qed
qed

lemma agent_keeps_in_sync:
  assumes "sync_agent cfg Sync_safe f d = (r, d')" and "db_ok d" and "in_sync cfg g d"
    and "sp_key (spec_of g) \<noteq> sp_key (spec_of f)"
  shows "in_sync cfg g d'"
proof -
  obtain b where b: "frame b d d'" "\<forall>row \<in> set (d_agents d). ag_id row = b \<and> distinct (map ag_id (d_agents d)) \<longrightarrow>
      ag_key row = sp_key (spec_of f)"
    using sync_agent_frame[OF assms(1)] by blast
  have "distinct (map ag_id (d_agents d))" using assms(2) by (simp add: db_ok_def agents_ok_def)
  then have "ag_id row \<noteq> b" if "row \<in> set (d_agents d)" "ag_key row = sp_key (spec_of g)" for row
    using that b(2) assms(4) by metis
  then show ?thesis by (rule frame_in_sync[OF b(1) assms(3)])
qed

lemma agents_in_sync:
  "sync_agents cfg Sync_safe fs rep d = (Inr rep', d') \<Longrightarrow> db_ok d \<Longrightarrow>
   distinct (map (\<lambda>f. sp_key (spec_of f)) (gs @ fs)) \<Longrightarrow> (\<And>g. g \<in> set gs \<Longrightarrow> in_sync cfg g d) \<Longrightarrow>
   db_ok d' \<and> (\<forall>g \<in> set (gs @ fs). in_sync cfg g d')"
proof (induction fs arbitrary: d rep gs)
  case (Cons f fs)
  from Cons.prems(1) obtain x d1 where run: "sync_agent cfg Sync_safe f d = (Inr x, d1)"
    and rest: "sync_agents cfg Sync_safe fs (note_outcome (sp_key (spec_of f)) x rep) d1 = (Inr rep', d')"
    by (auto elim: andthen_InrE)
  have kept: "in_sync cfg g d1" if "g \<in> set (gs @ [f])" for g
  proof (cases "g \<in> set gs")
    case True
    have "sp_key (spec_of f) \<notin> (\<lambda>f. sp_key (spec_of f)) ` set gs" using Cons.prems(3) by simp
    with True have "sp_key (spec_of g) \<noteq> sp_key (spec_of f)" by (metis (no_types) imageI)
    then show ?thesis by (rule agent_keeps_in_sync[OF run Cons.prems(2) Cons.prems(4)[OF True]])
  qed (use that agent_in_sync[OF run Cons.prems(2)] in simp)
  have ok: "db_ok d1" by (rule preserves_run[OF preserves_db_ok_sync(1) Cons.prems(2) run])
  have dist: "distinct (map (\<lambda>f. sp_key (spec_of f)) ((gs @ [f]) @ fs))" using Cons.prems(3) by simp
  show ?case using Cons.IH[OF rest ok dist kept] by simp
qed simp

section \<open>The second run\<close>

lemma db_ok_upd_agents:
  assumes ok: "db_ok d"
    and f: "\<And>r. r \<in> set (d_agents d) \<Longrightarrow> p r \<Longrightarrow> ag_id (f r) = ag_id r \<and> ag_key (f r) = ag_key r
      \<and> ag_name (f r) = ag_name r \<and> ag_is_default (f r) = ag_is_default r"
  shows "db_ok (d\<lparr> d_agents := upd_where p f (d_agents d) \<rparr>)"
proof -
  have same: "map ag_id (upd_where p f (d_agents d)) = map ag_id (d_agents d)"
    "map ag_key (upd_where p f (d_agents d)) = map ag_key (d_agents d)"
    "map ag_name (upd_where p f (d_agents d)) = map ag_name (d_agents d)"
    by (simp_all add: map_upd_where_on f)
  have "length (filter ag_is_default (upd_where p f rs)) = length (filter ag_is_default rs)"
    if "set rs \<subseteq> set (d_agents d)" for rs
    using that by (induction rs) (auto simp: f)
  moreover have "list_all (\<lambda>a. slug_ok (ag_key a)) (upd_where p f (d_agents d))"
    using ok f by (auto simp: db_ok_def agents_ok_def list_all_iff set_upd_where)
  ultimately have "agents_ok (d\<lparr> d_agents := upd_where p f (d_agents d) \<rparr>)"
    using ok same by (simp add: db_ok_def agents_ok_def)
  then show ?thesis using ok same
    by (simp add: db_ok_def convs_ok_def msgs_ok_def sess_ok_def tools_ok_def cfgs_ok_def caps_ok_def flip: set_map)
qed

text \<open>An agent in sync is rewritten with what it has.\<close>

lemma follow_again:
  assumes "db_ok d" and "row \<in> set (d_agents d)" and "row_follows cfg sp row"
  shows "\<exists>d'. follow_yaml cfg sp (ag_id row) d = (Inr (), d') \<and> db_ok d'"
proof -
  have only: "r = row" if "r \<in> set (d_agents d)" "ag_id r = ag_id row" for r
    using that assms(1,2) distinct_map_eq[of ag_id "d_agents d"] by (simp add: db_ok_def agents_ok_def)
  let ?g = "\<lambda>e r :: agent_row. r\<lparr> ag_name := sp_name (spec_base sp), ag_description := sp_description (spec_base sp),
     ag_agent_type := spec_type sp, ag_sort_order := sp_sort_order (spec_base sp), ag_updated_at := d_now e \<rparr>"
  let ?d1 = "d\<lparr> d_agents := upd_where (\<lambda>r. ag_id r = ag_id row) (?g d) (d_agents d) \<rparr>"
  have ok1: "db_ok ?d1"
    by (rule db_ok_upd_agents[OF assms(1)]) (use assms(3) in \<open>auto simp: row_follows_def dest!: only\<close>)
  moreover have "db_ok (?d1\<lparr> d_agents := upd_where (\<lambda>r. ag_id r = ag_id row)
      (\<lambda>r. r\<lparr> ag_status := s, ag_updated_at := t \<rparr>) (d_agents ?d1) \<rparr>)" for s t
    by (rule db_ok_upd_agents[OF ok1]) simp
  ultimately show ?thesis
    by (cases "spec_type sp = Remote_flow") (simp_all add: follow_yaml_def upd_agents_def andthen_run stmt_run Let_def)
qed

lemma agent_again:
  assumes "db_ok d" and "in_sync cfg f d"
  shows "\<exists>x d'. sync_agent cfg Sync_safe f d = (Inr x, d') \<and> x \<in> {Unchanged, Drifted} \<and> d_cfgs d' = d_cfgs d"
proof -
  obtain path raw sp where f: "f = (path, raw, sp)" by (cases f)
  with assms(2) obtain row where row: "row \<in> set (d_agents d)" "row_follows cfg sp row"
    and chk: "map_option cf_checksum (latest_yaml (ag_id row) d) = Some (snd (canonical_json (sc_sha cfg) raw))"
    by (auto simp: in_sync_def)
  have key: "ag_key row = sp_key (spec_base sp)" using row(2) by (simp add: row_follows_def)
  then obtain row' where found: "find (\<lambda>a. ag_key a = sp_key (spec_base sp)) (d_agents d) = Some row'"
    using row(1) by (cases "find (\<lambda>a. ag_key a = sp_key (spec_base sp)) (d_agents d)") (auto simp: find_None_all)
  have "row' = row" using find_Some_in[OF found] row(1) key assms(1)
      distinct_map_eq[of ag_key "d_agents d" row' row] by (simp add: db_ok_def agents_ok_def)
  obtain d1 where fw: "follow_yaml cfg sp (ag_id row) d = (Inr (), d1)" "db_ok d1"
    using follow_again[OF assms(1) row] by blast
  have cfgs: "d_cfgs d1 = d_cfgs d" using follow_yaml_InrD[OF fw(1)] by simp
  obtain l where l: "latest_yaml (ag_id row) d1 = Some l" "cf_checksum l = snd (canonical_json (sc_sha cfg) raw)"
    using chk latest_yaml_cong[OF cfgs] by auto
  have "\<exists>x d'. unchanged_yaml Sync_safe (ag_id row) raw l act d1 = (Inr x, d') \<and> x \<in> {Unchanged, Drifted} \<and> d_cfgs d' = d_cfgs d1" for act
  proof (cases act)
    case (Some c)
    show ?thesis using noted[OF fw(2)] by (simp add: unchanged_yaml_def Some) fastforce
  qed (simp add: unchanged_yaml_def)
  then show ?thesis using fw l cfgs found \<open>row' = row\<close>
    by (simp add: f sync_agent_cases sync_row_def andthen_Inr[where m = "follow_yaml cfg sp (ag_id row)"] andthen_asks Let_def)
qed

lemma agents_again:
  "db_ok d \<Longrightarrow> set gs \<subseteq> set fs \<Longrightarrow> distinct (map (\<lambda>f. sp_key (spec_of f)) fs) \<Longrightarrow> (\<And>g. g \<in> set fs \<Longrightarrow> in_sync cfg g d) \<Longrightarrow>
   \<exists>rep' d'. sync_agents cfg Sync_safe gs rep d = (Inr rep', d') \<and> sy_created rep' = sy_created rep
     \<and> sy_updated rep' = sy_updated rep \<and> d_cfgs d' = d_cfgs d \<and> db_ok d'"
proof (induction gs arbitrary: d rep)
  case (Cons g gs)
  have g: "g \<in> set fs" using Cons.prems(2) by simp
  obtain x d1 where run: "sync_agent cfg Sync_safe g d = (Inr x, d1)" and x: "x \<in> {Unchanged, Drifted}"
    and cfgs: "d_cfgs d1 = d_cfgs d"
    using agent_again[OF Cons.prems(1) Cons.prems(4)[OF g]] by blast
  have ok: "db_ok d1" by (rule preserves_run[OF preserves_db_ok_sync(1) Cons.prems(1) run])
  have kept: "in_sync cfg h d1" if h: "h \<in> set fs" for h
  proof (cases "h = g")
    case False
    have "sp_key (spec_of h) \<noteq> sp_key (spec_of g)"
      using False distinct_map_eq[OF Cons.prems(3) h g] by blast
    then show ?thesis by (rule agent_keeps_in_sync[OF run Cons.prems(1) Cons.prems(4)[OF h]])
  qed (use agent_in_sync[OF run Cons.prems(1)] in simp)
  have sub: "set gs \<subseteq> set fs" using Cons.prems(2) by simp
  obtain rep' d' where "sync_agents cfg Sync_safe gs (note_outcome (sp_key (spec_of g)) x rep) d1 = (Inr rep', d')"
    "sy_created rep' = sy_created rep" "sy_updated rep' = sy_updated rep" "d_cfgs d' = d_cfgs d1" "db_ok d'"
    using Cons.IH[OF ok sub Cons.prems(3) kept, of "note_outcome (sp_key (spec_of g)) x rep"] x
    by (auto simp: note_outcome_def)
  then show ?case using cfgs by (simp add: andthen_run run)
qed simp

text \<open>Disabling an orphan cannot fail and touches no other agent.\<close>

lemma disable_orphan_run:
  assumes "db_ok d"
  shows "\<exists>d'. disable_orphan x d = (Inr (), d') \<and> db_ok d' \<and> d_cfgs d' = d_cfgs d \<and> frame (ag_id x) d d'
    \<and> map (\<lambda>r. (ag_id r, ag_key r)) (d_agents d') = map (\<lambda>r. (ag_id r, ag_key r)) (d_agents d)"
proof -
  let ?d1 = "d\<lparr> d_agents := upd_where (\<lambda>r. ag_id r = ag_id x)
      (\<lambda>r. r\<lparr> ag_status := Disabled, ag_updated_at := d_now d \<rparr>) (d_agents d) \<rparr>"
  have "db_ok ?d1" by (rule db_ok_upd_agents[OF assms]) simp
  then show ?thesis
    by (simp add: disable_orphan_def upd_agents_def andthen_run stmt_run audit_insert_run frame_def
        filter_upd_where_out map_upd_where)
qed

lemma orphans_again:
  "db_ok d \<Longrightarrow> (\<And>x. x \<in> set os \<Longrightarrow> x \<in> set xs) \<Longrightarrow> (\<And>g. g \<in> set fs \<Longrightarrow> in_sync cfg g d) \<Longrightarrow>
   (\<And>x g. x \<in> set xs \<Longrightarrow> g \<in> set fs \<Longrightarrow> ag_key x \<noteq> sp_key (spec_of g)) \<Longrightarrow>
   map (\<lambda>r. (ag_id r, ag_key r)) (d_agents d) = ks \<Longrightarrow> (\<And>x. x \<in> set xs \<Longrightarrow> (ag_id x, ag_key x) \<in> set ks) \<Longrightarrow>
   \<exists>d'. each disable_orphan os d = (Inr (), d') \<and> db_ok d' \<and> d_cfgs d' = d_cfgs d \<and> (\<forall>g \<in> set fs. in_sync cfg g d')"
proof (induction os arbitrary: d)
  case (Cons x os)
  obtain d1 where run: "disable_orphan x d = (Inr (), d1)" and d1: "db_ok d1" "d_cfgs d1 = d_cfgs d"
    "frame (ag_id x) d d1" "map (\<lambda>r. (ag_id r, ag_key r)) (d_agents d1) = ks"
    using disable_orphan_run[OF Cons.prems(1)] Cons.prems(5) by metis
  have x: "x \<in> set xs" using Cons.prems(2) by simp
  have "distinct (map fst ks)" using Cons.prems(1,5) by (auto simp: db_ok_def agents_ok_def o_def)
  then have one: "ag_key r = ag_key x" if "r \<in> set (d_agents d)" "ag_id r = ag_id x" for r
  proof -
    have "(ag_id r, ag_key r) \<in> set ks" using that(1) Cons.prems(5) by auto
    then show ?thesis using \<open>distinct (map fst ks)\<close> Cons.prems(6)[OF x] that(2)
        distinct_map_eq[of fst ks "(ag_id r, ag_key r)" "(ag_id x, ag_key x)"] by simp
  qed
  have kept: "in_sync cfg g d1" if g: "g \<in> set fs" for g
    by (rule frame_in_sync[OF d1(3) Cons.prems(3)[OF g]]) (metis one Cons.prems(4)[OF x g])
  have "\<exists>d'. each disable_orphan os d1 = (Inr (), d') \<and> db_ok d' \<and> d_cfgs d' = d_cfgs d1 \<and> (\<forall>g \<in> set fs. in_sync cfg g d')"
    by (rule Cons.IH[OF d1(1) _ kept Cons.prems(4) d1(4) Cons.prems(6)]) (use Cons.prems(2) in simp_all)
  then show ?case using d1(2) by (simp add: andthen_run run)
qed simp

lemma orphans_keep_in_sync:
  assumes "db_ok d" and "\<And>g. g \<in> set fs \<Longrightarrow> in_sync cfg g d"
  shows "\<exists>rep' d'. sync_orphans (map (\<lambda>f. sp_key (spec_of f)) fs) rep d = (Inr rep', d') \<and> db_ok d'
    \<and> d_cfgs d' = d_cfgs d \<and> sy_created rep' = sy_created rep \<and> sy_updated rep' = sy_updated rep
    \<and> (\<forall>g \<in> set fs. in_sync cfg g d')"
proof -
  let ?os = "orphans (map (\<lambda>f. sp_key (spec_of f)) fs) d"
  have "ag_key x \<noteq> sp_key (spec_of g)" if "x \<in> set ?os" "g \<in> set fs" for x g
    using that by (auto simp: orphans_def)
  moreover have "(ag_id x, ag_key x) \<in> set (map (\<lambda>r. (ag_id r, ag_key r)) (d_agents d))" if "x \<in> set ?os" for x
    using that by (auto simp: orphans_def)
  ultimately have "\<exists>d'. each disable_orphan ?os d = (Inr (), d') \<and> db_ok d' \<and> d_cfgs d' = d_cfgs d
      \<and> (\<forall>g \<in> set fs. in_sync cfg g d')"
    using orphans_again[where os = ?os and xs = ?os, OF assms(1) _ assms(2) _ refl] by blast
  then obtain d' where "each disable_orphan ?os d = (Inr (), d')" "db_ok d'" "d_cfgs d' = d_cfgs d"
    "\<forall>g \<in> set fs. in_sync cfg g d'" by blast
  then show ?thesis by (simp add: sync_orphans_def andthen_run)
qed

text \<open>C30: repeating a sync changes nothing. After a safe sync has succeeded, a second one of the
  same files cannot fail, creates and updates no agent and leaves every configuration as it was.\<close>

theorem second_sync_changes_nothing:
  assumes "db_ok d" and "sync cfg Sync_safe files d = (Inr rep, d')"
  shows "\<exists>rep2 d2. sync cfg Sync_safe files d' = (Inr rep2, d2) \<and> sy_created rep2 = [] \<and> sy_updated rep2 = []
    \<and> d_cfgs d2 = d_cfgs d'"
proof -
  from assms(2) obtain fs rep1 d1 where fs: "parse_files (sc_validate cfg) files = Inr fs" "check_files cfg fs = Inr ()"
    and run: "sync_agents cfg Sync_safe fs empty_report d = (Inr rep1, d1)"
    and orph: "sync_orphans (map (\<lambda>f. sp_key (spec_of f)) fs) rep1 d1 = (Inr rep, d')"
    by (auto simp: sync_def elim!: andthen_InrE)
  have dist: "distinct (map (\<lambda>f. sp_key (spec_of f)) fs)" using fs(2) by (simp add: check_files_iff consistent_def)
  have s1: "db_ok d1" "\<And>g. g \<in> set fs \<Longrightarrow> in_sync cfg g d1"
    using agents_in_sync[OF run assms(1), of "[]"] dist by auto
  have s2: "db_ok d'" "\<And>g. g \<in> set fs \<Longrightarrow> in_sync cfg g d'"
    using orphans_keep_in_sync[where rep = rep1 and fs = fs, OF s1] orph by simp_all
  obtain rep3 d3 where again: "sync_agents cfg Sync_safe fs empty_report d' = (Inr rep3, d3)"
    and r3: "sy_created rep3 = []" "sy_updated rep3 = []" "d_cfgs d3 = d_cfgs d'"
    using agents_again[where rep = empty_report, OF s2(1) subset_refl dist s2(2)] by (auto simp: empty_report_def)
  have s3: "db_ok d3" "\<And>g. g \<in> set fs \<Longrightarrow> in_sync cfg g d3"
    using agents_in_sync[OF again s2(1), of "[]"] dist by auto
  obtain rep2 d2 where "sync_orphans (map (\<lambda>f. sp_key (spec_of f)) fs) rep3 d3 = (Inr rep2, d2)"
    "sy_created rep2 = []" "sy_updated rep2 = []" "d_cfgs d2 = d_cfgs d'"
    using orphans_keep_in_sync[where rep = rep3 and fs = fs, OF s3] r3 by auto
  then show ?thesis using again fs by (simp add: sync_def andthen_run)
qed

lemma second_sync_changes_nothing_witness:
  "\<exists>rep d' rep2 d2. sync sync_sample Sync_safe [(''g.yaml'', sample_yaml)] sample_db = (Inr rep, d')
     \<and> sy_updated rep = [''general''] \<and> sync sync_sample Sync_safe [(''g.yaml'', sample_yaml)] d' = (Inr rep2, d2)
     \<and> sy_updated rep2 = []"
proof -
  have "(case sync sync_sample Sync_safe [(''g.yaml'', sample_yaml)] sample_db of
      (Inr rep, d') \<Rightarrow> sy_updated rep = [''general''] | _ \<Rightarrow> False)" by code_simp
  then obtain rep d' where "sync sync_sample Sync_safe [(''g.yaml'', sample_yaml)] sample_db = (Inr rep, d')"
    "sy_updated rep = [''general'']" by (auto split: prod.splits sum.splits)
  with second_sync_changes_nothing[OF sample_db_ok this(1)] show ?thesis by blast
qed

end
