(* ===== verification/Capabilities.thy ===== *)
theory Capabilities
  imports Agent_Registry Session_Service
begin

text \<open>
  The sidebar's catalogue: \<open>services/capability_service.py\<close> (the capability document of one
  caller), \<open>services/capability_seed.py\<close> (the shipped membership) and the route of
  \<open>routers/ui.py\<close>. Texts are compared by code point, as PostgreSQL does under the C collation. The
  validation of an access specification by Pydantic is the parameter \<open>acc\<close>.
\<close>

type_synonym access_parser = "(string \<times> json) list \<Rightarrow> access_spec option"

section \<open>Scope resolution\<close>

definition scope_of :: "user_context option \<Rightarrow> string \<times> string" where
  "scope_of uc = (case uc of
     None \<Rightarrow> (default_scope, default_scope)
   | Some u \<Rightarrow> (or_default (u_tenant_code u),
       case u_active_org_id u of None \<Rightarrow> default_scope | Some i \<Rightarrow> or_default i))"

definition cap_rank :: "string \<Rightarrow> string \<Rightarrow> cap_row \<Rightarrow> scope_rank" where
  "cap_rank t oid c = Scope_rank (cp_organization_id c \<noteq> oid) (cp_tenant_id c \<noteq> t)"

definition cap_in_scope :: "string \<Rightarrow> string \<Rightarrow> cap_row \<Rightarrow> bool" where
  "cap_in_scope t oid c \<longleftrightarrow> cp_tenant_id c \<in> {t, default_scope} \<and> cp_organization_id c \<in> {oid, default_scope}"

text \<open>\<open>SELECT DISTINCT ON (key) ... ORDER BY key, rank\<close>: the best row of a key.\<close>

definition best_row :: "string \<Rightarrow> string \<Rightarrow> string \<Rightarrow> cap_row list \<Rightarrow> cap_row option" where
  "best_row t oid k cs =
     (case sort_key (cap_rank t oid) (filter (\<lambda>c. cap_in_scope t oid c \<and> cp_key c = k) cs) of
        [] \<Rightarrow> None | c # _ \<Rightarrow> Some c)"

definition distinct_on_key :: "string \<Rightarrow> string \<Rightarrow> cap_row list \<Rightarrow> cap_row list" where
  "distinct_on_key t oid cs =
     List.map_filter (\<lambda>k. best_row t oid k cs) (remdups (map cp_key (filter (cap_in_scope t oid) cs)))"

text \<open>The status filter applies to the winners, not to the candidates.\<close>

definition capability_rows :: "string \<Rightarrow> string \<Rightarrow> db \<Rightarrow> cap_row list" where
  "capability_rows t oid d = sort_key cp_display_order (sort_key cp_key
     (filter (\<lambda>c. cp_status c \<noteq> Cap_disabled) (distinct_on_key t oid (d_caps d))))"

section \<open>Agents of a capability\<close>

definition cfg_in_scope :: "string \<Rightarrow> string \<Rightarrow> config_row \<Rightarrow> bool" where
  "cfg_in_scope t oid c \<longleftrightarrow> cf_tenant_id c \<in> {t, default_scope} \<and> cf_organization_id c \<in> {oid, default_scope}"

definition lateral_config :: "string \<Rightarrow> string \<Rightarrow> uuid \<Rightarrow> db \<Rightarrow> config_row option" where
  "lateral_config t oid a d =
     (case sort_key (rank_of t oid) (filter (\<lambda>c. cf_agent_id c = a \<and> cf_is_active c \<and> cfg_in_scope t oid c) (d_cfgs d)) of
        [] \<Rightarrow> None | c # _ \<Rightarrow> Some c)"

type_synonym agent_hit = "cap_agent_row \<times> agent_row \<times> config_row"

definition agent_rows :: "string \<Rightarrow> string \<Rightarrow> uuid list \<Rightarrow> db \<Rightarrow> agent_hit list" where
  "agent_rows t oid ids d = sort_key (\<lambda>(m, a, c). ca_display_order m) (sort_key (\<lambda>(m, a, c). ag_key a)
     [(m, a, c). m \<leftarrow> d_cap_agents d, ca_capability_id m \<in> set ids \<and> ca_is_visible m,
        a \<leftarrow> d_agents d, ag_id a = ca_agent_id m \<and> ag_status a = Enabled,
        c \<leftarrow> (case lateral_config t oid (ag_id a) d of None \<Rightarrow> [] | Some c \<Rightarrow> [c])])"

text \<open>A configuration that does not parse permits nobody.\<close>

definition access_permits :: "access_parser \<Rightarrow> json \<Rightarrow> user_context option \<Rightarrow> bool" where
  "access_permits acc config uc =
     (case (if truthy config then config else JObj []) of
        JObj d \<Rightarrow>
          (case (if truthy (jget d ''access'') then jget d ''access'' else JObj []) of
             JObj kv \<Rightarrow> (case acc kv of None \<Rightarrow> False | Some a \<Rightarrow> access_matches a uc)
           | _ \<Rightarrow> False)
      | _ \<Rightarrow> False)"

text \<open>\<open>(metadata or {}).get("action")\<close>: only a JSON object has \<open>get\<close>.\<close>

definition action_from :: "json \<Rightarrow> (string \<times> json) list \<Rightarrow> exc + (string \<times> json) list" where
  "action_from metadata fallback =
     (case (if truthy metadata then metadata else JObj []) of
        JObj d \<Rightarrow> Inr (case jget d ''action'' of
            JObj act \<Rightarrow> if truthy (jget act ''type'') then act else fallback
          | _ \<Rightarrow> fallback)
      | _ \<Rightarrow> Inl (AttributeError ''get''))"

definition str_or_empty :: "string option \<Rightarrow> json" where
  "str_or_empty s = JStr (case s of None \<Rightarrow> [] | Some x \<Rightarrow> x)"

definition button :: "agent_hit \<Rightarrow> exc + json" where
  "button h = (case h of (m, a, c) \<Rightarrow>
     (case action_from (ca_metadata m) [(''type'', JStr ''start_agent'')] of
        Inl e \<Rightarrow> Inl e
      | Inr act \<Rightarrow> Inr (JObj
          [(''id'', JStr (ag_key a)), (''label'', JStr (case ca_label_override m of None \<Rightarrow> ag_name a | Some l \<Rightarrow> l)),
           (''description'', JStr (ag_description a)), (''icon'', str_or_empty (ag_icon a)),
           (''status'', JStr ''enabled''), (''order'', JInt (ca_display_order m)), (''visible'', JBool True),
           (''action'', JObj (dict_set ''agentKey'' (JStr (ag_key a)) act))])))"

fun collect :: "('a \<Rightarrow> exc + 'b) \<Rightarrow> 'a list \<Rightarrow> exc + 'b list" where
  "collect f [] = Inr []"
| "collect f (x # xs) = (case f x of Inl e \<Rightarrow> Inl e | Inr y \<Rightarrow>
     (case collect f xs of Inl e \<Rightarrow> Inl e | Inr ys \<Rightarrow> Inr (y # ys)))"

fun status_out :: "capability_status \<Rightarrow> string" where
  "status_out Cap_active = ''enabled''"
| "status_out Cap_coming_soon = ''coming_soon''"
| "status_out Cap_disabled = ''disabled''"

definition permitted :: "access_parser \<Rightarrow> user_context option \<Rightarrow> agent_hit list \<Rightarrow> agent_hit list" where
  "permitted acc uc hs = filter (\<lambda>(m, a, c). access_permits acc (cf_config c) uc) hs"

definition card :: "(uuid \<times> json) list \<Rightarrow> cap_row \<Rightarrow> exc + json" where
  "card buttons c =
     (case action_from (cp_metadata c) [(''type'', JStr ''display_card'')] of
        Inl e \<Rightarrow> Inl e
      | Inr act \<Rightarrow> Inr (JObj
          [(''id'', JStr (cp_key c)), (''title'', JStr (cp_name c)), (''description'', str_or_empty (cp_description c)),
           (''icon'', str_or_empty (cp_icon c)), (''badge'', case cp_badge c of None \<Rightarrow> JNull | Some b \<Rightarrow> JStr b),
           (''status'', JStr (status_out (cp_status c))), (''order'', JInt (cp_display_order c)),
           (''visible'', JBool True), (''action'', JObj act),
           (''agents'', JList (map snd (filter (\<lambda>b. fst b = cp_id c) buttons)))]))"

definition document :: "json list \<Rightarrow> json" where
  "document cards = JObj [(''version'', JInt 1), (''capabilities'', JList cards)]"

definition resolve_for_user :: "access_parser \<Rightarrow> user_context option \<Rightarrow> json dbact" where
  "resolve_for_user acc uc = (case scope_of uc of (t, oid) \<Rightarrow>
     andthen (asks (capability_rows t oid)) (\<lambda>caps.
     if caps = [] then ret (document [])
     else
       andthen (asks (agent_rows t oid (map cp_id caps))) (\<lambda>hits.
       andthen (of_sum (collect (\<lambda>h. case button h of Inl e \<Rightarrow> Inl e | Inr b \<Rightarrow> Inr (ca_capability_id (fst h), b))
         (permitted acc uc hits))) (\<lambda>buttons.
       andthen (of_sum (collect (card buttons) caps)) (\<lambda>cards.
       ret (document cards))))))"

section \<open>The shipped membership\<close>

record member =
  me_agent_key :: string
  me_label :: string
  me_display_order :: int
  me_autostart :: string

definition default_membership :: "(string \<times> member list) list" where
  "default_membership = [(''listening_at_scale'',
     [\<lparr> me_agent_key = ''record_stories'', me_label = ''Record Stories'', me_display_order = 10,
        me_autostart = ''I want to record a story'' \<rparr>,
      \<lparr> me_agent_key = ''capture_discussion'', me_label = ''Capture Discussions'', me_display_order = 20,
        me_autostart = ''I want to capture a discussion'' \<rparr>])]"

definition member_row :: "uuid \<Rightarrow> uuid \<Rightarrow> member \<Rightarrow> cap_agent_row" where
  "member_row c a me = \<lparr> ca_capability_id = c, ca_agent_id = a, ca_display_order = me_display_order me,
     ca_label_override = Some (me_label me), ca_is_visible = True,
     ca_metadata = JObj [(''action'', JObj [(''type'', JStr ''start_agent''), (''autostart'', JStr (me_autostart me))])] \<rparr>"

text \<open>\<open>INSERT ... SELECT ... ON CONFLICT DO NOTHING\<close>; the result is the row count.\<close>

definition insert_member :: "uuid \<Rightarrow> member \<Rightarrow> nat dbact" where
  "insert_member c me =
     andthen (asks (\<lambda>d. filter (\<lambda>m. (c, ca_agent_id m) \<notin> (\<lambda>x. (ca_capability_id x, ca_agent_id x)) ` set (d_cap_agents d))
        (map (\<lambda>a. member_row c (ag_id a) me) (filter (\<lambda>a. ag_key a = me_agent_key me) (d_agents d))))) (\<lambda>rows.
     andthen (stmt (\<lambda>d. d\<lparr> d_cap_agents := d_cap_agents d @ rows \<rparr>)) (\<lambda>_.
     ret (length rows)))"

fun insert_members :: "uuid \<Rightarrow> member list \<Rightarrow> nat dbact" where
  "insert_members c [] = ret 0"
| "insert_members c (me # mes) =
     andthen (insert_member c me) (\<lambda>n. andthen (insert_members c mes) (\<lambda>k. ret (n + k)))"

definition seed_capability :: "string \<Rightarrow> member list \<Rightarrow> nat dbact" where
  "seed_capability key members =
     andthen (asks (\<lambda>d. find (\<lambda>c. cp_key c = key \<and> cp_tenant_id c = default_scope
        \<and> cp_organization_id c = default_scope) (d_caps d))) (\<lambda>found.
     case found of
       None \<Rightarrow> ret 0
     | Some c \<Rightarrow>
         andthen (asks (\<lambda>d. length (filter (\<lambda>m. ca_capability_id m = cp_id c) (d_cap_agents d)))) (\<lambda>n.
         if n \<noteq> 0 then ret 0 else insert_members (cp_id c) members))"

fun seed_all :: "(string \<times> member list) list \<Rightarrow> nat dbact" where
  "seed_all [] = ret 0"
| "seed_all ((key, members) # rest) =
     andthen (seed_capability key members) (\<lambda>n. andthen (seed_all rest) (\<lambda>k. ret (n + k)))"

definition seed_default_membership :: "nat dbact" where
  "seed_default_membership = seed_all default_membership"

end
