(* ===== verification/Capability_Properties.thy ===== *)
theory Capability_Properties
  imports Capabilities Sample
begin

text \<open>
  What the sidebar's document shows: the row of each capability is the first match along the
  fallback of scopes, a button has passed every gate, and seeding the shipped membership is
  idempotent and contradicts nobody.
\<close>

section \<open>The fallback of scopes\<close>

lemma hd_sort_key:
  assumes "sort_key f xs = c # cs"
  shows "c \<in> set xs" and "x \<in> set xs \<Longrightarrow> f c \<le> f x"
proof -
  have s: "set (sort_key f xs) = insert c (set cs)" using assms by simp
  then show "c \<in> set xs" by auto
  have "sorted (map f (c # cs))" using assms sorted_sort_key[of f xs] by metis
  then show "x \<in> set xs \<Longrightarrow> f c \<le> f x" using s by auto
qed

text \<open>The row of a capability in exactly one scope.\<close>

definition row_at :: "string \<Rightarrow> string \<Rightarrow> string \<Rightarrow> cap_row list \<Rightarrow> cap_row option" where
  "row_at t oid k cs = find (\<lambda>c. cp_tenant_id c = t \<and> cp_organization_id c = oid \<and> cp_key c = k) cs"

fun first_some :: "'a option list \<Rightarrow> 'a option" where
  "first_some [] = None"
| "first_some (Some x # xs) = Some x"
| "first_some (None # xs) = first_some xs"

definition fallback :: "string \<Rightarrow> string \<Rightarrow> string \<Rightarrow> cap_row list \<Rightarrow> cap_row option" where
  "fallback t oid k cs = first_some [row_at t oid k cs, row_at default_scope oid k cs,
     row_at t default_scope k cs, row_at default_scope default_scope k cs]"

lemma row_at_Some: "row_at t oid k cs = Some c \<Longrightarrow>
    c \<in> set cs \<and> cp_tenant_id c = t \<and> cp_organization_id c = oid \<and> cp_key c = k"
  unfolding row_at_def by (drule find_Some_in) simp

lemma row_at_None: "row_at t oid k cs = None \<Longrightarrow> c \<in> set cs \<Longrightarrow>
    \<not> (cp_tenant_id c = t \<and> cp_organization_id c = oid \<and> cp_key c = k)"
  unfolding row_at_def find_None_all by blast

lemma row_unique:
  assumes "distinct (map (\<lambda>c. (cp_tenant_id c, cp_organization_id c, cp_key c)) cs)"
    and "c \<in> set cs" and "c' \<in> set cs" and "cp_tenant_id c = cp_tenant_id c'"
    and "cp_organization_id c = cp_organization_id c'" and "cp_key c = cp_key c'"
  shows "c = c'"
  using distinct_map_eq[OF assms(1-3)] assms(4-6) by simp

lemma best_row_is_fallback:
  assumes dist: "distinct (map (\<lambda>c. (cp_tenant_id c, cp_organization_id c, cp_key c)) cs)"
  shows "best_row t oid k cs = fallback t oid k cs"
proof (cases "sort_key (cap_rank t oid) (filter (\<lambda>c. cap_in_scope t oid c \<and> cp_key c = k) cs)")
  case Nil
  then have "filter (\<lambda>c. cap_in_scope t oid c \<and> cp_key c = k) cs = []"
    by (metis length_0_conv length_sort)
  then have "row_at t' oid' k cs = None" if "t' \<in> {t, default_scope}" "oid' \<in> {oid, default_scope}" for t' oid'
    using that by (auto simp: row_at_def find_None_iff cap_in_scope_def filter_empty_conv)
  then show ?thesis using Nil by (simp add: best_row_def fallback_def)
next
  case (Cons c rest)
  note c = hd_sort_key[OF Cons]
  have in_c: "c \<in> set cs" "cap_in_scope t oid c" "cp_key c = k" using c(1) by auto
  have min: "cap_rank t oid c \<le> cap_rank t oid x" if "x \<in> set cs" "cap_in_scope t oid x" "cp_key x = k" for x
    using c(2)[of x] that by simp
  have hit: "row_at t' oid' k cs = Some c"
    if "cp_tenant_id c = t'" "cp_organization_id c = oid'" for t' oid'
  proof (cases "row_at t' oid' k cs")
    case None
    then show ?thesis using row_at_None[OF None in_c(1)] that in_c(3) by simp
  next
    case (Some x)
    with row_at_Some[OF Some] row_unique[OF dist _ in_c(1), of x] that in_c(3) show ?thesis by simp
  qed
  have miss: "row_at t' oid' k cs = None"
    if "t' \<in> {t, default_scope}" "oid' \<in> {oid, default_scope}"
      and less: "\<And>x. cp_tenant_id x = t' \<Longrightarrow> cp_organization_id x = oid' \<Longrightarrow> \<not> cap_rank t oid c \<le> cap_rank t oid x" for t' oid'
  proof (cases "row_at t' oid' k cs")
    case (Some x)
    from row_at_Some[OF this] have "cap_rank t oid c \<le> cap_rank t oid x"
      using that(1,2) by (intro min) (auto simp: cap_in_scope_def)
    with row_at_Some[OF Some] less show ?thesis by blast
  qed
  have "fallback t oid k cs = Some c"
  proof -
    consider (own) "cp_tenant_id c = t" "cp_organization_id c = oid"
      | (org) "cp_tenant_id c = default_scope" "t \<noteq> default_scope" "cp_organization_id c = oid"
      | (tenant) "cp_tenant_id c = t" "cp_organization_id c = default_scope" "oid \<noteq> default_scope"
      | (dflt) "cp_tenant_id c = default_scope" "cp_organization_id c = default_scope" "t \<noteq> default_scope" "oid \<noteq> default_scope"
      using in_c(2) by (auto simp: cap_in_scope_def)
    then show ?thesis
      by cases (simp_all add: fallback_def hit miss cap_rank_def less_eq_scope_rank_def)
  qed
  then show ?thesis using Cons by (simp add: best_row_def)
qed

lemma best_row_in: "best_row t oid k cs = Some c \<Longrightarrow> c \<in> set cs \<and> cap_in_scope t oid c \<and> cp_key c = k"
  using hd_sort_key(1) by (fastforce simp: best_row_def split: list.splits)

lemma best_row_defined: "c \<in> set cs \<Longrightarrow> cap_in_scope t oid c \<Longrightarrow> best_row t oid (cp_key c) cs \<noteq> None"
proof -
  assume "c \<in> set cs" "cap_in_scope t oid c"
  then have "c \<in> set (sort_key (cap_rank t oid) (filter (\<lambda>x. cap_in_scope t oid x \<and> cp_key x = cp_key c) cs))"
    by simp
  then have "sort_key (cap_rank t oid) (filter (\<lambda>x. cap_in_scope t oid x \<and> cp_key x = cp_key c) cs) \<noteq> []"
    by (metis empty_iff list.set(1))
  then show ?thesis by (simp add: best_row_def split: list.split)
qed

lemma set_distinct_on_key: "c \<in> set (distinct_on_key t oid cs) \<longleftrightarrow> best_row t oid (cp_key c) cs = Some c"
proof
  assume "c \<in> set (distinct_on_key t oid cs)"
  then show "best_row t oid (cp_key c) cs = Some c"
    using best_row_in by (fastforce simp: distinct_on_key_def List.map_filter_def)
next
  assume c: "best_row t oid (cp_key c) cs = Some c"
  with best_row_in[OF c] show "c \<in> set (distinct_on_key t oid cs)"
    by (auto simp: distinct_on_key_def List.map_filter_def intro!: image_eqI[where x = "cp_key c"])
qed

lemma distinct_keys_of_winners:
  assumes "distinct ks"
  shows "distinct (map cp_key (List.map_filter (\<lambda>k. best_row t oid k cs) ks))"
  using assms
proof (induction ks)
  case (Cons k ks)
  have "cp_key ` set (List.map_filter (\<lambda>k. best_row t oid k cs) ks) \<subseteq> set ks"
    using best_row_in by (fastforce simp: List.map_filter_def)
  then show ?case using Cons best_row_in[of t oid k cs]
    by (auto simp: List.map_filter_simps split: option.split)
qed (simp add: List.map_filter_simps)

lemma find_distinct:
  assumes "distinct (map g xs)"
  shows "find (\<lambda>x. g x = v) xs = Some x \<longleftrightarrow> x \<in> set xs \<and> g x = v"
proof
  assume "x \<in> set xs \<and> g x = v"
  then obtain y where y: "find (\<lambda>x. g x = v) xs = Some y"
    by (cases "find (\<lambda>x. g x = v) xs") (auto simp: find_None_all)
  then have "y = x" using find_Some_in[OF y] \<open>x \<in> set xs \<and> g x = v\<close> distinct_map_eq[OF assms] by metis
  then show "find (\<lambda>x. g x = v) xs = Some x" using y by simp
qed (rule find_Some_in)

lemma capability_rows_iff: "c \<in> set (capability_rows t oid d) \<longleftrightarrow>
    best_row t oid (cp_key c) (d_caps d) = Some c \<and> cp_status c \<noteq> Cap_disabled"
  by (auto simp: capability_rows_def set_distinct_on_key)

lemma option_ext: "(\<And>y. a = Some y \<longleftrightarrow> b = Some y) \<Longrightarrow> a = b"
  by (cases a; cases b) auto

lemma distinct_capability_rows: "distinct (map cp_key (capability_rows t oid d))"
proof -
  have "distinct (map cp_key (distinct_on_key t oid (d_caps d)))"
    unfolding distinct_on_key_def by (rule distinct_keys_of_winners) simp
  then have "distinct (map cp_key (filter (\<lambda>c. cp_status c \<noteq> Cap_disabled) (distinct_on_key t oid (d_caps d))))"
    by (rule distinct_map_filter)
  then show ?thesis by (simp add: capability_rows_def distinct_map)
qed

text \<open>The sidebar shows, for each capability key, the first row along the caller's own scope, the
  organization's, the tenant's and the default one; and nothing for a key whose first row is
  disabled, so a tenant that disables a capability hides it instead of seeing the default card.
  Each key appears once.\<close>

theorem capability_is_first_of_fallback:
  assumes "db_ok d"
  shows "find (\<lambda>c. cp_key c = k) (capability_rows t oid d) =
    (case fallback t oid k (d_caps d) of None \<Rightarrow> None
     | Some c \<Rightarrow> if cp_status c = Cap_disabled then None else Some c)
    \<and> distinct (map cp_key (capability_rows t oid d))"
proof (intro conjI option_ext distinct_capability_rows)
  have "best_row t oid k (d_caps d) = fallback t oid k (d_caps d)"
    using assms by (intro best_row_is_fallback) (simp add: db_ok_def caps_ok_def)
  moreover have "find (\<lambda>c. cp_key c = k) (capability_rows t oid d) = Some c \<longleftrightarrow>
      best_row t oid k (d_caps d) = Some c \<and> cp_status c \<noteq> Cap_disabled" for c
    unfolding find_distinct[OF distinct_capability_rows] capability_rows_iff using best_row_in by metis
  ultimately show "find (\<lambda>c. cp_key c = k) (capability_rows t oid d) = Some c \<longleftrightarrow>
      (case fallback t oid k (d_caps d) of None \<Rightarrow> None
       | Some c \<Rightarrow> if cp_status c = Cap_disabled then None else Some c) = Some c" for c
    by (cases "fallback t oid k (d_caps d)") auto
qed

definition sample_cap :: "uuid \<Rightarrow> string \<Rightarrow> capability_status \<Rightarrow> cap_row" where
  "sample_cap i tenant st = \<lparr> cp_id = i, cp_tenant_id = tenant, cp_organization_id = default_scope,
     cp_key = ''listening_at_scale'', cp_name = ''Listening'', cp_description = None, cp_icon = None,
     cp_badge = None, cp_status = st, cp_display_order = 1, cp_metadata = JObj [] \<rparr>"

definition cards_db :: db where
  "cards_db = sample_db\<lparr> d_caps := [sample_cap 20 default_scope Cap_active, sample_cap 21 ''t1'' Cap_disabled] \<rparr>"

lemma cards_db_ok: "db_ok cards_db"
  by code_simp

lemma capability_is_first_of_fallback_witness:
  "find (\<lambda>c. cp_key c = ''listening_at_scale'') (capability_rows ''t1'' ''o'' cards_db) = None
   \<and> find (\<lambda>c. cp_key c = ''listening_at_scale'') (capability_rows ''t2'' ''o'' cards_db) =
       Some (sample_cap 20 default_scope Cap_active)"
proof -
  have "fallback ''t1'' ''o'' ''listening_at_scale'' (d_caps cards_db) = Some (sample_cap 21 ''t1'' Cap_disabled)"
    "fallback ''t2'' ''o'' ''listening_at_scale'' (d_caps cards_db) = Some (sample_cap 20 default_scope Cap_active)"
    by code_simp+
  then show ?thesis
    using capability_is_first_of_fallback[OF cards_db_ok, of "''listening_at_scale''" "''t1''" "''o''"]
      capability_is_first_of_fallback[OF cards_db_ok, of "''listening_at_scale''" "''t2''" "''o''"]
    by (simp add: sample_cap_def)
qed

section \<open>The gates of a button\<close>

definition field :: "json \<Rightarrow> string \<Rightarrow> json" where
  "field j k = (case j of JObj kv \<Rightarrow> jget kv k | _ \<Rightarrow> JNull)"

definition items :: "json \<Rightarrow> json list" where
  "items j = (case j of JList xs \<Rightarrow> xs | _ \<Rightarrow> [])"

text \<open>The buttons a document draws: capability and agent.\<close>

definition shown :: "json \<Rightarrow> (json \<times> json) list" where
  "shown doc = [(field c ''id'', field b ''id''). c \<leftarrow> items (field doc ''capabilities''), b \<leftarrow> items (field c ''agents'')]"

text \<open>The four gates, for the agent \<open>a\<close> under the capability \<open>c\<close>.\<close>

definition gated :: "access_parser \<Rightarrow> user_context option \<Rightarrow> db \<Rightarrow> cap_row \<Rightarrow> agent_row \<Rightarrow> bool" where
  "gated acc uc d c a \<longleftrightarrow> (case scope_of uc of (t, oid) \<Rightarrow>
     cap_in_scope t oid c \<and> cp_status c \<noteq> Cap_disabled \<and> ag_status a = Enabled
     \<and> (\<exists>m \<in> set (d_cap_agents d). ca_capability_id m = cp_id c \<and> ca_agent_id m = ag_id a \<and> ca_is_visible m)
     \<and> (\<exists>x \<in> set (d_cfgs d). cf_agent_id x = ag_id a \<and> cf_is_active x \<and> cfg_in_scope t oid x
          \<and> access_permits acc (cf_config x) uc))"

lemma collect_in: "collect f xs = Inr ys \<Longrightarrow> y \<in> set ys \<Longrightarrow> \<exists>x \<in> set xs. f x = Inr y"
  by (induction xs arbitrary: ys) (auto split: sum.splits)

lemma lateral_config_in: "lateral_config t oid a d = Some c \<Longrightarrow>
    c \<in> set (d_cfgs d) \<and> cf_agent_id c = a \<and> cf_is_active c \<and> cfg_in_scope t oid c"
  using hd_sort_key(1) by (fastforce simp: lateral_config_def split: list.splits)

lemma agent_rows_in:
  assumes "(m, a, x) \<in> set (agent_rows t oid ids d)"
  shows "m \<in> set (d_cap_agents d) \<and> ca_is_visible m \<and> a \<in> set (d_agents d) \<and> ag_id a = ca_agent_id m
    \<and> ag_status a = Enabled \<and> lateral_config t oid (ag_id a) d = Some x"
  using assms by (auto simp: agent_rows_def split: if_splits option.splits)

lemma button_id: "button (m, a, x) = Inr b \<Longrightarrow> field b ''id'' = JStr (ag_key a)"
  by (auto simp: button_def field_def jget_def split: sum.splits)

lemma card_fields:
  "card buttons c = Inr j \<Longrightarrow> field j ''id'' = JStr (cp_key c)
   \<and> items (field j ''agents'') = map snd (filter (\<lambda>b. fst b = cp_id c) buttons)"
  by (auto simp: card_def field_def jget_def items_def split: sum.splits)

text \<open>C31: a button is drawn only behind all its gates: the capability is in the caller's scope and not
  disabled, the membership is visible, the agent is enabled, and an active configuration in the
  caller's scope permits this caller.\<close>

theorem buttons_pass_every_gate:
  assumes "resolve_for_user acc uc d = (Inr doc, d')" and "(k, b) \<in> set (shown doc)"
  shows "d' = d \<and> (\<exists>c \<in> set (d_caps d). \<exists>a \<in> set (d_agents d).
    k = JStr (cp_key c) \<and> b = JStr (ag_key a) \<and> gated acc uc d c a)"
proof -
  obtain t oid where sc: "scope_of uc = (t, oid)" by fastforce
  let ?caps = "capability_rows t oid d" and ?hits = "agent_rows t oid (map cp_id (capability_rows t oid d)) d"
  define f where "f h = (case button h of Inl e \<Rightarrow> Inl e | Inr b \<Rightarrow> Inr (ca_capability_id (fst h), b))" for h
  have ne: "?caps \<noteq> []"
    using assms by (auto simp: resolve_for_user_def sc andthen_asks document_def shown_def field_def jget_def items_def)
  have run: "andthen (of_sum (collect f (permitted acc uc ?hits))) (\<lambda>buttons.
      andthen (of_sum (collect (card buttons) ?caps)) (\<lambda>cards. ret (document cards))) d = (Inr doc, d')"
    using assms(1) ne by (simp add: resolve_for_user_def sc andthen_asks f_def[abs_def])
  then obtain buttons where bs: "collect f (permitted acc uc ?hits) = Inr buttons"
    and "andthen (of_sum (collect (card buttons) ?caps)) (\<lambda>cards. ret (document cards)) d = (Inr doc, d')"
    by (cases "collect f (permitted acc uc ?hits)") (simp_all add: andthen_of_sum)
  then obtain cards where cs: "collect (card buttons) ?caps = Inr cards" and doc: "doc = document cards" and same: "d' = d"
    by (cases "collect (card buttons) ?caps") (simp_all add: andthen_of_sum)
  from assms(2) obtain j b' where j: "j \<in> set cards" "b' \<in> set (items (field j ''agents''))"
    "k = field j ''id''" "b = field b' ''id''"
    by (auto simp: shown_def doc document_def field_def jget_def items_def)
  obtain c where c: "c \<in> set ?caps" "card buttons c = Inr j" using collect_in[OF cs j(1)] by blast
  then have b': "(cp_id c, b') \<in> set buttons" using j(2) card_fields[OF c(2)] by auto
  from collect_in[OF bs this] obtain m a x where h: "(m, a, x) \<in> set (permitted acc uc ?hits)"
    "f (m, a, x) = Inr (cp_id c, b')" by (metis prod_cases3)
  then have but: "button (m, a, x) = Inr b'" "ca_capability_id m = cp_id c" by (auto simp: f_def split: sum.splits)
  have hit: "(m, a, x) \<in> set ?hits" "access_permits acc (cf_config x) uc" using h(1) by (auto simp: permitted_def)
  have win: "best_row t oid (cp_key c) (d_caps d) = Some c" "cp_status c \<noteq> Cap_disabled"
    using c(1) by (simp_all add: capability_rows_iff)
  have "gated acc uc d c a"
    using agent_rows_in[OF hit(1)] hit(2) but(2) win best_row_in[OF win(1)] lateral_config_in[of t oid "ag_id a" d x]
    unfolding gated_def sc by auto
  then show ?thesis
    using same j(3,4) button_id[OF but(1)] card_fields[OF c(2)] best_row_in[OF win(1)] agent_rows_in[OF hit(1)] by auto
qed

definition button_db :: db where
  "button_db = cards_db\<lparr> d_caps := [sample_cap 20 default_scope Cap_active],
     d_cap_agents := [member_row 20 2 \<lparr> me_agent_key = ''record_stories'', me_label = ''Record'', me_display_order = 1,
       me_autostart = ''go'' \<rparr>],
     d_cfgs := [\<lparr> cf_id = 30, cf_agent_id = 2, cf_tenant_id = default_scope, cf_organization_id = default_scope,
       cf_version = 1, cf_source = Src_yaml, cf_checksum = ''c'', cf_config = JObj [], cf_is_active = True,
       cf_activated_at = Some 0, cf_created_by = ''x'', cf_created_at = 0 \<rparr>] \<rparr>"

definition open_access :: access_parser where
  "open_access kv = Some (sp_access sample_base)"

lemma buttons_pass_every_gate_witness:
  "\<exists>c \<in> set (d_caps button_db). \<exists>a \<in> set (d_agents button_db). ag_key a = ''record_stories''
     \<and> gated open_access (Some sample_user) button_db c a"
proof -
  have "(case resolve_for_user open_access (Some sample_user) button_db of
      (Inr doc, d') \<Rightarrow> (JStr ''listening_at_scale'', JStr ''record_stories'') \<in> set (shown doc) | _ \<Rightarrow> False)"
    by code_simp
  then obtain doc d' where "resolve_for_user open_access (Some sample_user) button_db = (Inr doc, d')"
    "(JStr ''listening_at_scale'', JStr ''record_stories'') \<in> set (shown doc)"
    by (auto split: prod.splits sum.splits)
  from buttons_pass_every_gate[OF this] show ?thesis by (simp, metis)
qed

section \<open>Seeding\<close>

lemma db_ok_append_members:
  assumes "db_ok d" and "distinct (map (\<lambda>m. (ca_capability_id m, ca_agent_id m)) (d_cap_agents d @ rows))"
    and "\<And>m. m \<in> set rows \<Longrightarrow> ca_capability_id m \<in> cp_id ` set (d_caps d) \<and> ca_agent_id m \<in> ag_id ` set (d_agents d)"
  shows "db_ok (d\<lparr> d_cap_agents := d_cap_agents d @ rows \<rparr>)"
  using assms by (auto simp: db_ok_def convs_ok_def msgs_ok_def sess_ok_def tools_ok_def agents_ok_def cfgs_ok_def
      caps_ok_def list_all_iff)

lemma insert_member_run:
  assumes "db_ok d" and "c \<in> cp_id ` set (d_caps d)"
  shows "\<exists>rows. insert_member c me d = (Inr (length rows), d\<lparr> d_cap_agents := d_cap_agents d @ rows \<rparr>)
    \<and> db_ok (d\<lparr> d_cap_agents := d_cap_agents d @ rows \<rparr>) \<and> (\<forall>m \<in> set rows. ca_capability_id m = c)"
proof -
  let ?pair = "\<lambda>x. (ca_capability_id x, ca_agent_id x)"
  define rows where "rows = filter (\<lambda>m. (c, ca_agent_id m) \<notin> ?pair ` set (d_cap_agents d))
        (map (\<lambda>a. member_row c (ag_id a) me) (filter (\<lambda>a. ag_key a = me_agent_key me) (d_agents d)))"
  have "distinct (map ag_id (filter (\<lambda>a. ag_key a = me_agent_key me) (d_agents d)))"
    using assms(1) by (intro distinct_map_filter) (simp add: db_ok_def agents_ok_def)
  then have "distinct (map ?pair (map (\<lambda>a. member_row c (ag_id a) me) (filter (\<lambda>a. ag_key a = me_agent_key me) (d_agents d))))"
    by (auto simp: member_row_def o_def distinct_map inj_on_def)
  then have "distinct (map ?pair rows)" unfolding rows_def by (rule distinct_map_filter)
  moreover have caps: "ca_capability_id m = c \<and> ca_agent_id m \<in> ag_id ` set (d_agents d)
      \<and> ?pair m \<notin> ?pair ` set (d_cap_agents d)" if "m \<in> set rows" for m
    using that by (auto simp: rows_def member_row_def)
  moreover have "distinct (map ?pair (d_cap_agents d))" using assms(1) by (simp add: db_ok_def caps_ok_def)
  moreover have "?pair ` set (d_cap_agents d) \<inter> ?pair ` set rows = {}"
    using caps by (simp only: disjoint_iff) (metis (no_types, lifting) imageE)
  ultimately have "distinct (map ?pair (d_cap_agents d @ rows))" unfolding map_append distinct_append set_map by blast
  then have ok: "db_ok (d\<lparr> d_cap_agents := d_cap_agents d @ rows \<rparr>)"
    using caps assms(2) by (intro db_ok_append_members[OF assms(1)]) simp_all
  have "insert_member c me d = (Inr (length rows), d\<lparr> d_cap_agents := d_cap_agents d @ rows \<rparr>)"
    unfolding insert_member_def andthen_asks rows_def[symmetric] by (simp add: andthen_run stmt_run ok)
  then show ?thesis using ok caps by blast
qed

lemma insert_members_run:
  "db_ok d \<Longrightarrow> c \<in> cp_id ` set (d_caps d) \<Longrightarrow>
   \<exists>rows. insert_members c mes d = (Inr (length rows), d\<lparr> d_cap_agents := d_cap_agents d @ rows \<rparr>)
     \<and> db_ok (d\<lparr> d_cap_agents := d_cap_agents d @ rows \<rparr>) \<and> (\<forall>m \<in> set rows. ca_capability_id m = c)"
proof (induction mes arbitrary: d)
  case (Cons me mes)
  from insert_member_run[OF Cons.prems, of me] obtain r1 where
    r1: "insert_member c me d = (Inr (length r1), d\<lparr> d_cap_agents := d_cap_agents d @ r1 \<rparr>)"
      "db_ok (d\<lparr> d_cap_agents := d_cap_agents d @ r1 \<rparr>)" "\<forall>m \<in> set r1. ca_capability_id m = c" by blast
  from Cons.IH[OF r1(2)] Cons.prems(2) obtain r2 where
    r2: "insert_members c mes (d\<lparr> d_cap_agents := d_cap_agents d @ r1 \<rparr>) =
        (Inr (length r2), d\<lparr> d_cap_agents := (d_cap_agents d @ r1) @ r2 \<rparr>)"
      "db_ok (d\<lparr> d_cap_agents := (d_cap_agents d @ r1) @ r2 \<rparr>)" "\<forall>m \<in> set r2. ca_capability_id m = c" by auto
  show ?case using r1 r2 by (intro exI[of _ "r1 @ r2"]) (auto simp: andthen_run)
qed (simp add: exI[of _ "[]"])

lemma seed_capability_run:
  assumes "db_ok d"
  shows "\<exists>rows. seed_capability key mes d = (Inr (length rows), d\<lparr> d_cap_agents := d_cap_agents d @ rows \<rparr>)
    \<and> (\<forall>m \<in> set rows. ca_capability_id m \<notin> ca_capability_id ` set (d_cap_agents d))
    \<and> seed_capability key mes (d\<lparr> d_cap_agents := d_cap_agents d @ rows \<rparr>) =
        (Inr 0, d\<lparr> d_cap_agents := d_cap_agents d @ rows \<rparr>)"
proof -
  let ?p = "\<lambda>c. cp_key c = key \<and> cp_tenant_id c = default_scope \<and> cp_organization_id c = default_scope"
  consider (none) "find ?p (d_caps d) = None"
    | (curated) c where "find ?p (d_caps d) = Some c" "filter (\<lambda>m. ca_capability_id m = cp_id c) (d_cap_agents d) \<noteq> []"
    | (bare) c where "find ?p (d_caps d) = Some c" "filter (\<lambda>m. ca_capability_id m = cp_id c) (d_cap_agents d) = []"
    by (cases "find ?p (d_caps d)") auto
  then show ?thesis
  proof cases
    case none
    then show ?thesis by (intro exI[of _ "[]"]) (simp add: seed_capability_def andthen_asks)
  next
    case curated
    then show ?thesis by (intro exI[of _ "[]"]) (simp add: seed_capability_def andthen_asks)
  next
    case bare
    have "cp_id c \<in> cp_id ` set (d_caps d)" using find_Some_in[OF bare(1)] by simp
    from insert_members_run[OF assms this, of mes] obtain rows where
      r: "insert_members (cp_id c) mes d = (Inr (length rows), d\<lparr> d_cap_agents := d_cap_agents d @ rows \<rparr>)"
        "\<forall>m \<in> set rows. ca_capability_id m = cp_id c" by blast
    have one: "seed_capability key mes d = (Inr (length rows), d\<lparr> d_cap_agents := d_cap_agents d @ rows \<rparr>)"
      using bare r by (simp add: seed_capability_def andthen_asks)
    have "seed_capability key mes (d\<lparr> d_cap_agents := d_cap_agents d @ rows \<rparr>) =
        (Inr 0, d\<lparr> d_cap_agents := d_cap_agents d @ rows \<rparr>)"
    proof (cases rows)
      case Nil
      then show ?thesis using one by simp
    next
      case (Cons m ms)
      then show ?thesis using bare r(2) by (simp add: seed_capability_def andthen_asks)
    qed
    moreover have "\<forall>m \<in> set rows. ca_capability_id m \<notin> ca_capability_id ` set (d_cap_agents d)"
      using r(2) bare(2) by (auto simp: filter_empty_conv)
    ultimately show ?thesis using one by blast
  qed
qed

text \<open>Seeding the shipped membership cannot fail on a consistent database, adds members only to
  capabilities that had none, keeps every existing membership, and run again adds nothing.\<close>

theorem seeding_is_idempotent:
  assumes "db_ok d"
  shows "\<exists>rows. seed_default_membership d = (Inr (length rows), d\<lparr> d_cap_agents := d_cap_agents d @ rows \<rparr>)
    \<and> list_all (\<lambda>m. ca_capability_id m \<notin> ca_capability_id ` set (d_cap_agents d)) rows
    \<and> seed_default_membership (d\<lparr> d_cap_agents := d_cap_agents d @ rows \<rparr>) =
        (Inr 0, d\<lparr> d_cap_agents := d_cap_agents d @ rows \<rparr>)"
proof -
  obtain key mes where dm: "default_membership = [(key, mes)]" by (simp add: default_membership_def)
  have seed: "seed_default_membership e = (Inr n, e') \<longleftrightarrow> seed_capability key mes e = (Inr n, e')" for e n e'
    by (auto simp: seed_default_membership_def dm andthen_run split: prod.splits sum.splits)
  show ?thesis unfolding seed list_all_iff using seed_capability_run[OF assms, of key mes] by blast
qed

lemma seeding_is_idempotent_witness:
  "\<exists>rows. seed_default_membership cards_db = (Inr (length rows), cards_db\<lparr> d_cap_agents := d_cap_agents cards_db @ rows \<rparr>)
    \<and> length rows = 1"
proof -
  have "fst (seed_default_membership cards_db) = Inr 1" by code_simp
  with seeding_is_idempotent[OF cards_db_ok] show ?thesis by (metis Inr_inject fst_conv)
qed

end
