(* ===== verification/Admin.thy ===== *)
theory Admin
  imports Web Capabilities Config_Sync
begin

text \<open>
  The administration surface: \<open>dependencies/admin_gate.py\<close>, \<open>routers/admin.py\<close> (agents, their
  configuration versions, the registry, the tools), \<open>routers/admin_config.py\<close> (capabilities and their
  membership) and the route of \<open>routers/ui.py\<close>. The handlers commit their own transaction.

  A value of a JSON body goes to a column untyped. What the driver and PostgreSQL make of it is a
  parameter per column type: \<open>None\<close> is a value the statement is refused for, \<open>Some None\<close> is NULL. A
  refused statement is one that violates a constraint.
\<close>

record admin =
  ad_web :: web
  ad_enabled :: bool  \<comment> \<open>\<open>saarthi_admin_enabled\<close>\<close>
  ad_text :: "json \<Rightarrow> string option option"
  ad_int :: "json \<Rightarrow> int option option"
  ad_bool :: "json \<Rightarrow> bool option option"
  ad_jsonb :: "json \<Rightarrow> json option"
  ad_reject :: "json \<Rightarrow> json list \<times> string"  \<comment> \<open>\<open>loc\<close> and \<open>msg\<close> of Pydantic's first error\<close>
  ad_sha :: "string \<Rightarrow> string"
  ad_tools :: "(string \<times> string) list"  \<comment> \<open>name and description\<close>
  ad_access :: access_parser

type_synonym body = "(string \<times> json) list"

definition admin_error :: "string \<Rightarrow> int \<Rightarrow> (string \<times> json) list \<Rightarrow> response" where
  "admin_error ecode status extra = json_response (JObj ((''error'', JStr ecode) # extra)) status"

definition refused :: "'a dbact" where
  "refused = throw IntegrityError"

fun redact_secrets :: "json \<Rightarrow> json" where
  "redact_secrets (JObj kvs) = JObj (map (\<lambda>(k, v). (k, redact_secrets v)) kvs)"
| "redact_secrets (JList vs) = JList (map redact_secrets vs)"
| "redact_secrets (JStr s) = (if occurs_in ''${'' s then JStr ''<REDACTED>'' else JStr s)"
| "redact_secrets v = v"

section \<open>Agents\<close>

text \<open>\<open>agent_registry.reload(db)\<close> in the request's session, and its version.\<close>

definition reload_registry :: "env \<Rightarrow> int wact" where
  "reload_registry env = (\<lambda>w. let w1 = begin_tx w;
     reg = reload (e_validate env) (monotonic w) (if w_aborted w1 then None else Some (w_db w1)) (w_reg w1)
     in (Inr (rg_version reg), w1\<lparr> w_reg := reg \<rparr>))"

definition agent_by_key :: "string \<Rightarrow> agent_row option dbact" where
  "agent_by_key key = asks (\<lambda>d. find (\<lambda>a. ag_key a = key) (d_agents d))"

definition with_agent :: "string \<Rightarrow> (agent_row \<Rightarrow> response wact) \<Rightarrow> response wact" where
  "with_agent key f = andthen (dbx (agent_by_key key)) (\<lambda>found.
     case found of None \<Rightarrow> ret (admin_error ''AGENT_NOT_FOUND'' 404 []) | Some a \<Rightarrow> f a)"

definition reload_agents :: "admin \<Rightarrow> response wact" where
  "reload_agents ad = andthen (reload_registry (wb_env (ad_web ad))) (\<lambda>v.
     ret (json_response (JObj [(''registry_version'', JInt v)]) 200))"

definition list_tools :: "admin \<Rightarrow> response" where
  "list_tools ad = json_response (JList (map (\<lambda>(n, desc). JObj [(''name'', JStr n), (''description'', JStr desc)])
     (sort_key fst (ad_tools ad)))) 200"

fun source_text :: "config_source \<Rightarrow> string" where
  "source_text Src_yaml = ''yaml''"
| "source_text Src_db = ''db''"

definition version_json :: "web \<Rightarrow> config_row \<Rightarrow> json" where
  "version_json wb c = JObj [(''version'', JInt (cf_version c)), (''origin'', JStr (source_text (cf_source c))),
     (''checksum'', JStr (cf_checksum c)), (''is_active'', JBool (cf_is_active c)),
     (''created_at'', JStr (wb_isoformat wb (cf_created_at c)))]"

definition list_config_versions :: "admin \<Rightarrow> string \<Rightarrow> response wact" where
  "list_config_versions ad key = with_agent key (\<lambda>a.
     andthen (dbx (asks (\<lambda>d. sort_key (\<lambda>c. - cf_version c) (configs_of (ag_id a) d)))) (\<lambda>rows.
     ret (json_response (JList (map (version_json (ad_web ad)) rows)) 200)))"

definition audit_admin :: "audit_action \<Rightarrow> string \<Rightarrow> uuid \<Rightarrow> user_context \<Rightarrow> json option \<Rightarrow> json option \<Rightarrow>
    string option \<Rightarrow> unit dbact" where
  "audit_admin act etype i u bef aft note = audit_insert act etype (Some i) (u_user_id u)
     (map_option Au_json bef) (map_option Au_json aft) note"

definition activate_statements :: "user_context \<Rightarrow> string \<Rightarrow> uuid \<Rightarrow> int \<Rightarrow> unit dbact" where
  "activate_statements u key a v =
     andthen (deactivate (\<lambda>c. cf_agent_id c = a)) (\<lambda>_.
     andthen (activate_version a v) (\<lambda>_.
     audit_admin Config_activate ''agent_configuration'' a u None None
       (Some (''Activated version '' @ show_int v @ '' for '' @ key))))"

definition activate_config_version :: "admin \<Rightarrow> user_context \<Rightarrow> string \<Rightarrow> string \<Rightarrow> response wact" where
  "activate_config_version ad u key version = with_agent key (\<lambda>a.
     let missing = admin_error ''INVALID_REQUEST'' 400 [(''msg'', JStr ''Version not found'')] in
     case py_int_base 10 version of
       None \<Rightarrow> ret missing
     | Some v \<Rightarrow>
         andthen (dbx (asks (\<lambda>d. list_ex (\<lambda>c. cf_version c = v) (configs_of (ag_id a) d)))) (\<lambda>exists.
         if \<not> exists then ret missing
         else
           andthen (dbx (activate_statements u key (ag_id a) v)) (\<lambda>_.
           andthen commit (\<lambda>_.
           andthen (reload_registry (wb_env (ad_web ad))) (\<lambda>rv.
           ret (json_response (JObj [(''version'', JInt v), (''registry_version'', JInt rv)]) 200))))))"

definition config_invalid :: "json list \<Rightarrow> string option \<Rightarrow> response" where
  "config_invalid path msg = admin_error ''CONFIG_INVALID'' 422
     ((''path'', JList path) # (case msg of None \<Rightarrow> [] | Some m \<Rightarrow> [(''msg'', JStr m)]))"

definition create_statements :: "user_context \<Rightarrow> string \<Rightarrow> uuid \<Rightarrow> string \<Rightarrow> json \<Rightarrow> int dbact" where
  "create_statements u key a chk raw =
     andthen (deactivate (\<lambda>c. cf_agent_id c = a)) (\<lambda>_.
     andthen (asks (next_version a)) (\<lambda>v.
     andthen (insert_config a v Src_db chk raw True) (\<lambda>_.
     andthen (audit_admin Config_create ''agent_configuration'' a u None None
       (Some (''Created version '' @ show_int v @ '' for '' @ key))) (\<lambda>_.
     ret v))))"

definition unknown_tools :: "admin \<Rightarrow> agent_spec \<Rightarrow> string list" where
  "unknown_tools ad sp = (case sp of
     LlmAgentSpec b l \<Rightarrow> filter (\<lambda>n. n \<notin> fst ` set (ad_tools ad)) (ll_tools l) | _ \<Rightarrow> [])"

definition create_config_version :: "admin \<Rightarrow> user_context \<Rightarrow> string \<Rightarrow> body option \<Rightarrow> response wact" where
  "create_config_version ad u key body = with_agent key (\<lambda>a.
     case body of
       None \<Rightarrow> ret (config_invalid [] None)
     | Some [] \<Rightarrow> ret (config_invalid [] None)
     | Some b \<Rightarrow> let raw = JObj b; env = wb_env (ad_web ad) in
         (case e_validate env raw of
            None \<Rightarrow> ret (config_invalid (fst (ad_reject ad raw)) (Some (snd (ad_reject ad raw))))
          | Some sp \<Rightarrow>
              if spec_type sp \<noteq> ag_agent_type a
              then ret (config_invalid [JStr ''agent_type''] (Some ''Cannot change agent type''))
              else if unknown_tools ad sp \<noteq> []
              then ret (config_invalid [JStr ''tools''] (Some (''Unknown tools: '' @ join '', '' (unknown_tools ad sp))))
              else let chk = snd (canonical_json (ad_sha ad) raw) in
                andthen (dbx (create_statements u key (ag_id a) chk raw)) (\<lambda>v.
                andthen (asks (\<lambda>w. d_now (w_db w))) (\<lambda>t.
                andthen commit (\<lambda>_.
                andthen (reload_registry env) (\<lambda>rv.
                ret (json_response (JObj [(''version'', JInt v), (''checksum'', JStr chk),
                  (''activated_at'', JStr (wb_isoformat (ad_web ad) t)), (''registry_version'', JInt rv)]) 200)))))))"

fun agent_status_text :: "agent_status \<Rightarrow> string" where
  "agent_status_text Enabled = ''enabled''"
| "agent_status_text Disabled = ''disabled''"

definition get_agent_detail :: "admin \<Rightarrow> string \<Rightarrow> response wact" where
  "get_agent_detail ad key =
     andthen (dbx (asks (\<lambda>d. map_option (\<lambda>a. (a, active_config (ag_id a) d)) (find (\<lambda>a. ag_key a = key) (d_agents d))))) (\<lambda>found.
     case found of
       None \<Rightarrow> ret (admin_error ''AGENT_NOT_FOUND'' 404 [])
     | Some (a, c) \<Rightarrow> ret (json_response (JObj
         [(''id'', JStr (uuid_text (ag_id a))), (''key'', JStr key), (''name'', JStr (ag_name a)),
          (''description'', JStr (ag_description a)), (''agent_type'', JStr (type_text (ag_agent_type a))),
          (''status'', JStr (agent_status_text (ag_status a))),
          (''active_version'', case c of None \<Rightarrow> JNull | Some x \<Rightarrow> JInt (cf_version x)),
          (''origin'', case c of None \<Rightarrow> JNull | Some x \<Rightarrow> JStr (source_text (cf_source x))),
          (''activated_at'', case c of None \<Rightarrow> JNull | Some x \<Rightarrow> JStr (wb_isoformat (ad_web ad) (cf_created_at x))),
          (''config'', redact_secrets (case c of None \<Rightarrow> JObj [] | Some x \<Rightarrow>
             if truthy (cf_config x) then cf_config x else JObj []))]) 200))"

definition update_agent_status :: "admin \<Rightarrow> user_context \<Rightarrow> string \<Rightarrow> body \<Rightarrow> response wact" where
  "update_agent_status ad u key b = with_agent key (\<lambda>a.
     let st = jget b ''status'' in
     if st \<noteq> JStr ''enabled'' \<and> st \<noteq> JStr ''disabled'' then ret (admin_error ''INVALID_REQUEST'' 400 [])
     else let new = (if st = JStr ''enabled'' then Enabled else Disabled) in
       andthen (dbx (andthen (upd_agents (\<lambda>r. ag_id r = ag_id a) (\<lambda>r. r\<lparr> ag_status := new \<rparr>)) (\<lambda>_.
         audit_admin (if new = Enabled then Agent_enable else Agent_disable) ''agent'' (ag_id a) u None None
           (Some (''Status set to '' @ agent_status_text new))))) (\<lambda>_.
       andthen commit (\<lambda>_.
       andthen (reload_registry (wb_env (ad_web ad))) (\<lambda>rv.
       ret (json_response (JObj [(''id'', JStr (uuid_text (ag_id a))), (''key'', JStr key), (''status'', st),
         (''registry_version'', JInt rv)]) 200)))))"

end
