(* ===== verification/Capability_Admin.thy ===== *)
theory Capability_Admin
  imports Admin
begin

text \<open>
  \<open>routers/admin_config.py\<close>: the capabilities of one scope and their membership; the route of
  \<open>routers/ui.py\<close>; the gate of \<open>dependencies/admin_gate.py\<close> and the calls of the surface, each with
  its database session (\<open>serve_admin\<close>).
\<close>

definition capability_fields :: "string list" where
  "capability_fields = [''name'', ''description'', ''icon'', ''badge'', ''status'', ''display_order'', ''metadata'']"

text \<open>\<open>status in _VALID_STATUSES\<close>: a list or a dict cannot be hashed.\<close>

definition status_of_text :: "string \<Rightarrow> capability_status option" where
  "status_of_text s = (if s = ''active'' then Some Cap_active else if s = ''disabled'' then Some Cap_disabled
     else if s = ''coming_soon'' then Some Cap_coming_soon else None)"

definition valid_status :: "json \<Rightarrow> exc + capability_status option" where
  "valid_status j = (case j of
     JStr s \<Rightarrow> Inr (status_of_text s)
   | JList _ \<Rightarrow> Inl (TypeError ''unhashable type: list'')
   | JObj _ \<Rightarrow> Inl (TypeError ''unhashable type: dict'')
   | _ \<Rightarrow> Inr None)"

definition invalid_capability :: "json list \<Rightarrow> string \<Rightarrow> response" where
  "invalid_capability path msg = admin_error ''CAPABILITY_INVALID'' 422 [(''path'', JList path), (''msg'', JStr msg)]"

definition status_error :: response where
  "status_error = invalid_capability [JStr ''status''] (''status must be one of ['' @
     join '', '' (map repr_str [''active'', ''coming_soon'', ''disabled'']) @ '']'')"

definition scope_params :: "string option \<Rightarrow> string option \<Rightarrow> string \<times> string" where
  "scope_params t oid = ((case t of None \<Rightarrow> default_scope | Some x \<Rightarrow> or_default x),
     (case oid of None \<Rightarrow> default_scope | Some x \<Rightarrow> or_default x))"

text \<open>The enum's own value, as the driver returns it.\<close>

fun cap_status_text :: "capability_status \<Rightarrow> string" where
  "cap_status_text Cap_active = ''active''"
| "cap_status_text Cap_coming_soon = ''coming_soon''"
| "cap_status_text Cap_disabled = ''disabled''"

definition serialize_capability :: "cap_row \<Rightarrow> json" where
  "serialize_capability c = JObj
     [(''id'', JStr (uuid_text (cp_id c))), (''tenant_id'', JStr (cp_tenant_id c)),
      (''organization_id'', JStr (cp_organization_id c)), (''key'', JStr (cp_key c)), (''name'', JStr (cp_name c)),
      (''description'', opt_str (cp_description c)), (''icon'', opt_str (cp_icon c)), (''badge'', opt_str (cp_badge c)),
      (''status'', JStr (cap_status_text (cp_status c))), (''display_order'', JInt (cp_display_order c)),
      (''metadata'', cp_metadata c)]"

definition capability_at :: "string \<Rightarrow> string \<Rightarrow> string \<Rightarrow> cap_row option dbact" where
  "capability_at key t oid = asks (\<lambda>d. find (\<lambda>c. cp_key c = key \<and> cp_tenant_id c = t \<and> cp_organization_id c = oid) (d_caps d))"

definition with_capability :: "string \<Rightarrow> string \<Rightarrow> string \<Rightarrow> (cap_row \<Rightarrow> response wact) \<Rightarrow> response wact" where
  "with_capability key t oid f = andthen (dbx (capability_at key t oid)) (\<lambda>found.
     case found of None \<Rightarrow> ret (admin_error ''CAPABILITY_NOT_FOUND'' 404 []) | Some c \<Rightarrow> f c)"

section \<open>Capabilities\<close>

definition list_capabilities :: "string option \<Rightarrow> string option \<Rightarrow> response wact" where
  "list_capabilities tenant organization = (case scope_params tenant organization of (t, oid) \<Rightarrow>
     andthen (dbx (asks (\<lambda>d. sort_key cp_display_order (sort_key cp_key
       (filter (\<lambda>c. cp_tenant_id c = t \<and> cp_organization_id c = oid) (d_caps d)))))) (\<lambda>rows.
     ret (json_response (JObj [(''capabilities'', JList (map serialize_capability rows))]) 200)))"

text \<open>A value as a column takes it; \<open>need\<close> for a NOT NULL column.\<close>

definition need :: "'a option option \<Rightarrow> 'a option" where
  "need x = (case x of Some (Some v) \<Rightarrow> Some v | _ \<Rightarrow> None)"

definition taken :: "'a option \<Rightarrow> 'a dbact" where
  "taken x = (case x of None \<Rightarrow> refused | Some v \<Rightarrow> ret v)"

text \<open>\<open>json.dumps(v or {})\<close>, cast to \<open>jsonb\<close>.\<close>

definition metadata_of :: "admin \<Rightarrow> json \<Rightarrow> json option" where
  "metadata_of ad v = ad_jsonb ad (por v (JObj []))"

definition insert_capability :: "admin \<Rightarrow> body \<Rightarrow> string \<Rightarrow> string \<Rightarrow> string \<Rightarrow> string \<Rightarrow> capability_status \<Rightarrow> cap_row dbact" where
  "insert_capability ad b key name t oid st =
     andthen (taken (ad_text ad (jget b ''description''))) (\<lambda>desc.
     andthen (taken (ad_text ad (jget b ''icon''))) (\<lambda>icon.
     andthen (taken (ad_text ad (jget b ''badge''))) (\<lambda>badge.
     andthen (taken (need (ad_int ad (jget_default b ''display_order'' (JInt 100))))) (\<lambda>pos.
     andthen (taken (metadata_of ad (jget b ''metadata''))) (\<lambda>meta.
     andthen fresh_id (\<lambda>i. let row = \<lparr> cp_id = i, cp_tenant_id = t, cp_organization_id = oid, cp_key = key,
         cp_name = name, cp_description = desc, cp_icon = icon, cp_badge = badge, cp_status = st,
         cp_display_order = pos, cp_metadata = meta \<rparr> in
     andthen (stmt (\<lambda>d. d\<lparr> d_caps := d_caps d @ [row] \<rparr>)) (\<lambda>_. ret row)))))))"

definition scope_value :: "admin \<Rightarrow> json \<Rightarrow> string dbact" where
  "scope_value ad v = (if truthy v then taken (need (ad_text ad v)) else ret default_scope)"

text \<open>\<open>except Exception: db.rollback()\<close>.\<close>

definition or_rolled_back :: "'a wact \<Rightarrow> 'b \<Rightarrow> ('a \<Rightarrow> 'b wact) \<Rightarrow> 'b wact" where
  "or_rolled_back m failed f = (\<lambda>w. case m w of (Inl e, w') \<Rightarrow> (Inr failed, rollback w') | (Inr x, w') \<Rightarrow> f x w')"

definition create_capability :: "admin \<Rightarrow> user_context \<Rightarrow> body option \<Rightarrow> response wact" where
  "create_capability ad u body =
     (case body of
        None \<Rightarrow> ret (invalid_capability [] ''empty body'')
      | Some [] \<Rightarrow> ret (invalid_capability [] ''empty body'')
      | Some b \<Rightarrow>
          (case (jget b ''key'', jget b ''name'') of
             (JStr (k # ks), JStr (n # ns)) \<Rightarrow>
               andthen (of_sum (valid_status (jget_default b ''status'' (JStr ''active'')))) (\<lambda>valid.
               case valid of
                 None \<Rightarrow> ret status_error
               | Some st \<Rightarrow>
                   andthen (dbx (scope_value ad (jget b ''tenant_id''))) (\<lambda>t.
                   andthen (dbx (scope_value ad (jget b ''organization_id''))) (\<lambda>oid.
                   andthen (dbx (capability_at (k # ks) t oid)) (\<lambda>existing.
                   if existing \<noteq> None then ret (admin_error ''CAPABILITY_EXISTS'' 409 [])
                   else or_rolled_back (dbx (insert_capability ad b (k # ks) (n # ns) t oid st))
                     (invalid_capability [JStr ''key''] ''key must match ^[a-z][a-z0-9_]{1,62}$'') (\<lambda>row.
                   andthen (dbx (audit_admin Capability_create ''capability'' (cp_id row) u None
                     (Some (serialize_capability row)) None)) (\<lambda>_.
                   andthen commit (\<lambda>_.
                   ret (json_response (serialize_capability row) 200))))))))
           | (JStr (k # ks), _) \<Rightarrow> ret (invalid_capability [JStr ''name''] ''name is required'')
           | _ \<Rightarrow> ret (invalid_capability [JStr ''key''] ''key is required'')))"

text \<open>The row after the SET clauses: \<open>None\<close> when a value is refused.\<close>

definition patched :: "admin \<Rightarrow> body \<Rightarrow> cap_row \<Rightarrow> cap_row option" where
  "patched ad b c =
     (let new = (\<lambda>k old conv. if has_key b k then conv (jget b k) else Some old) in
      Option.bind (new ''name'' (Some (cp_name c)) (\<lambda>v. map_option Some (need (ad_text ad v)))) (\<lambda>name.
      Option.bind (new ''description'' (cp_description c) (ad_text ad)) (\<lambda>desc.
      Option.bind (new ''icon'' (cp_icon c) (ad_text ad)) (\<lambda>icon.
      Option.bind (new ''badge'' (cp_badge c) (ad_text ad)) (\<lambda>badge.
      Option.bind (if has_key b ''display_order'' then need (ad_int ad (jget b ''display_order'')) else Some (cp_display_order c)) (\<lambda>pos.
      Option.bind (if has_key b ''metadata'' then metadata_of ad (jget b ''metadata'') else Some (cp_metadata c)) (\<lambda>meta.
      Some (c\<lparr> cp_name := the name, cp_description := desc, cp_icon := icon, cp_badge := badge,
        cp_status := (if has_key b ''status'' then (case jget b ''status'' of JStr s \<Rightarrow>
            (case status_of_text s of None \<Rightarrow> cp_status c | Some st \<Rightarrow> st) | _ \<Rightarrow> cp_status c) else cp_status c),
        cp_display_order := pos, cp_metadata := meta \<rparr>))))))))"

definition update_statements :: "admin \<Rightarrow> user_context \<Rightarrow> body \<Rightarrow> cap_row \<Rightarrow> cap_row dbact" where
  "update_statements ad u b bef =
     andthen (taken (patched ad b bef)) (\<lambda>row.
     andthen (stmt (\<lambda>d. d\<lparr> d_caps := upd_where (\<lambda>c. cp_id c = cp_id bef) (\<lambda>c. row) (d_caps d) \<rparr>)) (\<lambda>_.
     andthen (audit_admin Capability_update ''capability'' (cp_id row) u (Some (serialize_capability bef))
       (Some (serialize_capability row)) None) (\<lambda>_.
     ret row)))"

definition update_capability :: "admin \<Rightarrow> user_context \<Rightarrow> string \<Rightarrow> body option \<Rightarrow> string option \<Rightarrow> string option \<Rightarrow> response wact" where
  "update_capability ad u key body tenant organization =
     (case body of
        None \<Rightarrow> ret (invalid_capability [] ''empty body'')
      | Some [] \<Rightarrow> ret (invalid_capability [] ''empty body'')
      | Some b \<Rightarrow>
          let unknown = filter (\<lambda>k. k \<notin> set capability_fields) (map fst b) in
          if unknown \<noteq> [] then ret (invalid_capability (map JStr (sort (remdups unknown))) ''unknown field(s)'')
          else
            andthen (if has_key b ''status'' then of_sum (valid_status (jget b ''status''))
                     else ret (Some Cap_active)) (\<lambda>valid.
            if valid = None then ret status_error
            else (case scope_params tenant organization of (t, oid) \<Rightarrow>
              with_capability key t oid (\<lambda>bef.
              andthen (dbx (update_statements ad u b bef)) (\<lambda>row.
              andthen commit (\<lambda>_.
              ret (json_response (serialize_capability row) 200)))))))"

definition delete_statements :: "user_context \<Rightarrow> cap_row \<Rightarrow> unit dbact" where
  "delete_statements u c =
     andthen (stmt (\<lambda>d. d\<lparr> d_caps := filter (\<lambda>x. cp_id x \<noteq> cp_id c) (d_caps d),
       d_cap_agents := filter (\<lambda>m. ca_capability_id m \<noteq> cp_id c) (d_cap_agents d) \<rparr>)) (\<lambda>_.
     audit_admin Capability_delete ''capability'' (cp_id c) u (Some (serialize_capability c)) None None)"

definition delete_capability :: "user_context \<Rightarrow> string \<Rightarrow> string option \<Rightarrow> string option \<Rightarrow> response wact" where
  "delete_capability u key tenant organization = (case scope_params tenant organization of (t, oid) \<Rightarrow>
     with_capability key t oid (\<lambda>c.
     andthen (dbx (delete_statements u c)) (\<lambda>_.
     andthen commit (\<lambda>_.
     ret (json_response (JObj [(''deleted'', JBool True), (''key'', JStr key), (''tenant_id'', JStr t),
       (''organization_id'', JStr oid)]) 200)))))"

section \<open>Membership\<close>

text \<open>The loop that resolves every \<open>agent_key\<close> before anything is written: \<open>Inl\<close> is the answer of an
  early return.\<close>

fun resolve_members :: "admin \<Rightarrow> nat \<Rightarrow> json list \<Rightarrow> (response + (uuid \<times> body \<times> nat) list) dbact" where
  "resolve_members ad i [] = ret (Inr [])"
| "resolve_members ad i (m # ms) =
     (let path = JList [JStr ''agents'', JInt (int i), JStr ''agent_key''] in
      case m of
        JObj kv \<Rightarrow>
          if \<not> truthy (jget kv ''agent_key'')
          then ret (Inl (admin_error ''MEMBERSHIP_INVALID'' 422 [(''path'', path), (''msg'', JStr ''agent_key is required'')]))
          else
            andthen (taken (need (ad_text ad (jget kv ''agent_key'')))) (\<lambda>key.
            andthen (agent_by_key key) (\<lambda>found.
            case found of
              None \<Rightarrow> ret (Inl (admin_error ''AGENT_NOT_FOUND'' 422
                [(''path'', path), (''msg'', JStr (''unknown agent '' @ py_repr (jget kv ''agent_key'')))]))
            | Some a \<Rightarrow>
                andthen (resolve_members ad (i + 1) ms) (\<lambda>rest.
                ret (case rest of Inl r \<Rightarrow> Inl r | Inr xs \<Rightarrow> Inr ((ag_id a, kv, i) # xs)))))
      | _ \<Rightarrow> ret (Inl (admin_error ''MEMBERSHIP_INVALID'' 422 [(''path'', path), (''msg'', JStr ''agent_key is required'')])))"

definition member_of :: "admin \<Rightarrow> uuid \<Rightarrow> uuid \<times> body \<times> nat \<Rightarrow> cap_agent_row option" where
  "member_of ad c x = (case x of (a, kv, i) \<Rightarrow>
     Option.bind (need (ad_int ad (jget_default kv ''display_order'' (JInt ((int i + 1) * 10))))) (\<lambda>pos.
     Option.bind (ad_text ad (jget kv ''label_override'')) (\<lambda>label.
     Option.bind (need (ad_bool ad (jget_default kv ''is_visible'' (JBool True)))) (\<lambda>vis.
     Option.bind (metadata_of ad (jget kv ''metadata'')) (\<lambda>meta.
     Some \<lparr> ca_capability_id = c, ca_agent_id = a, ca_display_order = pos, ca_label_override = label,
       ca_is_visible = vis, ca_metadata = meta \<rparr>)))))"

definition add_member :: "admin \<Rightarrow> uuid \<Rightarrow> uuid \<times> body \<times> nat \<Rightarrow> unit dbact" where
  "add_member ad c x = andthen (taken (member_of ad c x)) (\<lambda>row.
     stmt (\<lambda>d. d\<lparr> d_cap_agents := d_cap_agents d @ [row] \<rparr>))"

definition replace_members :: "admin \<Rightarrow> user_context \<Rightarrow> uuid \<Rightarrow> json list \<Rightarrow> (uuid \<times> body \<times> nat) list \<Rightarrow> unit dbact" where
  "replace_members ad u c members found =
     andthen (stmt (\<lambda>d. d\<lparr> d_cap_agents := filter (\<lambda>m. ca_capability_id m \<noteq> c) (d_cap_agents d) \<rparr>)) (\<lambda>_.
     andthen (each (add_member ad c) found) (\<lambda>_.
     audit_admin Capability_agent_set ''capability'' c u None (Some (JObj [(''agents'', JList members)]))
       (Some (''membership replaced ('' @ show_nat (length members) @ '' agent(s))''))))"

definition set_members :: "admin \<Rightarrow> user_context \<Rightarrow> string \<Rightarrow> string \<Rightarrow> string \<Rightarrow> json list \<Rightarrow> cap_row \<Rightarrow> response wact" where
  "set_members ad u key t oid members c =
     andthen (dbx (resolve_members ad 0 members)) (\<lambda>res.
     case res of
       Inl answer \<Rightarrow> ret answer
     | Inr found \<Rightarrow>
         andthen (dbx (replace_members ad u (cp_id c) members found)) (\<lambda>_.
         andthen commit (\<lambda>_.
         ret (json_response (JObj [(''key'', JStr key), (''tenant_id'', JStr t), (''organization_id'', JStr oid),
           (''agents'', JList members)]) 200))))"

definition set_capability_agents :: "admin \<Rightarrow> user_context \<Rightarrow> string \<Rightarrow> body option \<Rightarrow> string option \<Rightarrow> string option \<Rightarrow> response wact" where
  "set_capability_agents ad u key body tenant organization =
     (case (case body of None \<Rightarrow> JNull | Some b \<Rightarrow> jget b ''agents'') of
        JList members \<Rightarrow>
          (case scope_params tenant organization of (t, oid) \<Rightarrow>
             with_capability key t oid (set_members ad u key t oid members))
      | _ \<Rightarrow> ret (admin_error ''MEMBERSHIP_INVALID'' 422
          [(''path'', JList [JStr ''agents'']), (''msg'', JStr ''agents must be a list'')]))"

section \<open>The surface\<close>

definition get_ui_capabilities :: "admin \<Rightarrow> user_context \<Rightarrow> response wact" where
  "get_ui_capabilities ad u = andthen (dbx (resolve_for_user (ad_access ad) (Some u))) (\<lambda>doc. ret (json_response doc 200))"

definition require_admin :: "admin \<Rightarrow> user_context \<Rightarrow> response option" where
  "require_admin ad u =
     (if \<not> ad_enabled ad then Some (admin_gate_response ''Not Found'' 404)
      else if ''admin'' \<notin> set (user_roles u) then Some (admin_gate_response ''Forbidden'' 403)
      else None)"

datatype admin_call =
    Reload_agents
  | Tools_call
  | Versions_call string
  | Activate_call string string
  | Create_config_call string "body option"
  | Detail_call string
  | Status_call string "body option"
  | List_capabilities_call "string option" "string option"
  | Create_capability_call "body option"
  | Update_capability_call string "body option" "string option" "string option"
  | Delete_capability_call string "string option" "string option"
  | Members_call string "body option" "string option" "string option"

fun admin_route :: "admin \<Rightarrow> user_context \<Rightarrow> admin_call \<Rightarrow> response wact" where
  "admin_route ad u Reload_agents = reload_agents ad"
| "admin_route ad u Tools_call = ret (list_tools ad)"
| "admin_route ad u (Versions_call k) = list_config_versions ad k"
| "admin_route ad u (Activate_call k v) = activate_config_version ad u k v"
| "admin_route ad u (Create_config_call k b) = create_config_version ad u k b"
| "admin_route ad u (Detail_call k) = get_agent_detail ad k"
| "admin_route ad u (Status_call k b) = update_agent_status ad u k (case b of None \<Rightarrow> [] | Some kv \<Rightarrow> kv)"
| "admin_route ad u (List_capabilities_call t oid) = list_capabilities t oid"
| "admin_route ad u (Create_capability_call b) = create_capability ad u b"
| "admin_route ad u (Update_capability_call k b t oid) = update_capability ad u k b t oid"
| "admin_route ad u (Delete_capability_call k t oid) = delete_capability u k t oid"
| "admin_route ad u (Members_call k b t oid) = set_capability_agents ad u k b t oid"

text \<open>The gate is the router's dependency, before the database session.\<close>

definition serve_admin :: "admin \<Rightarrow> nat \<Rightarrow> user_context \<Rightarrow> admin_call \<Rightarrow> world \<Rightarrow> response \<times> world" where
  "serve_admin ad conn u call w =
     (case require_admin ad u of
        Some r \<Rightarrow> (r, w)
      | None \<Rightarrow>
          if call = Tools_call then (list_tools ad, w)
          else with_db (ad_web ad) conn (admin_route ad u call) w)"

end
