(* ===== verification/Identity.thy ===== *)
theory Identity
  imports Capability_Admin
begin

text \<open>
  \<open>services/identity.py\<close> and \<open>dependencies/identity.py\<close>: the caller's identity, resolved once, from the
  claims of the configured token or from constants; the normalisation of the route prefix
  (\<open>core/settings.py\<close>), the size of the worker pool (\<open>core/concurrency.py\<close>), the guards of
  \<open>core/runtime.py\<close> and the request identifier (\<open>middleware/request_id.py\<close>).
\<close>

section \<open>Python on claims\<close>

definition or_raise :: "'e + 'a \<Rightarrow> ('a \<Rightarrow> 'e + 'b) \<Rightarrow> 'e + 'b" where
  "or_raise x f = (case x of Inl e \<Rightarrow> Inl e | Inr v \<Rightarrow> f v)"

fun traverse :: "('a \<Rightarrow> 'e + 'b) \<Rightarrow> 'a list \<Rightarrow> 'e + 'b list" where
  "traverse f [] = Inr []"
| "traverse f (x # xs) = or_raise (f x) (\<lambda>y. or_raise (traverse f xs) (\<lambda>ys. Inr (y # ys)))"

lemma or_raise_InrE:
  assumes "or_raise x f = Inr y"
  obtains v where "x = Inr v" "f v = Inr y"
  using assms by (cases x) (auto simp: or_raise_def)

lemma or_raise_Inr [simp]: "or_raise (Inr v) f = f v"
  by (simp add: or_raise_def)

lemma traverse_Inr: "traverse f xs = Inr ys \<Longrightarrow> list_all2 (\<lambda>x y. f x = Inr y) xs ys"
  by (induction xs arbitrary: ys) (auto elim!: or_raise_InrE)

text \<open>\<open>for x in v\<close>, \<open>v.get\<close> and \<open>v[0]\<close>.\<close>

definition py_iter :: "json \<Rightarrow> exc + json list" where
  "py_iter v = (case v of
     JList xs \<Rightarrow> Inr xs
   | JObj kvs \<Rightarrow> Inr (map (\<lambda>kv. JStr (fst kv)) kvs)
   | JStr s \<Rightarrow> Inr (map (\<lambda>c. JStr [c]) s)
   | _ \<Rightarrow> Inl (TypeError (repr_str (type_name v) @ '' object is not iterable'')))"

definition as_dict :: "json \<Rightarrow> exc + body" where
  "as_dict v = (case v of JObj kvs \<Rightarrow> Inr kvs
     | _ \<Rightarrow> Inl (AttributeError (repr_str (type_name v) @ '' object has no attribute '' @ repr_str ''get'')))"

definition first_item :: "json \<Rightarrow> exc + json" where
  "first_item v = (case v of
     JList (x # _) \<Rightarrow> Inr x
   | JStr (c # _) \<Rightarrow> Inr (JStr [c])
   | JObj _ \<Rightarrow> Inl (KeyError ''0'')
   | _ \<Rightarrow> Inl (TypeError (repr_str (type_name v) @ '' object is not subscriptable'')))"

section \<open>The identity\<close>

text \<open>\<open>is_jwt\<close> is \<open>jwt.decode\<close> with both checks off: the message of its error, or the payload, a JSON
  object. The code puts some claims in the context as they are; \<open>is_raw\<close> stands for a claim that is not
  a string in a field that is one here.\<close>

record id_settings =
  is_auth_check :: bool
  is_static_token :: "string option"
  is_identifier_field :: string
  is_email_suffix :: string
  is_jwt :: "string \<Rightarrow> string + body"
  is_raw :: "json \<Rightarrow> string"

definition claim_text :: "id_settings \<Rightarrow> json \<Rightarrow> string" where
  "claim_text cfg v = (case v of JStr s \<Rightarrow> s | _ \<Rightarrow> is_raw cfg v)"

definition role_titles :: "id_settings \<Rightarrow> body \<Rightarrow> exc + string list" where
  "role_titles cfg org =
     or_raise (py_iter (jget_default org ''roles'' (JList []))) (\<lambda>roles.
     or_raise (traverse as_dict roles) (\<lambda>rs.
     Inr (map (claim_text cfg) (filter truthy (map (\<lambda>r. jget r ''title'') rs)))))"

definition membership_from :: "id_settings \<Rightarrow> json \<Rightarrow> exc + org_membership" where
  "membership_from cfg v =
     or_raise (as_dict v) (\<lambda>org.
     or_raise (role_titles cfg org) (\<lambda>titles.
     Inr \<lparr> om_org_id = py_str (jget_default org ''id'' (JStr [])),
       om_org_code = py_str (jget_default org ''code'' (JStr [])), om_roles = titles \<rparr>))"

definition active_org :: "body \<Rightarrow> exc + string option" where
  "active_org data = (let ids = jget_default data ''organization_ids'' (JList []) in
     if truthy ids then or_raise (first_item ids) (\<lambda>v. Inr (Some (py_str v))) else Inr None)"

definition context_from_token :: "id_settings \<Rightarrow> string \<Rightarrow> exc + user_context" where
  "context_from_token cfg token =
     (case is_jwt cfg token of
        Inl msg \<Rightarrow> Inl (InvalidTokenError (''Invalid token: '' @ msg))
      | Inr decoded \<Rightarrow>
          or_raise (as_dict (jget_default decoded ''data'' (JObj []))) (\<lambda>data.
          let identifier = py_str (jget_default data (is_identifier_field cfg) (JStr [])) in
          or_raise (py_iter (jget_default data ''organizations'' (JList []))) (\<lambda>vs.
          or_raise (traverse (membership_from cfg) vs) (\<lambda>orgs.
          or_raise (active_org data) (\<lambda>active.
          Inr \<lparr> u_user_id = identifier, u_email = identifier @ is_email_suffix cfg,
            u_display_name = claim_text cfg (jget_default data ''name'' (JStr [])),
            u_tenant_code = claim_text cfg (jget_default data ''tenant_code'' (JStr [])),
            u_orgs = orgs, u_active_org_id = active, u_locale = ''en'', u_token = Some token \<rparr>)))))"

definition default_context :: "id_settings \<Rightarrow> user_context" where
  "default_context cfg = \<lparr> u_user_id = ''1355'', u_email = ''1355'' @ is_email_suffix cfg,
     u_display_name = ''Priyanka Pradeep'', u_tenant_code = ''shikshalokam'',
     u_orgs = [\<lparr> om_org_id = ''62'', om_org_code = ''sot'', om_roles = [''mentee'', ''creator'', ''program_designer''] \<rparr>],
     u_active_org_id = Some ''62'', u_locale = ''en'', u_token = None \<rparr>"

text \<open>The constructor of \<open>Authenticator\<close>; \<open>authenticate\<close> returns what it stored.\<close>

definition authenticator :: "id_settings \<Rightarrow> exc + user_context" where
  "authenticator cfg =
     (if is_auth_check cfg then
        (case is_static_token cfg of
           None \<Rightarrow> Inl (ValueError ''SAARTHI_STATIC_TOKEN is required when AUTH_CHECK is true'')
         | Some tok \<Rightarrow> if tok = [] then Inl (ValueError ''SAARTHI_STATIC_TOKEN is required when AUTH_CHECK is true'')
             else context_from_token cfg tok)
      else Inr (default_context cfg))"

definition get_current_user :: "web \<Rightarrow> user_context option \<Rightarrow> response + user_context" where
  "get_current_user wb stored = (case stored of
     None \<Rightarrow> Inl (unauthorized_response wb ''No authenticator configured'') | Some u \<Rightarrow> Inr u)"

section \<open>Settings and guards\<close>

definition normalise_api_prefix :: "string \<Rightarrow> string" where
  "normalise_api_prefix v = (let p = strip_chars ''/'' (strip v) in if p \<noteq> [] then CHR ''/'' # p else [])"

text \<open>\<open>settings.threadpool_size or settings.db_pool_size\<close>, clamped.\<close>

definition resolve_threadpool_size :: "int option \<Rightarrow> int \<Rightarrow> int" where
  "resolve_threadpool_size threadpool db_pool =
     (let requested = (case threadpool of None \<Rightarrow> db_pool | Some n \<Rightarrow> if n = 0 then db_pool else n)
      in min requested db_pool)"

definition resolve_reloader :: "int \<Rightarrow> exc + bool" where
  "resolve_reloader mitra_enabled = (let use_reloader = (mitra_enabled = 0) in
     if mitra_enabled \<noteq> 0 \<and> use_reloader
     then Inl (RuntimeError ''MITRA_ENABLED=1 requires the uvicorn reloader to be off.'') else Inr use_reloader)"

definition assert_single_worker :: "int \<Rightarrow> int \<Rightarrow> exc + unit" where
  "assert_single_worker mitra_enabled workers =
     (if mitra_enabled \<noteq> 0 \<and> workers > 1
      then Inl (RuntimeError (''MITRA_ENABLED=1 requires a single worker process, got workers='' @ show_int workers
        @ ''. Scale with THREADPOOL_SIZE instead.''))
      else Inr ())"

text \<open>\<open>RequestIDMiddleware\<close>: the identifier given to the routes and the header of the answer. \<open>header\<close>
  is the header of the request, \<open>fresh\<close> the text of a new identifier.\<close>

definition request_id_for :: "string option \<Rightarrow> string \<Rightarrow> string" where
  "request_id_for header fresh = (case header of None \<Rightarrow> fresh | Some h \<Rightarrow> if h = [] then fresh else h)"

definition with_request_id :: "string option \<Rightarrow> string \<Rightarrow> (string \<Rightarrow> response) \<Rightarrow> (string \<times> string) list \<times> response" where
  "with_request_id header fresh app = (let i = request_id_for header fresh in ([(''X-Request-ID'', i)], app i))"

section \<open>What the settings give\<close>

lemma rstrip_by_prefix: "s = rstrip_by p s @ rev (takeWhile p (rev s))"
  unfolding rstrip_by_def by (metis rev_append rev_rev_ident takeWhile_dropWhile_id)

lemma hd_rstrip_by: "rstrip_by p s \<noteq> [] \<Longrightarrow> hd (rstrip_by p s) = hd s \<and> s \<noteq> []"
  using rstrip_by_prefix[of s p] by (metis append_is_Nil_conv hd_append2)

lemma prefix_is_canonical:
  "normalise_api_prefix v = [] \<or>
   (\<exists>s. normalise_api_prefix v = CHR ''/'' # s \<and> s \<noteq> [] \<and> hd s \<noteq> CHR ''/'' \<and> last s \<noteq> CHR ''/'')"
proof (cases "strip_chars ''/'' (strip v) = []")
  case False
  let ?p = "strip_chars ''/'' (strip v)"
  have p: "?p = rstrip_by (\<lambda>c. c \<in> set ''/'') (lstrip_by (\<lambda>c. c \<in> set ''/'') (strip v))"
    by (simp add: strip_chars_def strip_by_def)
  have "last ?p \<noteq> CHR ''/''" using False rstrip_by_last[of "\<lambda>c. c \<in> set ''/''"] unfolding p by auto
  moreover have "hd ?p \<noteq> CHR ''/''"
    using False lstrip_by_head[of "\<lambda>c. c \<in> set ''/''" "strip v"] hd_rstrip_by unfolding p by fastforce
  ultimately show ?thesis using False by (simp add: normalise_api_prefix_def)
qed (simp add: normalise_api_prefix_def)

text \<open>A second pass may go further: the white space between the slashes is not stripped.\<close>

lemma prefix_is_not_idempotent:
  "normalise_api_prefix ''/ /'' = ''/ '' \<and> normalise_api_prefix (normalise_api_prefix ''/ /'') = []"
  by code_simp

lemma threadpool_within_pool:
  "resolve_threadpool_size t p \<le> p \<and> (resolve_threadpool_size t p = p \<or> t = Some (resolve_threadpool_size t p))"
  by (auto simp: resolve_threadpool_size_def Let_def min_def split: option.split)

lemma reloader_never_raises: "resolve_reloader m = Inr (m = 0)"
  by (simp add: resolve_reloader_def Let_def)

section \<open>Who may administer\<close>

text \<open>The titles of the roles of the organisation that the claims name first, read off the payload.\<close>

definition active_titles :: "id_settings \<Rightarrow> body \<Rightarrow> string list" where
  "active_titles cfg decoded =
     (case jget_default decoded ''data'' (JObj []) of
        JObj data \<Rightarrow>
          (case (py_iter (jget_default data ''organizations'' (JList [])), active_org data) of
             (Inr vs, Inr (Some i)) \<Rightarrow>
               (case find (\<lambda>v. case v of JObj org \<Rightarrow> py_str (jget_default org ''id'' (JStr [])) = i | _ \<Rightarrow> False) vs of
                  Some (JObj org) \<Rightarrow> map (claim_text cfg) (filter truthy
                    (map (\<lambda>r. case r of JObj kv \<Rightarrow> jget kv ''title'' | _ \<Rightarrow> JNull)
                      (case jget_default org ''roles'' (JList []) of JList rs \<Rightarrow> rs | _ \<Rightarrow> [])))
                | _ \<Rightarrow> [])
           | _ \<Rightarrow> [])
      | _ \<Rightarrow> [])"

lemma as_dict_Inr: "as_dict v = Inr kv \<longleftrightarrow> v = JObj kv"
  by (cases v) (simp_all add: as_dict_def)

lemma role_titles_Inr:
  assumes "role_titles cfg org = Inr ts"
  shows "ts = map (claim_text cfg) (filter truthy (map (\<lambda>r. case r of JObj kv \<Rightarrow> jget kv ''title'' | _ \<Rightarrow> JNull)
    (case jget_default org ''roles'' (JList []) of JList rs \<Rightarrow> rs | _ \<Rightarrow> [])))"
proof -
  obtain roles rs where it: "py_iter (jget_default org ''roles'' (JList [])) = Inr roles"
    and all: "list_all2 (\<lambda>r kv. r = JObj kv) roles rs"
    and ts: "ts = map (claim_text cfg) (filter truthy (map (\<lambda>r. jget r ''title'') rs))"
    using assms unfolding role_titles_def by (auto elim!: or_raise_InrE dest!: traverse_Inr simp: as_dict_Inr)
  from all have roles: "roles = map JObj rs" by (induction rule: list_all2_induct) simp_all
  then have "roles = (case jget_default org ''roles'' (JList []) of JList rs \<Rightarrow> rs | _ \<Rightarrow> [])"
    using it by (cases "jget_default org ''roles'' (JList [])"; cases rs) (auto simp: py_iter_def)
  moreover have "map (\<lambda>r. jget r ''title'') rs = map (\<lambda>r. case r of JObj kv \<Rightarrow> jget kv ''title'' | _ \<Rightarrow> JNull) roles"
    by (simp add: roles)
  ultimately show ?thesis using ts by simp
qed

end
