(* ===== verification/Admin_Properties.thy ===== *)
theory Admin_Properties
  imports Capability_Admin Config_Sync_Properties Request_Properties Capability_Properties
begin

text \<open>
  What the administration surface guarantees: a write is stored whole or not at all, an override
  survives every later safe sync, creating and deleting a capability cancel out, and a configuration
  is shown without its unresolved references.
\<close>

section \<open>A route that writes once\<close>

lemma begin_tx_again [simp]: "begin_tx (begin_tx w) = begin_tx w"
  by (simp add: begin_tx_def)

lemma dbx_asks: "\<not> w_aborted w \<Longrightarrow> dbx (asks f) w = (Inr (f (w_db (begin_tx w))), begin_tx w)"
  by (simp add: dbx_def Let_def)

text \<open>The world a route starts in.\<close>

definition opened :: "web \<Rightarrow> nat \<Rightarrow> world \<Rightarrow> world" where
  "opened wb conn w = begin_tx (registry_check (wb_env wb) (w\<lparr> w_conn := conn \<rparr>))"

lemma opened_state:
  assumes "settled w"
  shows "\<not> w_aborted (opened wb conn w)" and "w_committed (opened wb conn w) = w_committed w"
    and "same_data (w_committed w) (w_db (opened wb conn w))" and "begin_tx (opened wb conn w) = opened wb conn w"
    and "\<not> w_aborted (registry_check (wb_env wb) (w\<lparr> w_conn := conn \<rparr>))"
  using assms by (simp_all add: opened_def registry_check_def settled_def Let_def) (simp_all add: begin_tx_def)

text \<open>A transaction that writes and commits.\<close>

lemma write_commit:
  assumes "\<not> w_aborted w" and "begin_tx w = w"
  shows "andthen (dbx m) (\<lambda>x. andthen commit (\<lambda>_. f x)) w =
    (case m (w_db w) of
       (Inl e, d) \<Rightarrow> (Inl e, w\<lparr> w_db := d, w_aborted := (e = IntegrityError) \<rparr>)
     | (Inr x, d) \<Rightarrow> f x (w\<lparr> w_db := d, w_aborted := False, w_committed := d, w_in_tx := False \<rparr>))"
  using assms by (auto simp: andthen_run dbx_def Let_def commit_def split: prod.split sum.split)

lemma dbx_read: "\<not> w_aborted w \<Longrightarrow> begin_tx w = w \<Longrightarrow> m (w_db w) = (Inr x, w_db w) \<Longrightarrow> dbx m w = (Inr x, w)"
  by (simp add: dbx_def)

lemma dbx_Inl: "\<not> w_aborted w \<Longrightarrow> m (w_db (begin_tx w)) = (Inl e, d) \<Longrightarrow>
   \<exists>w'. dbx m w = (Inl e, w') \<and> w_committed w' = w_committed w"
  by (simp add: dbx_def Let_def)

text \<open>How a request ends: after an exception nothing is stored; otherwise what the route left.\<close>

lemma ended:
  assumes "end_request wb r w = (resp, w')"
  shows "r = Inl e \<Longrightarrow> rp_status resp = 500 \<and> same_data (w_committed w) (w_committed w')"
    and "r = Inr x \<Longrightarrow> \<not> w_aborted w \<Longrightarrow> resp = x \<and> w_committed w' = w_db w"
  using assms by (auto simp: end_request_def rollback_def commit_def internal_error_def error_response_def json_response_def)

lemma reload_registry_run: "\<not> w_aborted w \<Longrightarrow> \<exists>v reg. reload_registry env w = (Inr v, (begin_tx w)\<lparr> w_reg := reg \<rparr>)"
  by (auto simp: reload_registry_def Let_def)

lemma same_data_trans: "same_data c d \<Longrightarrow> same_data d e \<Longrightarrow> same_data c e"
  by (simp add: same_data_def)

lemma begin_tx_same: "same_data (w_db w) (w_db (begin_tx w))"
  by (simp add: begin_tx_def)

section \<open>Membership\<close>

lemma resolve_members_run:
  "resolve_members ad i ms d = (Inr res, d') \<Longrightarrow> d' = d \<and> (case res of
     Inl answer \<Rightarrow> rp_status answer = 422
   | Inr xs \<Rightarrow> list_all2 (\<lambda>m (a, kv, j). m = JObj kv \<and> (\<exists>r \<in> set (d_agents d). ag_id r = a
        \<and> ad_text ad (jget kv ''agent_key'') = Some (Some (ag_key r)))) ms xs)"
proof (induction ms arbitrary: i res)
  case (Cons m ms)
  show ?case
  proof (cases m)
    case (JObj kv)
    show ?thesis
    proof (cases "truthy (jget kv ''agent_key'')")
      case True
      with Cons.prems JObj obtain key where key: "ad_text ad (jget kv ''agent_key'') = Some (Some key)"
        by (auto simp: andthen_run taken_def need_def refused_def split: option.splits)
      show ?thesis
      proof (cases "find (\<lambda>a. ag_key a = key) (d_agents d)")
        case None
        then show ?thesis using Cons.prems JObj True key
          by (auto simp: andthen_run taken_def need_def agent_by_key_def admin_error_def json_response_def)
      next
        case (Some a)
        with Cons.prems JObj True key obtain rest where rest: "resolve_members ad (i + 1) ms d = (Inr rest, d')"
          "res = (case rest of Inl r \<Rightarrow> Inl r | Inr xs \<Rightarrow> Inr ((ag_id a, kv, i) # xs))"
          by (auto simp: andthen_run taken_def need_def agent_by_key_def split: prod.splits sum.splits)
        show ?thesis using Cons.IH[OF rest(1)] rest(2) JObj key find_Some_in[OF Some] by (auto split: sum.splits)
      qed
    qed (use Cons.prems JObj in \<open>auto simp: admin_error_def json_response_def\<close>)
  qed (use Cons.prems in \<open>auto simp: admin_error_def json_response_def\<close>)
qed auto

lemma add_members_run:
  "each (add_member ad c) xs d = (Inr u, d') \<Longrightarrow> \<exists>rows. d' = d\<lparr> d_cap_agents := d_cap_agents d @ rows \<rparr>
     \<and> list_all2 (\<lambda>(a, kv, j) row. ca_capability_id row = c \<and> ca_agent_id row = a) xs rows"
proof (induction xs arbitrary: d)
  case (Cons x xs)
  obtain a kv j where x: "x = (a, kv, j)" by (cases x)
  from Cons.prems obtain d1 u1 where one: "add_member ad c x d = (Inr u1, d1)"
    and rest: "each (add_member ad c) xs d1 = (Inr u, d')" by (auto elim: andthen_InrE)
  from one obtain row where row: "member_of ad c x = Some row" "d1 = d\<lparr> d_cap_agents := d_cap_agents d @ [row] \<rparr>"
    by (cases "member_of ad c x") (auto simp: add_member_def taken_def refused_def andthen_run dest!: stmt_InrD)
  have "ca_capability_id row = c \<and> ca_agent_id row = a"
    using row(1) by (auto simp: x member_of_def bind_eq_Some_conv)
  with Cons.IH[OF rest] row(2) x show ?case by force
qed auto

text \<open>The row names the agent of the member.\<close>

definition names_agent :: "admin \<Rightarrow> db \<Rightarrow> uuid \<Rightarrow> json \<Rightarrow> cap_agent_row \<Rightarrow> bool" where
  "names_agent ad d c m row \<longleftrightarrow> ca_capability_id row = c \<and> (\<exists>kv. \<exists>r \<in> set (d_agents d). m = JObj kv
     \<and> ag_id r = ca_agent_id row \<and> ad_text ad (jget kv ''agent_key'') = Some (Some (ag_key r)))"

lemma replace_members_run:
  assumes "replace_members ad u c ms xs d = (Inr v, d')"
    and "list_all2 (\<lambda>m (a, kv, j). m = JObj kv \<and> (\<exists>r \<in> set (d_agents d). ag_id r = a
        \<and> ad_text ad (jget kv ''agent_key'') = Some (Some (ag_key r)))) ms xs"
  shows "\<exists>rows. d_cap_agents d' = filter (\<lambda>m. ca_capability_id m \<noteq> c) (d_cap_agents d) @ rows
    \<and> list_all2 (names_agent ad d c) ms rows"
proof -
  let ?d1 = "d\<lparr> d_cap_agents := filter (\<lambda>m. ca_capability_id m \<noteq> c) (d_cap_agents d) \<rparr>"
  from assms(1)[unfolded replace_members_def] obtain u1 d1 u2 d2
    where st: "stmt (\<lambda>d. d\<lparr> d_cap_agents := filter (\<lambda>m. ca_capability_id m \<noteq> c) (d_cap_agents d) \<rparr>) d = (Inr u1, d1)"
      and each1: "each (add_member ad c) xs d1 = (Inr u2, d2)"
      and aud1: "audit_admin Capability_agent_set ''capability'' c u None (Some (JObj [(''agents'', JList ms)]))
        (Some (''membership replaced ('' @ show_nat (length ms) @ '' agent(s))'')) d2 = (Inr v, d')"
    by (elim andthen_InrE) (rule that)
  have each: "each (add_member ad c) xs ?d1 = (Inr u2, d2)" using each1 stmt_InrD[OF st] by simp
  have aud: "d_cap_agents d' = d_cap_agents d2"
    using stmt_InrD[OF aud1[unfolded audit_admin_def audit_insert_def]] by simp
  from add_members_run[OF each] obtain rows where rows: "d2 = ?d1\<lparr> d_cap_agents := d_cap_agents ?d1 @ rows \<rparr>"
    "list_all2 (\<lambda>(a, kv, j) row. ca_capability_id row = c \<and> ca_agent_id row = a) xs rows" by auto
  have "list_all2 (names_agent ad d c) ms rows"
    by (rule list_all2_trans[OF _ assms(2) rows(2)]) (auto simp: names_agent_def)
  then show ?thesis using aud rows(1) by auto
qed

text \<open>A gated request runs its route in an opened world and ends it.\<close>

lemma serve_admin_run:
  assumes "serve_admin ad conn u call w = (resp, w')" and "call \<noteq> Tools_call"
  shows "(\<exists>r. require_admin ad u = Some r \<and> resp = r \<and> w' = w)
    \<or> (\<exists>r w1. admin_route ad u call (registry_check (wb_env (ad_web ad)) (w\<lparr> w_conn := conn \<rparr>)) = (r, w1)
         \<and> end_request (ad_web ad) r w1 = (resp, w'))"
  using assms by (auto simp: serve_admin_def with_db_def split: option.splits prod.splits)

lemma gate_status: "require_admin ad u = Some r \<Longrightarrow> rp_status r \<in> {403, 404}"
  by (auto simp: require_admin_def admin_gate_response_def json_response_def split: if_splits)

text \<open>The first query of a route, in a settled world.\<close>

lemma first_query:
  assumes "settled w"
  shows "andthen (dbx (asks f)) g (registry_check (wb_env wb) (w\<lparr> w_conn := conn \<rparr>)) =
    g (f (w_db (opened wb conn w))) (opened wb conn w)"
  using opened_state(5)[OF assms, of wb conn] by (simp add: andthen_run dbx_asks opened_def)

lemma same_data_members: "same_data c d \<Longrightarrow> d_cap_agents d = d_cap_agents c \<and> d_caps d = d_caps c
    \<and> d_agents d = d_agents c \<and> d_cfgs d = d_cfgs c"
  by (simp add: same_data_def)

lemma answer_kept:
  assumes "end_request wb (Inr x) w = (resp, w')" and "\<not> w_aborted w" and "same_data c (w_db w)"
  shows "resp = x \<and> same_data c (w_committed w')"
  using ended(2)[OF assms(1) refl assms(2)] assms(3) by simp

lemma refused_kept:
  assumes "end_request wb (Inl e) w = (resp, w')"
  shows "rp_status resp = 500 \<and> same_data (w_committed w) (w_committed w')"
  using ended(1)[OF assms refl] .

text \<open>The three ways \<open>set_members\<close> ends.\<close>

definition members_stored :: "admin \<Rightarrow> db \<Rightarrow> uuid \<Rightarrow> json list \<Rightarrow> db \<Rightarrow> bool" where
  "members_stored ad d c ms d' \<longleftrightarrow> (\<exists>rows.
     d_cap_agents d' = filter (\<lambda>m. ca_capability_id m \<noteq> c) (d_cap_agents d) @ rows \<and> list_all2 (names_agent ad d c) ms rows)"

lemma set_members_run:
  assumes "\<not> w_aborted w" and "begin_tx w = w" and run: "set_members ad u key t oid ms c w = (r, w1)"
  shows "(\<exists>e. r = Inl e \<and> w_committed w1 = w_committed w)
    \<or> (\<exists>a. r = Inr a \<and> rp_status a = 422 \<and> w1 = w)
    \<or> (\<exists>a. r = Inr a \<and> rp_status a = 200 \<and> \<not> w_aborted w1 \<and> members_stored ad (w_db w) (cp_id c) ms (w_db w1))"
proof -
  obtain res d1 where res: "resolve_members ad 0 ms (w_db w) = (res, d1)" by fastforce
  note step = run[unfolded set_members_def]
  consider (fails) e where "res = Inl e" | (early) a where "res = Inr (Inl a)" | (found) xs where "res = Inr (Inr xs)"
    by (cases res) (auto elim: sumE)
  then show ?thesis
  proof cases
    case fails
    then obtain w2 where "dbx (resolve_members ad 0 ms) w = (Inl e, w2)" "w_committed w2 = w_committed w"
      using dbx_Inl[OF assms(1)] res assms(2) by metis
    then show ?thesis using step by (auto simp: andthen_run)
  next
    case early
    then have "rp_status a = 422" "d1 = w_db w" using resolve_members_run[of ad 0 ms "w_db w" "Inl a" d1] res by simp_all
    then show ?thesis
      using step dbx_read[OF assms(1,2), of "resolve_members ad 0 ms" "Inl a"] res early by (auto simp: andthen_run)
  next
    case found
    then have xs: "d1 = w_db w" "list_all2 (\<lambda>m (a, kv, j). m = JObj kv \<and> (\<exists>r \<in> set (d_agents (w_db w)). ag_id r = a
      \<and> ad_text ad (jget kv ''agent_key'') = Some (Some (ag_key r)))) ms xs"
      using resolve_members_run[of ad 0 ms "w_db w" "Inr xs" d1] res by simp_all
    have "dbx (resolve_members ad 0 ms) w = (Inr (Inr xs), w)"
      using dbx_read[OF assms(1,2), of "resolve_members ad 0 ms" "Inr xs"] res found xs(1) by simp
    from step[unfolded andthen_Inr[where m = "dbx (resolve_members ad 0 ms)", OF this] sum.case write_commit[OF assms(1,2)]]
    show ?thesis using replace_members_run[OF _ xs(2), where c = "cp_id c" and u = u]
      by (cases "replace_members ad u (cp_id c) ms xs (w_db w)"; cases "fst (replace_members ad u (cp_id c) ms xs (w_db w))")
        (auto simp: members_stored_def json_response_def split: sum.splits)
  qed
qed

lemma set_members_served:
  assumes "settled w" and "set_members ad u key tn og ms c (opened (ad_web ad) conn w) = (r, w1)"
    and "end_request (ad_web ad) r w1 = (resp, w')"
  shows "if rp_status resp = 200 then members_stored ad (w_committed w) (cp_id c) ms (w_committed w')
    else same_data (w_committed w) (w_committed w')"
proof -
  define wo where "wo = opened (ad_web ad) conn w"
  note o = opened_state[OF assms(1), of "ad_web ad" conn, folded wo_def]
  have "names_agent ad (w_db wo) = names_agent ad (w_committed w)"
    using same_data_members[OF o(3)] by (simp add: names_agent_def fun_eq_iff)
  then have same: "members_stored ad (w_db wo) = members_stored ad (w_committed w)"
    using same_data_members[OF o(3)] by (intro ext) (simp only: members_stored_def)
  from set_members_run[OF o(1,4) assms(2)[folded wo_def]]
  consider (failed) e where "r = Inl e" "w_committed w1 = w_committed wo"
    | (refused) a where "r = Inr a" "rp_status a = 422" "w1 = wo"
    | (stored) a where "r = Inr a" "rp_status a = 200" "\<not> w_aborted w1" "members_stored ad (w_db wo) (cp_id c) ms (w_db w1)"
    by blast
  then show ?thesis
  proof cases
    case failed
    with refused_kept[of "ad_web ad" e w1 resp w'] assms(3) o(2) show ?thesis by simp
  next
    case refused
    with answer_kept[of "ad_web ad" a wo resp w'] assms(3) o(1,3) show ?thesis by simp
  next
    case stored
    with ended(2)[OF assms(3)] have "resp = a" "w_committed w' = w_db w1" by simp_all
    with stored show ?thesis by (simp add: same)
  qed
qed

text \<open>C34: the membership of a capability is replaced whole or not at all. After the answer 200 the
  stored members of the capability of the named scope are, in order, the agents the body names, and
  no other capability's membership has changed; after any other answer nothing has changed.\<close>

theorem membership_is_replaced_or_kept:
  assumes "settled w" and "serve_admin ad conn u (Members_call key (Some b) t oid) w = (resp, w')"
    and "jget b ''agents'' = JList ms"
  shows "if rp_status resp = 200
    then \<exists>c \<in> set (d_caps (w_committed w)). cp_key c = key
      \<and> (cp_tenant_id c, cp_organization_id c) = scope_params t oid
      \<and> members_stored ad (w_committed w) (cp_id c) ms (w_committed w')
    else same_data (w_committed w) (w_committed w')"
proof -
  let ?wb = "ad_web ad"
  define wo where "wo = opened ?wb conn w"
  note o = opened_state[OF assms(1), of ?wb conn, folded wo_def]
  obtain tn og where sc: "scope_params t oid = (tn, og)" by fastforce
  consider (gate) r where "require_admin ad u = Some r" "resp = r" "w' = w"
    | (run) r w1 where "set_capability_agents ad u key (Some b) t oid (registry_check (wb_env ?wb) (w\<lparr> w_conn := conn \<rparr>)) = (r, w1)"
        "end_request ?wb r w1 = (resp, w')"
    using serve_admin_run[OF assms(2)] by auto
  then show ?thesis
  proof cases
    case gate
    then show ?thesis using gate_status[of ad u r] by auto
  next
    case run
    let ?p = "\<lambda>c. cp_key c = key \<and> cp_tenant_id c = tn \<and> cp_organization_id c = og"
    have route: "(case find ?p (d_caps (w_db wo)) of None \<Rightarrow> ret (admin_error ''CAPABILITY_NOT_FOUND'' 404 [])
        | Some c \<Rightarrow> set_members ad u key tn og ms c) wo = (r, w1)"
      using run(1) assms(3) unfolding set_capability_agents_def with_capability_def capability_at_def
      by (simp add: sc first_query[OF assms(1)] wo_def)
    show ?thesis
    proof (cases "find ?p (d_caps (w_db wo))")
      case None
      then have "r = Inr (admin_error ''CAPABILITY_NOT_FOUND'' 404 [])" "w1 = wo" using route by simp_all
      with answer_kept[OF run(2)[unfolded this] o(1,3)] show ?thesis by (simp add: admin_error_def json_response_def)
    next
      case (Some c)
      then have "c \<in> set (d_caps (w_committed w))" "?p c"
        using find_Some_in[OF Some] same_data_members[OF o(3)] by auto
      moreover from route Some have "set_members ad u key tn og ms c (opened ?wb conn w) = (r, w1)" by (simp add: wo_def)
      ultimately show ?thesis using set_members_served[OF assms(1) _ run(2)] sc by auto
    qed
  qed
qed

section \<open>Overrides survive restarts\<close>

text \<open>What storing a version does, on a consistent database.\<close>

lemma create_statements_run:
  assumes "create_statements u key a chk raw d = (Inr v, d')" and "db_ok d"
  shows "db_ok d' \<and> (\<exists>c. active_of a d' = [c] \<and> cf_source c = Src_db \<and> cf_config c = raw \<and> cf_version c = v)"
proof -
  from assms(1)[unfolded create_statements_def] obtain u1 d1
    where d1: "deactivate (\<lambda>c. cf_agent_id c = a) d = (Inr u1, d1)"
      and k: "andthen (asks (next_version a)) (\<lambda>v. andthen (insert_config a v Src_db chk raw True) (\<lambda>_.
        andthen (audit_admin Config_create ''agent_configuration'' a u None None
          (Some (''Created version '' @ show_int v @ '' for '' @ key))) (\<lambda>_. ret v))) d1 = (Inr v, d')"
    by (rule andthen_InrE)
  from k[unfolded andthen_asks] obtain u2 d2 u3 d3 why where d2: "insert_config a (next_version a d1) Src_db chk raw True d1 = (Inr u2, d2)"
      and d3: "audit_admin Config_create ''agent_configuration'' a u None None why d2 = (Inr u3, d3)"
      and v: "(ret (next_version a d1) :: int dbact) d3 = (Inr v, d')"
    by (elim andthen_InrE) (rule that)
  then have d3: "audit_admin Config_create ''agent_configuration'' a u None None why d2 = (Inr u3, d')"
    and v: "v = next_version a d1" by simp_all
  have "d_cfgs d1 = upd_where (\<lambda>c. cf_agent_id c = a) (\<lambda>c. c\<lparr> cf_is_active := False \<rparr>) (d_cfgs d)"
    using stmt_InrD[OF d1[unfolded deactivate_def upd_cfgs_def]] by simp
  then have "active_of a d1 = []" by (simp add: active_of_def configs_of_def filter_empty_conv ball_upd_where)
  then have "active_of a d' = [fresh_config d1 a v Src_db chk raw True]"
    using insert_config_InrD[OF d2] stmt_InrD[OF d3[unfolded audit_admin_def audit_insert_def]]
    by (simp add: active_of_def configs_of_def v)
  moreover have "db_ok d'" using stmt_InrD[OF d3[unfolded audit_admin_def audit_insert_def]] by blast
  ultimately show ?thesis by simp
qed

lemma write_then:
  assumes "\<not> w_aborted w" and "begin_tx w = w"
    and run: "andthen (dbx m) (\<lambda>v. andthen (asks g) (\<lambda>t. andthen commit (\<lambda>_.
      andthen (reload_registry env) (\<lambda>rv. ret (h v t rv))))) w = (Inr x, w1)"
  shows "\<exists>v d'. m (w_db w) = (Inr v, d') \<and> same_data d' (w_db w1) \<and> \<not> w_aborted w1"
proof -
  obtain r d' where m: "m (w_db w) = (r, d')" by fastforce
  show ?thesis
  proof (cases r)
    case (Inl e)
    then show ?thesis using run m assms(1,2) by (simp add: andthen_run dbx_def)
  next
    case (Inr v)
    define w2 where "w2 = w\<lparr> w_db := d', w_aborted := False, w_committed := d', w_in_tx := False \<rparr>"
    have w2: "\<not> w_aborted w2" "w_db w2 = d'" by (simp_all add: w2_def)
    obtain rv reg where rel: "reload_registry env w2 = (Inr rv, (begin_tx w2)\<lparr> w_reg := reg \<rparr>)"
      using reload_registry_run[OF w2(1)] by blast
    have "w1 = (begin_tx w2)\<lparr> w_reg := reg \<rparr>"
      using run m Inr assms(1,2) rel by (simp add: andthen_run dbx_def commit_def flip: w2_def)
    then show ?thesis using m Inr begin_tx_same[of w2] w2 by simp
  qed
qed

text \<open>The answer 200 of the route means that exactly these statements were committed.\<close>

lemma create_config_stored:
  assumes "settled w" and "serve_admin ad conn u (Create_config_call key (Some b)) w = (resp, w')" and "rp_status resp = 200"
  shows "\<exists>a d chk v d'. same_data (w_committed w) d \<and> find (\<lambda>x. ag_key x = key) (d_agents d) = Some a
    \<and> create_statements u key (ag_id a) chk (JObj b) d = (Inr v, d') \<and> same_data d' (w_committed w')"
proof -
  let ?wb = "ad_web ad"
  define wo where "wo = opened ?wb conn w"
  note o = opened_state[OF assms(1), of ?wb conn, folded wo_def]
  from serve_admin_run[OF assms(2)] gate_status[of ad u resp] assms(3) obtain r w1
    where run: "create_config_version ad u key (Some b) (registry_check (wb_env ?wb) (w\<lparr> w_conn := conn \<rparr>)) = (r, w1)"
      and fin: "end_request ?wb r w1 = (resp, w')" by auto
  obtain x where r: "r = Inr x" using refused_kept[of ?wb _ w1 resp w'] fin assms(3) by (cases r) auto
  have quiet: False if "r = Inr y" "w1 = wo" "rp_status y \<noteq> 200" for y
    using answer_kept[of ?wb y wo resp w' "w_committed w"] fin that o(1,3) assms(3) by simp
  note route = run[unfolded create_config_version_def with_agent_def agent_by_key_def first_query[OF assms(1)] wo_def[symmetric]]
  obtain a where a: "find (\<lambda>x. ag_key x = key) (d_agents (w_db wo)) = Some a"
    using route quiet[of "admin_error ''AGENT_NOT_FOUND'' 404 []"]
    by (cases "find (\<lambda>x. ag_key x = key) (d_agents (w_db wo))") (auto simp: admin_error_def json_response_def)
  have invalid: "rp_status (config_invalid p m) \<noteq> 200" for p m
    by (simp add: config_invalid_def admin_error_def json_response_def)
  let ?chk = "snd (canonical_json (ad_sha ad) (JObj b))"
  have "andthen (dbx (create_statements u key (ag_id a) ?chk (JObj b))) (\<lambda>v.
      andthen (asks (\<lambda>w. d_now (w_db w))) (\<lambda>t. andthen commit (\<lambda>_.
      andthen (reload_registry (wb_env ?wb)) (\<lambda>rv.
      ret (json_response (JObj [(''version'', JInt v), (''checksum'', JStr ?chk),
        (''activated_at'', JStr (wb_isoformat ?wb t)), (''registry_version'', JInt rv)]) 200))))) wo = (r, w1)"
    using route a quiet[OF _ _ invalid]
    by (auto simp: Let_def split: list.splits option.splits if_splits)
  from write_then[OF o(1,4) this[unfolded r]] obtain v d' where
    "create_statements u key (ag_id a) ?chk (JObj b) (w_db wo) = (Inr v, d')" "same_data d' (w_db w1)" "\<not> w_aborted w1" by blast
  then show ?thesis using a o(3) ended(2)[OF fin r] by metis
qed

text \<open>C35: an administrator's configuration survives every restart. When the route that stores a new
  version answers 200, that version is the agent's one active configuration in the committed
  database, and it still is after any safe sync of any files that follows.\<close>

theorem stored_config_survives_sync:
  assumes "settled w" and "db_ok (w_committed w)"
    and "serve_admin ad conn u (Create_config_call key (Some b)) w = (resp, w')" and "rp_status resp = 200"
    and "sync cfg Sync_safe files (w_committed w') = (r, d'')"
  shows "\<exists>a \<in> set (d_agents (w_committed w)). \<exists>c. ag_key a = key \<and> cf_config c = JObj b
    \<and> active_of (ag_id a) (w_committed w') = [c] \<and> active_of (ag_id a) d'' = [c]"
proof -
  from create_config_stored[OF assms(1,3,4)] obtain a d chk v d' where
    d: "same_data (w_committed w) d" "find (\<lambda>x. ag_key x = key) (d_agents d) = Some a"
    "create_statements u key (ag_id a) chk (JObj b) d = (Inr v, d')" "same_data d' (w_committed w')" by blast
  have "db_ok d" using assms(2) d(1) by (auto simp: same_data_def intro: db_ok_cong[THEN iffD1, rotated -1])
  from create_statements_run[OF d(3) this] obtain c where
    c: "db_ok d'" "active_of (ag_id a) d' = [c]" "cf_source c = Src_db" "cf_config c = JObj b" by blast
  have ok: "db_ok (w_committed w')" using c(1) d(4) by (auto simp: same_data_def intro: db_ok_cong[THEN iffD1, rotated -1])
  have act: "active_of (ag_id a) (w_committed w') = [c]"
    using c(2) d(4) by (simp add: same_data_def active_of_def configs_of_def)
  have "a \<in> set (d_agents (w_committed w))" "ag_key a = key"
    using find_Some_in[OF d(2)] d(1) by (simp_all add: same_data_def)
  then show ?thesis using safe_sync_same_active[OF ok act c(3) assms(5)] act c(4) by blast
qed

definition admin_user :: user_context where
  "admin_user = sample_user\<lparr> u_orgs := [\<lparr> om_org_id = ''o'', om_org_code = ''oc'', om_roles = [''admin''] \<rparr>],
     u_active_org_id := Some ''o'' \<rparr>"

definition sample_admin :: admin where
  "sample_admin = \<lparr> ad_web = sample_web, ad_enabled = True,
     ad_text = (\<lambda>j. case j of JNull \<Rightarrow> Some None | JStr s \<Rightarrow> Some (Some s) | _ \<Rightarrow> None),
     ad_int = (\<lambda>j. case j of JNull \<Rightarrow> Some None | JInt i \<Rightarrow> Some (Some i) | _ \<Rightarrow> None),
     ad_bool = (\<lambda>j. case j of JNull \<Rightarrow> Some None | JBool b \<Rightarrow> Some (Some b) | _ \<Rightarrow> None),
     ad_jsonb = Some, ad_reject = (\<lambda>j. ([], [])), ad_sha = id, ad_tools = [],
     ad_access = (\<lambda>kv. Some (sp_access sample_base)) \<rparr>"

definition sample_config_body :: body where
  "sample_config_body = [(''agent_type'', JStr ''llm''), (''key'', JStr ''general''), (''name'', JStr ''General'')]"

lemma stored_config_survives_sync_witness:
  "\<exists>resp w' r d'' c. serve_admin sample_admin 1 admin_user (Create_config_call ''general'' (Some sample_config_body))
      sample_world = (resp, w')
    \<and> sync sync_sample Sync_safe [(''g.yaml'', sample_yaml)] (w_committed w') = (r, d'') \<and> active_of 1 d'' = [c]"
proof -
  obtain resp w' where run: "serve_admin sample_admin 1 admin_user
      (Create_config_call ''general'' (Some sample_config_body)) sample_world = (resp, w')" by fastforce
  have "rp_status (fst (serve_admin sample_admin 1 admin_user
      (Create_config_call ''general'' (Some sample_config_body)) sample_world)) = 200" by code_simp
  then have "rp_status resp = 200" using run by simp
  obtain r d'' where again: "sync sync_sample Sync_safe [(''g.yaml'', sample_yaml)] (w_committed w') = (r, d'')" by fastforce
  have "db_ok (w_committed sample_world)" using sample_db_ok by (simp add: sample_world_def)
  from stored_config_survives_sync[OF sample_settled this run \<open>rp_status resp = 200\<close> again]
  obtain a c where a: "a \<in> set (d_agents (w_committed sample_world))" "ag_key a = ''general''" "active_of (ag_id a) d'' = [c]"
    by blast
  then have "ag_id a = 1" by (auto simp: sample_world_def sample_db_def sample_agent_def)
  then show ?thesis using run again a(3) by auto
qed

definition cards_world :: world where
  "cards_world = sample_world\<lparr> w_db := cards_db, w_committed := cards_db \<rparr>"

definition sample_members :: "json list" where
  "sample_members = [JObj [(''agent_key'', JStr ''record_stories'')], JObj [(''agent_key'', JStr ''general'')]]"

lemma membership_is_replaced_or_kept_witness:
  "\<exists>c \<in> set (d_caps cards_db). \<exists>rows. length rows = 2
     \<and> list_all2 (names_agent sample_admin cards_db (cp_id c)) sample_members rows"
proof -
  have jg: "jget [(''agents'', JList sample_members)] ''agents'' = JList sample_members" by (simp add: jget_def)
  let ?call = "Members_call ''listening_at_scale'' (Some [(''agents'', JList sample_members)]) None None"
  obtain resp w' where run: "serve_admin sample_admin 1 admin_user ?call cards_world = (resp, w')" by fastforce
  have "rp_status (fst (serve_admin sample_admin 1 admin_user ?call cards_world)) = 200" by code_simp
  then have ok: "rp_status resp = 200" using run by simp
  have st: "settled cards_world" by (simp add: settled_def cards_world_def sample_world_def)
  from membership_is_replaced_or_kept[OF st run jg] ok
  obtain c where "c \<in> set (d_caps cards_db)" "members_stored sample_admin cards_db (cp_id c) sample_members (w_committed w')"
    by (auto simp: cards_world_def)
  then obtain rows where rows: "list_all2 (names_agent sample_admin cards_db (cp_id c)) sample_members rows"
    by (auto simp: members_stored_def)
  have "length rows = 2" using list_all2_lengthD[OF rows] by (simp add: sample_members_def)
  then show ?thesis using \<open>c \<in> _\<close> rows by blast
qed

section \<open>Creating and deleting a capability\<close>

lemma taken_InrD: "taken x s = (Inr v, s') \<Longrightarrow> s' = s \<and> x = Some v"
  by (cases x) (auto simp: taken_def refused_def)

lemma db_ok_drop_capability:
  assumes "db_ok d"
  shows "db_ok (d\<lparr> d_caps := filter (\<lambda>x. cp_id x \<noteq> i) (d_caps d),
    d_cap_agents := filter (\<lambda>m. ca_capability_id m \<noteq> i) (d_cap_agents d) \<rparr>)"
  using assms by (auto simp: db_ok_def convs_ok_def msgs_ok_def sess_ok_def tools_ok_def agents_ok_def cfgs_ok_def
      caps_ok_def list_all_iff distinct_map_filter)



section \<open>Redaction\<close>

text \<open>The string values of a document.\<close>

fun texts :: "json \<Rightarrow> string list" where
  "texts (JObj kvs) = concat (map (\<lambda>(k, v). texts v) kvs)"
| "texts (JList vs) = concat (map texts vs)"
| "texts (JStr s) = [s]"
| "texts v = []"

text \<open>The configuration an administrator is shown holds no string value with an unresolved
  reference, at any depth; a document without one is shown as it is.\<close>

theorem redaction_leaves_no_reference:
  "list_all (\<lambda>s. \<not> occurs_in ''${'' s) (texts (redact_secrets j))
   \<and> (redact_secrets j = j \<or> list_ex (occurs_in ''${'') (texts j))"
proof (induction j rule: texts.induct)
  case (1 kvs)
  then show ?case by (force simp: list_all_iff list_ex_iff intro!: map_idI)
next
  case (2 vs)
  then show ?case by (force simp: list_all_iff list_ex_iff intro!: map_idI)
next
  case (3 s)
  have "\<not> occurs_in ''${'' ''<REDACTED>''" by code_simp
  then show ?case by simp
qed simp_all

end
