(* ===== verification/Identity_Properties.thy ===== *)
theory Identity_Properties
  imports Identity Admin_Properties
begin

text \<open>
  Who may administer: the identity of \<open>services/identity.py\<close> against the gate of
  \<open>dependencies/admin_gate.py\<close>, for every call of the administration surface.
\<close>

lemma membership_from_Inr:
  assumes "membership_from cfg v = Inr m"
  obtains org where "v = JObj org" "om_org_id m = py_str (jget_default org ''id'' (JStr []))"
    "role_titles cfg org = Inr (om_roles m)"
  using assms unfolding membership_from_def by (auto elim!: or_raise_InrE simp: as_dict_Inr)

lemma find_all2:
  "list_all2 (\<lambda>v m. R v m \<and> p v = q m) vs ms \<Longrightarrow> rel_option R (find p vs) (find q ms)"
  by (induction rule: list_all2_induct) auto

lemma titles_of_the_active_organisation:
  assumes "context_from_token cfg tok = Inr u" and "is_jwt cfg tok = Inr decoded"
  shows "user_roles u = active_titles cfg decoded"
proof -
  obtain data vs orgs where data: "jget_default decoded ''data'' (JObj []) = JObj data"
    and it: "py_iter (jget_default data ''organizations'' (JList [])) = Inr vs"
    and orgs: "traverse (membership_from cfg) vs = Inr orgs" and act: "active_org data = Inr (u_active_org_id u)"
    and u: "u_orgs u = orgs"
    using assms unfolding context_from_token_def Let_def by (auto elim!: or_raise_InrE simp: as_dict_Inr)
  show ?thesis
  proof (cases "u_active_org_id u")
    case None
    then have "find (\<lambda>m. Some (om_org_id m) = u_active_org_id u) orgs = None" by (simp add: find_None_iff)
    then show ?thesis using None by (simp add: user_roles_def u active_titles_def data it act)
  next
    case (Some i)
    let ?p = "\<lambda>v. case v of JObj org \<Rightarrow> py_str (jget_default org ''id'' (JStr [])) = i | _ \<Rightarrow> False"
    let ?R = "\<lambda>v m. \<exists>org. v = JObj org \<and> role_titles cfg org = Inr (om_roles m)"
    have "list_all2 (\<lambda>v m. ?R v m \<and> ?p v = (om_org_id m = i)) vs orgs"
      using traverse_Inr[OF orgs] by (rule list_all2_mono) (auto elim!: membership_from_Inr)
    then have "rel_option ?R (find ?p vs) (find (\<lambda>m. om_org_id m = i) orgs)" by (rule find_all2)
    then show ?thesis
      by (cases rule: option.rel_cases)
        (auto simp: user_roles_def u Some active_titles_def data it act dest: role_titles_Inr)
  qed
qed

text \<open>Administration takes the role in the caller's active organisation. For an identity decoded
  from a token, a call of the administration surface passes the gate exactly when the surface is
  enabled and the claims give the role \<open>admin\<close> in the organisation they list first; a role of another
  organisation does not count. Otherwise the answer is the gate's and nothing else happens.\<close>

theorem administration_takes_the_active_role:
  assumes "context_from_token cfg tok = Inr u" and "is_jwt cfg tok = Inr decoded"
  shows "if ad_enabled ad \<and> ''admin'' \<in> set (active_titles cfg decoded)
    then serve_admin ad conn u call w = (if call = Tools_call then (list_tools ad, w)
      else with_db (ad_web ad) conn (admin_route ad u call) w)
    else serve_admin ad conn u call w =
      (if ad_enabled ad then admin_gate_response ''Forbidden'' 403 else admin_gate_response ''Not Found'' 404, w)"
  using titles_of_the_active_organisation[OF assms] by (simp add: serve_admin_def require_admin_def)

definition sample_claims :: body where
  "sample_claims = [(''data'', JObj [(''id'', JInt 7), (''name'', JStr ''N''), (''tenant_code'', JStr ''t''),
     (''organization_ids'', JList [JInt 1, JInt 2]),
     (''organizations'', JList
       [JObj [(''id'', JInt 1), (''code'', JStr ''a''), (''roles'', JList [JObj [(''title'', JStr ''mentee'')]])],
        JObj [(''id'', JInt 2), (''code'', JStr ''b''), (''roles'', JList [JObj [(''title'', JStr ''admin'')]])]])])]"

definition sample_ids :: id_settings where
  "sample_ids = \<lparr> is_auth_check = True, is_static_token = Some ''tok'', is_identifier_field = ''id'',
     is_email_suffix = ''@x'', is_jwt = (\<lambda>t. Inr sample_claims), is_raw = py_str \<rparr>"

lemma administration_takes_the_active_role_witness:
  "\<exists>u. context_from_token sample_ids ''tok'' = Inr u
     \<and> serve_admin sample_admin 1 u Reload_agents cards_world = (admin_gate_response ''Forbidden'' 403, cards_world)"
proof -
  obtain u where u: "context_from_token sample_ids ''tok'' = Inr u"
  proof -
    have "(case context_from_token sample_ids ''tok'' of Inl e \<Rightarrow> False | Inr u \<Rightarrow> True)" by code_simp
    then show ?thesis using that by (cases "context_from_token sample_ids ''tok''") auto
  qed
  have jwt: "is_jwt sample_ids ''tok'' = Inr sample_claims" by (simp add: sample_ids_def)
  have "active_titles sample_ids sample_claims = [''mentee'']" by code_simp
  moreover have "ad_enabled sample_admin" by (simp add: sample_admin_def)
  ultimately show ?thesis
    using u administration_takes_the_active_role[OF u jwt, of sample_admin 1 Reload_agents cards_world] by auto
qed

text \<open>With authentication switched off every call of the surface is refused, whatever it asks.\<close>

theorem auth_off_closes_administration:
  "case authenticator (cfg\<lparr> is_auth_check := False \<rparr>) of Inl e \<Rightarrow> False
   | Inr u \<Rightarrow> serve_admin ad conn u call w =
      (if ad_enabled ad then admin_gate_response ''Forbidden'' 403 else admin_gate_response ''Not Found'' 404, w)"
  by (simp add: authenticator_def default_context_def serve_admin_def require_admin_def user_roles_def)

end
