(* ===== verification/Session_Refinement.thy ===== *)
theory Session_Refinement
  imports Session_Service
begin

text \<open>
  The abstract specification of \<open>services/session_service.py\<close>: a conversation has one slot, empty or
  held by one session of one agent in a non-terminal state. Each operation of the service is one
  operation on the slots; the tables, the timestamps, the counters and the audit log are what the
  refinement adds.
\<close>

type_synonym slots = "uuid \<Rightarrow> (uuid \<times> uuid \<times> session_state) option"

definition held :: "session_row \<Rightarrow> uuid \<times> uuid \<times> session_state" where
  "held s = (sv_id s, sv_agent_id s, sv_state s)"

definition slots_of :: "db \<Rightarrow> slots" where
  "slots_of d c = (case open_sessions c d of [] \<Rightarrow> None | s # _ \<Rightarrow> Some (held s))"

section \<open>The operations on slots\<close>

text \<open>A held slot moves on or is emptied; nothing else of it changes.\<close>

definition moved :: "session_state \<Rightarrow> uuid \<times> uuid \<times> session_state \<Rightarrow> (uuid \<times> uuid \<times> session_state) option" where
  "moved new h = (case h of (i, a, st) \<Rightarrow> if terminal new then None else Some (i, a, new))"

definition slot_apply :: "uuid \<Rightarrow> session_state \<Rightarrow> session_state \<Rightarrow> slots \<Rightarrow> slots" where
  "slot_apply i old new \<sigma> = (\<lambda>c. case \<sigma> c of None \<Rightarrow> None
     | Some h \<Rightarrow> if fst h = i \<and> snd (snd h) = old then moved new h else Some h)"

definition slot_claim :: "uuid \<Rightarrow> slots \<Rightarrow> slots" where
  "slot_claim i \<sigma> = (\<lambda>c. case \<sigma> c of None \<Rightarrow> None
     | Some h \<Rightarrow> if fst h = i \<and> claimable (snd (snd h)) then moved Finalizing h else Some h)"

definition slot_open :: "uuid \<Rightarrow> uuid \<Rightarrow> session_row option \<Rightarrow> slots \<Rightarrow> slots" where
  "slot_open c a res \<sigma> = (case \<sigma> c of
       Some (i, b, st) \<Rightarrow> if b = a then \<sigma> else \<sigma>(c := map_option (\<lambda>s. (sv_id s, a, Pending)) res)
     | None \<Rightarrow> \<sigma>(c := map_option (\<lambda>s. (sv_id s, a, Pending)) res))"

definition slot_close :: "uuid set \<Rightarrow> slots \<Rightarrow> slots" where
  "slot_close I \<sigma> = (\<lambda>c. case \<sigma> c of None \<Rightarrow> None | Some h \<Rightarrow> if fst h \<in> I then None else Some h)"

text \<open>On a consistent database, a call that returns does what the abstract operation does.\<close>

definition refines :: "'a dbact \<Rightarrow> ('a \<Rightarrow> slots \<Rightarrow> slots) \<Rightarrow> bool" where
  "refines m f \<longleftrightarrow> (\<forall>d x d'. db_ok d \<and> m d = (Inr x, d') \<longrightarrow> slots_of d' = f x (slots_of d))"

lemma refinesI: "(\<And>d x d'. db_ok d \<Longrightarrow> m d = (Inr x, d') \<Longrightarrow> slots_of d' = f x (slots_of d)) \<Longrightarrow> refines m f"
  by (simp add: refines_def)

section \<open>Updates of session rows\<close>

lemma open_sessions_upd:
  assumes "\<And>r. p r \<Longrightarrow> sv_conversation_id (f r) = sv_conversation_id r \<and> (is_open (f r) \<longrightarrow> is_open r)"
  shows "filter (\<lambda>r. sv_conversation_id r = c \<and> is_open r) (upd_where p f rs) =
    filter is_open (upd_where p f (filter (\<lambda>r. sv_conversation_id r = c \<and> is_open r) rs))"
  using assms by (induction rs) auto

lemma one_open_cases:
  assumes "db_ok d"
  obtains "open_sessions c d = []" | s where "open_sessions c d = [s]" "s \<in> set (d_sess d)" "is_open s"
    "sv_conversation_id s = c"
proof (cases "open_sessions c d")
  case Nil
  then show ?thesis by (rule that(1))
next
  case (Cons s ss)
  have one: "open_sessions c d = [s]"
    using one_open[OF db_ok_sess[OF assms], of c] Cons by (simp add: open_sessions_def)
  have "s \<in> set (open_sessions c d)" using Cons by simp
  then have "s \<in> set (d_sess d)" "is_open s" "sv_conversation_id s = c" by (simp_all add: open_sessions_def)
  then show ?thesis by (rule that(2)[OF one])
qed

lemma slots_of_upd:
  assumes ok: "db_ok d" and d': "d_sess d' = upd_where p f (d_sess d)"
    and keep: "\<And>r. p r \<Longrightarrow> sv_conversation_id (f r) = sv_conversation_id r \<and> (is_open (f r) \<longrightarrow> is_open r)"
  shows "slots_of d' c = (case open_sessions c d of [] \<Rightarrow> None
    | s # _ \<Rightarrow> if p s then (if is_open (f s) then Some (held (f s)) else None) else Some (held s))"
proof -
  have os: "open_sessions c d' = filter is_open (upd_where p f (open_sessions c d))"
    unfolding open_sessions_def d' by (rule open_sessions_upd[OF keep])
  show ?thesis
    by (rule one_open_cases[OF ok, of c]) (simp_all add: slots_of_def os)
qed

lemma slots_of_same: "d_sess d' = d_sess d \<Longrightarrow> slots_of d' = slots_of d"
  by (simp add: slots_of_def open_sessions_def fun_eq_iff)

section \<open>The simulation\<close>

lemma apply_refines: "refines (apply_delta s \<delta>) (\<lambda>r. slot_apply (sv_id s) (sv_state s) (sd_state \<delta>))"
proof (rule refinesI)
  fix d x d' assume ok: "db_ok d" and run: "apply_delta s \<delta> d = (Inr x, d')"
  let ?p = "\<lambda>r. sv_id r = sv_id s \<and> sv_state r = sv_state s"
  have al: "sd_state \<delta> \<in> set (allowed (sv_state s))" and d': "d_sess d' = upd_where ?p (delta_row \<delta> (d_now d)) (d_sess d)"
    using run apply_delta_run[OF ok, of s \<delta>] by (auto simp: Let_def split: if_splits option.splits)
  have "\<not> terminal (sv_state s)" using al by (cases "sv_state s") auto
  then have "slots_of d' c = (case open_sessions c d of [] \<Rightarrow> None
    | r # _ \<Rightarrow> if ?p r then (if is_open (delta_row \<delta> (d_now d) r) then Some (held (delta_row \<delta> (d_now d) r)) else None)
              else Some (held r))" for c
    by (intro slots_of_upd[OF ok d']) (simp add: delta_row_def)
  then show "slots_of d' = slot_apply (sv_id s) (sv_state s) (sd_state \<delta>) (slots_of d)"
    by (auto simp: fun_eq_iff slot_apply_def slots_of_def held_def moved_def delta_row_def split: list.split)
qed

lemma claim_refines: "refines (claim_finalizing i) (\<lambda>r. slot_claim i)"
proof (rule refinesI)
  fix d x d' assume ok: "db_ok d" and run: "claim_finalizing i d = (Inr x, d')"
  let ?p = "\<lambda>r. sv_id r = i \<and> claimable (sv_state r)" and ?f = "\<lambda>r. r\<lparr> sv_state := Finalizing \<rparr> :: session_row"
  have d': "d_sess d' = upd_where ?p ?f (d_sess d)" using run repo_claim_run[OF ok, of i] by (auto simp: Let_def)
  have "slots_of d' c = (case open_sessions c d of [] \<Rightarrow> None
    | r # _ \<Rightarrow> if ?p r then (if is_open (?f r) then Some (held (?f r)) else None) else Some (held r))" for c
    by (intro slots_of_upd[OF ok d']) (auto simp: claimable_def)
  then show "slots_of d' = slot_claim i (slots_of d)"
    by (auto simp: fun_eq_iff slot_claim_def slots_of_def held_def moved_def split: list.split)
qed

lemma abandoned_slots:
  assumes "db_ok d"
  shows "slots_of (abandoned_db c why actor s d) = (slots_of d)(c := None)"
proof -
  have "slots_of (abandoned_db c why actor s d) x = (case open_sessions x d of [] \<Rightarrow> None
    | r # _ \<Rightarrow> if sv_conversation_id r = c \<and> is_open r then (if is_open (abandoned_row why (d_now d) r)
        then Some (held (abandoned_row why (d_now d) r)) else None) else Some (held r))" for x
    by (intro slots_of_upd[OF assms abandoned_db_sess]) (simp add: abandoned_row_def)
  then show ?thesis
    by (intro ext) (rule_tac c = x in one_open_cases[OF assms]; simp add: slots_of_def abandoned_row_def)
qed

lemma abandon_refines: "refines (abandon c why actor) (\<lambda>r \<sigma>. \<sigma>(c := None))"
proof (rule refinesI)
  fix d x d' assume ok: "db_ok d" and run: "abandon c why actor d = (Inr x, d')"
  show "slots_of d' = (slots_of d)(c := None)"
  proof (cases "open_sessions c d")
    case Nil
    then have "d' = d" and "slots_of d c = None"
      using run by (simp_all add: abandon_run[OF ok] slots_of_def)
    then show ?thesis by (simp add: fun_upd_idem)
  next
    case (Cons s ss)
    then have "d' = abandoned_db c why actor s d" using run by (simp add: abandon_run[OF ok])
    then show ?thesis by (simp add: abandoned_slots[OF ok])
  qed
qed

lemma create_slots:
  assumes "open_create c a sp d = (Inr res, d')" and "open_sessions c d = []"
  shows "slots_of d' = (slots_of d)(c := map_option (\<lambda>s. (sv_id s, a, Pending)) res)"
proof (cases "rt_pin_session (spec_routing sp)")
  case False
  then have "d' = d" "res = None" using assms(1) by (simp_all add: open_create_def)
  then show ?thesis using assms(2) by (simp add: slots_of_def fun_eq_iff)
next
  case True
  then obtain lang where res: "res = Some (pending_row (d_next d) c a lang (d_now d))"
    and d': "d_sess d' = d_sess d @ [pending_row (d_next d) c a lang (d_now d)]"
    using assms(1)
    by (auto simp: open_create_def create_pending_def andthen_run stmt_run Let_def split: if_splits)
  have "open_sessions x d' = open_sessions x d @ (if x = c then [pending_row (d_next d) c a lang (d_now d)] else [])" for x
    by (simp add: open_sessions_def d' pending_row_def)
  then show ?thesis using assms(2)
    by (simp add: slots_of_def fun_eq_iff res held_def pending_row_def)
qed

lemma open_refines: "refines (open_for c a sp) (slot_open c a)"
proof (rule refinesI)
  fix d x d' assume ok: "db_ok d" and run: "open_for c a sp d = (Inr x, d')"
  show "slots_of d' = slot_open c a x (slots_of d)"
  proof (rule one_open_cases[OF ok, of c])
    assume none: "open_sessions c d = []"
    then have "open_create c a sp d = (Inr x, d')"
      using run ok by (simp add: open_for_def open_attach_def get_open_run)
    moreover have "slots_of d c = None" using none by (simp add: slots_of_def)
    ultimately show ?thesis using create_slots[OF _ none] by (simp add: slot_open_def)
  next
    fix s assume one: "open_sessions c d = [s]"
    then have held: "slots_of d c = Some (sv_id s, sv_agent_id s, sv_state s)"
      by (simp add: slots_of_def held_def)
    show ?thesis
    proof (cases "sv_agent_id s = a")
      case True
      then show ?thesis using run ok one held
        by (simp add: open_for_def open_attach_def get_open_run slot_open_def)
    next
      case False
      let ?e = "abandoned_db c ''agent_switch'' ''system'' s d"
      have "open_create c a sp ?e = (Inr x, d')" using False run ok one
        by (simp add: open_for_def open_attach_def get_open_run abandon_run)
      then show ?thesis using False held abandoned_slots[OF ok] create_slots[OF _ open_sessions_abandoned]
        by (simp add: slot_open_def)
    qed
  qed
qed

lemma sweep_refines: "refines (sweep_abandoned fmt cutoff) (\<lambda>rs. slot_close (set (map sv_id rs)))"
proof (rule refinesI)
  fix d x d' assume ok: "db_ok d" and run: "sweep_abandoned fmt cutoff d = (Inr x, d')"
  let ?p = "\<lambda>r. is_open r \<and> sr_last_activity_at r < cutoff"
  let ?f = "abandoned_row (''idle sweep: no activity before '' @ fmt cutoff) (d_now d)"
  let ?d = "d\<lparr> d_sess := upd_where ?p ?f (d_sess d) \<rparr>" and ?swept = "map ?f (filter ?p (d_sess d))"
  have "db_ok ?d" using ok by (intro db_ok_abandon_rows) auto
  from sweep_loop_run[OF this, of ?swept] have x: "x = ?swept" and d': "d_sess d' = upd_where ?p ?f (d_sess d)"
    using run \<open>db_ok ?d\<close>
    by (auto simp: sweep_abandoned_def sweep_abandoned_older_than_def upd_sess_def stmt_run andthen_run)
  have "set (map sv_id x) = sv_id ` {r \<in> set (d_sess d). ?p r}"
    unfolding x by (auto simp: abandoned_row_def)
  then have ids: "sv_id s \<in> set (map sv_id x) \<longleftrightarrow> ?p s" if "s \<in> set (d_sess d)" for s
    using that sess_ok_id[OF db_ok_sess[OF ok] that] by (auto simp del: set_map)
  have "slots_of d' c = (case open_sessions c d of [] \<Rightarrow> None
    | r # _ \<Rightarrow> if ?p r then (if is_open (?f r) then Some (held (?f r)) else None) else Some (held r))" for c
    by (intro slots_of_upd[OF ok d']) (simp add: abandoned_row_def)
  then have "slots_of d' c = slot_close (set (map sv_id x)) (slots_of d) c" for c
    by (rule_tac one_open_cases[OF ok, of c])
      (simp_all add: slots_of_def slot_close_def held_def ids abandoned_row_def del: set_map)
  then show "slots_of d' = slot_close (set (map sv_id x)) (slots_of d)" by (rule ext)
qed

text \<open>C33: the operations of the session service implement operations on the slots, one slot for each
  conversation. Applying a delta moves the slot of its session, or empties it when the target is
  terminal, and only while the slot still shows the state the caller read; claiming moves a claimable
  slot to finalizing; abandoning empties the slot; opening keeps the slot of the same agent and
  otherwise replaces whatever was there; the sweep empties the slots of the sessions it names.\<close>

theorem service_refines_slots:
  "refines (apply_delta s \<delta>) (\<lambda>_. slot_apply (sv_id s) (sv_state s) (sd_state \<delta>))
   \<and> refines (claim_finalizing i) (\<lambda>_. slot_claim i)
   \<and> refines (abandon c why actor) (\<lambda>_ \<sigma>. \<sigma>(c := None))
   \<and> refines (open_for c a sp) (slot_open c a)
   \<and> refines (sweep_abandoned fmt cutoff) (\<lambda>rs. slot_close (set (map sv_id rs)))"
  by (intro conjI apply_refines claim_refines abandon_refines open_refines sweep_refines)

lemma service_refines_slots_witness:
  "(slots_of sample_db 3 = Some (held sample_session)) \<and> slots_of (snd (abandon 3 ''x'' ''system'' sample_db)) 3 = None"
proof -
  have "refines (abandon 3 ''x'' ''system'') (\<lambda>r \<sigma>. \<sigma>(3 := None))"
    using service_refines_slots by blast
  moreover have "open_sessions 3 sample_db = [sample_session]" by code_simp
  moreover obtain res where "fst (abandon 3 ''x'' ''system'' sample_db) = Inr res"
    using abandon_run[OF sample_db_ok, of 3 "''x''" "''system''"] by (auto split: list.splits)
  ultimately show ?thesis using sample_db_ok
    by (cases "abandon 3 ''x'' ''system'' sample_db") (auto simp: refines_def slots_of_def)
qed

end
