(* ===== verification/Startup.thy ===== *)
theory Startup
  imports Identity Config_Sync_Properties Capability_Properties Request_Properties
begin

text \<open>
  \<open>main.py\<close>, \<open>core/bootstrap.py\<close> and \<open>core/container.py\<close>: what happens before the first request. The
  identity is resolved, the agent files are synchronised in a transaction of their own, the default
  membership is seeded in a second one whose failure is only logged, the registry is loaded in a third.
\<close>

section \<open>The steps\<close>

text \<open>\<open>try: ... finally: session.close()\<close>: whatever is not committed is rolled back.\<close>

definition in_session :: "'a wact \<Rightarrow> 'a wact" where
  "in_session m = always_after m rollback"

definition startup_sync :: "sync_cfg \<Rightarrow> sync_mode \<Rightarrow> yaml_file list \<Rightarrow> sync_report wact" where
  "startup_sync cfg mode files = in_session (andthen (dbx (sync cfg mode files)) (\<lambda>rep.
     if mode = Sync_off then ret rep else andthen commit (\<lambda>_. ret rep)))"

text \<open>The commit of \<open>seed_default_membership\<close>, when it inserted anything.\<close>

definition startup_seed :: "unit wact" where
  "startup_seed = in_session (on_error
     (andthen (dbx seed_default_membership) (\<lambda>n. if n = 0 then ret () else commit)) (\<lambda>e. modify rollback))"

definition startup_reload :: "env \<Rightarrow> unit wact" where
  "startup_reload env = in_session (andthen (reload_registry env) (\<lambda>_. ret ()))"

definition sync_and_reload :: "env \<Rightarrow> sync_cfg \<Rightarrow> sync_mode \<Rightarrow> yaml_file list \<Rightarrow> unit wact" where
  "sync_and_reload env cfg mode files =
     andthen (startup_sync cfg mode files) (\<lambda>_.
     andthen startup_seed (\<lambda>_.
     andthen (startup_reload env) (\<lambda>_.
     andthen (asks (\<lambda>w. rg_version (w_reg w))) (\<lambda>v.
     if v = 0 then throw (RuntimeError (''AgentRegistry loaded 0 agents at startup in config mode; ''
       @ ''check the config_sync report above and the agents/agent_configs tables.''))
     else ret ()))))"

text \<open>The Mitra parts of the container exist only when the flag is set; everyone else sees \<open>None\<close>.\<close>

definition build_container :: "int \<Rightarrow> rest_client \<Rightarrow> pool_cfg \<Rightarrow> env \<Rightarrow> env" where
  "build_container mitra_enabled c p env =
     env\<lparr> e_client := (if mitra_enabled \<noteq> 0 then Some c else None),
          e_pool := (if mitra_enabled \<noteq> 0 then Some p else None) \<rparr>"

text \<open>\<open>create_app\<close> up to the first request: the identity every request will have.\<close>

definition create_app :: "id_settings \<Rightarrow> env \<Rightarrow> sync_cfg \<Rightarrow> sync_mode \<Rightarrow> yaml_file list \<Rightarrow> user_context wact" where
  "create_app ids env cfg mode files =
     andthen (of_sum (authenticator ids)) (\<lambda>u.
     andthen (sync_and_reload env cfg mode files) (\<lambda>_.
     ret u))"

definition cors_origins :: "string \<Rightarrow> string list" where
  "cors_origins s = filter (\<lambda>x. x \<noteq> []) (map strip (split_on (CHR '','') s))"

text \<open>The \<open>__main__\<close> block: whether uvicorn runs with the reloader.\<close>

definition main_guards :: "int \<Rightarrow> int \<Rightarrow> exc + bool" where
  "main_guards mitra_enabled workers =
     or_raise (assert_single_worker mitra_enabled workers) (\<lambda>_. resolve_reloader mitra_enabled)"

lemma one_process_with_mitra:
  "main_guards m n = Inr r \<Longrightarrow> m \<noteq> 0 \<Longrightarrow> n \<le> 1 \<and> \<not> r"
  by (auto simp: main_guards_def or_raise_def assert_single_worker_def reloader_never_raises split: if_splits)

section \<open>What a step does to the database\<close>

text \<open>The tables a user's conversations live in.\<close>

definition keeps_chats :: "db \<Rightarrow> db \<Rightarrow> bool" where
  "keeps_chats d d' \<longleftrightarrow> d_convs d' = d_convs d \<and> d_msgs d' = d_msgs d \<and> d_sess d' = d_sess d
     \<and> d_tools d' = d_tools d \<and> (\<exists>more. d_audit d' = d_audit d @ more)"

interpretation chats: progress keeps_chats
  by unfold_locales (auto simp: keeps_chats_def)

lemma stmt_chats: "(\<And>d. keeps_chats d (f d)) \<Longrightarrow> advances keeps_chats (stmt f)"
  by (rule stmt_advances) (simp_all add: keeps_chats_def)

lemma chats_basic:
  "advances keeps_chats fresh_id" "advances keeps_chats (upd_agents p f)" "advances keeps_chats (upd_cfgs q g)"
  "advances keeps_chats (audit_insert act et ei ac bef aft n)"
  "advances keeps_chats (insert_config a v src chk raw act')" "advances keeps_chats (insert_member c me)"
  unfolding upd_agents_def upd_cfgs_def audit_insert_def insert_config_def insert_member_def
  by ((intro chats.adv stmt_chats)?; simp add: advances_def keeps_chats_def)+

lemma sync_agent_chats: "advances keeps_chats (sync_agent cfg mode f)"
  unfolding sync_agent_def create_agent_def follow_yaml_def unchanged_yaml_def changed_yaml_def deactivate_def
    activate_version_def audit_config_def Let_def
  by (intro chats.adv chats_basic stmt_chats) (simp add: keeps_chats_def)

lemma sync_agents_chats: "advances keeps_chats (sync_agents cfg mode fs rep)"
  by (induction fs arbitrary: rep) (simp_all only: sync_agents.simps, (intro chats.adv sync_agent_chats | assumption)+)

lemma sync_chats: "advances keeps_chats (sync cfg mode files)"
  unfolding sync_def sync_orphans_def disable_orphan_def by (intro chats.adv chats_basic sync_agents_chats)

lemma insert_members_chats: "advances keeps_chats (insert_members c mes)"
  by (induction mes) (simp_all only: insert_members.simps, (intro chats.adv chats_basic | assumption)+)

lemma seed_chats: "advances keeps_chats seed_default_membership"
proof -
  have "advances keeps_chats (seed_all ms)" for ms
    by (induction ms rule: seed_all.induct)
      (simp_all only: seed_all.simps seed_capability_def, (intro chats.adv insert_members_chats | assumption)+)
  then show ?thesis by (simp add: seed_default_membership_def)
qed

section \<open>Sessions\<close>

definition at_start :: "world \<Rightarrow> db" where
  "at_start w = w_db (begin_tx w)"

lemma at_start_same: "settled w \<Longrightarrow> same_data (w_committed w) (at_start w)"
  by (simp add: at_start_def settled_def begin_tx_def)

lemma dbx_fresh:
  assumes "settled w" and "m (at_start w) = (r, d)"
  shows "\<exists>b. dbx m w = (r, (begin_tx w)\<lparr> w_db := d, w_aborted := b \<rparr>) \<and> (b \<longrightarrow> r = Inl IntegrityError)"
  using assms by (auto simp: dbx_def Let_def at_start_def settled_def begin_tx_def split: sum.splits)

text \<open>What each session leaves: nothing uncommitted, and a committed state that is the old one or the
  one its statements reached.\<close>

lemma startup_sync_run:
  assumes w: "settled w" and m: "sync cfg mode files (at_start w) = (r, d)" and run: "startup_sync cfg mode files w = (res, w')"
  shows "res = r \<and> settled w' \<and> w_reg w' = w_reg w
    \<and> w_committed w' = (if mode = Sync_off \<or> (\<exists>e. r = Inl e) then w_committed w else d)"
proof -
  obtain b where x: "dbx (sync cfg mode files) w = (r, (begin_tx w)\<lparr> w_db := d, w_aborted := b \<rparr>)"
    and b: "b \<longrightarrow> r = Inl IntegrityError"
    using dbx_fresh[of w, OF w, of "sync cfg mode files"] m by blast
  show ?thesis using b run
    by (cases r)
      (auto simp: startup_sync_def in_session_def always_after_run andthen_run x commit_def settled_def
        rollback_def begin_tx_def split: if_splits)
qed

lemma startup_seed_run:
  assumes w: "settled w" and m: "seed_default_membership (at_start w) = (r, d)" and run: "startup_seed w = (res, w')"
  shows "res = Inr () \<and> settled w' \<and> w_reg w' = w_reg w
    \<and> w_committed w' = (if (\<exists>e. r = Inl e) \<or> r = Inr 0 then w_committed w else d)"
proof -
  obtain b where x: "dbx seed_default_membership w = (r, (begin_tx w)\<lparr> w_db := d, w_aborted := b \<rparr>)"
    and b: "b \<longrightarrow> r = Inl IntegrityError"
    using dbx_fresh[of w, OF w, of seed_default_membership] m by blast
  show ?thesis using b run
    by (cases r)
      (auto simp: startup_seed_def in_session_def always_after_run andthen_run on_error_run x commit_def
        settled_def rollback_def begin_tx_def split: if_splits)
qed

lemma startup_reload_run:
  assumes "settled w" and "startup_reload env w = (res, w')"
  shows "res = Inr () \<and> settled w' \<and> w_committed w' = w_committed w
    \<and> w_reg w' = reload (e_validate env) (monotonic w) (Some (at_start w)) (w_reg w)"
  using assms
  by (auto simp: startup_reload_def in_session_def always_after_run andthen_run reload_registry_def Let_def
      settled_rollback at_start_def) (auto simp: settled_def begin_tx_def rollback_def)

section \<open>Starting\<close>

lemma preserves_db_ok_seed: "preserves db_ok seed_default_membership"
proof -
  have ins: "preserves db_ok (insert_members c mes)" for c mes
    by (induction mes) (simp_all only: insert_members.simps insert_member_def, (intro pres | assumption)+)
  have "preserves db_ok (seed_all ms)" for ms
    by (induction ms rule: seed_all.induct) (simp_all only: seed_all.simps seed_capability_def, (intro pres ins | assumption)+)
  then show ?thesis by (simp add: seed_default_membership_def)
qed

interpretation same_cfgs: progress "\<lambda>d d'. d_cfgs d' = d_cfgs d"
  by unfold_locales simp_all

lemma seed_keeps_cfgs: "advances (\<lambda>d d'. d_cfgs d' = d_cfgs d) seed_default_membership"
proof -
  have one: "advances (\<lambda>d d'. d_cfgs d' = d_cfgs d) (insert_member c me)" for c me
    unfolding insert_member_def by (intro same_cfgs.adv stmt_advances) simp_all
  have ins: "advances (\<lambda>d d'. d_cfgs d' = d_cfgs d) (insert_members c mes)" for c mes
    by (induction mes) (simp_all only: insert_members.simps, (intro same_cfgs.adv one | assumption)+)
  have "advances (\<lambda>d d'. d_cfgs d' = d_cfgs d) (seed_all ms)" for ms
    by (induction ms rule: seed_all.induct)
      (simp_all only: seed_all.simps seed_capability_def, (intro same_cfgs.adv ins | assumption)+)
  then show ?thesis by (simp add: seed_default_membership_def)
qed

lemma same_data_uses:
  assumes "same_data c d"
  shows "db_ok d = db_ok c" and "keeps_chats c d" and "active_of a d = active_of a c"
proof -
  have d: "d = c\<lparr> d_next := d_next d, d_now := d_now d \<rparr>" using assms by (rule same_data_eq)
  show "db_ok d = db_ok c" by (subst d, rule db_ok_cong) simp_all
  show "keeps_chats c d" by (subst d) (simp add: keeps_chats_def)
  show "active_of a d = active_of a c" by (subst d) (simp add: active_of_def configs_of_def)
qed

text \<open>What a start may do to a committed database.\<close>

definition started :: "sync_mode \<Rightarrow> db \<Rightarrow> db \<Rightarrow> bool" where
  "started mode d d' \<longleftrightarrow> keeps_chats d d' \<and> (db_ok d \<longrightarrow> db_ok d')
     \<and> (mode \<noteq> Sync_force \<longrightarrow> (\<forall>a c. db_ok d \<and> active_of a d = [c] \<and> cf_source c = Src_db \<longrightarrow> active_of a d' = [c]))"

lemma started_refl: "started mode d d"
  by (simp add: started_def chats.R_refl)

lemma started_trans: "started mode d e \<Longrightarrow> started mode e f \<Longrightarrow> started mode d f"
  using chats.R_trans unfolding started_def by blast

lemma started_same: "same_data d e \<Longrightarrow> started mode d e"
  by (simp add: started_def same_data_uses)

lemma preserves_db_ok_whole_sync: "preserves db_ok (sync cfg mode files)"
proof -
  have "preserves db_ok (sync_agents cfg mode fs rep)" for fs rep
    by (induction fs arbitrary: rep) (simp_all only: sync_agents.simps, (intro pres | assumption)+)
  then show ?thesis unfolding sync_def sync_orphans_def by (intro pres)
qed

lemma sync_started:
  assumes "settled w" and "sync cfg mode files (at_start w) = (r, d)"
  shows "started mode (w_committed w) d"
proof (rule started_trans[OF started_same[OF at_start_same[OF assms(1)]]])
  have "active_of a d = [c]" if "mode \<noteq> Sync_force" "db_ok (at_start w)" "active_of a (at_start w) = [c]" "cf_source c = Src_db" for a c
  proof (cases mode)
    case Sync_safe
    then show ?thesis using safe_sync_same_active that assms(2) by blast
  next
    case Sync_off
    then show ?thesis using that assms(2) by (simp add: sync_def)
  qed (use that in simp)
  then show "started mode (at_start w) d"
    using advancesD[OF sync_chats assms(2)] preserves_run[OF preserves_db_ok_whole_sync _ assms(2)]
    unfolding started_def by blast
qed

lemma seed_started:
  assumes "settled w" and "seed_default_membership (at_start w) = (r, d)"
  shows "started mode (w_committed w) d"
proof (rule started_trans[OF started_same[OF at_start_same[OF assms(1)]]])
  show "started mode (at_start w) d"
    using advancesD[OF seed_chats assms(2)] preserves_run[OF preserves_db_ok_seed _ assms(2)]
      advancesD[OF seed_keeps_cfgs assms(2)]
    unfolding started_def active_of_def configs_of_def by simp
qed

lemma sync_and_reload_steps:
  assumes w: "settled w" and run: "sync_and_reload env cfg mode files w = (res, w')"
  shows "settled w' \<and> started mode (w_committed w) (w_committed w')
    \<and> (case res of Inr _ \<Rightarrow> 0 < rg_version (w_reg w')
       | Inl e \<Rightarrow> fst (sync cfg mode files (at_start w)) = Inl e \<and> w_committed w' = w_committed w
           \<or> rg_version (w_reg w') = 0)"
proof -
  obtain r1 w1 where s1: "startup_sync cfg mode files w = (r1, w1)" by (cases "startup_sync cfg mode files w")
  obtain r d where m1: "sync cfg mode files (at_start w) = (r, d)" by (cases "sync cfg mode files (at_start w)")
  note c1 = startup_sync_run[OF w m1 s1]
  then have st1: "started mode (w_committed w) (w_committed w1)"
    using sync_started[OF w m1] started_refl by simp
  show ?thesis
  proof (cases r1)
    case (Inl e)
    then show ?thesis using run s1 c1 m1 st1 by (auto simp: sync_and_reload_def andthen_run)
  next
    case (Inr rep)
    obtain r2 w2 where s2: "startup_seed w1 = (r2, w2)" by (cases "startup_seed w1")
    obtain n e where m2: "seed_default_membership (at_start w1) = (n, e)" by (cases "seed_default_membership (at_start w1)")
    note c2 = startup_seed_run[OF _ m2 s2]
    obtain r3 w3 where s3: "startup_reload env w2 = (r3, w3)" by (cases "startup_reload env w2")
    note c3 = startup_reload_run[OF _ s3]
    have "started mode (w_committed w1) (w_committed w2)"
      using c1 c2 seed_started[OF _ m2] started_refl by simp
    moreover have "r2 = Inr ()" "settled w2" using c1 c2 by simp_all
    moreover from this have "r3 = Inr ()" "settled w3" "w_committed w3 = w_committed w2" using c3 by simp_all
    moreover from this have "w' = w3" and "case res of Inr _ \<Rightarrow> 0 < rg_version (w_reg w') | Inl e \<Rightarrow> rg_version (w_reg w') = 0"
      using run s1 s2 s3 Inr \<open>r2 = Inr ()\<close>
      by (auto simp: sync_and_reload_def andthen_run split: if_splits)
    ultimately show ?thesis using started_trans[OF st1] by (auto split: sum.splits)
  qed
qed

text \<open>A start is safe for what is stored. Whatever the agent files hold and whatever fails, the
  start leaves nothing uncommitted and a consistent database with every conversation, message, session and
  tool call as it was and the audit log only longer; unless the sync is forced, the active configuration
  an administrator stored for an agent stays active. The start either succeeds with a registry that was
  loaded, or aborts: with the error of the sync, having written nothing, or with an empty registry.\<close>

theorem start_is_safe:
  assumes "settled w" and "db_ok (w_committed w)" and "sync_and_reload env cfg mode files w = (res, w')"
  shows "settled w' \<and> db_ok (w_committed w') \<and> keeps_chats (w_committed w) (w_committed w')
    \<and> (mode \<noteq> Sync_force \<longrightarrow> (\<forall>a c. active_of a (w_committed w) = [c] \<and> cf_source c = Src_db \<longrightarrow>
         active_of a (w_committed w') = [c]))
    \<and> (case res of Inr _ \<Rightarrow> 0 < rg_version (w_reg w')
       | Inl e \<Rightarrow> fst (sync cfg mode files (at_start w)) = Inl e \<and> w_committed w' = w_committed w
           \<or> rg_version (w_reg w') = 0)"
  using sync_and_reload_steps[OF assms(1,3)] assms(2) unfolding started_def by blast

lemma start_is_safe_witness:
  "\<exists>res w'. sync_and_reload sample_env sync_sample Sync_safe [(''general.yaml'', sample_yaml)] sample_world = (res, w')
     \<and> db_ok (w_committed w') \<and> d_sess (w_committed w') = [sample_session]"
proof -
  obtain res w' where run: "sync_and_reload sample_env sync_sample Sync_safe [(''general.yaml'', sample_yaml)] sample_world
    = (res, w')" by (cases "sync_and_reload sample_env sync_sample Sync_safe [(''general.yaml'', sample_yaml)] sample_world")
  have com: "w_committed sample_world = sample_db" by (simp add: sample_world_def)
  have "d_sess sample_db = [sample_session]" by (simp add: sample_db_def)
  with start_is_safe[OF sample_settled _ run] sample_db_ok run show ?thesis
    by (simp add: com keeps_chats_def)
qed

end
