(* ===== verification/Migration.thy ===== *)
theory Migration
  imports Config_Sync_Properties Capability_Properties Startup
begin

text \<open>
  \<open>migrations/versions/0006_capabilities_and_tenancy.py\<close>: the step from one configuration per agent to one
  per agent and scope. The tables of revision 0005 that change are \<open>agents\<close> and \<open>agent_configurations\<close>;
  the upgrade adds the scope columns with their defaults, creates the tables of the capabilities and
  seeds the shipped catalogue; the downgrade restores the old indexes and drops what was added.
\<close>

record agent_0005 =
  a5_id :: uuid
  a5_key :: string
  a5_name :: string
  a5_description :: string
  a5_agent_type :: agent_type
  a5_status :: agent_status
  a5_is_default :: bool
  a5_sort_order :: int
  a5_updated_at :: time

record config_0005 =
  c5_id :: uuid
  c5_agent_id :: uuid
  c5_version :: int
  c5_source :: config_source
  c5_checksum :: string
  c5_config :: json
  c5_is_active :: bool
  c5_activated_at :: "time option"
  c5_created_by :: string
  c5_created_at :: time

record schema_0005 =
  t5_agents :: "agent_0005 list"
  t5_cfgs :: "config_0005 list"

section \<open>Upgrade\<close>

definition scoped_agent :: "agent_0005 \<Rightarrow> agent_row" where
  "scoped_agent a = \<lparr> ag_id = a5_id a, ag_tenant_id = default_scope, ag_organization_id = default_scope,
     ag_key = a5_key a, ag_name = a5_name a, ag_description = a5_description a, ag_agent_type = a5_agent_type a,
     ag_status = a5_status a, ag_is_default = a5_is_default a, ag_sort_order = a5_sort_order a, ag_icon = None,
     ag_updated_at = a5_updated_at a \<rparr>"

definition scoped_cfg :: "config_0005 \<Rightarrow> config_row" where
  "scoped_cfg c = \<lparr> cf_id = c5_id c, cf_agent_id = c5_agent_id c, cf_tenant_id = default_scope,
     cf_organization_id = default_scope, cf_version = c5_version c, cf_source = c5_source c,
     cf_checksum = c5_checksum c, cf_config = c5_config c, cf_is_active = c5_is_active c,
     cf_activated_at = c5_activated_at c, cf_created_by = c5_created_by c, cf_created_at = c5_created_at c \<rparr>"

text \<open>The schema part. \<open>d\<close> holds the tables that stay as they are.\<close>

definition upgrade_tables :: "schema_0005 \<Rightarrow> db \<Rightarrow> db" where
  "upgrade_tables s d = d\<lparr> d_agents := map scoped_agent (t5_agents s), d_cfgs := map scoped_cfg (t5_cfgs s),
     d_caps := [], d_cap_agents := [] \<rparr>"

definition shipped_cap :: "string \<Rightarrow> string \<Rightarrow> string \<Rightarrow> string \<Rightarrow> string option \<Rightarrow> capability_status \<Rightarrow> int \<Rightarrow>
    (string \<times> json) list \<Rightarrow> uuid \<Rightarrow> cap_row" where
  "shipped_cap key name desc icon badge st pos act i = \<lparr> cp_id = i, cp_tenant_id = default_scope,
     cp_organization_id = default_scope, cp_key = key, cp_name = name, cp_description = Some desc,
     cp_icon = Some icon, cp_badge = badge, cp_status = st, cp_display_order = pos,
     cp_metadata = JObj [(''action'', JObj act)] \<rparr>"

definition listening_cap :: "uuid \<Rightarrow> cap_row" where
  "listening_cap = shipped_cap ''listening_at_scale'' ''Listening at Scale''
     ''Synthesize field insights into actionable knowledge'' ''brain'' (Some ''SHIKSHALOKAM'') Cap_active 10
     [(''type'', JStr ''display_card'')]"

definition commons_cap :: "uuid \<Rightarrow> cap_row" where
  "commons_cap = shipped_cap ''sg_commons'' ''SG Commons Portal'' ''AI search for ecosystem assets'' ''globe'' None
     Cap_coming_soon 20 [(''type'', JStr ''coming_soon''), (''message'', JStr ''SG Commons Portal is coming soon.'')]"

text \<open>One INSERT of two rows, \<open>ON CONFLICT (tenant_id, organization_id, key) DO NOTHING\<close>.\<close>

definition seed_capabilities :: "unit dbact" where
  "seed_capabilities =
     andthen fresh_id (\<lambda>i. andthen fresh_id (\<lambda>j.
     stmt (\<lambda>d. d\<lparr> d_caps := d_caps d @ filter (\<lambda>c. (cp_tenant_id c, cp_organization_id c, cp_key c) \<notin>
        (\<lambda>x. (cp_tenant_id x, cp_organization_id x, cp_key x)) ` set (d_caps d)) [listening_cap i, commons_cap j] \<rparr>)))"

definition seeded_members :: "member list" where
  "seeded_members =
     [\<lparr> me_agent_key = ''record_stories'', me_label = ''Record Stories'', me_display_order = 10,
        me_autostart = ''I want to record a story'' \<rparr>,
      \<lparr> me_agent_key = ''capture_discussion'', me_label = ''Capture Discussions'', me_display_order = 20,
        me_autostart = ''I want to capture a discussion'' \<rparr>]"

text \<open>The join of \<open>capabilities\<close>, on its unique key, and \<open>agents\<close>.\<close>

definition seed_link :: "member \<Rightarrow> unit dbact" where
  "seed_link me =
     andthen (asks (\<lambda>d. find (\<lambda>c. cp_key c = ''listening_at_scale'' \<and> cp_tenant_id c = default_scope
        \<and> cp_organization_id c = default_scope) (d_caps d))) (\<lambda>found.
     case found of
       None \<Rightarrow> ret ()
     | Some c \<Rightarrow> andthen (insert_member (cp_id c) me) (\<lambda>_. ret ()))"

definition seed_catalogue :: "unit dbact" where
  "seed_catalogue = andthen seed_capabilities (\<lambda>_. each seed_link seeded_members)"

definition upgrade :: "schema_0005 \<Rightarrow> unit dbact" where
  "upgrade s = (\<lambda>d. seed_catalogue (upgrade_tables s d))"

section \<open>Downgrade\<close>

definition unscoped_agent :: "agent_row \<Rightarrow> agent_0005" where
  "unscoped_agent a = \<lparr> a5_id = ag_id a, a5_key = ag_key a, a5_name = ag_name a, a5_description = ag_description a,
     a5_agent_type = ag_agent_type a, a5_status = ag_status a, a5_is_default = ag_is_default a,
     a5_sort_order = ag_sort_order a, a5_updated_at = ag_updated_at a \<rparr>"

definition unscoped_cfg :: "config_row \<Rightarrow> config_0005" where
  "unscoped_cfg c = \<lparr> c5_id = cf_id c, c5_agent_id = cf_agent_id c, c5_version = cf_version c,
     c5_source = cf_source c, c5_checksum = cf_checksum c, c5_config = cf_config c, c5_is_active = cf_is_active c,
     c5_activated_at = cf_activated_at c, c5_created_by = cf_created_by c, c5_created_at = cf_created_at c \<rparr>"

text \<open>The unique index on the active configuration of an agent and the unique constraint on its versions
  are created while the rows of every scope are there.\<close>

definition one_scope_left :: "config_row list \<Rightarrow> bool" where
  "one_scope_left cs \<longleftrightarrow> distinct (map cf_agent_id (filter cf_is_active cs))
     \<and> distinct (map (\<lambda>c. (cf_agent_id c, cf_version c)) cs)"

definition downgrade :: "db \<Rightarrow> exc + schema_0005" where
  "downgrade d = (if one_scope_left (d_cfgs d)
     then Inr \<lparr> t5_agents = map unscoped_agent (d_agents d), t5_cfgs = map unscoped_cfg (d_cfgs d) \<rparr>
     else Inl IntegrityError)"

section \<open>What the upgrade does\<close>

text \<open>A database of revision 0005: its constraints on the configurations, and the other tables consistent
  with its agents.\<close>

definition ok_0005 :: "schema_0005 \<Rightarrow> db \<Rightarrow> bool" where
  "ok_0005 s d \<longleftrightarrow> db_ok (d\<lparr> d_agents := map scoped_agent (t5_agents s), d_cfgs := [], d_caps := [], d_cap_agents := [] \<rparr>)
     \<and> list_all (\<lambda>c. config_row_ok (scoped_cfg c)) (t5_cfgs s) \<and> distinct (map c5_id (t5_cfgs s))
     \<and> distinct (map (\<lambda>c. (c5_agent_id c, c5_version c)) (t5_cfgs s))
     \<and> distinct (map c5_agent_id (filter c5_is_active (t5_cfgs s)))
     \<and> list_all (\<lambda>c. c5_agent_id c \<in> a5_id ` set (t5_agents s)) (t5_cfgs s)"

lemma scoped_cfg_sel [simp]:
  "cf_id (scoped_cfg c) = c5_id c" "cf_agent_id (scoped_cfg c) = c5_agent_id c"
  "cf_tenant_id (scoped_cfg c) = default_scope" "cf_organization_id (scoped_cfg c) = default_scope"
  "cf_version (scoped_cfg c) = c5_version c" "cf_is_active (scoped_cfg c) = c5_is_active c"
  by (simp_all add: scoped_cfg_def)

lemma unscoped_scoped [simp]: "unscoped_agent (scoped_agent a) = a" "unscoped_cfg (scoped_cfg c) = c"
  by (simp_all add: unscoped_agent_def scoped_agent_def unscoped_cfg_def scoped_cfg_def)

lemma filter_scoped: "filter cf_is_active (map scoped_cfg cs) = map scoped_cfg (filter c5_is_active cs)"
  by (simp add: filter_map o_def)

lemma upgrade_tables_ok:
  assumes "ok_0005 s d"
  shows "db_ok (upgrade_tables s d)" and "one_scope_left (d_cfgs (upgrade_tables s d))"
proof -
  have "cfgs_ok (upgrade_tables s d)" using assms
    by (simp add: ok_0005_def cfgs_ok_def upgrade_tables_def filter_scoped o_def list.pred_map image_image
        scoped_agent_def distinct_map inj_on_def list_all_iff)
  then show "db_ok (upgrade_tables s d)" using assms
    by (simp add: ok_0005_def upgrade_tables_def db_ok_def convs_ok_def msgs_ok_def sess_ok_def tools_ok_def
        agents_ok_def caps_ok_def)
  show "one_scope_left (d_cfgs (upgrade_tables s d))" using assms
    by (simp add: ok_0005_def one_scope_left_def upgrade_tables_def filter_scoped o_def)
qed

lemma shipped_sel [simp]:
  "cp_key (listening_cap i) = ''listening_at_scale''" "cp_key (commons_cap i) = ''sg_commons''"
  "cp_id (listening_cap i) = i" "cp_id (commons_cap i) = i"
  "cp_tenant_id (listening_cap i) = default_scope" "cp_tenant_id (commons_cap i) = default_scope"
  "cp_organization_id (listening_cap i) = default_scope" "cp_organization_id (commons_cap i) = default_scope"
  "cp_status (listening_cap i) = Cap_active" "cp_status (commons_cap i) = Cap_coming_soon"
  "cp_display_order (listening_cap i) = 10" "cp_display_order (commons_cap i) = 20"
  by (simp_all add: listening_cap_def commons_cap_def shipped_cap_def)

lemma shipped_rows_ok: "cap_row_ok (listening_cap i)" "cap_row_ok (commons_cap i)"
proof -
  have "slug_ok ''listening_at_scale''" "slug_ok ''sg_commons''" "default_scope \<noteq> []" by code_simp+
  then show "cap_row_ok (listening_cap i)" "cap_row_ok (commons_cap i)" by (simp_all add: cap_row_ok_def)
qed

lemma seed_capabilities_run:
  assumes "db_ok d" and "d_caps d = []"
  defines "e \<equiv> d\<lparr> d_next := d_next d + 2, d_caps := [listening_cap (d_next d), commons_cap (d_next d + 1)] \<rparr>"
  shows "seed_capabilities d = (Inr (), e) \<and> db_ok e"
proof -
  have "d_cap_agents d = []" using assms(1,2) by (cases "d_cap_agents d") (auto simp: db_ok_def caps_ok_def)
  then have ok: "db_ok e" using assms(1,2)
    by (simp add: e_def db_ok_def convs_ok_def msgs_ok_def sess_ok_def tools_ok_def agents_ok_def cfgs_ok_def
        caps_ok_def shipped_rows_ok)
  then show ?thesis using assms(2)
    by (simp add: seed_capabilities_def andthen_run stmt_run e_def)
qed

lemma seed_links_run:
  assumes "db_ok d" and "d_caps d = [listening_cap i, commons_cap j]"
  shows "\<exists>rows. each seed_link mes d = (Inr (), d\<lparr> d_cap_agents := d_cap_agents d @ rows \<rparr>)
    \<and> db_ok (d\<lparr> d_cap_agents := d_cap_agents d @ rows \<rparr>)"
  using assms
proof (induction mes arbitrary: d)
  case Nil
  then show ?case by (intro exI[of _ "[]"]) simp
next
  case (Cons me mes)
  have "i \<in> cp_id ` set (d_caps d)" using Cons.prems(2) by simp
  from insert_member_run[OF Cons.prems(1) this, of me] obtain rows where
    one: "insert_member i me d = (Inr (length rows), d\<lparr> d_cap_agents := d_cap_agents d @ rows \<rparr>)"
      "db_ok (d\<lparr> d_cap_agents := d_cap_agents d @ rows \<rparr>)" by blast
  from Cons.IH[OF one(2)] Cons.prems(2) obtain more where
    "each seed_link mes (d\<lparr> d_cap_agents := d_cap_agents d @ rows \<rparr>) =
      (Inr (), d\<lparr> d_cap_agents := d_cap_agents d @ rows @ more \<rparr>)"
    "db_ok (d\<lparr> d_cap_agents := d_cap_agents d @ rows @ more \<rparr>)" by auto
  moreover have "seed_link me d = (Inr (), d\<lparr> d_cap_agents := d_cap_agents d @ rows \<rparr>)"
    using one(1) Cons.prems(2) by (simp add: seed_link_def andthen_run)
  ultimately show ?case by (intro exI[of _ "rows @ more"]) (simp add: andthen_run)
qed

lemma upgrade_run:
  assumes "ok_0005 s d"
  shows "\<exists>rows. upgrade s d = (Inr (), (upgrade_tables s d)\<lparr> d_next := d_next d + 2,
      d_caps := [listening_cap (d_next d), commons_cap (d_next d + 1)], d_cap_agents := rows \<rparr>)
    \<and> db_ok ((upgrade_tables s d)\<lparr> d_next := d_next d + 2,
      d_caps := [listening_cap (d_next d), commons_cap (d_next d + 1)], d_cap_agents := rows \<rparr>)"
proof -
  note caps = seed_capabilities_run[OF upgrade_tables_ok(1)[OF assms]]
  have "d_caps (upgrade_tables s d) = []" "d_next (upgrade_tables s d) = d_next d"
    "d_cap_agents (upgrade_tables s d) = []" by (simp_all add: upgrade_tables_def)
  with caps seed_links_run[OF conjunct2[OF caps], of "d_next d" "d_next d + 1" seeded_members] show ?thesis
    by (simp add: upgrade_def seed_catalogue_def andthen_run)
qed

lemma shipped_catalogue:
  assumes "d_caps d = [listening_cap i, commons_cap j]"
  shows "capability_rows t oid d = [listening_cap i, commons_cap j]"
  by (simp add: capability_rows_def distinct_on_key_def best_row_def cap_in_scope_def assms List.map_filter_def)

lemma find_scoped: "find cf_is_active (filter (\<lambda>c. cf_agent_id c = a) (map scoped_cfg cs)) =
    map_option scoped_cfg (find (\<lambda>c. c5_agent_id c = a \<and> c5_is_active c) cs)"
  by (induction cs) simp_all


definition sample_0005 :: schema_0005 where
  "sample_0005 = \<lparr> t5_agents = map unscoped_agent (d_agents sample_db),
     t5_cfgs = [\<lparr> c5_id = 20, c5_agent_id = 1, c5_version = 1, c5_source = Src_yaml, c5_checksum = ''c'',
       c5_config = sample_yaml, c5_is_active = True, c5_activated_at = Some 1, c5_created_by = ''startup-sync'',
       c5_created_at = 1 \<rparr>] \<rparr>"


section \<open>No way back with overrides\<close>

text \<open>As soon as a tenant has an active configuration of its own beside the default one, the old index
  cannot be created and the downgrade is refused.\<close>

lemma downgrade_refused:
  assumes "c \<in> set (d_cfgs d)" "c' \<in> set (d_cfgs d)" "cf_is_active c" "cf_is_active c'"
    and "cf_agent_id c = cf_agent_id c'" "cf_tenant_id c \<noteq> cf_tenant_id c'"
  shows "downgrade d = Inl IntegrityError"
proof -
  have "c \<noteq> c'" using assms(6) by auto
  then have "\<not> distinct (map cf_agent_id (filter cf_is_active (d_cfgs d)))"
    using assms distinct_map_eq[of cf_agent_id "filter cf_is_active (d_cfgs d)" c c'] by auto
  then show ?thesis by (simp add: downgrade_def one_scope_left_def)
qed

end
