(* ===== verification/Llm_Layer.thy ===== *)
theory Llm_Layer
  imports Handlers Admin
begin

text \<open>
  The layer under the agents: \<open>tools/registry.py\<close>, the two search tools of \<open>tools/search_tools.py\<close>, the
  client cache of \<open>llm/factory.py\<close> and the content of \<open>llm/normalization.py\<close>; and \<open>agents/base.py\<close>, the
  older agent with its own tool loop. Libraries that are called, the search engine and LangChain's
  prompt chain, are parameters.
\<close>

section \<open>The registry of tools\<close>

type_synonym 'tool tool_registry = "(string \<times> 'tool) list"

definition register :: "string \<Rightarrow> 'tool \<Rightarrow> 'tool tool_registry \<Rightarrow> exc + 'tool tool_registry" where
  "register name t reg = (if map_of reg name \<noteq> None then Inl (RuntimeError (''duplicate tool '' @ repr_str name))
     else Inr (reg @ [(name, t)]))"

definition resolve_names :: "'tool tool_registry \<Rightarrow> string list \<Rightarrow> exc + 'tool list" where
  "resolve_names reg names = (let missing = filter (\<lambda>n. map_of reg n = None) names in
     if missing \<noteq> [] then Inl (UnknownTool (join '', '' missing)) else Inr (map (\<lambda>n. the (map_of reg n)) names))"

definition catalogue :: "('tool \<Rightarrow> string) \<Rightarrow> 'tool tool_registry \<Rightarrow> (string \<times> string) list" where
  "catalogue description reg = map (\<lambda>(n, t). (n, description t)) (sort_key fst reg)"

section \<open>The search tools\<close>

text \<open>\<open>search\<close> is the engine: its error, or the result dictionaries.\<close>

definition newline :: string where
  "newline = [char_of (10::nat)]"

fun numbered :: "nat \<Rightarrow> (nat \<Rightarrow> 'a \<Rightarrow> string) \<Rightarrow> 'a list \<Rightarrow> string" where
  "numbered i f [] = []"
| "numbered i f (x # xs) = f i x @ numbered (i + 1) f xs"

definition video_line :: "nat \<Rightarrow> body \<Rightarrow> string" where
  "video_line i res = (let title = jget_default res ''title'' (JStr ''Unknown Title'');
       content = jget_default res ''content'' (JStr []);
       link = (if truthy content then content else jget_default res ''url'' (JStr ''No link available''))
     in show_nat i @ ''. ['' @ py_str title @ '']('' @ py_str link @ '')'' @ newline)"

definition youtube_search_tool :: "(exc \<Rightarrow> string) \<Rightarrow> (string \<Rightarrow> exc + body list) \<Rightarrow> string \<Rightarrow> string" where
  "youtube_search_tool str_exc search query = (case search query of
     Inl e \<Rightarrow> ''Error searching YouTube: '' @ str_exc e
   | Inr [] \<Rightarrow> ''No YouTube videos found for this query.''
   | Inr rs \<Rightarrow> ''Here are some relevant YouTube videos:'' @ newline @ numbered 1 video_line rs)"

definition web_line :: "nat \<Rightarrow> body \<Rightarrow> string" where
  "web_line i res =
     show_nat i @ ''. **['' @ py_str (jget_default res ''title'' (JStr ''Unknown Title'')) @ '']('' @
     py_str (jget_default res ''href'' (JStr [])) @ '')**'' @ newline @ ''   '' @
     py_str (jget_default res ''body'' (JStr [])) @ newline"

definition web_search_tool :: "(exc \<Rightarrow> string) \<Rightarrow> (string \<Rightarrow> exc + body list) \<Rightarrow> string \<Rightarrow> string" where
  "web_search_tool str_exc search query = (case search query of
     Inl e \<Rightarrow> ''Error searching the web: '' @ str_exc e
   | Inr [] \<Rightarrow> ''No search results found.''
   | Inr rs \<Rightarrow> ''Here is what I found on the web:'' @ newline @ numbered 1 web_line rs)"

section \<open>Clients\<close>

record llm_config =
  lf_api_key :: string
  lf_max_retries :: int

record llm_client =
  cl_model :: string
  cl_api_key :: string
  cl_temperature :: rat
  cl_request_timeout :: rat
  cl_max_retries :: int
  cl_max_tokens :: "int option"

text \<open>The provider of a \<open>ModelSpec\<close> is a literal, so the rest of the specification is the cache key.\<close>

definition client_for :: "llm_config \<Rightarrow> model_spec \<Rightarrow> llm_client" where
  "client_for cfg sp = \<lparr> cl_model = ''openrouter/'' @ ms_name sp, cl_api_key = lf_api_key cfg,
     cl_temperature = ms_temperature sp, cl_request_timeout = ms_timeout_s sp,
     cl_max_retries = lf_max_retries cfg, cl_max_tokens = ms_max_tokens sp \<rparr>"

definition factory_get :: "llm_config \<Rightarrow> model_spec \<Rightarrow> (model_spec \<times> llm_client) list \<Rightarrow>
    llm_client \<times> (model_spec \<times> llm_client) list" where
  "factory_get cfg sp cache = (case map_of cache sp of
     Some c \<Rightarrow> (c, cache) | None \<Rightarrow> (client_for cfg sp, cache @ [(sp, client_for cfg sp)]))"

text \<open>\<open>_generate\<close>: a list of content blocks becomes its text, \<open>message.text\<close> of the library.\<close>

definition normalise_contents :: "(json \<Rightarrow> string) \<Rightarrow> json list \<Rightarrow> json list" where
  "normalise_contents as_str = map (\<lambda>c. case c of JList _ \<Rightarrow> JStr (as_str c) | _ \<Rightarrow> c)"

lemma factory_keeps_cache:
  assumes "\<forall>(k, c) \<in> set cache. c = client_for cfg k" and "distinct (map fst cache)"
    and "factory_get cfg sp cache = (c, cache')"
  shows "c = client_for cfg sp \<and> (\<forall>(k, c) \<in> set cache'. c = client_for cfg k) \<and> distinct (map fst cache')
    \<and> factory_get cfg sp cache' = (c, cache')"
proof (cases "map_of cache sp")
  case None
  then have "sp \<notin> fst ` set cache" by (simp add: map_of_eq_None_iff)
  then show ?thesis using assms None
    by (auto simp: factory_get_def map_add_def)
next
  case (Some x)
  then have "(sp, x) \<in> set cache" by (rule map_of_SomeD)
  then show ?thesis using assms Some by (auto simp: factory_get_def)
qed

section \<open>The older agent\<close>

text \<open>\<open>bg_llm\<close> is \<open>invoke\<close> of the model with the tools bound, given the calls before it; \<open>bg_chain\<close> the
  prompt chain of an agent without tools. The result of a tool is rendered by \<open>str\<close>.\<close>

record base_agent =
  bg_prompt :: string
  bg_tools :: "(string \<times> (json \<Rightarrow> exc + string)) list"
  bg_llm :: "chat_msg list list \<Rightarrow> chat_msg list \<Rightarrow> exc + llm_reply"
  bg_chain :: "string \<Rightarrow> (string \<times> string) list \<Rightarrow> exc + json"
  bg_str :: "exc \<Rightarrow> string"

text \<open>The state is the list of the calls to the model.\<close>

type_synonym 'a bact = "(chat_msg list list, exc, 'a) act"

definition ask_llm :: "base_agent \<Rightarrow> chat_msg list \<Rightarrow> llm_reply bact" where
  "ask_llm ag msgs = (\<lambda>calls. (bg_llm ag calls msgs, calls @ [msgs]))"

definition history_messages :: "(string \<times> string) list \<Rightarrow> chat_msg list" where
  "history_messages h = map (\<lambda>(r, t). if r = ''user'' then Human_msg t else Ai_msg t) h"

fun run_requested :: "base_agent \<Rightarrow> (string \<times> string \<times> json) list \<Rightarrow> chat_msg list \<times> string \<Rightarrow> chat_msg list \<times> string" where
  "run_requested ag [] st = st"
| "run_requested ag ((cid, name, args) # cs) st =
     run_requested ag cs (case map_of (bg_tools ag) name of
       None \<Rightarrow> st
     | Some f \<Rightarrow> let out = (case f args of Inl e \<Rightarrow> ''Error: '' @ bg_str ag e | Inr s \<Rightarrow> s)
         in (fst st @ [Tool_msg out cid], out))"

fun base_loop :: "base_agent \<Rightarrow> nat \<Rightarrow> chat_msg list \<times> string \<Rightarrow> (json + chat_msg list \<times> string) bact" where
  "base_loop ag 0 st = ret (Inr st)"
| "base_loop ag (Suc n) st =
     andthen (ask_llm ag (fst st)) (\<lambda>r.
     if lr_tool_calls r = [] then ret (Inl (por (lr_content r) (JStr no_answer)))
     else base_loop ag n (run_requested ag (lr_tool_calls r)
       (fst st @ [Ai_tool_msg (lr_content r) (lr_tool_calls r)], snd st)))"

definition process_body :: "base_agent \<Rightarrow> string \<Rightarrow> (string \<times> string) list \<Rightarrow> json bact" where
  "process_body ag req past =
     (if bg_tools ag \<noteq> [] then
        andthen (base_loop ag 3 ([System_msg (bg_prompt ag)] @ history_messages past @ [Human_msg req], [])) (\<lambda>res.
        case res of
          Inl answer \<Rightarrow> ret answer
        | Inr st \<Rightarrow>
            andthen (ask_llm ag (fst st)) (\<lambda>r.
            ret (if \<not> truthy (lr_content r) then JStr (''Here is the raw data I found:'' @ newline @ snd st)
                 else lr_content r)))
      else of_sum (bg_chain ag req (map (\<lambda>(r, t). (if r = ''user'' then ''human'' else ''ai'', t)) past)))"

definition process :: "base_agent \<Rightarrow> string \<Rightarrow> (string \<times> string) list \<Rightarrow> json bact" where
  "process ag req past = on_error (process_body ag req past)
     (\<lambda>e. ret (JStr (''I encountered an error processing your request: '' @ bg_str ag e)))"

lemma base_loop_calls: "grows id (\<lambda>_. True) n (base_loop ag n st)"
proof (induction ag n st rule: base_loop.induct)
  case (1 ag st)
  then show ?case by (simp add: grows_def)
next
  case (2 ag n st)
  have one: "grows id (\<lambda>_. True) 1 (ask_llm ag (fst st))" by (simp add: grows_def ask_llm_def)
  have "grows id (\<lambda>_. True) (1 + n) (base_loop ag (Suc n) st)"
    unfolding base_loop.simps
    by (intro grows_andthen[OF one] grows_if) (use 2 in \<open>simp_all add: grows_def\<close>)
  then show ?case by (simp only: plus_1_eq_Suc)
qed

text \<open>The older agent always answers and asks the model at most four times.\<close>

theorem process_answers:
  "\<exists>answer more. process ag req past calls = (Inr answer, calls @ more) \<and> length more \<le> 4"
proof -
  have loop: "grows id (\<lambda>_. True) 3 (base_loop ag 3 st)" for st by (rule base_loop_calls)
  have one: "grows id (\<lambda>_. True) 1 (ask_llm ag ms)" for ms by (simp add: grows_def ask_llm_def)
  have "grows id (\<lambda>_. True) 4 (process_body ag req past)"
  proof -
    have "grows id (\<lambda>_. True) (3 + (1 + 0)) (andthen (base_loop ag 3 st) (\<lambda>res. case res of Inl answer \<Rightarrow> ret answer
      | Inr st \<Rightarrow> andthen (ask_llm ag (fst st)) (\<lambda>r. ret (f r st))))" for st and f :: "llm_reply \<Rightarrow> _ \<Rightarrow> json"
      by (intro grows_andthen[OF loop] grows_case_sum grows_andthen[OF one]) (simp_all add: grows_def)
    then show ?thesis unfolding process_body_def by (simp add: grows_def)
  qed
  then obtain more where "snd (process_body ag req past calls) = calls @ more" "length more \<le> 4"
    by (auto simp: grows_def)
  then show ?thesis
    by (cases "process_body ag req past calls"; cases "fst (process_body ag req past calls)")
      (auto simp: process_def on_error_run)
qed

end
