(* ===== verification/Deployment.thy ===== *)
theory Deployment
  imports Startup Admin_Properties
begin

text \<open>
  The whole deployment: requests of any users, calls of the administration surface, restarts and
  crashes, in any order and on any connection. What the users said and what was audited survives all of
  it.
\<close>

section \<open>The audit log is append-only\<close>

definition audit_grows :: "db \<Rightarrow> db \<Rightarrow> bool" where
  "audit_grows d d' \<longleftrightarrow> (\<exists>more. d_audit d' = d_audit d @ more)"

interpretation aud: progress audit_grows
  by unfold_locales (auto simp: audit_grows_def)

lemma stmt_audit: "(\<And>d. audit_grows d (f d)) \<Longrightarrow> advances audit_grows (stmt f)"
  by (auto simp: advances_def stmt_def aud.R_refl)

lemma audit_basic:
  "advances audit_grows fresh_id" "advances audit_grows (fetch_one q)" "advances audit_grows (upd_sess p f)"
  "advances audit_grows (upd_conv i pc fc)"
  by (auto simp: advances_def fresh_id_def upd_sess_def upd_conv_def stmt_def audit_grows_def)

lemma audit_repos:
  "advances audit_grows (touch c tf)" "advances audit_grows (replace_placeholder_title c s)"
  "advances audit_grows (set_placeholder_title c s)" "advances audit_grows (pin c a)" "advances audit_grows (unpin c)"
  "advances audit_grows (audit_insert act et ei ac bef aft note)"
  "advances audit_grows (tools_bulk_insert mid aid tr rid)" "advances audit_grows (conv_create_new u)"
  "advances audit_grows (get_or_create ci u)" "advances audit_grows (message_insert m)"
  unfolding repo_defs Let_def
  by (intro aud.adv audit_basic stmt_audit; simp add: audit_grows_def)+

lemma audit_append: "advances audit_grows (append_message m)"
  unfolding append_message_def next_seq_for_update_def
  by (intro aud.adv audit_basic audit_repos)

lemma audit_sessions:
  "advances audit_grows (abandon c why actor)" "advances audit_grows (open_attach c a)"
  "advances audit_grows (open_create c a sp)" "advances audit_grows (apply_delta s \<delta>)"
  "advances audit_grows (claim_finalizing i)"
  unfolding abandon_def open_attach_def open_create_def apply_delta_def claim_finalizing_def
    get_open_for_conversation_def abandon_open_session_def create_pending_def check_transition_def
    update_state_and_fields_def repo_claim_finalizing_def Let_def
  by (intro aud.adv audit_basic audit_repos stmt_audit; simp add: audit_grows_def)+

interpretation audit_requests: request_relation audit_grows
proof
  show "audit_grows d (d\<lparr> d_now := t \<rparr>)" for d t by (simp add: audit_grows_def)
  show "audit_grows d (d\<lparr> d_next := n \<rparr>)" for d n by (simp add: audit_grows_def)
qed (rule moves_advances audit_repos audit_append audit_sessions)+

section \<open>Handlers that commit and roll back themselves\<close>

text \<open>In the middle of a request: what is committed, and what is seen while the transaction is usable, is
  reached from \<open>c\<close>.\<close>

context commit_relation begin

definition on_track :: "db \<Rightarrow> world \<Rightarrow> bool" where
  "on_track c w \<longleftrightarrow> Q c (w_committed w) \<and> (\<not> w_aborted w \<longrightarrow> Q c (w_db w))"

lemma on_track_step: "on_track c w \<Longrightarrow> tx_le Q w w' \<Longrightarrow> on_track c w'"
  unfolding on_track_def tx_le_def by (metis R_trans)

lemma tx_on_track: "advances (tx_le Q) m \<Longrightarrow> preserves (on_track c) m"
  unfolding preserves_def advances_def by (blast intro: on_track_step)

lemma track_rollback: "on_track c w \<Longrightarrow> on_track c (rollback w)"
  using R_trans Q_next by (auto simp: on_track_def rollback_def)

lemma track_or_rolled_back:
  assumes "preserves (on_track c) m" and "\<And>x. preserves (on_track c) (f x)"
  shows "preserves (on_track c) (or_rolled_back m failed f)"
proof (rule preservesI)
  fix w assume w: "on_track c w"
  obtain x v where m: "m w = (x, v)" by (meson surj_pair)
  have v: "on_track c v" by (rule preserves_run[OF assms(1) w m])
  show "on_track c (snd (or_rolled_back m failed f w))"
  proof (cases x)
    case (Inl e)
    then show ?thesis using m track_rollback[OF v] by (simp add: or_rolled_back_def)
  next
    case (Inr y)
    then show ?thesis using m preservesD[OF assms(2) v] by (simp add: or_rolled_back_def)
  qed
qed

lemma track_reload: "preserves (on_track c) (reload_registry env)"
proof -
  have "tx_le Q w (begin_tx w\<lparr> w_reg := reg \<rparr>)" for w reg
    using tx_le_begin[of w] by (simp add: tx_le_def)
  then show ?thesis by (intro tx_on_track) (simp add: advances_def reload_registry_def Let_def)
qed

lemmas track_rules = preserves_ret preserves_throw preserves_asks preserves_of_sum preserves_andthen preserves_if
  preserves_case_option preserves_case_sum preserves_case_list tx_on_track[OF tx_dbx] tx_on_track[OF tx_commit]
  track_or_rolled_back track_reload

lemma tracked_route:
  assumes "\<And>c. preserves (on_track c) route" and "settled w" and "with_db wb conn route w = (resp, w')"
  shows "settled w' \<and> Q (w_committed w) (w_committed w')"
proof -
  let ?c = "w_committed w" and ?w0 = "w\<lparr> w_conn := conn \<rparr>"
  obtain r w2 where run: "route (registry_check (wb_env wb) ?w0) = (r, w2)" by (meson surj_pair)
  have fin: "w' = snd (end_request wb r w2)" using assms(3) run by (simp add: with_db_def)
  have db: "w_db w = ?c\<lparr> d_next := d_next (w_db w), d_now := d_now (w_db w) \<rparr>"
    using assms(2) by (intro same_data_eq) (simp add: settled_def)
  have "Q ?c (w_db w)" by (subst db) (rule R_trans[OF Q_next Q_now])
  then have "on_track ?c ?w0" by (simp add: on_track_def R_refl)
  then have "on_track ?c (registry_check (wb_env wb) ?w0)" using tx_le_check by (rule on_track_step)
  from preserves_run[OF assms(1) this run] have w2: "on_track ?c w2" .
  have "Q ?c (w_committed w')" unfolding fin
    using w2 track_rollback[OF w2] by (cases r) (auto simp: end_request_def commit_def on_track_def)
  then show ?thesis by (simp add: fin settled_end)
qed

end

section \<open>The administration surface\<close>

text \<open>No call of the surface touches a conversation.\<close>

definition administers :: "db \<Rightarrow> db \<Rightarrow> bool" where
  "administers d d' \<longleftrightarrow> keeps_chats d d' \<and> (db_ok d \<longrightarrow> db_ok d')"

interpretation surface: commit_relation administers
proof
  show "administers d (d\<lparr> d_now := t \<rparr>)" for d t
    using db_ok_cong[of "d\<lparr> d_now := t \<rparr>" d] by (simp add: administers_def keeps_chats_def)
  show "administers d (d\<lparr> d_next := n \<rparr>)" for d n by (simp add: administers_def keeps_chats_def)
  show "administers d d" for d by (simp add: administers_def chats.R_refl)
  show "administers d e \<Longrightarrow> administers e f \<Longrightarrow> administers d f" for d e f
    using chats.R_trans unfolding administers_def by blast
qed

lemma moves_administers: "advances keeps_chats m \<Longrightarrow> preserves db_ok m \<Longrightarrow> moves administers m"
  unfolding administers_def by (rule movesI) (auto dest: advancesD preserves_run)

lemmas admin_statements = activate_statements_def create_statements_def audit_admin_def deactivate_def
  activate_version_def upd_cfgs_def upd_agents_def insert_config_def agent_by_key_def capability_at_def
  insert_capability_def taken_def refused_def scope_value_def update_statements_def delete_statements_def
  add_member_def replace_members_def Let_def

lemma admin_statements_chats:
  "advances keeps_chats (activate_statements u key a v)" "advances keeps_chats (create_statements u key a chk raw)"
  "advances keeps_chats (audit_admin act et i u bef aft note)" "advances keeps_chats (agent_by_key key)"
  "advances keeps_chats (capability_at key t oid)" "advances keeps_chats (scope_value ad j)"
  "advances keeps_chats (insert_capability ad b key nm t oid st)" "advances keeps_chats (update_statements ad u b cp)"
  "advances keeps_chats (delete_statements u cp)" "advances keeps_chats (replace_members ad u i ms found)"
  unfolding admin_statements
  by (intro chats.adv chats_basic stmt_chats; simp add: keeps_chats_def)+

lemma admin_statements_ok:
  "preserves db_ok (activate_statements u key a v)" "preserves db_ok (create_statements u key a chk raw)"
  "preserves db_ok (audit_admin act et i u bef aft note)" "preserves db_ok (agent_by_key key)"
  "preserves db_ok (capability_at key t oid)" "preserves db_ok (scope_value ad j)"
  "preserves db_ok (insert_capability ad b key nm t oid st)" "preserves db_ok (update_statements ad u b cp)"
  "preserves db_ok (delete_statements u cp)" "preserves db_ok (replace_members ad u i ms found)"
  unfolding admin_statements by (intro pres)+

lemma resolve_members_reads: "moves administers (resolve_members ad i ms)"
proof (rule movesI)
  fix d r d' assume run: "resolve_members ad i ms d = (r, d')"
  have "advances keeps_chats (resolve_members ad i ms)" for i ms
  proof (induction ms arbitrary: i)
    case (Cons m ms)
    then show ?case unfolding resolve_members.simps Let_def taken_def refused_def agent_by_key_def
      by (cases m; simp only: json.case) (intro chats.adv | assumption)+
  qed (simp only: resolve_members.simps, rule chats.adv_ret)
  moreover have "preserves db_ok (resolve_members ad i ms)" for i ms
  proof (induction ms arbitrary: i)
    case (Cons m ms)
    then show ?case unfolding resolve_members.simps Let_def taken_def refused_def agent_by_key_def
      by (cases m; simp only: json.case) (intro pres | assumption)+
  qed (simp only: resolve_members.simps, rule preserves_ret)
  ultimately show "administers d d'" using run unfolding administers_def by (blast dest: advancesD preserves_run)
qed

lemmas surface_moves = moves_administers[OF admin_statements_chats(1) admin_statements_ok(1)]
  moves_administers[OF admin_statements_chats(2) admin_statements_ok(2)]
  moves_administers[OF admin_statements_chats(3) admin_statements_ok(3)]
  moves_administers[OF admin_statements_chats(4) admin_statements_ok(4)]
  moves_administers[OF admin_statements_chats(5) admin_statements_ok(5)]
  moves_administers[OF admin_statements_chats(6) admin_statements_ok(6)]
  moves_administers[OF admin_statements_chats(7) admin_statements_ok(7)]
  moves_administers[OF admin_statements_chats(8) admin_statements_ok(8)]
  moves_administers[OF admin_statements_chats(9) admin_statements_ok(9)]
  moves_administers[OF admin_statements_chats(10) admin_statements_ok(10)] resolve_members_reads

lemma moves_asks: "moves administers (asks f)"
  by (rule movesI) (simp add: surface.R_refl)

lemma moves_status: "moves administers (andthen (upd_agents p f) (\<lambda>_. audit_admin act et i u bef aft note))"
  unfolding upd_agents_def audit_admin_def
  by (intro moves_administers chats.adv chats_basic stmt_chats pres) (simp add: keeps_chats_def)

lemmas surface_rules = surface.track_rules surface_moves moves_asks moves_status

lemma track_with_agent: "(\<And>a. preserves (surface.on_track c) (f a)) \<Longrightarrow> preserves (surface.on_track c) (with_agent key f)"
  unfolding with_agent_def by (intro surface_rules)

lemma track_with_capability:
  "(\<And>a. preserves (surface.on_track c) (f a)) \<Longrightarrow> preserves (surface.on_track c) (with_capability key t oid f)"
  unfolding with_capability_def by (intro surface_rules)

lemma track_key_and_name:
  assumes "\<And>k ks n ns. preserves P (f k ks n ns)"
  shows "preserves P (case (x, y) of (JStr (k # ks), JStr (n # ns)) \<Rightarrow> f k ks n ns
      | (JStr (k # ks), _) \<Rightarrow> ret g | _ \<Rightarrow> ret h)"
  using assms by (auto split: json.split list.split intro: preserves_ret)

lemma track_create_capability: "preserves (surface.on_track c) (create_capability ad u b)"
proof (cases b)
  case None
  show ?thesis unfolding create_capability_def None option.case by (rule preserves_ret)
next
  case (Some kv)
  show ?thesis
  proof (cases kv)
    case Nil
    show ?thesis unfolding create_capability_def Some Nil option.case list.case by (rule preserves_ret)
  next
    case (Cons x xs)
    show ?thesis unfolding create_capability_def Some Cons option.case list.case
      by (rule track_key_and_name) (intro surface_rules)
  qed
qed

lemma track_update_capability: "preserves (surface.on_track c) (update_capability ad u key b t oid)"
proof (cases b)
  case None
  show ?thesis unfolding update_capability_def None option.case by (rule preserves_ret)
next
  case (Some kv)
  show ?thesis
  proof (cases kv)
    case Nil
    show ?thesis unfolding update_capability_def Some Nil option.case list.case by (rule preserves_ret)
  next
    case (Cons x xs)
    show ?thesis unfolding update_capability_def Some Cons option.case list.case Let_def
      by (intro surface_rules preserves_case_prod track_with_capability)
  qed
qed

lemma track_set_capability_agents: "preserves (surface.on_track c) (set_capability_agents ad u key b t oid)"
proof -
  have "preserves (surface.on_track c) (set_members ad u key t' oid' ms cp)" for t' oid' ms cp
    unfolding set_members_def by (intro surface_rules)
  then have "preserves (surface.on_track c) (case v of JList members \<Rightarrow>
      (case scope_params t oid of (t', oid') \<Rightarrow> with_capability key t' oid' (set_members ad u key t' oid' members))
      | _ \<Rightarrow> ret r)" for v r
    by (cases v; simp only: json.case) (intro surface_rules preserves_case_prod track_with_capability | assumption)+
  then show ?thesis unfolding set_capability_agents_def .
qed

lemma track_create_config: "preserves (surface.on_track c) (create_config_version ad u key b)"
proof (cases b)
  case None
  show ?thesis unfolding create_config_version_def None option.case by (intro track_with_agent preserves_ret)
next
  case (Some kv)
  show ?thesis
  proof (cases kv)
    case Nil
    show ?thesis unfolding create_config_version_def Some Nil option.case list.case by (intro track_with_agent preserves_ret)
  next
    case (Cons x xs)
    show ?thesis unfolding create_config_version_def Some Cons option.case list.case Let_def
      by (intro track_with_agent surface_rules)
  qed
qed

lemma track_surface: "preserves (surface.on_track c) (admin_route ad u call)"
  by (cases call; simp only: admin_route.simps reload_agents_def list_config_versions_def activate_config_version_def
      get_agent_detail_def update_agent_status_def list_capabilities_def delete_capability_def Let_def)
    (intro track_create_capability track_update_capability track_set_capability_agents track_create_config
      track_with_agent track_with_capability preserves_case_prod surface_rules)+

lemma track_sidebar: "preserves (surface.on_track c) (get_ui_capabilities ad u)"
proof -
  have "advances keeps_chats (resolve_for_user acc uc)" "preserves db_ok (resolve_for_user acc uc)" for acc uc
    unfolding resolve_for_user_def by (intro chats.adv, intro pres)
  then have "moves administers (resolve_for_user acc uc)" for acc uc by (rule moves_administers)
  then show ?thesis unfolding get_ui_capabilities_def by (intro surface_rules surface.tx_on_track[OF surface.tx_dbx])
qed

lemma serve_admin_moves:
  assumes "settled w" and "serve_admin ad conn u call w = (resp, w')"
  shows "settled w' \<and> administers (w_committed w) (w_committed w')"
  using assms surface.tracked_route[OF track_surface assms(1)] surface.R_refl
  by (auto simp: serve_admin_def split: option.splits if_splits)

section \<open>Any history\<close>

text \<open>A process that starts: nothing in memory, nothing uncommitted, no lock held.\<close>

definition fresh_process :: "int \<Rightarrow> world \<Rightarrow> world" where
  "fresh_process ttl w = (rollback w)\<lparr> w_reg := empty_registry ttl, w_handlers := [], w_locks := [],
     w_pool := (w_pool w)\<lparr> pw_pool := empty_pool \<rparr>, w_prompt := None \<rparr>"

inductive deployment_step :: "world \<Rightarrow> world \<Rightarrow> bool" where
  request: "with_db wb conn (serve wb u call) w = (resp, w') \<Longrightarrow> deployment_step w w'"
| sidebar: "with_db (ad_web ad) conn (get_ui_capabilities ad u) w = (resp, w') \<Longrightarrow> deployment_step w w'"
| administration: "serve_admin ad conn u call w = (resp, w') \<Longrightarrow> deployment_step w w'"
| restart: "sync_and_reload env cfg mode files (fresh_process ttl w) = (res, w') \<Longrightarrow> deployment_step w w'"
| time: "deployment_step w (tick n w)"

inductive_cases deployment_stepE: "deployment_step w w'"

definition record_kept :: "db \<Rightarrow> db \<Rightarrow> bool" where
  "record_kept c c' \<longleftrightarrow> (well_numbered c \<longrightarrow> well_numbered c') \<and> sessions_evolve c c' \<and> messages_grow c c'
     \<and> audit_grows c c'"

lemma record_kept_refl: "record_kept c c"
  by (simp add: record_kept_def sess.R_refl grow.R_refl aud.R_refl)

lemma record_kept_trans: "record_kept c d \<Longrightarrow> record_kept d e \<Longrightarrow> record_kept c e"
  unfolding record_kept_def using sess.R_trans grow.R_trans aud.R_trans by blast

lemma administers_keeps_record: "administers c c' \<Longrightarrow> record_kept c c'"
proof -
  assume a: "administers c c'"
  then have "same_messages c c'" by (simp add: administers_def keeps_chats_def same_messages_def conv_counts_def)
  moreover have "sessions_evolve c c'" using a by (intro sessions_evolve_same) (simp add: administers_def keeps_chats_def)
  ultimately show ?thesis using a numbered_same
    by (auto simp: record_kept_def administers_def keeps_chats_def well_numbered_def messages_grow_def audit_grows_def)
qed

lemma settled_fresh: "settled (fresh_process ttl w)"
  using settled_rollback[of w] by (simp add: fresh_process_def settled_def)

lemma deployment_step_kept:
  assumes "deployment_step w w'" and "settled w"
  shows "settled w' \<and> record_kept (w_committed w) (w_committed w')"
  using assms(1)
proof cases
  case (request wb conn u call resp)
  then show ?thesis unfolding record_kept_def
    using numbered_requests.request_moves[OF assms(2) request] session_requests.request_moves[OF assms(2) request]
      history_requests.request_moves[OF assms(2) request] audit_requests.request_moves[OF assms(2) request] by simp
next
  case (sidebar ad conn u resp)
  then show ?thesis using surface.tracked_route[OF track_sidebar assms(2) sidebar] administers_keeps_record by simp
next
  case (administration ad conn u call resp)
  then show ?thesis using serve_admin_moves[OF assms(2) administration] administers_keeps_record by simp
next
  case (restart env cfg mode files ttl res)
  from sync_and_reload_steps[OF settled_fresh restart] have "settled w'"
    "administers (w_committed (fresh_process ttl w)) (w_committed w')"
    by (simp_all add: started_def administers_def)
  then show ?thesis using administers_keeps_record by (simp add: fresh_process_def rollback_def)
next
  case (time n)
  then show ?thesis using assms(2) by (simp add: settled_def tick_def record_kept_refl)
qed

lemma deployment_steps_kept:
  "deployment_step\<^sup>*\<^sup>* w w' \<Longrightarrow> settled w \<Longrightarrow> settled w' \<and> record_kept (w_committed w) (w_committed w')"
proof (induction rule: rtranclp_induct)
  case base
  then show ?case by (simp add: record_kept_refl)
next
  case (step v w')
  then show ?case using deployment_step_kept[of v w'] record_kept_trans by blast
qed

text \<open>C1: the record survives the deployment. After any sequence of requests of any users to any routes,
  calls of the administration surface, restarts with any agent files, and time passing, each ending in an
  answer, an exception or an abort: no transaction is open; the committed database satisfies every
  constraint and numbers the messages of each conversation from 1 without a gap; every session is still
  there, moved only along its lifecycle and unchanged once terminal; and messages and audit records have
  only been added.\<close>

theorem record_survives_deployment:
  assumes "deployment_step\<^sup>*\<^sup>* w w'" and "settled w" and "well_numbered (w_committed w)"
  shows "settled w' \<and> well_numbered (w_committed w') \<and> sessions_evolve (w_committed w) (w_committed w')
    \<and> messages_grow (w_committed w) (w_committed w') \<and> audit_grows (w_committed w) (w_committed w')"
  using deployment_steps_kept[OF assms(1,2)] assms(3) by (simp add: record_kept_def)

lemma record_survives_deployment_witness:
  "\<exists>w1 w2. deployment_step sample_world w1 \<and> deployment_step w1 w2 \<and> w1 = snd (serve_admin sample_admin 1 admin_user
      (Status_call ''general'' (Some [(''status'', JStr ''disabled'')])) sample_world)
     \<and> w2 = snd (with_db sample_web 1 (serve sample_web sample_user (Reset_call None)) w1) \<and> well_numbered (w_committed w2)"
proof -
  let ?w1 = "snd (serve_admin sample_admin 1 admin_user (Status_call ''general'' (Some [(''status'', JStr ''disabled'')])) sample_world)"
  let ?w2 = "snd (with_db sample_web 1 (serve sample_web sample_user (Reset_call None)) ?w1)"
  have s1: "deployment_step sample_world ?w1"
    by (rule deployment_step.administration) (rule prod.collapse[symmetric])
  have s2: "deployment_step ?w1 ?w2" by (rule deployment_step.request) (rule prod.collapse[symmetric])
  have "deployment_step\<^sup>*\<^sup>* sample_world ?w2" using s1 s2 by (rule converse_rtranclp_into_rtranclp[OF _ r_into_rtranclp])
  from record_survives_deployment[OF this sample_settled sample_numbered] s1 s2 show ?thesis by blast
qed

end
