(* ===== verification/Settings.thy ===== *)
theory Settings
  imports Startup
begin

text \<open>
  \<open>core/settings.py\<close>: the settings, their defaults and where their values come from, and how the process is
  put together from them (\<open>main.py\<close>, \<open>core/container.py\<close>).
\<close>

section \<open>The settings\<close>

datatype app_env = Env_development | Env_qa | Env_production

record settings =
  se_app_env :: app_env
  se_host :: string
  se_port :: int
  se_workers :: int
  se_api_prefix :: string
  se_openrouter_api_key :: string
  se_openrouter_model :: string
  se_llm_timeout :: pyfloat
  se_llm_max_retries :: int
  se_log_level :: string
  se_database_url :: "string option"
  se_db_pool_size :: int
  se_db_max_overflow :: int
  se_registry_ttl_s :: int
  se_config_sync_mode :: sync_mode
  se_frontend_origins :: string
  se_threadpool_size :: "int option"
  se_auth_check :: bool
  se_mitra_enabled :: int
  se_saarthi_admin_enabled :: int
  se_saarthi_static_token :: "string option"
  se_jwt_identifier_field :: string
  se_jwt_email_suffix :: string
  se_mitra_base_url :: string
  se_mitra_origin_url :: string
  se_mitra_user_agent :: string
  se_mitra_allowed_hosts :: string
  se_mitra_connect_timeout_s :: pyfloat
  se_mitra_read_timeout_s :: pyfloat
  se_mitra_profile_path :: string
  se_mitra_generate_session_path :: string
  se_mitra_chat_path :: string
  se_mitra_get_story_path :: string
  se_mitra_finalize_v1_path :: string
  se_mitra_finalize_v2_path :: string
  se_mitra_ws_url :: string
  se_mitra_ws_connect_timeout_s :: pyfloat
  se_mitra_ip_city :: string
  se_mitra_ip_state :: string
  se_mitra_ip_zip :: string
  se_mitra_max_open_channels :: int
  se_mitra_idle_close_s :: pyfloat

definition default_settings :: "string \<Rightarrow> settings" where
  "default_settings api_key = \<lparr>
     se_app_env = Env_development,
     se_host = ''127.0.0.1'',
     se_port = 8000,
     se_workers = 1,
     se_api_prefix = '''',
     se_openrouter_api_key = api_key,
     se_openrouter_model = ''qwen/qwen3.7-flash'',
     se_llm_timeout = Fin 30,
     se_llm_max_retries = 3,
     se_log_level = ''INFO'',
     se_database_url = None,
     se_db_pool_size = 16,
     se_db_max_overflow = 8,
     se_registry_ttl_s = 30,
     se_config_sync_mode = Sync_off,
     se_frontend_origins = ''http://localhost:5173'',
     se_threadpool_size = None,
     se_auth_check = True,
     se_mitra_enabled = 0,
     se_saarthi_admin_enabled = 0,
     se_saarthi_static_token = None,
     se_jwt_identifier_field = ''id'',
     se_jwt_email_suffix = ''@shikshalokam.org'',
     se_mitra_base_url = ''https://mitra.example.com'',
     se_mitra_origin_url = ''https://mitra.example.com'',
     se_mitra_user_agent = (''Mozilla/5.0 (X11; Linux x86_64) '' @ ''AppleWebKit/537.36 (KHTML, like Gecko) ''
       @ ''Chrome/124.0.0.0 Safari/537.36''),
     se_mitra_allowed_hosts = '''',
     se_mitra_connect_timeout_s = Fin 10,
     se_mitra_read_timeout_s = Fin 30,
     se_mitra_profile_path = ''/api/profile/'',
     se_mitra_generate_session_path = ''/api/generate-session/'',
     se_mitra_chat_path = ''/api/companychat/'',
     se_mitra_get_story_path = ''/api/get-story/'',
     se_mitra_finalize_v1_path = ''/api/end-story/'',
     se_mitra_finalize_v2_path = ''/api/end-story/v2/'',
     se_mitra_ws_url = ''wss://mitra.example.com/ws/common/'',
     se_mitra_ws_connect_timeout_s = Fin 10,
     se_mitra_ip_city = '''',
     se_mitra_ip_state = '''',
     se_mitra_ip_zip = '''',
     se_mitra_max_open_channels = 200,
     se_mitra_idle_close_s = Fin 1200 \<rparr>"

section \<open>Reading them\<close>

text \<open>How Pydantic reads a number or a truth value from text: \<open>None\<close> is a validation error.\<close>

record parsers =
  ps_int :: "string \<Rightarrow> int option"
  ps_float :: "string \<Rightarrow> pyfloat option"
  ps_bool :: "string \<Rightarrow> bool option"

definition read_app_env :: "string \<Rightarrow> app_env option" where
  "read_app_env t = (if t = ''development'' then Some Env_development else if t = ''qa'' then Some Env_qa
     else if t = ''production'' then Some Env_production else None)"

definition read_sync_mode :: "string \<Rightarrow> sync_mode option" where
  "read_sync_mode t = (if t = ''safe'' then Some Sync_safe else if t = ''force'' then Some Sync_force
     else if t = ''off'' then Some Sync_off else None)"

definition set_parsed :: "(string \<Rightarrow> 'v option) \<Rightarrow> ('v \<Rightarrow> settings \<Rightarrow> settings) \<Rightarrow> string \<Rightarrow> settings \<Rightarrow> settings option" where
  "set_parsed rd put t s = map_option (\<lambda>v. put v s) (rd t)"

definition set_text :: "(string \<Rightarrow> settings \<Rightarrow> settings) \<Rightarrow> string \<Rightarrow> settings \<Rightarrow> settings option" where
  "set_text put t s = Some (put t s)"

definition set_int :: "parsers \<Rightarrow> (int \<Rightarrow> settings \<Rightarrow> settings) \<Rightarrow> string \<Rightarrow> settings \<Rightarrow> settings option" where
  "set_int P = set_parsed (ps_int P)"

definition set_float :: "parsers \<Rightarrow> (pyfloat \<Rightarrow> settings \<Rightarrow> settings) \<Rightarrow> string \<Rightarrow> settings \<Rightarrow> settings option" where
  "set_float P = set_parsed (ps_float P)"

definition set_bool :: "parsers \<Rightarrow> (bool \<Rightarrow> settings \<Rightarrow> settings) \<Rightarrow> string \<Rightarrow> settings \<Rightarrow> settings option" where
  "set_bool P = set_parsed (ps_bool P)"

text \<open>One entry per field. Names of variables do not distinguish case; they are in small letters here.\<close>

definition setters :: "parsers \<Rightarrow> (string \<times> (string \<Rightarrow> settings \<Rightarrow> settings option)) list" where
  "setters P =
    [(''app_env'', set_parsed read_app_env (\<lambda>v s. s\<lparr> se_app_env := v \<rparr>)),
     (''host'', set_text (\<lambda>v s. s\<lparr> se_host := v \<rparr>)),
     (''port'', set_int P (\<lambda>v s. s\<lparr> se_port := v \<rparr>)),
     (''workers'', set_int P (\<lambda>v s. s\<lparr> se_workers := v \<rparr>)),
     (''api_prefix'', set_text (\<lambda>v s. s\<lparr> se_api_prefix := normalise_api_prefix v \<rparr>)),
     (''openrouter_api_key'', set_text (\<lambda>v s. s\<lparr> se_openrouter_api_key := v \<rparr>)),
     (''openrouter_model'', set_text (\<lambda>v s. s\<lparr> se_openrouter_model := v \<rparr>)),
     (''llm_timeout'', set_float P (\<lambda>v s. s\<lparr> se_llm_timeout := v \<rparr>)),
     (''llm_max_retries'', set_int P (\<lambda>v s. s\<lparr> se_llm_max_retries := v \<rparr>)),
     (''log_level'', set_text (\<lambda>v s. s\<lparr> se_log_level := v \<rparr>)),
     (''database_url'', set_text (\<lambda>v s. s\<lparr> se_database_url := Some v \<rparr>)),
     (''db_pool_size'', set_int P (\<lambda>v s. s\<lparr> se_db_pool_size := v \<rparr>)),
     (''db_max_overflow'', set_int P (\<lambda>v s. s\<lparr> se_db_max_overflow := v \<rparr>)),
     (''registry_ttl_s'', set_int P (\<lambda>v s. s\<lparr> se_registry_ttl_s := v \<rparr>)),
     (''config_sync_mode'', set_parsed read_sync_mode (\<lambda>v s. s\<lparr> se_config_sync_mode := v \<rparr>)),
     (''frontend_origins'', set_text (\<lambda>v s. s\<lparr> se_frontend_origins := v \<rparr>)),
     (''threadpool_size'', set_int P (\<lambda>v s. s\<lparr> se_threadpool_size := Some v \<rparr>)),
     (''auth_check'', set_bool P (\<lambda>v s. s\<lparr> se_auth_check := v \<rparr>)),
     (''mitra_enabled'', set_int P (\<lambda>v s. s\<lparr> se_mitra_enabled := v \<rparr>)),
     (''saarthi_admin_enabled'', set_int P (\<lambda>v s. s\<lparr> se_saarthi_admin_enabled := v \<rparr>)),
     (''saarthi_static_token'', set_text (\<lambda>v s. s\<lparr> se_saarthi_static_token := Some v \<rparr>)),
     (''jwt_identifier_field'', set_text (\<lambda>v s. s\<lparr> se_jwt_identifier_field := v \<rparr>)),
     (''jwt_email_suffix'', set_text (\<lambda>v s. s\<lparr> se_jwt_email_suffix := v \<rparr>)),
     (''mitra_base_url'', set_text (\<lambda>v s. s\<lparr> se_mitra_base_url := v \<rparr>)),
     (''mitra_origin_url'', set_text (\<lambda>v s. s\<lparr> se_mitra_origin_url := v \<rparr>)),
     (''mitra_user_agent'', set_text (\<lambda>v s. s\<lparr> se_mitra_user_agent := v \<rparr>)),
     (''mitra_allowed_hosts'', set_text (\<lambda>v s. s\<lparr> se_mitra_allowed_hosts := v \<rparr>)),
     (''mitra_connect_timeout_s'', set_float P (\<lambda>v s. s\<lparr> se_mitra_connect_timeout_s := v \<rparr>)),
     (''mitra_read_timeout_s'', set_float P (\<lambda>v s. s\<lparr> se_mitra_read_timeout_s := v \<rparr>)),
     (''mitra_profile_path'', set_text (\<lambda>v s. s\<lparr> se_mitra_profile_path := v \<rparr>)),
     (''mitra_generate_session_path'', set_text (\<lambda>v s. s\<lparr> se_mitra_generate_session_path := v \<rparr>)),
     (''mitra_chat_path'', set_text (\<lambda>v s. s\<lparr> se_mitra_chat_path := v \<rparr>)),
     (''mitra_get_story_path'', set_text (\<lambda>v s. s\<lparr> se_mitra_get_story_path := v \<rparr>)),
     (''mitra_finalize_v1_path'', set_text (\<lambda>v s. s\<lparr> se_mitra_finalize_v1_path := v \<rparr>)),
     (''mitra_finalize_v2_path'', set_text (\<lambda>v s. s\<lparr> se_mitra_finalize_v2_path := v \<rparr>)),
     (''mitra_ws_url'', set_text (\<lambda>v s. s\<lparr> se_mitra_ws_url := v \<rparr>)),
     (''mitra_ws_connect_timeout_s'', set_float P (\<lambda>v s. s\<lparr> se_mitra_ws_connect_timeout_s := v \<rparr>)),
     (''mitra_ip_city'', set_text (\<lambda>v s. s\<lparr> se_mitra_ip_city := v \<rparr>)),
     (''mitra_ip_state'', set_text (\<lambda>v s. s\<lparr> se_mitra_ip_state := v \<rparr>)),
     (''mitra_ip_zip'', set_text (\<lambda>v s. s\<lparr> se_mitra_ip_zip := v \<rparr>)),
     (''mitra_max_open_channels'', set_int P (\<lambda>v s. s\<lparr> se_mitra_max_open_channels := v \<rparr>)),
     (''mitra_idle_close_s'', set_float P (\<lambda>v s. s\<lparr> se_mitra_idle_close_s := v \<rparr>))]"

text \<open>\<open>load_dotenv(override=False)\<close> adds to the environment what it does not have.\<close>

type_synonym variables = "string \<Rightarrow> string option"

definition load_dotenv :: "variables \<Rightarrow> variables \<Rightarrow> variables" where
  "load_dotenv environ dotenv = (\<lambda>n. case environ n of None \<Rightarrow> dotenv n | Some t \<Rightarrow> Some t)"

text \<open>\<open>BaseSettings\<close>: the environment before the file.\<close>

definition setting_source :: "variables \<Rightarrow> variables \<Rightarrow> variables" where
  "setting_source environ dotenv = load_dotenv (load_dotenv environ dotenv) dotenv"

fun apply_setters :: "variables \<Rightarrow> (string \<times> (string \<Rightarrow> settings \<Rightarrow> settings option)) list \<Rightarrow> settings \<Rightarrow> settings option" where
  "apply_setters vars [] s = Some s"
| "apply_setters vars ((n, put) # ps) s = (case vars n of
     None \<Rightarrow> apply_setters vars ps s
   | Some t \<Rightarrow> Option.bind (put t s) (apply_setters vars ps))"

text \<open>\<open>Settings()\<close>; \<open>None\<close> is the exit of the process with status 1. The API key has no default.\<close>

definition read_settings :: "parsers \<Rightarrow> variables \<Rightarrow> variables \<Rightarrow> settings option" where
  "read_settings P environ dotenv = (let vars = setting_source environ dotenv in
     Option.bind (vars ''openrouter_api_key'') (\<lambda>key. apply_setters vars (setters P) (default_settings key)))"

section \<open>The process\<close>

definition identity_settings :: "(string \<Rightarrow> string + body) \<Rightarrow> (json \<Rightarrow> string) \<Rightarrow> settings \<Rightarrow> id_settings" where
  "identity_settings jwt raw s = \<lparr> is_auth_check = se_auth_check s, is_static_token = se_saarthi_static_token s,
     is_identifier_field = se_jwt_identifier_field s, is_email_suffix = se_jwt_email_suffix s,
     is_jwt = jwt, is_raw = raw \<rparr>"

definition paths_from_settings :: "settings \<Rightarrow> mitra_paths" where
  "paths_from_settings s = \<lparr> mp_profile = se_mitra_profile_path s,
     mp_generate_session = se_mitra_generate_session_path s, mp_chat = se_mitra_chat_path s,
     mp_get_story = se_mitra_get_story_path s, mp_finalize_v1 = se_mitra_finalize_v1_path s,
     mp_finalize_v2 = se_mitra_finalize_v2_path s \<rparr>"

definition mitra_from_settings :: "settings \<Rightarrow> mitra_settings" where
  "mitra_from_settings s = \<lparr> st_base_url = se_mitra_base_url s, st_origin_url = se_mitra_origin_url s,
     st_allowed_hosts = se_mitra_allowed_hosts s, st_paths = paths_from_settings s \<rparr>"

text \<open>What the container takes besides the settings: the environment of the model (network, language model,
  validator and so on), the wire of the channels and the tools that registered.\<close>

record surroundings =
  su_env :: env
  su_pool :: "settings \<Rightarrow> pool_cfg"
  su_bracket_ok :: "string \<Rightarrow> bool"
  su_jwt :: "string \<Rightarrow> string + body"
  su_raw :: "json \<Rightarrow> string"
  su_tools :: "string list"
  su_sha :: "string \<Rightarrow> string"

text \<open>\<open>build_container\<close>: with the flag set, a base URL that is none stops the process here.\<close>

definition container :: "surroundings \<Rightarrow> settings \<Rightarrow> exc + env" where
  "container su s =
     (if se_mitra_enabled s \<noteq> 0
      then or_raise (client_from_settings (su_bracket_ok su) (mitra_from_settings s)) (\<lambda>c.
        Inr (build_container (se_mitra_enabled s) c (su_pool su s) (su_env su)))
      else Inr ((su_env su)\<lparr> e_client := None, e_pool := None \<rparr>))"

definition sync_service :: "surroundings \<Rightarrow> settings \<Rightarrow> sync_cfg" where
  "sync_service su s = \<lparr> sc_tools = Some (su_tools su), sc_mitra = (se_mitra_enabled s \<noteq> 0),
     sc_paths = paths_from_settings s, sc_environ = e_environ (su_env su), sc_validate = e_validate (su_env su),
     sc_sha = su_sha su \<rparr>"

record app =
  ap_env :: env
  ap_user :: user_context
  ap_prefix :: string
  ap_origins :: "string list"
  ap_threads :: int

text \<open>\<open>create_app\<close> and the \<open>lifespan\<close>.\<close>

definition boot :: "surroundings \<Rightarrow> settings \<Rightarrow> yaml_file list \<Rightarrow> app wact" where
  "boot su s files =
     andthen (of_sum (container su s)) (\<lambda>env.
     andthen (create_app (identity_settings (su_jwt su) (su_raw su) s) env (sync_service su s)
       (se_config_sync_mode s) files) (\<lambda>u.
     ret \<lparr> ap_env = env, ap_user = u, ap_prefix = se_api_prefix s, ap_origins = cors_origins (se_frontend_origins s),
       ap_threads = resolve_threadpool_size (se_threadpool_size s) (se_db_pool_size s) \<rparr>))"

section \<open>Where a value comes from\<close>

lemma setting_source_eq: "setting_source environ dotenv n = (case environ n of None \<Rightarrow> dotenv n | Some t \<Rightarrow> Some t)"
  by (simp add: setting_source_def load_dotenv_def split: option.split)

definition leaves :: "(settings \<Rightarrow> 'v) \<Rightarrow> string \<times> (string \<Rightarrow> settings \<Rightarrow> settings option) \<Rightarrow> bool" where
  "leaves f p \<longleftrightarrow> (\<forall>t s s'. snd p t s = Some s' \<longrightarrow> f s' = f s)"

lemma leaves_put [simp]:
  assumes "\<And>v s. f (put v s) = f s"
  shows "leaves f (n, set_parsed rd put)"
  using assms by (auto simp: leaves_def set_parsed_def)

lemma leaves_text [simp]: "(\<And>v s. f (put v s) = f s) \<Longrightarrow> leaves f (n, set_text put)"
  by (simp add: leaves_def set_text_def)

lemmas set_defs = set_int_def set_float_def set_bool_def

lemma apply_setters_leaves:
  assumes "list_all (\<lambda>p. fst p = n \<or> leaves f p) ps" "vars n = None" "apply_setters vars ps s = Some s'"
  shows "f s' = f s"
  using assms
proof (induction ps arbitrary: s)
  case (Cons p ps)
  obtain m put where p: "p = (m, put)" by (cases p)
  show ?case
  proof (cases "vars m")
    case (Some t)
    with Cons.prems p have "m \<noteq> n" by auto
    from Cons.prems p Some obtain s1 where s1: "put t s = Some s1" "apply_setters vars ps s1 = Some s'"
      by (auto simp: bind_eq_Some_conv)
    with Cons.prems(1) p \<open>m \<noteq> n\<close> have "f s1 = f s" by (auto simp: leaves_def)
    then show ?thesis using Cons.IH[OF _ _ s1(2)] Cons.prems by simp
  qed (use Cons p in simp)
qed simp

lemma apply_setters_sets:
  assumes "list_all (\<lambda>p. fst p = n \<or> leaves f p) ps" "distinct (map fst ps)" "(n, put) \<in> set ps" "vars n = Some t"
    and "\<And>s s'. put t s = Some s' \<Longrightarrow> rd t = Some (f s')" and "apply_setters vars ps s = Some s'"
  shows "rd t = Some (f s')"
  using assms
proof (induction ps arbitrary: s)
  case (Cons p ps)
  obtain m put' where p: "p = (m, put')" by (cases p)
  show ?case
  proof (cases "m = n")
    case True
    with Cons.prems(2,3) p have put: "put' = put" by (auto simp: image_iff)
    from Cons.prems(4,6) p True obtain s1 where s1: "put t s = Some s1" "apply_setters vars ps s1 = Some s'"
      by (auto simp: bind_eq_Some_conv put)
    have "list_all (leaves f) ps" using Cons.prems(1,2) True p by (fastforce simp: list_all_iff)
    then have "f s' = f s1" using s1(2)
    proof (induction ps arbitrary: s1)
      case (Cons q qs)
      then show ?case by (cases q; cases "vars (fst q)") (auto simp: leaves_def bind_eq_Some_conv)
    qed simp
    then show ?thesis using Cons.prems(5)[OF s1(1)] by simp
  next
    case False
    from Cons.prems(6) p obtain s1 where "apply_setters vars ps s1 = Some s'"
      by (cases "vars m") (auto simp: bind_eq_Some_conv)
    with Cons.IH[of s1] Cons.prems False p show ?thesis by auto
  qed
qed simp

text \<open>The value of a field: the default when no source has it, otherwise what the text of the first source
  reads as.\<close>

lemma setting_value:
  assumes "read_settings P environ dotenv = Some s"
    and "list_all (\<lambda>p. fst p = n \<or> leaves f p) (setters P)" "(n, put) \<in> set (setters P)"
    and "\<And>t s s'. put t s = Some s' \<Longrightarrow> rd t = Some (f s')" and "\<And>key. f (default_settings key) = d"
  shows "Some (f s) = (case setting_source environ dotenv n of None \<Rightarrow> Some d | Some t \<Rightarrow> rd t)"
proof -
  have names: "distinct (map fst (setters P))" unfolding setters_def list.map fst_conv by code_simp
  from assms(1) obtain key where run: "apply_setters (setting_source environ dotenv) (setters P) (default_settings key) = Some s"
    by (auto simp: read_settings_def Let_def bind_eq_Some_conv)
  show ?thesis
  proof (cases "setting_source environ dotenv n")
    case None
    from apply_setters_leaves[OF assms(2) None run] show ?thesis by (simp add: None assms(5))
  next
    case (Some t)
    have "rd t = Some (f s)" by (rule apply_setters_sets[OF assms(2) names assms(3) Some _ run]) (rule assms(4))
    then show ?thesis by (simp add: Some)
  qed
qed

text \<open>Each switch is set by its own entry only.\<close>

lemma fields_left:
  "list_all (\<lambda>p. fst p = ''auth_check'' \<or> leaves se_auth_check p) (setters P)"
  "list_all (\<lambda>p. fst p = ''mitra_enabled'' \<or> leaves se_mitra_enabled p) (setters P)"
  "list_all (\<lambda>p. fst p = ''saarthi_admin_enabled'' \<or> leaves se_saarthi_admin_enabled p) (setters P)"
  "list_all (\<lambda>p. fst p = ''config_sync_mode'' \<or> leaves se_config_sync_mode p) (setters P)"
  "list_all (\<lambda>p. fst p = ''api_prefix'' \<or> leaves se_api_prefix p) (setters P)"
  by (simp_all add: setters_def set_defs)

lemmas own_entry = setters_def set_defs set_parsed_def set_text_def default_settings_def

lemma switch_values:
  assumes "read_settings P environ dotenv = Some s"
  defines "vars \<equiv> setting_source environ dotenv"
  shows "Some (se_auth_check s) = (case vars ''auth_check'' of None \<Rightarrow> Some True | Some t \<Rightarrow> ps_bool P t)"
    and "Some (se_mitra_enabled s) = (case vars ''mitra_enabled'' of None \<Rightarrow> Some 0 | Some t \<Rightarrow> ps_int P t)"
    and "Some (se_saarthi_admin_enabled s) = (case vars ''saarthi_admin_enabled'' of None \<Rightarrow> Some 0 | Some t \<Rightarrow> ps_int P t)"
    and "Some (se_config_sync_mode s) = (case vars ''config_sync_mode'' of None \<Rightarrow> Some Sync_off | Some t \<Rightarrow> read_sync_mode t)"
    and "Some (se_api_prefix s) = (case vars ''api_prefix'' of None \<Rightarrow> Some [] | Some t \<Rightarrow> Some (normalise_api_prefix t))"
  unfolding vars_def
  subgoal by (rule setting_value[OF assms(1) fields_left(1), of "set_bool P (\<lambda>v s. s\<lparr>se_auth_check := v\<rparr>)"]) (auto simp: own_entry)
  subgoal by (rule setting_value[OF assms(1) fields_left(2), of "set_int P (\<lambda>v s. s\<lparr>se_mitra_enabled := v\<rparr>)"])
      (auto simp: own_entry)
  subgoal by (rule setting_value[OF assms(1) fields_left(3), of "set_int P (\<lambda>v s. s\<lparr>se_saarthi_admin_enabled := v\<rparr>)"])
      (auto simp: own_entry)
  subgoal by (rule setting_value[OF assms(1) fields_left(4), of "set_parsed read_sync_mode (\<lambda>v s. s\<lparr>se_config_sync_mode := v\<rparr>)"])
      (auto simp: own_entry)
  subgoal by (rule setting_value[OF assms(1) fields_left(5), of "set_text (\<lambda>v s. s\<lparr>se_api_prefix := normalise_api_prefix v\<rparr>)"])
      (auto simp: own_entry)
  done

section \<open>The start\<close>

lemma create_app_run: "create_app ids env cfg mode files w = (case authenticator ids of
     Inl e \<Rightarrow> (Inl e, w)
   | Inr u \<Rightarrow> (case sync_and_reload env cfg mode files w of (Inl e, w') \<Rightarrow> (Inl e, w') | (Inr x, w') \<Rightarrow> (Inr u, w')))"
  by (simp add: create_app_def andthen_run split: sum.split prod.split)

lemma container_client:
  assumes "container su s = Inr env"
  shows "case e_client env of None \<Rightarrow> se_mitra_enabled s = 0
    | Some c \<Rightarrow> se_mitra_enabled s \<noteq> 0 \<and> rs_paths c = sc_paths (sync_service su s)"
  using assms by (auto simp: container_def build_container_def client_from_settings_def make_client_def
      mitra_from_settings_def sync_service_def split: if_splits sum.splits prod.splits elim!: or_raise_InrE)

lemma boot_steps:
  assumes "settled w" and "boot su s files w = (res, w')"
  shows "settled w' \<and> started (se_config_sync_mode s) (w_committed w) (w_committed w')
    \<and> (case res of Inl e \<Rightarrow> True | Inr a \<Rightarrow> 0 < rg_version (w_reg w') \<and> container su s = Inr (ap_env a)
         \<and> ap_threads a = resolve_threadpool_size (se_threadpool_size s) (se_db_pool_size s))"
proof (cases "container su s")
  case (Inr env)
  let ?ids = "identity_settings (su_jwt su) (su_raw su) s"
  let ?start = "sync_and_reload env (sync_service su s) (se_config_sync_mode s) files"
  obtain r v where run: "?start w = (r, v)" by (cases "?start w")
  note steps = sync_and_reload_steps[OF assms(1) run]
  show ?thesis
  proof (cases "authenticator ?ids")
    case (Inr u)
    then show ?thesis using assms(2) run \<open>container su s = Inr env\<close> steps
      by (cases r) (auto simp: boot_def andthen_run create_app_run)
  qed (use assms Inr in \<open>auto simp: boot_def andthen_run create_app_run intro: started_refl\<close>)
qed (use assms in \<open>auto simp: boot_def andthen_run intro: started_refl\<close>)


definition sample_parsers :: parsers where
  "sample_parsers = \<lparr> ps_int = py_int_base 10, ps_float = (\<lambda>t. None),
     ps_bool = (\<lambda>t. if t = ''true'' then Some True else if t = ''false'' then Some False else None) \<rparr>"

definition sample_surroundings :: surroundings where
  "sample_surroundings = \<lparr> su_env = sample_env, su_pool = (\<lambda>s. \<lparr> pc_max = se_mitra_max_open_channels s,
     pc_idle_close = 1200000, pc_wire = (\<lambda>n f. Inl ''unreachable''), pc_address = JNull \<rparr>), su_bracket_ok = (\<lambda>h. True),
     su_jwt = (\<lambda>t. Inl ''no token''), su_raw = py_str, su_tools = [], su_sha = (\<lambda>t. t) \<rparr>"


end
