(* ===== verification/Spec_Bounds.thy ===== *)
theory Spec_Bounds
  imports Handlers
begin

text \<open>
  What \<open>domain/agent_spec.py\<close> declares of a specification besides its types: the bounds of the fields and their
  defaults. Pydantic enforces them (a parameter of the model: \<open>sound_validator\<close> is what its documentation
  says of \<open>Field\<close>); here they are followed through the registry to the agents that answer.
\<close>

section \<open>Declared bounds\<close>

definition model_ok :: "model_spec \<Rightarrow> bool" where
  "model_ok m \<longleftrightarrow> 0 \<le> ms_temperature m \<and> ms_temperature m \<le> 2
     \<and> (case ms_max_tokens m of None \<Rightarrow> True | Some n \<Rightarrow> 1 \<le> n \<and> n \<le> 32768)
     \<and> 0 < ms_timeout_s m \<and> ms_timeout_s m \<le> 300"

definition routing_ok :: "routing_spec \<Rightarrow> bool" where
  "routing_ok r \<longleftrightarrow> 0 \<le> rt_priority r \<and> rt_priority r \<le> 100
     \<and> 0 \<le> rt_confidence_threshold r \<and> rt_confidence_threshold r \<le> 1"

definition memory_ok :: "memory_spec \<Rightarrow> bool" where
  "memory_ok m \<longleftrightarrow> 0 \<le> mem_history_turns m \<and> mem_history_turns m \<le> 100"

definition limits_ok :: "limits_spec \<Rightarrow> bool" where
  "limits_ok l \<longleftrightarrow> 0 \<le> lim_max_tool_iterations l \<and> lim_max_tool_iterations l \<le> 10
     \<and> 1 \<le> lim_per_conversation_per_min l \<and> 1 \<le> lim_per_user_per_min l"

definition base_ok :: "base_spec \<Rightarrow> bool" where
  "base_ok b \<longleftrightarrow> slug_ok (sp_key b) \<and> 1 \<le> length (sp_name b) \<and> length (sp_name b) \<le> 120
     \<and> 1 \<le> length (sp_description b) \<and> length (sp_description b) \<le> 1000
     \<and> routing_ok (sp_routing b) \<and> memory_ok (sp_memory b) \<and> limits_ok (sp_limits b)"

definition llm_ok :: "llm_spec \<Rightarrow> bool" where
  "llm_ok l \<longleftrightarrow> ll_prompt l \<noteq> [] \<and> model_ok (ll_model l)"

definition remote_ok :: "remote_spec \<Rightarrow> bool" where
  "remote_ok r \<longleftrightarrow> rm_flow_name r \<in> {''guest-mi-story'', ''guest-discussion''}
     \<and> rm_default_language r \<in> {''en'', ''hi'', ''kn'', ''te''}"

fun spec_ok :: "agent_spec \<Rightarrow> bool" where
  "spec_ok (LlmAgentSpec b l) \<longleftrightarrow> base_ok b \<and> llm_ok l"
| "spec_ok (RemoteFlowAgentSpec b r) \<longleftrightarrow> base_ok b \<and> remote_ok r"

text \<open>\<open>RetrySpec\<close> is declared and checked; nothing reads it, so \<open>base_spec\<close> does not carry it.\<close>

datatype backoff = Backoff_none | Backoff_linear | Backoff_exponential

datatype retry_cause = Retry_timeout | Retry_rate_limit | Retry_server_error | Retry_connection_error

record retry_spec =
  ry_max_attempts :: int
  ry_backoff :: backoff
  ry_initial_delay_ms :: int
  ry_retry_on :: "retry_cause list"

definition retry_ok :: "retry_spec \<Rightarrow> bool" where
  "retry_ok r \<longleftrightarrow> 1 \<le> ry_max_attempts r \<and> ry_max_attempts r \<le> 5 \<and> 0 \<le> ry_initial_delay_ms r"

section \<open>Defaults\<close>

definition default_retry :: retry_spec where
  "default_retry = \<lparr> ry_max_attempts = 3, ry_backoff = Backoff_exponential, ry_initial_delay_ms = 500,
     ry_retry_on = [Retry_timeout, Retry_rate_limit, Retry_server_error] \<rparr>"

definition default_model :: "string \<Rightarrow> model_spec" where
  "default_model name = \<lparr> ms_name = name, ms_temperature = 0, ms_max_tokens = None, ms_timeout_s = 30 \<rparr>"

definition default_routing :: routing_spec where
  "default_routing = \<lparr> rt_keywords = [], rt_priority = 50, rt_pin_session = False,
     rt_exit_keywords = [''/exit'', ''cancel'', ''stop''], rt_confidence_threshold = 1 / 2,
     rt_router_selectable = True, rt_direct_selectable = True \<rparr>"

definition default_memory :: memory_spec where
  "default_memory = \<lparr> mem_strategy_recent = True, mem_history_turns = 10, mem_include_other_agents = True \<rparr>"

definition default_limits :: limits_spec where
  "default_limits = \<lparr> lim_max_tool_iterations = 3, lim_max_turns = None, lim_per_conversation_per_min = 20,
     lim_per_user_per_min = 60 \<rparr>"

definition default_access :: access_spec where
  "default_access = \<lparr> ac_tenant_codes = [], ac_organization_codes = [], ac_required_roles = [], ac_allow_anonymous = True \<rparr>"

definition default_features :: features_spec where
  "default_features = \<lparr> ft_emit_options = False, ft_streaming = False, ft_record_tool_executions = True \<rparr>"

definition default_handshake :: handshake_spec where
  "default_handshake = \<lparr> hs_settle_ms = 1500, hs_ack_types = [''authenticated'', ''auth_success''], hs_timeout_ms = 5000 \<rparr>"

definition default_turn :: turn_spec where
  "default_turn = \<lparr> ts_first_turn_timeout_ms = 60000, ts_turn_timeout_ms = 45000, ts_idle_gap_ms = 8000 \<rparr>"

definition default_remote :: "string \<Rightarrow> string \<Rightarrow> remote_spec" where
  "default_remote flow route = \<lparr> rm_flow_name = flow, rm_bot_route_env = route, rm_company_env = ''MITRA_COMPANY'',
     rm_default_language = ''en'', rm_supported_languages = [''en'', ''hi'', ''kn'', ''te''],
     rm_handshake = default_handshake, rm_turn = default_turn, rm_completion_poll_every_turn = True,
     rm_finalize_path = ''/api/end-story/v2/'', rm_finalize_as_guest = False, rm_report_media_type = ''application/pdf'' \<rparr>"

definition default_base :: "string \<Rightarrow> string \<Rightarrow> string \<Rightarrow> base_spec" where
  "default_base key name description = \<lparr> sp_key = key, sp_name = name, sp_description = description, sp_enabled = True,
     sp_default = False, sp_sort_order = 100, sp_capabilities = [], sp_routing = default_routing,
     sp_memory = default_memory, sp_limits = default_limits, sp_access = default_access, sp_features = default_features \<rparr>"

text \<open>The defaults are within the bounds: a file that gives only what has no default is accepted. Such an
  agent lets everybody in, and its default finalize path is a configured endpoint under the default
  settings of the client.\<close>

lemma defaults_within_bounds:
  "slug_ok key \<Longrightarrow> name \<noteq> [] \<Longrightarrow> length name \<le> 120 \<Longrightarrow> description \<noteq> [] \<Longrightarrow> length description \<le> 1000 \<Longrightarrow>
     base_ok (default_base key name description)"
  by (simp add: base_ok_def default_base_def routing_ok_def default_routing_def memory_ok_def default_memory_def
      limits_ok_def default_limits_def Suc_le_eq)

lemma default_retry_within_bounds: "retry_ok default_retry"
  by (simp add: retry_ok_def default_retry_def)

lemma default_model_within_bounds: "model_ok (default_model name)"
  by (simp add: model_ok_def default_model_def)

lemma default_access_matches_all: "access_matches default_access u"
  by (simp add: access_matches_def default_access_def split: option.split)

lemma default_finalize_path_configured:
  "rm_finalize_path (default_remote flow route) = mp_finalize_v2 default_paths"
  by (simp add: default_remote_def default_paths_def)

section \<open>Through the registry\<close>

definition sound_validator :: "validator \<Rightarrow> bool" where
  "sound_validator validate \<longleftrightarrow> (\<forall>v sp. validate v = Some sp \<longrightarrow> spec_ok sp)"

definition in_bounds :: "('k \<times> registered_agent) list \<Rightarrow> bool" where
  "in_bounds kvs \<longleftrightarrow> list_all (\<lambda>kv. spec_ok (ra_spec (snd kv))) kvs"

definition agents_ok_in :: "registry \<Rightarrow> bool" where
  "agents_ok_in reg \<longleftrightarrow> in_bounds (rg_snapshot reg) \<and> in_bounds (rg_scope_cache reg)"

lemma in_bounds_rules [simp]:
  "in_bounds []" "in_bounds (kv # kvs) \<longleftrightarrow> spec_ok (ra_spec (snd kv)) \<and> in_bounds kvs"
  by (simp_all add: in_bounds_def)

lemma in_bounds_dict_set: "in_bounds kvs \<Longrightarrow> spec_ok (ra_spec ra) \<Longrightarrow> in_bounds (dict_set k ra kvs)"
  by (induction k ra kvs rule: dict_set.induct) auto

lemma in_bounds_lookup: "in_bounds kvs \<Longrightarrow> map_of kvs k = Some ra \<Longrightarrow> spec_ok (ra_spec ra)"
  by (auto simp: in_bounds_def list_all_iff dest!: map_of_SomeD)

lemma load_rows_ok:
  assumes "sound_validator validate" "load_rows validate rows snap legacy mx = Some (snap', legacy', mx')"
    and "in_bounds snap"
  shows "in_bounds snap'"
  using assms(2,3)
proof (induction rows arbitrary: snap legacy mx)
  case (Cons row rows)
  obtain a c where row: "row = (a, c)" by (cases row)
  from Cons.prems(1) row obtain sp where sp: "validate (cf_config c) = Some sp"
    by (auto split: option.splits)
  with assms(1) have "spec_ok (ra_spec (registered a c sp))" by (auto simp: sound_validator_def registered_def)
  with Cons.prems(2) have "in_bounds (dict_set (ag_key a) (registered a c sp) snap)" by (simp add: in_bounds_dict_set)
  with Cons.IH Cons.prems(1) row sp show ?case by simp
qed simp

lemma reload_ok:
  assumes "sound_validator validate" "agents_ok_in reg"
  shows "agents_ok_in (reload validate clk dopt reg)"
proof (cases dopt)
  case (Some d)
  show ?thesis
  proof (cases "load_rows validate (snapshot_rows d) [] [] None")
    case None
    then show ?thesis using Some assms(2) by (simp add: reload_def)
  next
    fix t assume "load_rows validate (snapshot_rows d) [] [] None = Some t"
    then show ?thesis using Some assms load_rows_ok[OF assms(1), of "snapshot_rows d" "[]"]
      by (cases t) (simp add: reload_def agents_ok_in_def)
  qed
qed (use assms in \<open>simp add: reload_def\<close>)

lemma maybe_reload_ok:
  "sound_validator validate \<Longrightarrow> agents_ok_in reg \<Longrightarrow> agents_ok_in (maybe_reload validate clk dopt reg)"
  by (cases dopt) (auto simp: maybe_reload_def reload_ok, simp_all add: agents_ok_in_def)

lemma resolve_ok:
  assumes "sound_validator validate" "agents_ok_in reg" "spec_ok (ra_spec a)"
    and "resolve_for_scope validate dopt a tenant org reg = (ra, reg')"
  shows "spec_ok (ra_spec ra) \<and> agents_ok_in reg'"
  using assms
  by (auto simp: resolve_for_scope_def agents_ok_in_def sound_validator_def Let_def
      intro: in_bounds_lookup split: if_splits option.splits)

lemma registry_step_ok:
  assumes "sound_validator validate" "agents_ok_in reg"
    and "registry_step {a. spec_ok (ra_spec a)} Rows validate reg reg'"
  shows "agents_ok_in reg'"
  using assms(3)
proof (cases rule: registry_step.cases)
  case (rstep_resolve a dopt tenant org)
  then show ?thesis
    using resolve_ok[OF assms(1,2), of a dopt tenant org "fst (resolve_for_scope validate dopt a tenant org reg)"]
    by simp
qed (simp_all add: reload_ok maybe_reload_ok assms)

lemma registry_steps_ok:
  assumes "sound_validator validate"
  shows "(registry_step {a. spec_ok (ra_spec a)} Rows validate)\<^sup>*\<^sup>* (empty_registry ttl) reg \<Longrightarrow> agents_ok_in reg"
proof (induction rule: rtranclp_induct)
  case base
  then show ?case by (simp add: agents_ok_in_def empty_registry_def)
qed (rule registry_step_ok[OF assms])

lemma bounded_calls:
  assumes "spec_ok sp"
  shows "\<exists>calls. w_llm (snd (handle env sp ctx w)) = w_llm w @ calls \<and> length calls \<le> 11"
proof -
  from llm_calls_grow[of env sp ctx w] obtain calls where calls: "w_llm (snd (handle env sp ctx w)) = w_llm w @ calls"
    and few: "case sp of LlmAgentSpec b l \<Rightarrow> length calls \<le> nat (lim_max_tool_iterations (sp_limits b)) + 1
       \<and> list_all (\<lambda>c. lc_model c = ll_model l \<and> lc_tools c = ll_tools l) calls
     | RemoteFlowAgentSpec b r \<Rightarrow> calls = []" by blast
  then have "length calls \<le> 11" using assms by (cases sp) (auto simp: base_ok_def limits_ok_def)
  with calls show ?thesis by blast
qed

lemma ok_tool_limit: "spec_ok sp \<Longrightarrow> spec_tool_limit sp \<le> 10"
  by (cases sp) (simp_all add: base_ok_def limits_ok_def)

text \<open>C40: every agent that answers keeps the bounds of its schema. If the validator enforces what the schema
  declares, then after any history of reloads, checks and resolutions the agent the registry gives a caller,
  whatever configuration of whatever scope it comes from, is within the bounds; a turn it handles makes at
  most eleven calls of the language model, and every tool call it reports is a row the table accepts, whose
  iteration is between 1 and 10.\<close>

theorem served_agents_keep_their_bounds:
  assumes "sound_validator validate"
    and "(registry_step {a. spec_ok (ra_spec a)} Rows validate)\<^sup>*\<^sup>* (empty_registry ttl) reg"
    and "agent \<in> set (agents_of reg)"
    and "resolve_for_scope validate dopt agent tenant org reg = (ra, reg')"
  shows "spec_ok (ra_spec ra)
     \<and> (\<exists>calls. w_llm (snd (handle env (ra_spec ra) ctx w)) = w_llm w @ calls \<and> length calls \<le> 11)
     \<and> (case handle env (ra_spec ra) ctx w of
          (Inl e, w') \<Rightarrow> True
        | (Inr t, w') \<Rightarrow> (\<exists>rows. tool_rows mid aid rid (at_tool_traces t) = Inr rows
             \<and> length rows = length (at_tool_traces t) \<and> list_all tool_row_ok rows))"
proof -
  note reg = registry_steps_ok[OF assms(1,2)]
  have "spec_ok (ra_spec agent)" using assms(3) reg by (auto simp: agents_of_def agents_ok_in_def in_bounds_def list_all_iff)
  with resolve_ok[OF assms(1) reg _ assms(4)] have ok: "spec_ok (ra_spec ra)" by simp
  have "\<exists>rows. tool_rows mid aid rid (at_tool_traces t) = Inr rows \<and> length rows = length (at_tool_traces t)
      \<and> list_all tool_row_ok rows" if "handle env (ra_spec ra) ctx w = (Inr t, w')" for t w'
    using handler.serve_traces_insertable[OF that ok_tool_limit[OF ok], of mid aid rid]
    by (fastforce simp: list_all_iff)
  then show ?thesis using ok bounded_calls[OF ok, of env ctx w]
    by (cases "handle env (ra_spec ra) ctx w"; cases "fst (handle env (ra_spec ra) ctx w)") simp_all
qed

definition bounded_validate :: validator where
  "bounded_validate v = (case sample_validate v of None \<Rightarrow> None | Some sp \<Rightarrow> if spec_ok sp then Some sp else None)"

lemma served_agents_keep_their_bounds_witness:
  "let reg = reload bounded_validate 5 (Some catalogue_db) (empty_registry 60);
       ra = fst (resolve_for_scope bounded_validate (Some catalogue_db) (hd (agents_of reg)) ''t1'' ''o9'' reg)
   in spec_ok (ra_spec ra) \<and> ra_checksum ra = ''c3''"
proof -
  let ?reg = "reload bounded_validate 5 (Some catalogue_db) (empty_registry 60)"
  let ?res = "resolve_for_scope bounded_validate (Some catalogue_db) (hd (agents_of ?reg)) ''t1'' ''o9'' ?reg"
  have "sound_validator bounded_validate"
    by (auto simp: sound_validator_def bounded_validate_def split: option.splits if_splits)
  moreover have "(registry_step {a. spec_ok (ra_spec a)} {} bounded_validate)\<^sup>*\<^sup>* (empty_registry 60) ?reg"
    by (intro r_into_rtranclp rstep_reload)
  moreover have "agents_of ?reg \<noteq> []" by code_simp
  then have "hd (agents_of ?reg) \<in> set (agents_of ?reg)" by simp
  ultimately have "spec_ok (ra_spec (fst ?res))"
    using served_agents_keep_their_bounds[of bounded_validate "{}" 60 ?reg _ "Some catalogue_db" "''t1''" "''o9''" "fst ?res" "snd ?res"]
    by simp
  moreover have "ra_checksum (fst ?res) = ''c3''" by code_simp
  ultimately show ?thesis by (simp add: Let_def)
qed

end
