(* ===== verification/Ddl.thy ===== *)
theory Ddl
  imports Store
begin

text \<open>
  The schema as data, and the operations of Alembic the migrations use, with what PostgreSQL checks when
  it runs them. A statement that PostgreSQL refuses is \<open>None\<close>: the migration aborts. What a statement
  needs of the rows (a unique constraint added to a table in use) is in \<open>Migration\<close>.
\<close>

section \<open>Tables\<close>

datatype sql_type = Sql_uuid | Sql_string | Sql_text | Sql_integer | Sql_smallint | Sql_bigint | Sql_boolean
  | Sql_jsonb | Sql_timestamptz | Sql_numeric nat nat | Sql_enum string

datatype sql_default = Dflt_literal string | Dflt_expr string | Dflt_autoincrement

record column =
  co_name :: string
  co_type :: sql_type
  co_nullable :: bool
  co_default :: "sql_default option"

text \<open>A piece of SQL: the columns it names, its literals in quotes and the rest.\<close>

datatype sql_token = Col string | Lit string | Sql string

datatype on_delete = Od_cascade | Od_set_null | Od_restrict

text \<open>A foreign key references the column \<open>id\<close> of a table, as all of them do here.\<close>

datatype table_con =
    Con_primary string "string list"
  | Con_unique string "string list"
  | Con_check string "sql_token list"
  | Con_foreign string string string on_delete

record sql_index =
  ix_name :: string
  ix_columns :: "sql_token list list"
  ix_unique :: bool
  ix_where :: "sql_token list option"

record sql_table =
  tb_columns :: "column list"
  tb_cons :: "table_con list"
  tb_indexes :: "sql_index list"

record schema =
  sc_enums :: "(string \<times> string list) list"
  sc_tables :: "(string \<times> sql_table) list"

definition empty_schema :: schema where
  "empty_schema = \<lparr> sc_enums = [], sc_tables = [] \<rparr>"

text \<open>Columns as the migrations declare them.\<close>

definition req :: "string \<Rightarrow> sql_type \<Rightarrow> column" where
  "req n t = \<lparr> co_name = n, co_type = t, co_nullable = False, co_default = None \<rparr>"

definition opt :: "string \<Rightarrow> sql_type \<Rightarrow> column" where
  "opt n t = \<lparr> co_name = n, co_type = t, co_nullable = True, co_default = None \<rparr>"

definition dflt :: "string \<Rightarrow> sql_type \<Rightarrow> sql_default \<Rightarrow> column" where
  "dflt n t v = \<lparr> co_name = n, co_type = t, co_nullable = False, co_default = Some v \<rparr>"

definition pk_column :: column where
  "pk_column = dflt ''id'' Sql_uuid (Dflt_expr ''gen_random_uuid()'')"

definition now_column :: "string \<Rightarrow> column" where
  "now_column n = dflt n Sql_timestamptz (Dflt_expr ''now()'')"

definition json_column :: "string \<Rightarrow> column" where
  "json_column n = dflt n Sql_jsonb (Dflt_expr (repr_str ''{}'' @ ''::jsonb''))"

definition plain_ix :: "string \<Rightarrow> sql_token list list \<Rightarrow> sql_index" where
  "plain_ix n cs = \<lparr> ix_name = n, ix_columns = cs, ix_unique = False, ix_where = None \<rparr>"

definition partial_ix :: "string \<Rightarrow> sql_token list list \<Rightarrow> sql_token list \<Rightarrow> sql_index" where
  "partial_ix n cs w = \<lparr> ix_name = n, ix_columns = cs, ix_unique = False, ix_where = Some w \<rparr>"

definition unique_ix :: "string \<Rightarrow> sql_token list list \<Rightarrow> sql_token list \<Rightarrow> sql_index" where
  "unique_ix n cs w = \<lparr> ix_name = n, ix_columns = cs, ix_unique = True, ix_where = Some w \<rparr>"

section \<open>Names in constraints\<close>

fun token_column :: "sql_token \<Rightarrow> string list" where
  "token_column (Col c) = [c]"
| "token_column _ = []"

definition sql_columns :: "sql_token list \<Rightarrow> string list" where
  "sql_columns s = concat (map token_column s)"

fun con_name :: "table_con \<Rightarrow> string" where
  "con_name (Con_primary n cs) = n"
| "con_name (Con_unique n cs) = n"
| "con_name (Con_check n s) = n"
| "con_name (Con_foreign n c t d) = n"

fun con_columns :: "table_con \<Rightarrow> string list" where
  "con_columns (Con_primary n cs) = cs"
| "con_columns (Con_unique n cs) = cs"
| "con_columns (Con_check n s) = sql_columns s"
| "con_columns (Con_foreign n c t d) = [c]"

definition index_columns :: "sql_index \<Rightarrow> string list" where
  "index_columns i = concat (map sql_columns (ix_columns i)) @
     (case ix_where i of None \<Rightarrow> [] | Some w \<Rightarrow> sql_columns w)"

section \<open>Names and references\<close>

text \<open>Tables, indexes and the indexes of keys share one name space.\<close>

fun con_relation :: "table_con \<Rightarrow> string list" where
  "con_relation (Con_primary n cs) = [n]"
| "con_relation (Con_unique n cs) = [n]"
| "con_relation _ = []"

definition table_relations :: "string \<times> sql_table \<Rightarrow> string list" where
  "table_relations nt = fst nt # concat (map con_relation (tb_cons (snd nt))) @ map ix_name (tb_indexes (snd nt))"

definition relations :: "schema \<Rightarrow> string list" where
  "relations S = concat (map table_relations (sc_tables S))"

fun refers_to :: "table_con \<Rightarrow> string option" where
  "refers_to (Con_foreign n c t d) = Some t"
| "refers_to _ = None"

text \<open>The referenced column is the primary key of its table.\<close>

definition keyed_by_id :: "sql_table \<Rightarrow> bool" where
  "keyed_by_id t \<longleftrightarrow> list_ex (\<lambda>c. case c of Con_primary n cs \<Rightarrow> cs = [''id''] | _ \<Rightarrow> False) (tb_cons t)"

definition type_ok :: "schema \<Rightarrow> sql_type \<Rightarrow> bool" where
  "type_ok S ty = (case ty of Sql_enum n \<Rightarrow> n \<in> fst ` set (sc_enums S) | _ \<Rightarrow> True)"

definition names :: "sql_table \<Rightarrow> string list" where
  "names t = map co_name (tb_columns t)"

definition con_ok :: "schema \<Rightarrow> sql_table \<Rightarrow> table_con \<Rightarrow> bool" where
  "con_ok S t c \<longleftrightarrow> set (con_columns c) \<subseteq> set (names t)
     \<and> (case refers_to c of None \<Rightarrow> True
        | Some r \<Rightarrow> (case map_of (sc_tables S) r of None \<Rightarrow> False | Some t' \<Rightarrow> keyed_by_id t'))"

definition index_ok :: "sql_table \<Rightarrow> sql_index \<Rightarrow> bool" where
  "index_ok t i \<longleftrightarrow> set (index_columns i) \<subseteq> set (names t)"

definition table_ok :: "schema \<Rightarrow> sql_table \<Rightarrow> bool" where
  "table_ok S t \<longleftrightarrow> distinct (names t) \<and> list_all (\<lambda>c. type_ok S (co_type c)) (tb_columns t)
     \<and> distinct (map con_name (tb_cons t)) \<and> list_all (con_ok S t) (tb_cons t) \<and> list_all (index_ok t) (tb_indexes t)"

text \<open>A schema PostgreSQL can hold: nothing refers to something that is not there.\<close>

definition schema_ok :: "schema \<Rightarrow> bool" where
  "schema_ok S \<longleftrightarrow> distinct (map fst (sc_enums S)) \<and> distinct (relations S)
     \<and> list_all (\<lambda>nt. table_ok S (snd nt)) (sc_tables S)"

section \<open>Statements\<close>

text \<open>\<open>ENUM.create\<close> and \<open>ENUM.drop\<close> look first whether the type is there (\<open>checkfirst\<close>).\<close>

datatype ddl =
    Create_enum string "string list"
  | Drop_enum string
  | Add_label string string
  | Create_table string "column list" "table_con list"
  | Drop_table string
  | Rename_table string string
  | Add_column string column
  | Drop_column string string
  | Create_index string sql_index
  | Drop_index string string
  | Add_con string table_con
  | Drop_con string string
  | Delete_rows string

text \<open>The naming convention of \<open>Base.metadata\<close> is applied to a CHECK constraint whatever name it is given.
  (SQLAlchemy shortens a name of more than 63 characters; no statement names such a constraint again.)\<close>

fun conventional :: "string \<Rightarrow> table_con \<Rightarrow> table_con" where
  "conventional t (Con_check n s) = Con_check (''ck_'' @ t @ ''_'' @ n) s"
| "conventional t c = c"

definition guarded :: "bool \<Rightarrow> 'a \<Rightarrow> 'a option" where
  "guarded b x = (if b then Some x else None)"

definition on_table :: "schema \<Rightarrow> string \<Rightarrow> (sql_table \<Rightarrow> sql_table option) \<Rightarrow> schema option" where
  "on_table S n f = (case map_of (sc_tables S) n of
     None \<Rightarrow> None
   | Some t \<Rightarrow> (case f t of
       None \<Rightarrow> None
     | Some t' \<Rightarrow> Some (S\<lparr> sc_tables := map (\<lambda>nt. if fst nt = n then (n, t') else nt) (sc_tables S) \<rparr>)))"

definition uses_type :: "schema \<Rightarrow> string \<Rightarrow> bool" where
  "uses_type S n \<longleftrightarrow> list_ex (\<lambda>nt. list_ex (\<lambda>c. co_type c = Sql_enum n) (tb_columns (snd nt))) (sc_tables S)"

definition referenced :: "schema \<Rightarrow> string \<Rightarrow> bool" where
  "referenced S n \<longleftrightarrow> list_ex (\<lambda>nt. list_ex (\<lambda>c. refers_to c = Some n) (tb_cons (snd nt))) (sc_tables S)"

definition without_table :: "schema \<Rightarrow> string \<Rightarrow> schema" where
  "without_table S n = S\<lparr> sc_tables := filter (\<lambda>nt. fst nt \<noteq> n) (sc_tables S) \<rparr>"

fun retarget :: "string \<Rightarrow> string \<Rightarrow> table_con \<Rightarrow> table_con" where
  "retarget a b (Con_foreign n c t d) = Con_foreign n c (if t = a then b else t) d"
| "retarget a b c = c"

definition renamed :: "string \<Rightarrow> string \<Rightarrow> string \<times> sql_table \<Rightarrow> string \<times> sql_table" where
  "renamed a b nt = (if fst nt = a then b else fst nt, (snd nt)\<lparr> tb_cons := map (retarget a b) (tb_cons (snd nt)) \<rparr>)"

text \<open>Dropping a column drops the indexes and the constraints of the table that name it, and is refused
  when another table refers to it.\<close>

definition without_column :: "string \<Rightarrow> sql_table \<Rightarrow> sql_table" where
  "without_column c t = \<lparr> tb_columns = filter (\<lambda>x. co_name x \<noteq> c) (tb_columns t),
     tb_cons = filter (\<lambda>k. c \<notin> set (con_columns k)) (tb_cons t),
     tb_indexes = filter (\<lambda>i. c \<notin> set (index_columns i)) (tb_indexes t) \<rparr>"

fun ddl_step :: "ddl \<Rightarrow> schema \<Rightarrow> schema option" where
  "ddl_step (Create_enum n ls) S = Some (if n \<in> fst ` set (sc_enums S) then S
     else S\<lparr> sc_enums := sc_enums S @ [(n, ls)] \<rparr>)"
| "ddl_step (Drop_enum n) S = guarded (\<not> uses_type S n)
     (S\<lparr> sc_enums := filter (\<lambda>e. fst e \<noteq> n) (sc_enums S) \<rparr>)"
| "ddl_step (Add_label n l) S = guarded (n \<in> fst ` set (sc_enums S))
     (S\<lparr> sc_enums := map (\<lambda>(m, ls). (m, if m = n \<and> l \<notin> set ls then ls @ [l] else ls)) (sc_enums S) \<rparr>)"
| "ddl_step (Create_table n cols cons) S =
     (let t = \<lparr> tb_columns = cols, tb_cons = map (conventional n) cons, tb_indexes = [] \<rparr>;
          S' = S\<lparr> sc_tables := sc_tables S @ [(n, t)] \<rparr>
      in guarded (table_ok S' t \<and> distinct (table_relations (n, t))
           \<and> set (table_relations (n, t)) \<inter> set (relations S) = {}) S')"
| "ddl_step (Drop_table n) S =
     guarded (n \<in> fst ` set (sc_tables S) \<and> \<not> referenced (without_table S n) n) (without_table S n)"
| "ddl_step (Rename_table a b) S = guarded (a \<in> fst ` set (sc_tables S) \<and> b \<notin> set (relations S))
     (S\<lparr> sc_tables := map (renamed a b) (sc_tables S) \<rparr>)"
| "ddl_step (Add_column n c) S = on_table S n (\<lambda>t.
     guarded (co_name c \<notin> set (names t) \<and> type_ok S (co_type c) \<and> (co_nullable c \<or> co_default c \<noteq> None))
       (t\<lparr> tb_columns := tb_columns t @ [c] \<rparr>))"
| "ddl_step (Drop_column n c) S = on_table S n (\<lambda>t.
     guarded (c \<in> set (names t) \<and> (referenced S n \<longrightarrow> c \<noteq> ''id'')) (without_column c t))"
| "ddl_step (Create_index n i) S = on_table S n (\<lambda>t.
     guarded (index_ok t i \<and> ix_name i \<notin> set (relations S)) (t\<lparr> tb_indexes := tb_indexes t @ [i] \<rparr>))"
| "ddl_step (Drop_index n i) S = on_table S n (\<lambda>t.
     guarded (i \<in> ix_name ` set (tb_indexes t)) (t\<lparr> tb_indexes := filter (\<lambda>x. ix_name x \<noteq> i) (tb_indexes t) \<rparr>))"
| "ddl_step (Add_con n c) S = on_table S n (\<lambda>t.
     guarded (con_ok S t (conventional n c) \<and> con_name (conventional n c) \<notin> con_name ` set (tb_cons t)
         \<and> set (con_relation c) \<inter> set (relations S) = {})
       (t\<lparr> tb_cons := tb_cons t @ [conventional n c] \<rparr>))"
| "ddl_step (Drop_con n k) S = on_table S n (\<lambda>t.
     guarded (k \<in> con_name ` set (tb_cons t)
         \<and> (referenced S n \<longrightarrow> keyed_by_id (t\<lparr> tb_cons := filter (\<lambda>x. con_name x \<noteq> k) (tb_cons t) \<rparr>)))
       (t\<lparr> tb_cons := filter (\<lambda>x. con_name x \<noteq> k) (tb_cons t) \<rparr>))"
| "ddl_step (Delete_rows n) S = guarded (n \<in> fst ` set (sc_tables S)) S"

fun run_ddl :: "ddl list \<Rightarrow> schema \<Rightarrow> schema option" where
  "run_ddl [] S = Some S"
| "run_ddl (d # ds) S = Option.bind (ddl_step d S) (run_ddl ds)"

lemma run_ddl_append: "run_ddl (ds @ es) S = Option.bind (run_ddl ds S) (run_ddl es)"
  by (induction ds arbitrary: S) (simp_all split: Option.bind_split)

end
