(* ===== verification/Revisions.thy ===== *)
theory Revisions
  imports Ddl
begin

text \<open>
  The schema part of the six revisions in \<open>migrations/versions/\<close>, statement by statement; what 0006
  inserts is in \<open>Migration\<close>.
\<close>

definition upgrade_0001 :: "ddl list" where
  "upgrade_0001 =
    [Create_enum ''conversation_status_enum'' [''active'', ''archived''],
     Create_enum ''message_role_enum'' [''user'', ''assistant'', ''system'', ''tool''],
     Create_table ''conversations''
       [pk_column, req ''tenant_code'' Sql_string, opt ''organization_id'' Sql_string,
        req ''external_user_id'' Sql_string, opt ''title'' Sql_string,
        dflt ''status'' (Sql_enum ''conversation_status_enum'') (Dflt_literal ''active''),
        opt ''pinned_agent_id'' Sql_uuid, dflt ''locale'' Sql_string (Dflt_literal ''en''),
        dflt ''message_count'' Sql_integer (Dflt_literal ''0''), json_column ''metadata'',
        opt ''last_message_at'' Sql_timestamptz, now_column ''created_at'', now_column ''updated_at'']
       [Con_check ''ck_conversations_conv_locale'' [Col ''locale'', Sql ''IN ('', Lit ''en'', Sql '','', Lit ''hi'', Sql '','', Lit ''kn'', Sql '','', Lit ''te'', Sql '')''],
        Con_check ''ck_conversations_conv_msgcount'' [Col ''message_count'', Sql ''>= 0''],
        Con_check ''ck_conversations_conv_tenant'' [Col ''tenant_code'', Sql ''<>'', Lit ''''],
        Con_primary ''pk_conversations'' [''id'']],
     Create_index ''conversations'' (partial_ix ''ix_conv_org'' [[Col ''tenant_code''], [Col ''organization_id''], [Col ''last_message_at'', Sql ''DESC NULLS LAST'']] [Col ''status'', Sql ''='', Lit ''active'', Sql ''AND'', Col ''organization_id'', Sql ''IS NOT NULL'']),
     Create_index ''conversations'' (partial_ix ''ix_conv_pinned'' [[Col ''pinned_agent_id'']] [Col ''pinned_agent_id'', Sql ''IS NOT NULL'']),
     Create_index ''conversations'' (partial_ix ''ix_conv_user_recent'' [[Col ''tenant_code''], [Col ''external_user_id''], [Col ''last_message_at'', Sql ''DESC NULLS LAST'']] [Col ''status'', Sql ''='', Lit ''active'']),
     Create_table ''conversation_messages''
       [pk_column, req ''conversation_id'' Sql_uuid, req ''seq'' Sql_integer,
        req ''role'' (Sql_enum ''message_role_enum''), req ''content'' Sql_string,
        opt ''agent_id'' Sql_uuid, opt ''agent_config_id'' Sql_uuid, opt ''agent_session_id'' Sql_uuid,
        opt ''route_reason'' Sql_string, opt ''route_confidence'' (Sql_numeric 4 3),
        opt ''options'' Sql_jsonb, opt ''selected_option_id'' Sql_string, opt ''model'' Sql_string,
        opt ''prompt_tokens'' Sql_integer, opt ''completion_tokens'' Sql_integer,
        opt ''latency_ms'' Sql_integer, opt ''error'' Sql_string, opt ''request_id'' Sql_string,
        now_column ''created_at'']
       [Con_check ''ck_conversation_messages_msg_latency'' [Sql ''COALESCE('', Col ''latency_ms'', Sql '', 0) >= 0''],
        Con_check ''ck_conversation_messages_msg_tokens'' [Sql ''COALESCE('', Col ''prompt_tokens'', Sql '', 0) >= 0 AND COALESCE('', Col ''completion_tokens'', Sql '', 0) >= 0''],
        Con_check ''ck_conversation_messages_msg_options_only_assistant'' [Col ''options'', Sql ''IS NULL OR'', Col ''role'', Sql ''='', Lit ''assistant''],
        Con_check ''ck_conversation_messages_msg_assistant_attribution'' [Col ''role'', Sql ''<>'', Lit ''assistant'', Sql ''OR'', Col ''agent_id'', Sql ''IS NOT NULL''],
        Con_check ''ck_conversation_messages_msg_confidence'' [Col ''route_confidence'', Sql ''IS NULL OR ('', Col ''route_confidence'', Sql ''>= 0 AND'', Col ''route_confidence'', Sql ''<= 1)''],
        Con_check ''ck_conversation_messages_msg_seq'' [Col ''seq'', Sql ''> 0''],
        Con_foreign ''fk_conversation_messages_conversation_id_conversations'' ''conversation_id'' ''conversations'' Od_cascade,
        Con_primary ''pk_conversation_messages'' [''id''],
        Con_unique ''uq_msg_seq'' [''conversation_id'', ''seq'']],
     Create_index ''conversation_messages'' (plain_ix ''ix_msg_agent_time'' [[Col ''agent_id''], [Col ''created_at'', Sql ''DESC'']]),
     Create_index ''conversation_messages'' (plain_ix ''ix_msg_conv_seq'' [[Col ''conversation_id''], [Col ''seq'']]),
     Create_index ''conversation_messages'' (partial_ix ''ix_msg_request'' [[Col ''request_id'']] [Col ''request_id'', Sql ''IS NOT NULL'']),
     Create_index ''conversation_messages'' (partial_ix ''ix_msg_session'' [[Col ''agent_session_id'']] [Col ''agent_session_id'', Sql ''IS NOT NULL''])]"

definition downgrade_0001 :: "ddl list" where
  "downgrade_0001 =
    [Drop_index ''conversation_messages'' ''ix_msg_session'',
     Drop_index ''conversation_messages'' ''ix_msg_request'',
     Drop_index ''conversation_messages'' ''ix_msg_conv_seq'',
     Drop_index ''conversation_messages'' ''ix_msg_agent_time'',
     Drop_table ''conversation_messages'',
     Drop_index ''conversations'' ''ix_conv_user_recent'',
     Drop_index ''conversations'' ''ix_conv_pinned'',
     Drop_index ''conversations'' ''ix_conv_org'',
     Drop_table ''conversations'',
     Drop_enum ''message_role_enum'',
     Drop_enum ''conversation_status_enum'']"

definition upgrade_0002 :: "ddl list" where
  "upgrade_0002 =
    [Create_enum ''agent_type_enum'' [''llm'', ''remote_flow''],
     Create_enum ''agent_status_enum'' [''enabled'', ''disabled''],
     Create_enum ''config_source_enum'' [''yaml'', ''db''],
     Create_table ''agents''
       [pk_column, req ''key'' Sql_string, req ''name'' Sql_string, req ''description'' Sql_string,
        req ''agent_type'' (Sql_enum ''agent_type_enum''),
        dflt ''status'' (Sql_enum ''agent_status_enum'') (Dflt_literal ''enabled''),
        dflt ''is_default'' Sql_boolean (Dflt_expr ''false''),
        dflt ''sort_order'' Sql_integer (Dflt_literal ''100''), now_column ''created_at'',
        now_column ''updated_at'']
       [Con_primary ''pk_agents'' [''id''], Con_unique ''uq_agents_key'' [''key''],
        Con_unique ''uq_agents_name'' [''name''],
        Con_check ''ck_agents_key_slug'' [Col ''key'', Sql ''~'', Lit ''^[a-z][a-z0-9_]{1,62}$'']],
     Create_index ''agents'' (unique_ix ''uq_agents_single_default'' [[Col ''is_default'']] [Col ''is_default'']),
     Create_index ''agents'' (partial_ix ''ix_agents_enabled'' [[Col ''sort_order''], [Col ''key'']] [Col ''status'', Sql ''='', Lit ''enabled'']),
     Create_index ''agents'' (plain_ix ''ix_agents_updated'' [[Col ''updated_at'', Sql ''DESC'']]),
     Create_table ''agent_configurations''
       [pk_column, req ''agent_id'' Sql_uuid, req ''version'' Sql_integer,
        req ''source'' (Sql_enum ''config_source_enum''), req ''checksum'' Sql_string,
        req ''config'' Sql_jsonb, dflt ''is_active'' Sql_boolean (Dflt_expr ''false''),
        opt ''activated_at'' Sql_timestamptz,
        dflt ''created_by'' Sql_string (Dflt_literal ''startup-sync''), now_column ''created_at'']
       [Con_foreign ''fk_agent_configurations_agent_id_agents'' ''agent_id'' ''agents'' Od_cascade,
        Con_primary ''pk_agent_configurations'' [''id''],
        Con_unique ''uq_agent_cfg_version'' [''agent_id'', ''version''],
        Con_check ''ck_agent_cfg_version'' [Col ''version'', Sql ''> 0''],
        Con_check ''ck_agent_cfg_activated'' [Col ''is_active'', Sql ''= FALSE OR'', Col ''activated_at'', Sql ''IS NOT NULL''],
        Con_check ''ck_agent_cfg_type'' [Col ''config'', Sql ''?'', Lit ''agent_type'', Sql ''AND'', Col ''config'', Sql ''?'', Lit ''key'', Sql ''AND'', Col ''config'', Sql ''?'', Lit ''name'']],
     Create_index ''agent_configurations'' (unique_ix ''uq_agent_cfg_one_active'' [[Col ''agent_id'']] [Col ''is_active'']),
     Create_index ''agent_configurations'' (plain_ix ''ix_agent_cfg_lookup'' [[Col ''agent_id''], [Col ''source''], [Col ''version'', Sql ''DESC'']]),
     Delete_rows ''conversation_messages'',
     Add_con ''conversation_messages'' (Con_foreign ''fk_conversation_messages_agent_id_agents'' ''agent_id'' ''agents'' Od_set_null),
     Add_con ''conversation_messages'' (Con_foreign ''fk_conversation_messages_agent_config_id_agent_configurations'' ''agent_config_id'' ''agent_configurations'' Od_set_null)]"

definition downgrade_0002 :: "ddl list" where
  "downgrade_0002 =
    [Drop_con ''conversation_messages'' ''fk_conversation_messages_agent_config_id_agent_configurations'',
     Drop_con ''conversation_messages'' ''fk_conversation_messages_agent_id_agents'',
     Drop_index ''agent_configurations'' ''ix_agent_cfg_lookup'',
     Drop_index ''agent_configurations'' ''uq_agent_cfg_one_active'',
     Drop_table ''agent_configurations'',
     Drop_index ''agents'' ''ix_agents_updated'',
     Drop_index ''agents'' ''ix_agents_enabled'',
     Drop_index ''agents'' ''uq_agents_single_default'',
     Drop_table ''agents'',
     Drop_enum ''config_source_enum'',
     Drop_enum ''agent_status_enum'',
     Drop_enum ''agent_type_enum'']"

definition upgrade_0003 :: "ddl list" where
  "upgrade_0003 =
    [Create_enum ''session_state_enum'' [''pending'', ''authenticating'', ''in_progress'', ''awaiting_user'', ''finalizing'', ''completed'', ''failed'', ''abandoned''],
     Create_table ''agent_sessions''
       [pk_column, req ''conversation_id'' Sql_uuid, req ''agent_id'' Sql_uuid,
        dflt ''state'' (Sql_enum ''session_state_enum'') (Dflt_literal ''pending''),
        opt ''remote_provider'' Sql_string, opt ''remote_session_id'' Sql_string,
        opt ''remote_profile_id'' Sql_string, opt ''remote_flow'' Sql_string,
        opt ''remote_bot_route'' Sql_string, dflt ''language'' Sql_string (Dflt_literal ''en''),
        dflt ''step'' Sql_integer (Dflt_literal ''0''),
        dflt ''turn_count'' Sql_integer (Dflt_literal ''0''), opt ''result_ref'' Sql_string,
        opt ''report_url'' Sql_string, opt ''error'' Sql_string, opt ''error_code'' Sql_string,
        json_column ''state_data'', now_column ''started_at'', now_column ''last_activity_at'',
        opt ''finalized_at'' Sql_timestamptz, opt ''ended_at'' Sql_timestamptz]
       [Con_foreign ''fk_agent_sessions_conversation_id_conversations'' ''conversation_id'' ''conversations'' Od_cascade,
        Con_foreign ''fk_agent_sessions_agent_id_agents'' ''agent_id'' ''agents'' Od_restrict,
        Con_primary ''pk_agent_sessions'' [''id''], Con_unique ''uq_sess_remote'' [''remote_session_id''],
        Con_check ''sess_lang'' [Col ''language'', Sql ''IN ('', Lit ''en'', Sql '','', Lit ''hi'', Sql '','', Lit ''kn'', Sql '','', Lit ''te'', Sql '')''],
        Con_check ''sess_step'' [Col ''step'', Sql ''>= 0 AND'', Col ''turn_count'', Sql ''>= 0''],
        Con_check ''sess_terminal'' [Sql ''('', Col ''state'', Sql ''IN ('', Lit ''completed'', Sql '','', Lit ''failed'', Sql '','', Lit ''abandoned'', Sql '')) = ('', Col ''ended_at'', Sql ''IS NOT NULL)''],
        Con_check ''sess_active_has_remote'' [Col ''state'', Sql ''IN ('', Lit ''pending'', Sql '','', Lit ''failed'', Sql '','', Lit ''abandoned'', Sql '') OR'', Col ''remote_session_id'', Sql ''IS NOT NULL''],
        Con_check ''sess_completed_has_result'' [Col ''state'', Sql ''<>'', Lit ''completed'', Sql ''OR'', Col ''result_ref'', Sql ''IS NOT NULL'']],
     Create_index ''agent_sessions'' (unique_ix ''uq_sess_one_open_per_conv'' [[Col ''conversation_id'']] [Col ''state'', Sql ''NOT IN ('', Lit ''completed'', Sql '','', Lit ''failed'', Sql '','', Lit ''abandoned'', Sql '')'']),
     Create_index ''agent_sessions'' (partial_ix ''ix_sess_sweep'' [[Col ''state''], [Col ''last_activity_at'']] [Col ''state'', Sql ''NOT IN ('', Lit ''completed'', Sql '','', Lit ''failed'', Sql '','', Lit ''abandoned'', Sql '')'']),
     Create_index ''agent_sessions'' (plain_ix ''ix_sess_conv'' [[Col ''conversation_id''], [Col ''started_at'', Sql ''DESC'']]),
     Add_con ''conversation_messages'' (Con_foreign ''fk_conversation_messages_agent_session_id_agent_sessions'' ''agent_session_id'' ''agent_sessions'' Od_set_null),
     Add_con ''conversations'' (Con_foreign ''fk_conversations_pinned_agent_id_agents'' ''pinned_agent_id'' ''agents'' Od_set_null)]"

definition downgrade_0003 :: "ddl list" where
  "downgrade_0003 =
    [Drop_con ''conversations'' ''fk_conversations_pinned_agent_id_agents'',
     Drop_con ''conversation_messages'' ''fk_conversation_messages_agent_session_id_agent_sessions'',
     Drop_index ''agent_sessions'' ''ix_sess_conv'',
     Drop_index ''agent_sessions'' ''ix_sess_sweep'',
     Drop_index ''agent_sessions'' ''uq_sess_one_open_per_conv'',
     Drop_table ''agent_sessions'',
     Drop_enum ''session_state_enum'']"

definition upgrade_0004 :: "ddl list" where
  "upgrade_0004 =
    [Create_enum ''audit_action_enum'' [''config_sync'', ''config_create'', ''config_activate'', ''agent_enable'', ''agent_disable'', ''session_finalize'', ''session_abandon''],
     Create_table ''audit_logs''
       [dflt ''id'' Sql_bigint Dflt_autoincrement, req ''action'' (Sql_enum ''audit_action_enum''),
        req ''entity_type'' Sql_string, opt ''entity_id'' Sql_uuid,
        dflt ''actor'' Sql_string (Dflt_literal ''system''), opt ''request_id'' Sql_string,
        opt ''before'' Sql_jsonb, opt ''after'' Sql_jsonb, opt ''note'' Sql_string,
        now_column ''created_at'']
       [Con_primary ''pk_audit_logs'' [''id'']],
     Create_index ''audit_logs'' (plain_ix ''ix_audit_entity'' [[Col ''entity_type''], [Col ''entity_id''], [Col ''created_at'', Sql ''DESC'']]),
     Create_index ''audit_logs'' (plain_ix ''ix_audit_action_time'' [[Col ''action''], [Col ''created_at'', Sql ''DESC'']])]"

definition downgrade_0004 :: "ddl list" where
  "downgrade_0004 =
    [Drop_index ''audit_logs'' ''ix_audit_action_time'',
     Drop_index ''audit_logs'' ''ix_audit_entity'',
     Drop_table ''audit_logs'',
     Drop_enum ''audit_action_enum'']"

definition upgrade_0005 :: "ddl list" where
  "upgrade_0005 =
    [Create_enum ''tool_status_enum'' [''success'', ''error'', ''timeout''],
     Create_table ''tool_executions''
       [pk_column, req ''message_id'' Sql_uuid, opt ''agent_id'' Sql_uuid, req ''tool_name'' Sql_string,
        dflt ''iteration'' Sql_smallint (Dflt_literal ''1''), json_column ''arguments'',
        opt ''result_excerpt'' Sql_text, opt ''result_bytes'' Sql_integer,
        req ''status'' (Sql_enum ''tool_status_enum''), opt ''error'' Sql_text,
        req ''duration_ms'' Sql_integer, opt ''request_id'' Sql_string, now_column ''created_at'']
       [Con_primary ''pk_tool_executions'' [''id''],
        Con_foreign ''fk_tool_executions_message_id_conversation_messages'' ''message_id'' ''conversation_messages'' Od_cascade,
        Con_foreign ''fk_tool_executions_agent_id_agents'' ''agent_id'' ''agents'' Od_set_null,
        Con_check ''tool_iteration'' [Col ''iteration'', Sql ''BETWEEN 1 AND 10''],
        Con_check ''tool_duration'' [Col ''duration_ms'', Sql ''>= 0''],
        Con_check ''tool_error'' [Col ''status'', Sql ''='', Lit ''success'', Sql ''OR'', Col ''error'', Sql ''IS NOT NULL'']],
     Create_index ''tool_executions'' (plain_ix ''ix_tool_message'' [[Col ''message_id'']]),
     Create_index ''tool_executions'' (plain_ix ''ix_tool_name_time'' [[Col ''tool_name''], [Col ''created_at'', Sql ''DESC'']]),
     Create_index ''tool_executions'' (partial_ix ''ix_tool_failures'' [[Col ''tool_name''], [Col ''created_at'', Sql ''DESC'']] [Col ''status'', Sql ''<>'', Lit ''success''])]"

definition downgrade_0005 :: "ddl list" where
  "downgrade_0005 =
    [Drop_index ''tool_executions'' ''ix_tool_failures'',
     Drop_index ''tool_executions'' ''ix_tool_name_time'',
     Drop_index ''tool_executions'' ''ix_tool_message'',
     Drop_table ''tool_executions'',
     Drop_enum ''tool_status_enum'']"

definition upgrade_0006 :: "ddl list" where
  "upgrade_0006 =
    [Create_enum ''capability_status_enum'' [''active'', ''disabled'', ''coming_soon''],
     Add_label ''audit_action_enum'' ''capability_create'',
     Add_label ''audit_action_enum'' ''capability_update'',
     Add_label ''audit_action_enum'' ''capability_delete'',
     Add_label ''audit_action_enum'' ''capability_agent_set'',
     Create_table ''capabilities''
       [pk_column, dflt ''tenant_id'' Sql_string (Dflt_literal ''default''),
        dflt ''organization_id'' Sql_string (Dflt_literal ''default''), req ''key'' Sql_string,
        req ''name'' Sql_string, opt ''description'' Sql_string, opt ''icon'' Sql_string,
        opt ''badge'' Sql_string,
        dflt ''status'' (Sql_enum ''capability_status_enum'') (Dflt_literal ''active''),
        dflt ''display_order'' Sql_integer (Dflt_literal ''100''), json_column ''metadata'',
        now_column ''created_at'', now_column ''updated_at'']
       [Con_primary ''pk_capabilities'' [''id''],
        Con_unique ''uq_capabilities_scope_key'' [''tenant_id'', ''organization_id'', ''key''],
        Con_check ''ck_capabilities_key_slug'' [Col ''key'', Sql ''~'', Lit ''^[a-z][a-z0-9_]{1,62}$''],
        Con_check ''ck_capabilities_scope'' [Col ''tenant_id'', Sql ''<>'', Lit '''', Sql ''AND'', Col ''organization_id'', Sql ''<>'', Lit '''']],
     Create_index ''capabilities'' (partial_ix ''ix_capabilities_scope'' [[Col ''tenant_id''], [Col ''organization_id''], [Col ''display_order'']] [Col ''status'', Sql ''<>'', Lit ''disabled'']),
     Create_table ''capability_agents''
       [pk_column, req ''capability_id'' Sql_uuid, req ''agent_id'' Sql_uuid,
        dflt ''display_order'' Sql_integer (Dflt_literal ''100''), opt ''label_override'' Sql_string,
        dflt ''is_visible'' Sql_boolean (Dflt_expr ''true''), json_column ''metadata'',
        now_column ''created_at'', now_column ''updated_at'']
       [Con_foreign ''fk_capability_agents_capability_id_capabilities'' ''capability_id'' ''capabilities'' Od_cascade,
        Con_foreign ''fk_capability_agents_agent_id_agents'' ''agent_id'' ''agents'' Od_cascade,
        Con_primary ''pk_capability_agents'' [''id''],
        Con_unique ''uq_capability_agents_membership'' [''capability_id'', ''agent_id'']],
     Create_index ''capability_agents'' (plain_ix ''ix_capability_agents_capability'' [[Col ''capability_id''], [Col ''display_order'']]),
     Add_column ''agents'' (dflt ''tenant_id'' Sql_string (Dflt_literal ''default'')),
     Add_column ''agents'' (dflt ''organization_id'' Sql_string (Dflt_literal ''default'')),
     Add_column ''agents'' (opt ''icon'' Sql_string),
     Add_column ''agents'' (json_column ''metadata''),
     Rename_table ''agent_configurations'' ''agent_configs'',
     Add_column ''agent_configs'' (dflt ''tenant_id'' Sql_string (Dflt_literal ''default'')),
     Add_column ''agent_configs'' (dflt ''organization_id'' Sql_string (Dflt_literal ''default'')),
     Add_column ''agent_configs'' (now_column ''updated_at''),
     Drop_con ''agent_configs'' ''uq_agent_cfg_version'',
     Add_con ''agent_configs'' (Con_unique ''uq_agent_cfg_scope_version'' [''agent_id'', ''tenant_id'', ''organization_id'', ''version'']),
     Drop_index ''agent_configs'' ''uq_agent_cfg_one_active'',
     Create_index ''agent_configs'' (unique_ix ''uq_agent_cfg_one_active'' [[Col ''agent_id''], [Col ''tenant_id''], [Col ''organization_id'']] [Col ''is_active'']),
     Drop_index ''agent_configs'' ''ix_agent_cfg_lookup'',
     Create_index ''agent_configs'' (plain_ix ''ix_agent_cfg_lookup'' [[Col ''agent_id''], [Col ''tenant_id''], [Col ''organization_id''], [Col ''source''], [Col ''version'', Sql ''DESC'']])]"

definition downgrade_0006 :: "ddl list" where
  "downgrade_0006 =
    [Drop_index ''agent_configs'' ''ix_agent_cfg_lookup'',
     Create_index ''agent_configs'' (plain_ix ''ix_agent_cfg_lookup'' [[Col ''agent_id''], [Col ''source''], [Col ''version'', Sql ''DESC'']]),
     Drop_index ''agent_configs'' ''uq_agent_cfg_one_active'',
     Create_index ''agent_configs'' (unique_ix ''uq_agent_cfg_one_active'' [[Col ''agent_id'']] [Col ''is_active'']),
     Drop_con ''agent_configs'' ''uq_agent_cfg_scope_version'',
     Add_con ''agent_configs'' (Con_unique ''uq_agent_cfg_version'' [''agent_id'', ''version'']),
     Drop_column ''agent_configs'' ''updated_at'',
     Drop_column ''agent_configs'' ''organization_id'',
     Drop_column ''agent_configs'' ''tenant_id'',
     Rename_table ''agent_configs'' ''agent_configurations'',
     Drop_column ''agents'' ''metadata'',
     Drop_column ''agents'' ''icon'',
     Drop_column ''agents'' ''organization_id'',
     Drop_column ''agents'' ''tenant_id'',
     Drop_index ''capability_agents'' ''ix_capability_agents_capability'',
     Drop_table ''capability_agents'',
     Drop_index ''capabilities'' ''ix_capabilities_scope'',
     Drop_table ''capabilities'',
     Drop_enum ''capability_status_enum'']"


definition revisions :: "(ddl list \<times> ddl list) list" where
  "revisions = [(upgrade_0001, downgrade_0001), (upgrade_0002, downgrade_0002), (upgrade_0003, downgrade_0003),
     (upgrade_0004, downgrade_0004), (upgrade_0005, downgrade_0005), (upgrade_0006, downgrade_0006)]"

end
