(* ===== verification/Revision_Walk.thy ===== *)
theory Revision_Walk
  imports Revisions
begin

section \<open>Schemas up to order\<close>

definition same_table :: "sql_table \<Rightarrow> sql_table \<Rightarrow> bool" where
  "same_table t u \<longleftrightarrow> tb_columns t = tb_columns u \<and> set (tb_cons t) = set (tb_cons u)
     \<and> set (tb_indexes t) = set (tb_indexes u)"

definition same_entry :: "string \<times> sql_table \<Rightarrow> string \<times> sql_table \<Rightarrow> bool" where
  "same_entry x y \<longleftrightarrow> fst x = fst y \<and> same_table (snd x) (snd y)"

definition same_schema :: "schema \<Rightarrow> schema \<Rightarrow> bool" where
  "same_schema S T \<longleftrightarrow> map fst (sc_enums S) = map fst (sc_enums T)
     \<and> list_all2 same_entry (sc_tables S) (sc_tables T)"

lemma same_table_refl [simp]: "same_table t t"
  by (simp add: same_table_def)

lemma same_schema_refl [simp]: "same_schema S S"
  by (simp add: same_schema_def same_entry_def same_table_def list_all2_refl)

lemma same_schema_sym: "same_schema S T \<Longrightarrow> same_schema T S"
  by (auto simp: same_schema_def same_entry_def same_table_def list_all2_conv_all_nth)

lemma same_schema_trans: "same_schema S T \<Longrightarrow> same_schema T U \<Longrightarrow> same_schema S U"
  by (auto simp: same_schema_def same_entry_def same_table_def list_all2_conv_all_nth)

lemma same_enums: "same_schema S T \<Longrightarrow> fst ` set (sc_enums S) = fst ` set (sc_enums T)"
  by (metis same_schema_def set_map)

text \<open>What the guards look at.\<close>

lemma list_all2_set: "list_all2 r xs ys \<Longrightarrow> (\<And>x y. r x y \<Longrightarrow> f x = g y) \<Longrightarrow> (\<Union>x\<in>set xs. f x) = (\<Union>y\<in>set ys. g y)"
  by (induction xs ys rule: list_all2_induct) auto

lemma list_all2_ex: "list_all2 r xs ys \<Longrightarrow> (\<And>x y. r x y \<Longrightarrow> p x \<longleftrightarrow> q y) \<Longrightarrow> list_ex p xs \<longleftrightarrow> list_ex q ys"
  by (induction xs ys rule: list_all2_induct) auto

lemma same_names: "same_table t u \<Longrightarrow> names t = names u"
  by (simp add: same_table_def names_def)

lemma same_keyed: "same_table t u \<Longrightarrow> keyed_by_id t = keyed_by_id u"
  by (simp add: same_table_def keyed_by_id_def list_ex_iff)

lemma same_table_relations: "same_entry x y \<Longrightarrow> set (table_relations x) = set (table_relations y)"
  by (simp add: same_entry_def same_table_def table_relations_def)

lemma same_relations:
  assumes "same_schema S T"
  shows "set (relations S) = set (relations T)"
  using list_all2_set[of same_entry _ _ "\<lambda>x. set (table_relations x)", OF _ same_table_relations] assms
  by (simp add: relations_def same_schema_def)

lemma same_lookup:
  assumes "list_all2 same_entry xs ys"
  shows "rel_option same_table (map_of xs n) (map_of ys n)"
  using assms by (induction xs ys rule: list_all2_induct) (auto simp: same_entry_def)

lemma same_type_ok: "same_schema S T \<Longrightarrow> type_ok S = type_ok T"
  by (rule ext) (simp add: type_ok_def same_enums split: sql_type.splits)

lemma same_con_ok:
  assumes "same_schema S T" "same_table t u"
  shows "con_ok S t c = con_ok T u c"
proof (cases "refers_to c")
  case (Some r)
  from same_lookup[of "sc_tables S" "sc_tables T" r] assms(1)
  have "rel_option same_table (map_of (sc_tables S) r) (map_of (sc_tables T) r)" by (simp add: same_schema_def)
  then show ?thesis using Some same_names[OF assms(2)]
    by (cases rule: option.rel_cases) (auto simp: con_ok_def same_keyed)
qed (simp add: con_ok_def same_names[OF assms(2)])

lemma same_index_ok: "same_table t u \<Longrightarrow> index_ok t i = index_ok u i"
  by (simp add: index_ok_def same_names)

lemma same_uses: "same_schema S T \<Longrightarrow> uses_type S n = uses_type T n"
  unfolding uses_type_def same_schema_def
  by (rule list_all2_ex[of same_entry]) (auto simp: same_entry_def same_table_def)

lemma same_referenced: "same_schema S T \<Longrightarrow> referenced S n = referenced T n"
  unfolding referenced_def same_schema_def
  by (rule list_all2_ex[of same_entry]) (auto simp: same_entry_def same_table_def list_ex_iff)

lemma same_exists: "same_schema S T \<Longrightarrow> fst ` set (sc_tables S) = fst ` set (sc_tables T)"
  using list_all2_set[of same_entry "sc_tables S" "sc_tables T" "\<lambda>x. {fst x}" "\<lambda>x. {fst x}"]
  by (auto simp: same_schema_def same_entry_def)

lemmas same_guards = same_relations same_type_ok same_con_ok same_referenced

section \<open>Statements respect it\<close>

lemma same_filter: "list_all2 same_entry xs ys \<Longrightarrow>
    list_all2 same_entry (filter (\<lambda>nt. fst nt \<noteq> n) xs) (filter (\<lambda>nt. fst nt \<noteq> n) ys)"
  by (induction xs ys rule: list_all2_induct) (auto simp: same_entry_def)

lemma same_without: "same_schema S T \<Longrightarrow> same_schema (without_table S n) (without_table T n)"
  by (simp add: same_schema_def without_table_def same_filter)

lemma same_append: "same_schema S T \<Longrightarrow> same_schema (S\<lparr> sc_tables := sc_tables S @ [x] \<rparr>) (T\<lparr> sc_tables := sc_tables T @ [x] \<rparr>)"
  by (simp add: same_schema_def list_all2_appendI same_entry_def same_table_def)

lemma same_enums_change:
  assumes "same_schema S T" "map fst xs = map fst ys"
  shows "same_schema (S\<lparr> sc_enums := xs \<rparr>) (T\<lparr> sc_enums := ys \<rparr>)"
  using assms by (simp add: same_schema_def)

lemma map_fst_filter: "map fst (filter (\<lambda>e. fst e \<noteq> n) xs) = filter (\<lambda>m. m \<noteq> n) (map fst xs)"
  by (induction xs) simp_all

lemma same_renamed:
  assumes "same_schema S T"
  shows "same_schema (S\<lparr> sc_tables := map (renamed a b) (sc_tables S) \<rparr>) (T\<lparr> sc_tables := map (renamed a b) (sc_tables T) \<rparr>)"
  using assms by (auto simp: same_schema_def list_all2_conv_all_nth same_entry_def same_table_def renamed_def)

lemma same_on_table:
  assumes S: "same_schema S T" and f: "\<And>t u. same_table t u \<Longrightarrow> rel_option same_table (f t) (g u)"
  shows "rel_option same_schema (on_table S n f) (on_table T n g)"
proof -
  from same_lookup[of "sc_tables S" "sc_tables T" n] S
  have "rel_option same_table (map_of (sc_tables S) n) (map_of (sc_tables T) n)" by (simp add: same_schema_def)
  then show ?thesis
  proof (cases rule: option.rel_cases)
    case None
    then show ?thesis by (simp add: on_table_def)
  next
    case (Some t u)
    from f[OF this(3)] show ?thesis using Some S
      by (cases rule: option.rel_cases)
        (auto simp: on_table_def same_schema_def list_all2_conv_all_nth same_entry_def)
  qed
qed

lemma same_guarded: "b = c \<Longrightarrow> (c \<Longrightarrow> r x y) \<Longrightarrow> rel_option r (guarded b x) (guarded c y)"
  by (simp add: guarded_def)

lemma ddl_step_same:
  assumes "same_schema S T"
  shows "rel_option same_schema (ddl_step d S) (ddl_step d T)"
proof (cases d)
  case (Create_enum n ls)
  then show ?thesis using assms same_enums[OF assms] by (auto simp: same_schema_def)
next
  case (Drop_enum n)
  have "map fst (sc_enums S) = map fst (sc_enums T)" using assms by (simp add: same_schema_def)
  then show ?thesis using Drop_enum assms
    by (auto intro!: same_guarded same_enums_change simp: same_uses[OF assms] map_fst_filter)
next
  case (Add_label n l)
  have "map fst (sc_enums S) = map fst (sc_enums T)" using assms by (simp add: same_schema_def)
  then show ?thesis using Add_label assms
    by (auto intro!: same_guarded same_enums_change simp: same_enums[OF assms] case_prod_beta o_def)
next
  case (Create_table n cols cons)
  then show ?thesis
    by (simp add: Let_def same_relations[OF assms] table_ok_def same_type_ok[OF same_append[OF assms]]
      same_con_ok[OF same_append[OF assms] same_table_refl, abs_def])
      (intro same_guarded refl same_append assms)
next
  case (Drop_table n)
  then show ?thesis using assms
    by (auto intro!: same_guarded same_without simp: same_exists[OF assms] same_referenced[OF same_without[OF assms]])
next
  case (Rename_table a b)
  then show ?thesis
    by (auto intro!: same_guarded same_renamed[OF assms] simp: same_exists[OF assms] same_relations[OF assms])
next
  case (Delete_rows n)
  then show ?thesis using assms by (auto intro!: same_guarded simp: same_exists[OF assms])
qed (simp_all, (rule same_on_table[OF assms], rule same_guarded;
  (frule same_names, auto simp: same_guards[OF assms] same_table_def without_column_def keyed_by_id_def
    list_ex_iff index_ok_def))+)

lemma run_ddl_same: "same_schema S T \<Longrightarrow> rel_option same_schema (run_ddl ds S) (run_ddl ds T)"
proof (induction ds arbitrary: S T)
  case (Cons d ds)
  from ddl_step_same[OF Cons.prems, of d] show ?case
    by (cases rule: option.rel_cases) (simp_all add: Cons.IH)
qed simp

section \<open>Walks of Alembic\<close>

text \<open>\<open>alembic_version\<close> counts the revisions applied. A command runs the next \<open>upgrade\<close> or the last
  \<open>downgrade\<close>; \<open>None\<close> is a command that PostgreSQL refuses.\<close>

datatype command = Up | Down

fun alembic :: "(ddl list \<times> ddl list) list \<Rightarrow> command \<Rightarrow> nat \<times> schema \<Rightarrow> (nat \<times> schema) option" where
  "alembic rs Up (k, S) = (if k < length rs then map_option (Pair (Suc k)) (run_ddl (fst (rs ! k)) S) else Some (k, S))"
| "alembic rs Down (k, S) = (case k of 0 \<Rightarrow> Some (k, S)
     | Suc j \<Rightarrow> map_option (Pair j) (run_ddl (snd (rs ! j)) S))"

fun walk :: "(ddl list \<times> ddl list) list \<Rightarrow> command list \<Rightarrow> nat \<times> schema \<Rightarrow> (nat \<times> schema) option" where
  "walk rs [] x = Some x"
| "walk rs (c # cs) x = Option.bind (alembic rs c x) (walk rs cs)"

text \<open>The schemas of a chain of revisions, provided each downgrade leads back.\<close>

definition goes_back :: "ddl list \<Rightarrow> schema \<Rightarrow> schema \<Rightarrow> bool" where
  "goes_back ds T S = (case run_ddl ds T of None \<Rightarrow> False | Some S' \<Rightarrow> same_schema S' S)"

fun chain :: "(ddl list \<times> ddl list) list \<Rightarrow> schema \<Rightarrow> schema option" where
  "chain [] S = Some S"
| "chain ((u, d) # rs) S = (case run_ddl u S of None \<Rightarrow> None
     | Some T \<Rightarrow> if goes_back d T S then chain rs T else None)"

lemma chain_at:
  assumes "chain rs S \<noteq> None" "k \<le> length rs"
  shows "\<exists>T. run_ddl (concat (map fst (take k rs))) S = Some T \<and> chain (drop k rs) T \<noteq> None"
  using assms
proof (induction rs arbitrary: S k)
  case (Cons r rs)
  obtain u d where r: "r = (u, d)" by (cases r)
  show ?case
  proof (cases k)
    case (Suc j)
    from Cons.prems r obtain T where T: "run_ddl u S = Some T" "chain rs T \<noteq> None"
      by (auto split: option.splits if_splits)
    from Cons.IH[OF this(2), of j] show ?thesis using Suc r T(1) Cons.prems(2) by (simp add: run_ddl_append)
  qed (use Cons.prems in simp)
qed simp

text \<open>Where a walk can be: at revision \<open>k\<close>, with the schema of the first \<open>k\<close> upgrades.\<close>

definition at_revision :: "(ddl list \<times> ddl list) list \<Rightarrow> schema \<Rightarrow> nat \<times> schema \<Rightarrow> bool" where
  "at_revision rs S x \<longleftrightarrow> fst x \<le> length rs
     \<and> (\<exists>T. run_ddl (concat (map fst (take (fst x) rs))) S = Some T \<and> same_schema (snd x) T)"

lemma chain_step:
  assumes ok: "chain rs S \<noteq> None" and at: "at_revision rs S x"
  shows "\<exists>y. alembic rs c x = Some y \<and> at_revision rs S y"
proof -
  obtain k A where x: "x = (k, A)" by (cases x)
  from at x obtain T where k: "k \<le> length rs" and T: "run_ddl (concat (map fst (take k rs))) S = Some T" "same_schema A T"
    by (auto simp: at_revision_def)
  have onward: "\<exists>B C. run_ddl (fst (rs ! j)) V = Some B \<and> run_ddl (concat (map fst (take (Suc j) rs))) S = Some B
      \<and> run_ddl (snd (rs ! j)) B = Some C \<and> same_schema C V"
    if j: "j < length rs" and V: "run_ddl (concat (map fst (take j rs))) S = Some V" for j V
  proof -
    from chain_at[OF ok, of j] j V have "chain (rs ! j # drop (Suc j) rs) V \<noteq> None"
      by (auto simp: Cons_nth_drop_Suc)
    then obtain B C where "run_ddl (fst (rs ! j)) V = Some B" "run_ddl (snd (rs ! j)) B = Some C" "same_schema C V"
      by (cases "rs ! j") (auto simp: goes_back_def split: option.splits if_splits)
    moreover from this V j have "run_ddl (concat (map fst (take (Suc j) rs))) S = Some B"
      by (simp add: take_Suc_conv_app_nth run_ddl_append)
    ultimately show ?thesis by blast
  qed
  show ?thesis
  proof (cases c)
    case Up
    show ?thesis
    proof (cases "k < length rs")
      case True
      from onward[OF True T(1)] obtain B where B: "run_ddl (fst (rs ! k)) T = Some B"
        "run_ddl (concat (map fst (take (Suc k) rs))) S = Some B" by blast
      from run_ddl_same[OF T(2), of "fst (rs ! k)"] B(1) obtain B' where
        "run_ddl (fst (rs ! k)) A = Some B'" "same_schema B' B" by (auto simp: option_rel_Some2)
      then show ?thesis using Up x True B(2) by (auto simp: at_revision_def)
    qed (use Up x at in simp)
  next
    case Down
    show ?thesis
    proof (cases k)
      case (Suc j)
      from chain_at[OF ok, of j] k Suc obtain V where V: "run_ddl (concat (map fst (take j rs))) S = Some V" by auto
      from onward[OF _ V] k Suc T(1) obtain C where C: "run_ddl (snd (rs ! j)) T = Some C" "same_schema C V" by auto
      from run_ddl_same[OF T(2), of "snd (rs ! j)"] C(1) obtain C' where
        "run_ddl (snd (rs ! j)) A = Some C'" "same_schema C' C" by (auto simp: option_rel_Some2)
      then show ?thesis using Down x Suc k V C(2) same_schema_trans by (fastforce simp: at_revision_def)
    qed (use Down x at in simp)
  qed
qed

lemma chain_walk:
  assumes "chain rs S \<noteq> None" "at_revision rs S x"
  shows "\<exists>y. walk rs cs x = Some y \<and> at_revision rs S y"
  using assms(2)
proof (induction cs arbitrary: x)
  case (Cons c cs)
  from chain_step[OF assms(1) Cons.prems, of c] Cons.IH show ?case by auto
qed simp

end
