(* ===== verification/Orm_Metadata.thy ===== *)
theory Orm_Metadata
  imports Revision_Walk
begin

text \<open>
  \<open>Base.metadata\<close> of \<open>models/orm.py\<close>: the tables as the mapped classes declare them, with the names of the
  naming convention, to be compared with the schema the migrations build.
\<close>

section \<open>Declarations\<close>

definition orm_primary :: "string \<Rightarrow> table_con" where
  "orm_primary t = Con_primary (''pk_'' @ t) [''id'']"

definition orm_foreign :: "string \<Rightarrow> string \<Rightarrow> string \<Rightarrow> on_delete \<Rightarrow> table_con" where
  "orm_foreign t c r d = Con_foreign (''fk_'' @ t @ ''_'' @ c @ ''_'' @ r) c r d"

definition orm_unique_column :: "string \<Rightarrow> string \<Rightarrow> table_con" where
  "orm_unique_column t c = Con_unique (''uq_'' @ t @ ''_'' @ c) [c]"

definition orm_table :: "string \<Rightarrow> column list \<Rightarrow> table_con list \<Rightarrow> sql_index list \<Rightarrow> string \<times> sql_table" where
  "orm_table n cols cons ixs =
     (n, \<lparr> tb_columns = cols, tb_cons = map (conventional n) (orm_primary n # cons), tb_indexes = ixs \<rparr>)"

definition orm_enums :: "(string \<times> string list) list" where
  "orm_enums =
    [(''conversation_status_enum'', [''active'', ''archived'']),
     (''message_role_enum'', [''user'', ''assistant'', ''system'', ''tool'']),
     (''session_state_enum'', [''pending'', ''authenticating'', ''in_progress'', ''awaiting_user'', ''finalizing'',
        ''completed'', ''failed'', ''abandoned'']),
     (''audit_action_enum'', [''config_sync'', ''config_create'', ''config_activate'', ''agent_enable'',
        ''agent_disable'', ''session_finalize'', ''session_abandon'', ''capability_create'', ''capability_update'',
        ''capability_delete'', ''capability_agent_set'']),
     (''tool_status_enum'', [''success'', ''error'', ''timeout'']),
     (''agent_type_enum'', [''llm'', ''remote_flow'']),
     (''agent_status_enum'', [''enabled'', ''disabled'']),
     (''config_source_enum'', [''yaml'', ''db'']),
     (''capability_status_enum'', [''active'', ''disabled'', ''coming_soon''])]"

definition orm_conversation :: "string \<times> sql_table" where
  "orm_conversation = orm_table ''conversations''
     [pk_column, req ''tenant_code'' Sql_string, opt ''organization_id'' Sql_string,
      req ''external_user_id'' Sql_string, opt ''title'' Sql_string,
      dflt ''status'' (Sql_enum ''conversation_status_enum'') (Dflt_literal ''active''),
      opt ''pinned_agent_id'' Sql_uuid, dflt ''locale'' Sql_string (Dflt_literal ''en''),
      dflt ''message_count'' Sql_integer (Dflt_literal ''0''), json_column ''metadata'',
      opt ''last_message_at'' Sql_timestamptz, now_column ''created_at'', now_column ''updated_at'']
     [Con_check ''conv_locale'' [Col ''locale'', Sql ''IN ('', Lit ''en'', Sql '','', Lit ''hi'', Sql '','', Lit ''kn'', Sql '','', Lit ''te'', Sql '')''],
      Con_check ''conv_msgcount'' [Col ''message_count'', Sql ''>= 0''],
      Con_check ''conv_tenant'' [Col ''tenant_code'', Sql ''<>'', Lit '''']]
     [partial_ix ''ix_conv_user_recent'' [[Col ''tenant_code''], [Col ''external_user_id''], [Col ''last_message_at'', Sql ''DESC NULLS LAST'']] [Col ''status'', Sql ''='', Lit ''active''],
      partial_ix ''ix_conv_org'' [[Col ''tenant_code''], [Col ''organization_id''], [Col ''last_message_at'', Sql ''DESC NULLS LAST'']] [Col ''status'', Sql ''='', Lit ''active'', Sql ''AND'', Col ''organization_id'', Sql ''IS NOT NULL''],
      partial_ix ''ix_conv_pinned'' [[Col ''pinned_agent_id'']] [Col ''pinned_agent_id'', Sql ''IS NOT NULL'']]"

definition orm_message :: "string \<times> sql_table" where
  "orm_message = orm_table ''conversation_messages''
     [pk_column, req ''conversation_id'' Sql_uuid, req ''seq'' Sql_integer,
      req ''role'' (Sql_enum ''message_role_enum''), req ''content'' Sql_string,
      opt ''agent_id'' Sql_uuid, opt ''agent_config_id'' Sql_uuid, opt ''agent_session_id'' Sql_uuid,
      opt ''route_reason'' Sql_string, opt ''route_confidence'' (Sql_numeric 4 3),
      opt ''options'' Sql_jsonb, opt ''selected_option_id'' Sql_string, opt ''model'' Sql_string,
      opt ''prompt_tokens'' Sql_integer, opt ''completion_tokens'' Sql_integer,
      opt ''latency_ms'' Sql_integer, opt ''error'' Sql_string, opt ''request_id'' Sql_string,
      now_column ''created_at'']
     [orm_foreign ''conversation_messages'' ''conversation_id'' ''conversations'' Od_cascade,
      Con_unique ''uq_msg_seq'' [''conversation_id'', ''seq''],
      Con_check ''msg_seq'' [Col ''seq'', Sql ''> 0''],
      Con_check ''msg_assistant_attribution'' [Col ''role'', Sql ''<>'', Lit ''assistant'', Sql ''OR'', Col ''agent_id'', Sql ''IS NOT NULL''],
      Con_check ''msg_options_only_assistant'' [Col ''options'', Sql ''IS NULL OR'', Col ''role'', Sql ''='', Lit ''assistant''],
      Con_check ''msg_tokens'' [Sql ''COALESCE('', Col ''prompt_tokens'', Sql '', 0) >= 0 AND COALESCE('', Col ''completion_tokens'', Sql '', 0) >= 0''],
      Con_check ''msg_latency'' [Sql ''COALESCE('', Col ''latency_ms'', Sql '', 0) >= 0''],
      Con_check ''msg_confidence'' [Col ''route_confidence'', Sql ''IS NULL OR ('', Col ''route_confidence'', Sql ''>= 0 AND'', Col ''route_confidence'', Sql ''<= 1)'']]
     [plain_ix ''ix_msg_conv_seq'' [[Col ''conversation_id''], [Col ''seq'']],
      plain_ix ''ix_msg_agent_time'' [[Col ''agent_id''], [Col ''created_at'', Sql ''DESC'']],
      partial_ix ''ix_msg_request'' [[Col ''request_id'']] [Col ''request_id'', Sql ''IS NOT NULL''],
      partial_ix ''ix_msg_session'' [[Col ''agent_session_id'']] [Col ''agent_session_id'', Sql ''IS NOT NULL'']]"

definition orm_session :: "string \<times> sql_table" where
  "orm_session = orm_table ''agent_sessions''
     [pk_column, req ''conversation_id'' Sql_uuid, req ''agent_id'' Sql_uuid,
      dflt ''state'' (Sql_enum ''session_state_enum'') (Dflt_literal ''pending''),
      opt ''remote_provider'' Sql_string, opt ''remote_session_id'' Sql_string,
      opt ''remote_profile_id'' Sql_string, opt ''remote_flow'' Sql_string,
      opt ''remote_bot_route'' Sql_string, dflt ''language'' Sql_string (Dflt_literal ''en''),
      dflt ''step'' Sql_integer (Dflt_literal ''0''), dflt ''turn_count'' Sql_integer (Dflt_literal ''0''),
      opt ''result_ref'' Sql_string, opt ''report_url'' Sql_string, opt ''error'' Sql_string,
      opt ''error_code'' Sql_string, json_column ''state_data'', now_column ''started_at'',
      now_column ''last_activity_at'', opt ''finalized_at'' Sql_timestamptz, opt ''ended_at'' Sql_timestamptz]
     [orm_foreign ''agent_sessions'' ''conversation_id'' ''conversations'' Od_cascade,
      Con_unique ''uq_sess_remote'' [''remote_session_id''],
      Con_check ''sess_lang'' [Col ''language'', Sql ''IN ('', Lit ''en'', Sql '','', Lit ''hi'', Sql '','', Lit ''kn'', Sql '','', Lit ''te'', Sql '')''],
      Con_check ''sess_step'' [Col ''step'', Sql ''>= 0 AND'', Col ''turn_count'', Sql ''>= 0''],
      Con_check ''sess_terminal'' [Sql ''('', Col ''state'', Sql ''IN ('', Lit ''completed'', Sql '','', Lit ''failed'', Sql '','', Lit ''abandoned'', Sql '')) = ('', Col ''ended_at'', Sql ''IS NOT NULL)''],
      Con_check ''sess_active_has_remote'' [Col ''state'', Sql ''IN ('', Lit ''pending'', Sql '','', Lit ''failed'', Sql '','', Lit ''abandoned'', Sql '') OR'', Col ''remote_session_id'', Sql ''IS NOT NULL''],
      Con_check ''sess_completed_has_result'' [Col ''state'', Sql ''<>'', Lit ''completed'', Sql ''OR'', Col ''result_ref'', Sql ''IS NOT NULL'']]
     [unique_ix ''uq_sess_one_open_per_conv'' [[Col ''conversation_id'']] [Col ''state'', Sql ''NOT IN ('', Lit ''completed'', Sql '','', Lit ''failed'', Sql '','', Lit ''abandoned'', Sql '')''],
      partial_ix ''ix_sess_sweep'' [[Col ''state''], [Col ''last_activity_at'']] [Col ''state'', Sql ''NOT IN ('', Lit ''completed'', Sql '','', Lit ''failed'', Sql '','', Lit ''abandoned'', Sql '')''],
      plain_ix ''ix_sess_conv'' [[Col ''conversation_id''], [Col ''started_at'', Sql ''DESC'']]]"

definition orm_audit :: "string \<times> sql_table" where
  "orm_audit = orm_table ''audit_logs''
     [dflt ''id'' Sql_bigint Dflt_autoincrement, req ''action'' (Sql_enum ''audit_action_enum''),
      req ''entity_type'' Sql_string, opt ''entity_id'' Sql_uuid,
      dflt ''actor'' Sql_string (Dflt_literal ''system''), opt ''request_id'' Sql_string,
      opt ''before'' Sql_jsonb, opt ''after'' Sql_jsonb, opt ''note'' Sql_string, now_column ''created_at'']
     []
     [plain_ix ''ix_audit_entity'' [[Col ''entity_type''], [Col ''entity_id''], [Col ''created_at'', Sql ''DESC'']],
      plain_ix ''ix_audit_action_time'' [[Col ''action''], [Col ''created_at'', Sql ''DESC'']]]"

definition orm_tool :: "string \<times> sql_table" where
  "orm_tool = orm_table ''tool_executions''
     [pk_column, req ''message_id'' Sql_uuid, opt ''agent_id'' Sql_uuid, req ''tool_name'' Sql_string,
      dflt ''iteration'' Sql_smallint (Dflt_literal ''1''), json_column ''arguments'',
      opt ''result_excerpt'' Sql_text, opt ''result_bytes'' Sql_integer,
      req ''status'' (Sql_enum ''tool_status_enum''), opt ''error'' Sql_text,
      req ''duration_ms'' Sql_integer, opt ''request_id'' Sql_string, now_column ''created_at'']
     [orm_foreign ''tool_executions'' ''message_id'' ''conversation_messages'' Od_cascade,
      Con_check ''tool_iteration'' [Col ''iteration'', Sql ''BETWEEN 1 AND 10''],
      Con_check ''tool_duration'' [Col ''duration_ms'', Sql ''>= 0''],
      Con_check ''tool_error'' [Col ''status'', Sql ''='', Lit ''success'', Sql ''OR'', Col ''error'', Sql ''IS NOT NULL'']]
     [plain_ix ''ix_tool_message'' [[Col ''message_id'']],
      plain_ix ''ix_tool_name_time'' [[Col ''tool_name''], [Col ''created_at'', Sql ''DESC'']],
      partial_ix ''ix_tool_failures'' [[Col ''tool_name''], [Col ''created_at'', Sql ''DESC'']] [Col ''status'', Sql ''<>'', Lit ''success'']]"

definition scope_columns :: "column list" where
  "scope_columns = [dflt ''tenant_id'' Sql_string (Dflt_literal ''default''),
     dflt ''organization_id'' Sql_string (Dflt_literal ''default'')]"

definition orm_agent :: "string \<times> sql_table" where
  "orm_agent = orm_table ''agents''
     (pk_column # scope_columns @
     [req ''key'' Sql_string, req ''name'' Sql_string, req ''description'' Sql_string,
      req ''agent_type'' (Sql_enum ''agent_type_enum''),
      dflt ''status'' (Sql_enum ''agent_status_enum'') (Dflt_literal ''enabled''),
      dflt ''is_default'' Sql_boolean (Dflt_expr ''false''), dflt ''sort_order'' Sql_integer (Dflt_literal ''100''),
      opt ''icon'' Sql_string, json_column ''metadata'', now_column ''created_at'', now_column ''updated_at''])
     [orm_unique_column ''agents'' ''key'', orm_unique_column ''agents'' ''name'']
     []"

definition orm_agent_config :: "string \<times> sql_table" where
  "orm_agent_config = orm_table ''agent_configs''
     ([pk_column, req ''agent_id'' Sql_uuid] @ scope_columns @
     [req ''version'' Sql_integer, req ''source'' (Sql_enum ''config_source_enum''), req ''checksum'' Sql_string,
      req ''config'' Sql_jsonb, dflt ''is_active'' Sql_boolean (Dflt_expr ''false''),
      opt ''activated_at'' Sql_timestamptz, dflt ''created_by'' Sql_string (Dflt_literal ''startup-sync''),
      now_column ''created_at'', now_column ''updated_at''])
     [orm_foreign ''agent_configs'' ''agent_id'' ''agents'' Od_cascade,
      Con_unique ''uq_agent_cfg_scope_version'' [''agent_id'', ''tenant_id'', ''organization_id'', ''version'']]
     []"

definition orm_capability :: "string \<times> sql_table" where
  "orm_capability = orm_table ''capabilities''
     (pk_column # scope_columns @
     [req ''key'' Sql_string, req ''name'' Sql_string, opt ''description'' Sql_string, opt ''icon'' Sql_string,
      opt ''badge'' Sql_string, dflt ''status'' (Sql_enum ''capability_status_enum'') (Dflt_literal ''active''),
      dflt ''display_order'' Sql_integer (Dflt_literal ''100''), json_column ''metadata'',
      now_column ''created_at'', now_column ''updated_at''])
     [Con_unique ''uq_capabilities_scope_key'' [''tenant_id'', ''organization_id'', ''key''],
      Con_check ''capabilities_key_slug'' [Col ''key'', Sql ''~'', Lit ''^[a-z][a-z0-9_]{1,62}$''],
      Con_check ''capabilities_scope'' [Col ''tenant_id'', Sql ''<>'', Lit '''', Sql ''AND'', Col ''organization_id'', Sql ''<>'', Lit '''']]
     []"

definition orm_capability_agent :: "string \<times> sql_table" where
  "orm_capability_agent = orm_table ''capability_agents''
     [pk_column, req ''capability_id'' Sql_uuid, req ''agent_id'' Sql_uuid,
      dflt ''display_order'' Sql_integer (Dflt_literal ''100''), opt ''label_override'' Sql_string,
      dflt ''is_visible'' Sql_boolean (Dflt_expr ''true''), json_column ''metadata'',
      now_column ''created_at'', now_column ''updated_at'']
     [orm_foreign ''capability_agents'' ''capability_id'' ''capabilities'' Od_cascade,
      orm_foreign ''capability_agents'' ''agent_id'' ''agents'' Od_cascade,
      Con_unique ''uq_capability_agents_membership'' [''capability_id'', ''agent_id'']]
     []"

definition orm_metadata :: "(string \<times> sql_table) list" where
  "orm_metadata = [orm_conversation, orm_message, orm_session, orm_audit, orm_tool, orm_agent, orm_agent_config,
     orm_capability, orm_capability_agent]"

section \<open>Comparison\<close>

text \<open>A constraint without its name.\<close>

fun con_body :: "table_con \<Rightarrow> table_con" where
  "con_body (Con_primary n cs) = Con_primary [] cs"
| "con_body (Con_unique n cs) = Con_unique [] cs"
| "con_body (Con_check n s) = Con_check [] s"
| "con_body (Con_foreign n c t d) = Con_foreign [] c t d"

definition bodies :: "sql_table \<Rightarrow> table_con list" where
  "bodies t = map con_body (tb_cons t)"

text \<open>The mapped table \<open>t\<close> against the table \<open>u\<close> of the database: the same columns, and nothing declared
  that the database does not enforce.\<close>

definition maps_table :: "sql_table \<Rightarrow> sql_table \<Rightarrow> bool" where
  "maps_table t u \<longleftrightarrow> set (tb_columns t) = set (tb_columns u) \<and> set (bodies t) \<subseteq> set (bodies u)
     \<and> set (tb_indexes t) \<subseteq> set (tb_indexes u)"

definition orm_agrees :: "schema \<Rightarrow> bool" where
  "orm_agrees S \<longleftrightarrow> set (map fst orm_metadata) = set (map fst (sc_tables S)) \<and> set orm_enums = set (sc_enums S)
     \<and> list_all (\<lambda>(n, t). case map_of (sc_tables S) n of None \<Rightarrow> False | Some u \<Rightarrow> maps_table t u) orm_metadata"

text \<open>What the database enforces and no class declares.\<close>

definition undeclared :: "schema \<Rightarrow> (string \<times> table_con) list" where
  "undeclared S = concat (map (\<lambda>(n, u). case map_of orm_metadata n of
       None \<Rightarrow> []
     | Some t \<Rightarrow> map (Pair n) (filter (\<lambda>c. c \<notin> set (bodies t)) (bodies u))) (sc_tables S))"

definition undeclared_0006 :: "(string \<times> table_con) list" where
  "undeclared_0006 =
    [(''conversations'', Con_foreign [] ''pinned_agent_id'' ''agents'' Od_set_null),
     (''conversation_messages'', Con_foreign [] ''agent_id'' ''agents'' Od_set_null),
     (''conversation_messages'', Con_foreign [] ''agent_config_id'' ''agent_configs'' Od_set_null),
     (''conversation_messages'', Con_foreign [] ''agent_session_id'' ''agent_sessions'' Od_set_null),
     (''agents'', Con_check [] [Col ''key'', Sql ''~'', Lit ''^[a-z][a-z0-9_]{1,62}$'']),
     (''agent_configs'', Con_check [] [Col ''version'', Sql ''> 0'']),
     (''agent_configs'', Con_check [] [Col ''is_active'', Sql ''= FALSE OR'', Col ''activated_at'', Sql ''IS NOT NULL'']),
     (''agent_configs'', Con_check [] [Col ''config'', Sql ''?'', Lit ''agent_type'', Sql ''AND'', Col ''config'', Sql ''?'', Lit ''key'', Sql ''AND'', Col ''config'', Sql ''?'', Lit ''name'']),
     (''agent_sessions'', Con_foreign [] ''agent_id'' ''agents'' Od_restrict),
     (''tool_executions'', Con_foreign [] ''agent_id'' ''agents'' Od_set_null)]"

end
