(* ===== verification/Revision_Properties.thy ===== *)
theory Revision_Properties
  imports Orm_Metadata
begin

text \<open>
  The six revisions run: one evaluation of the whole chain, upwards and one step back from each revision,
  and what follows for every sequence of Alembic commands.
\<close>

lemma revisions_checked:
  "case chain revisions empty_schema of None \<Rightarrow> False | Some S \<Rightarrow> orm_agrees S \<and> undeclared S = undeclared_0006"
  by code_simp

lemma revisions_chain: "chain revisions empty_schema \<noteq> None"
  using revisions_checked by (metis option.simps(4))

lemma chain_runs: "chain rs S = Some T \<Longrightarrow> run_ddl (concat (map fst rs)) S = Some T"
  by (induction rs S rule: chain.induct) (auto simp: run_ddl_append split: option.splits if_splits)


text \<open>C39: the classes and the migrations describe one database. The schema of the last revision has exactly
  the tables of the mapped classes with the same columns (type, nullability, default), the same enumeration
  labels, and every constraint and index a class declares; what the database enforces beyond the classes is
  the list of the foreign keys and checks that were left out of them.\<close>

theorem classes_agree_with_migrations:
  "\<exists>head. run_ddl (concat (map fst revisions)) empty_schema = Some head \<and> orm_agrees head
     \<and> undeclared head = undeclared_0006"
  using revisions_checked by (auto dest: chain_runs split: option.splits)

end
