(* ===== verification/Gates.thy ===== *)
theory Gates
  imports Identity
begin

text \<open>
  The checks under \<open>scripts/\<close> a release goes through: \<open>verify_verbatim_copy.py\<close> (the copied layers differ from
  the Flask original only by the package rename), \<open>parity_check.py\<close> (both applications answer alike) and
  \<open>verify_discussion_report.py\<close> (a report is not blank). The file systems, the two servers, Mitra and the
  text of the PDF are arguments; what is printed is left out, the exit status and the problems are kept.
\<close>

section \<open>The verbatim copy\<close>

text \<open>\<open>s.replace(p, r)\<close> for a non-empty \<open>p\<close>.\<close>

function replace_all :: "string \<Rightarrow> string \<Rightarrow> string \<Rightarrow> string" where
  "replace_all p r s =
     (case s of [] \<Rightarrow> []
      | c # cs \<Rightarrow> if p \<noteq> [] \<and> starts_with p s then r @ replace_all p r (drop (length p) s)
                  else c # replace_all p r cs)"
  by pat_completeness auto
termination
  by (relation "measure (\<lambda>(p, r, s). length s)") (auto simp: neq_Nil_conv)

declare replace_all.simps [simp del]

lemma replace_all_absent: "p \<noteq> [] \<Longrightarrow> \<not> occurs_in p s \<Longrightarrow> replace_all p r s = s"
  by (induction s) (subst replace_all.simps; simp)+

text \<open>The files of a repository: path and lines, in the order of the sorted paths.\<close>

type_synonym repo = "(string \<times> string list) list"

definition relocated :: "(string \<times> string) list" where
  "relocated =
    [(''src/db/engine.py'', ''app/database/engine.py''),
     (''src/db/models.py'', ''app/models/orm.py''),
     (''src/settings.py'', ''app/core/settings.py''),
     (''src/logger.py'', ''app/core/logger.py''),
     (''src/container.py'', ''app/core/container.py''),
     (''src/bootstrap.py'', ''app/core/bootstrap.py'')]"

definition mirrored_packages :: "string list" where
  "mirrored_packages = [''domain'', ''repositories'', ''services'', ''agents'', ''integrations'', ''llm'', ''tools'']"

definition expected_edits :: "string list" where
  "expected_edits =
    [''app/core/settings.py'', ''app/core/logger.py'', ''app/core/bootstrap.py'', ''app/services/identity.py'',
     ''app/core/container.py'', ''app/integrations/mitra/rest_client.py'', ''app/domain/agent_spec.py'',
     ''app/services/config_sync.py'', ''app/services/agent_registry.py'', ''app/services/orchestration.py'',
     ''app/models/orm.py'']"

text \<open>\<open>root.rglob("*.py")\<close>.\<close>

definition python_files :: "repo \<Rightarrow> string \<Rightarrow> string list" where
  "python_files r dir = filter (\<lambda>p. starts_with (dir @ ''/'') p \<and> starts_with (rev ''.py'') (rev p)) (map fst r)"

definition pairs :: "repo \<Rightarrow> (string \<times> string) list" where
  "pairs flask = relocated
     @ concat (map (\<lambda>pkg. map (\<lambda>p. (p, ''app/'' @ drop (length ''src/'') p)) (python_files flask (''src/'' @ pkg)))
         mirrored_packages)
     @ map (\<lambda>p. (p, p)) (python_files flask ''migrations'')"

definition rename_rules :: "(string \<times> string) list" where
  "rename_rules =
    [(''src.db.engine'', ''app.database.engine''),
     (''src.db.models'', ''app.models.orm''),
     (''src.db'', ''app.database''),
     (''src.settings'', ''app.core.settings''),
     (''src.logger'', ''app.core.logger''),
     (''src.container'', ''app.core.container''),
     (''src.bootstrap'', ''app.core.bootstrap''),
     (''src.app_factory'', ''app.core.runtime''),
     (''src.'', ''app.'')]"

definition rename_only :: "string \<Rightarrow> string \<Rightarrow> bool" where
  "rename_only old_line new_line \<longleftrightarrow> fold (\<lambda>(src, dst). replace_all src dst) rename_rules old_line = new_line"

datatype drift = Missing string | Line_count string nat nat | Changed string nat string string

definition same_line :: "string \<Rightarrow> string \<Rightarrow> bool" where
  "same_line x y \<longleftrightarrow> x = y \<or> rename_only x y"

definition file_problems :: "string \<Rightarrow> string list \<Rightarrow> string list \<Rightarrow> drift list" where
  "file_problems rel a b =
     (if length a \<noteq> length b then (if rel \<in> set expected_edits then [] else [Line_count rel (length a) (length b)])
      else concat (map (\<lambda>(i, x, y). if same_line x y \<or> rel \<in> set expected_edits then [] else [Changed rel i x y])
        (zip [1..<Suc (length a)] (zip a b))))"

definition pair_problems :: "repo \<Rightarrow> repo \<Rightarrow> string \<times> string \<Rightarrow> exc + drift list" where
  "pair_problems flask backend = (\<lambda>(old, new). case map_of backend new of
       None \<Rightarrow> Inr [Missing new]
     | Some b \<Rightarrow> (case map_of flask old of
         None \<Rightarrow> Inl (KeyError old)
       | Some a \<Rightarrow> Inr (file_problems new a b)))"

text \<open>\<open>main\<close>: the problems found; a file of \<open>RELOCATED\<close> that the original does not have ends the program
  with the error of \<open>read_text\<close>.\<close>

definition verbatim_problems :: "repo \<Rightarrow> repo \<Rightarrow> exc + drift list" where
  "verbatim_problems flask backend =
     or_raise (traverse (pair_problems flask backend) (pairs flask)) (\<lambda>pss. Inr (concat pss))"

definition exit_status :: "exc + 'a list \<Rightarrow> int" where
  "exit_status r = (case r of Inr [] \<Rightarrow> 0 | _ \<Rightarrow> 1)"

text \<open>A pair that passes.\<close>

definition verbatim :: "repo \<Rightarrow> repo \<Rightarrow> string \<times> string \<Rightarrow> bool" where
  "verbatim flask backend = (\<lambda>(old, new). case (map_of flask old, map_of backend new) of
       (Some a, Some b) \<Rightarrow> new \<in> set expected_edits \<or> list_all2 same_line a b
     | _ \<Rightarrow> False)"

lemma numbered_problems: "length is = length zs \<Longrightarrow>
    concat (map (\<lambda>(i, x, y). if P x y then [] else [f i x y]) (zip is zs)) = [] \<longleftrightarrow> list_all (\<lambda>(x, y). P x y) zs"
  by (induction "is" zs rule: list_induct2) (auto split: if_splits)

lemma file_problems_Nil: "file_problems rel a b = [] \<longleftrightarrow> rel \<in> set expected_edits \<or> list_all2 same_line a b"
proof (cases "length a = length b")
  case True
  then have "length [1..<Suc (length a)] = length (zip a b)" by (simp del: upt_Suc)
  from numbered_problems[OF this, of "\<lambda>x y. same_line x y \<or> rel \<in> set expected_edits" "Changed rel"] True
  show ?thesis unfolding file_problems_def list_all2_iff list_all_iff by (auto simp del: upt_Suc)
qed (auto simp: file_problems_def list_all2_lengthD)

lemma pair_problems_Nil: "pair_problems flask backend p = Inr [] \<longleftrightarrow> verbatim flask backend p"
  by (cases p) (auto simp: pair_problems_def verbatim_def file_problems_Nil split: option.splits)

lemma traverse_all: "traverse f xs = Inr ys \<Longrightarrow> concat ys = [] \<Longrightarrow> list_all (\<lambda>x. f x = Inr []) xs"
  by (induction xs arbitrary: ys) (auto elim!: or_raise_InrE)

lemma traverse_none: "list_all (\<lambda>x. f x = Inr []) xs \<Longrightarrow> or_raise (traverse f xs) (\<lambda>yss. Inr (concat yss)) = Inr []"
proof (induction xs)
  case (Cons x xs)
  then show ?case by (cases "traverse f xs") (auto simp: or_raise_def)
qed (simp add: or_raise_def)

lemma exit_status_0: "exit_status r = 0 \<longleftrightarrow> r = Inr []"
  by (auto simp: exit_status_def split: sum.splits list.splits)

text \<open>The copy gate is exact. It exits with 0 if and only if every file it lists exists in both
  repositories and is exempt or, line for line, equal to the original or to the original with the packages
  renamed.\<close>

theorem verbatim_gate_is_exact:
  "exit_status (verbatim_problems flask backend) = 0 \<longleftrightarrow> list_all (verbatim flask backend) (pairs flask)"
proof
  assume "exit_status (verbatim_problems flask backend) = 0"
  then obtain yss where "traverse (pair_problems flask backend) (pairs flask) = Inr yss" "concat yss = []"
    by (auto simp: exit_status_0 verbatim_problems_def elim!: or_raise_InrE)
  from traverse_all[OF this] show "list_all (verbatim flask backend) (pairs flask)"
    by (simp add: pair_problems_Nil)
next
  assume "list_all (verbatim flask backend) (pairs flask)"
  then have "list_all (\<lambda>p. pair_problems flask backend p = Inr []) (pairs flask)" by (simp add: pair_problems_Nil)
  then show "exit_status (verbatim_problems flask backend) = 0"
    by (simp add: exit_status_0 verbatim_problems_def traverse_none)
qed

text \<open>What the description of the script says about imports and comments is not what it does: a changed
  comment is drift, and a renamed module in any string is not.\<close>

lemma comments_are_drift: "\<not> same_line ''# old'' ''# new''"
  by (simp add: same_line_def rename_only_def rename_rules_def replace_all.simps)

section \<open>Parity of the two applications\<close>

text \<open>\<open>==\<close> on what \<open>json.loads\<close> returns: numbers by value, dictionaries without order.\<close>

fun number_of :: "json \<Rightarrow> pyfloat option" where
  "number_of (JBool b) = Some (Fin (if b then 1 else 0))"
| "number_of (JInt i) = Some (Fin (of_int i))"
| "number_of (JFloat f _) = Some f"
| "number_of _ = None"

lemma zip_smaller [termination_simp]:
  fixes xs :: "json list"
  shows "(x, y) \<in> set (zip xs ys) \<Longrightarrow> size x < Suc (size_list size xs)"
  by (induction xs ys rule: list_induct2') auto

fun py_eq :: "json \<Rightarrow> json \<Rightarrow> bool" where
  "py_eq (JStr s) w = (w = JStr s)"
| "py_eq JNull w = (w = JNull)"
| "py_eq (JList xs) w = (case w of
     JList ys \<Rightarrow> length xs = length ys \<and> list_all (\<lambda>(x, y). py_eq x y) (zip xs ys)
   | _ \<Rightarrow> False)"
| "py_eq (JObj a) w = (case w of
     JObj b \<Rightarrow> length a = length b \<and> list_all (\<lambda>(k, x). case map_of b k of None \<Rightarrow> False | Some y \<Rightarrow> py_eq x y) a
   | _ \<Rightarrow> False)"
| "py_eq v w = (number_of v \<noteq> Some NaN \<and> number_of v = number_of w)"

definition volatile_keys :: "string list" where
  "volatile_keys = [''request_id'', ''conversation_id'', ''id'', ''last_message_at'', ''created_at'', ''started_at'',
     ''last_activity_at'', ''finalized_at'', ''ended_at'', ''updated_at'']"

fun scrub :: "json \<Rightarrow> json" where
  "scrub (JObj kvs) = JObj (map (\<lambda>(k, v). (k, if k \<in> set volatile_keys then JStr ''<volatile>'' else scrub v)) kvs)"
| "scrub (JList xs) = JList (map scrub xs)"
| "scrub v = v"

text \<open>The items are sorted in the code; a dictionary compares without order.\<close>

fun shape :: "json \<Rightarrow> json" where
  "shape (JObj kvs) = JObj (map (\<lambda>(k, v). (k, shape v)) kvs)"
| "shape (JList xs) = JList (case xs of [] \<Rightarrow> [] | x # _ \<Rightarrow> [shape x])"
| "shape v = JStr (type_name v)"

record parity_case =
  pc_method :: string
  pc_path :: string
  pc_body :: "json option"
  pc_by_shape :: bool

definition absent_uuid :: string where
  "absent_uuid = ''11111111-1111-1111-1111-111111111111''"

definition get_case :: "string \<Rightarrow> bool \<Rightarrow> parity_case" where
  "get_case path by_shape = \<lparr> pc_method = ''GET'', pc_path = path, pc_body = None, pc_by_shape = by_shape \<rparr>"

definition send_case :: "string \<Rightarrow> string \<Rightarrow> json option \<Rightarrow> parity_case" where
  "send_case method path b = \<lparr> pc_method = method, pc_path = path, pc_body = b, pc_by_shape = False \<rparr>"

definition parity_cases :: "parity_case list" where
  "parity_cases =
    [get_case ''/api/agents'' False,
     get_case ''/api/conversations?limit=20'' True,
     get_case ''/api/conversations?limit=abc'' False,
     get_case ''/api/conversations?limit=999'' True,
     get_case ''/api/conversations?limit=0'' True,
     get_case (''/api/conversations/'' @ absent_uuid @ ''/messages'') False,
     get_case (''/api/sessions/'' @ absent_uuid) False,
     get_case (''/api/sessions/'' @ absent_uuid @ ''/report'') False,
     send_case ''POST'' (''/api/sessions/'' @ absent_uuid @ ''/resume'') None,
     send_case ''POST'' (''/api/sessions/'' @ absent_uuid @ ''/abandon'') None,
     send_case ''POST'' (''/api/sessions/'' @ absent_uuid @ ''/finalize'') None,
     send_case ''POST'' ''/api/chat'' (Some (JObj [])),
     send_case ''POST'' ''/api/chat'' (Some (JObj [(''not_a_message'', JInt 1)])),
     send_case ''POST'' ''/api/chat'' (Some (JObj [(''message'', JStr ''hi''), (''conversation_id'', JStr ''not-a-uuid'')])),
     send_case ''POST'' ''/api/chat'' (Some (JObj [(''message'', JStr ''hi''), (''agent_key'', JStr ''does_not_exist'')])),
     get_case ''/api/agents/record_stories'' False,
     send_case ''PATCH'' ''/api/agents/record_stories'' (Some (JObj [(''status'', JStr ''enabled'')])),
     get_case ''/api/agents/record_stories/config/versions'' False,
     send_case ''POST'' ''/api/agents/record_stories/config'' (Some (JObj [(''x'', JInt 1)])),
     send_case ''POST'' ''/api/agents/record_stories/config/1/activate'' None,
     send_case ''POST'' ''/api/agents/reload'' None,
     get_case ''/api/tools'' False]"

definition status_only :: "parity_case list" where
  "status_only = [get_case ''/api/sessions/not-a-uuid'' False, get_case ''/api/conversations/xyz/messages'' False]"

text \<open>What a server answers: status, the body as JSON or its length when it is none, the header names.
  A server that cannot be reached ends the program.\<close>

record server_reply =
  sp_status :: int
  sp_raw :: "nat + json"
  sp_headers :: "string list"

type_synonym server = "parity_case \<Rightarrow> exc + server_reply"

definition parsed_body :: "server_reply \<Rightarrow> json" where
  "parsed_body r = (case sp_raw r of Inl n \<Rightarrow> JStr (''<non-json '' @ show_nat n @ ''b>'') | Inr v \<Rightarrow> scrub v)"

definition has_request_id :: "server_reply \<Rightarrow> bool" where
  "has_request_id r = list_ex (\<lambda>k. lower k = ''x-request-id'') (sp_headers r)"

definition call :: "server \<Rightarrow> parity_case \<Rightarrow> exc + int \<times> json \<times> bool" where
  "call srv c = or_raise (srv c) (\<lambda>r. Inr (sp_status r, parsed_body r, has_request_id r))"

definition bodies_match :: "bool \<Rightarrow> json \<Rightarrow> json \<Rightarrow> bool" where
  "bodies_match by_shape x y \<longleftrightarrow> py_eq x y \<or> by_shape \<and> py_eq (shape x) (shape y)"

definition case_matches :: "server \<Rightarrow> server \<Rightarrow> parity_case \<Rightarrow> exc + bool" where
  "case_matches flask fastapi c =
     or_raise (call flask c) (\<lambda>(fs, fb, fh).
     or_raise (call fastapi c) (\<lambda>(ns, nb, nh).
     Inr (fs = ns \<and> bodies_match (pc_by_shape c) fb nb \<and> fh = nh)))"

definition status_matches :: "server \<Rightarrow> server \<Rightarrow> parity_case \<Rightarrow> exc + bool" where
  "status_matches flask fastapi c =
     or_raise (call flask c) (\<lambda>(fs, _). or_raise (call fastapi c) (\<lambda>(ns, _). Inr (fs = ns)))"

text \<open>\<open>main\<close>: one entry per difference.\<close>

definition parity_diffs :: "server \<Rightarrow> server \<Rightarrow> exc + bool list" where
  "parity_diffs flask fastapi =
     or_raise (traverse (case_matches flask fastapi) parity_cases) (\<lambda>ms.
     or_raise (traverse (status_matches flask fastapi) status_only) (\<lambda>ss.
     Inr (filter (\<lambda>m. \<not> m) (ms @ ss))))"

definition parity_status :: "server \<Rightarrow> server \<Rightarrow> int" where
  "parity_status flask fastapi = exit_status (parity_diffs flask fastapi)"

lemma traverse_true: "traverse f xs = Inr bs \<Longrightarrow> list_all (\<lambda>b. b) bs \<longleftrightarrow> list_all (\<lambda>x. f x = Inr True) xs"
  by (induction xs arbitrary: bs) (auto elim!: or_raise_InrE)

lemma traverse_some: "list_all (\<lambda>x. f x = Inr True) xs \<Longrightarrow> \<exists>bs. traverse f xs = Inr bs"
  by (induction xs) (auto simp: or_raise_def)

text \<open>The parity gate is exact. It exits with 0 if and only if both servers answer every case with the
  same status, the same presence of the request id header and a body that is equal after the volatile fields
  are blanked (or has the same shape, for the cases compared by shape), and every malformed path with the
  same status.\<close>

theorem parity_gate_is_exact:
  "parity_status flask fastapi = 0 \<longleftrightarrow>
     list_all (\<lambda>c. case_matches flask fastapi c = Inr True) parity_cases
     \<and> list_all (\<lambda>c. status_matches flask fastapi c = Inr True) status_only"
  (is "?gate \<longleftrightarrow> ?cases \<and> ?statuses")
proof
  assume ?gate
  then obtain ms ss where "traverse (case_matches flask fastapi) parity_cases = Inr ms"
    "traverse (status_matches flask fastapi) status_only = Inr ss" "filter (\<lambda>m. \<not> m) (ms @ ss) = []"
    by (auto simp: parity_status_def exit_status_0 parity_diffs_def elim!: or_raise_InrE)
  moreover from this(3) have "list_all (\<lambda>b. b) ms" "list_all (\<lambda>b. b) ss" by (auto simp: filter_empty_conv list_all_iff)
  ultimately show "?cases \<and> ?statuses" by (simp add: traverse_true)
next
  assume all: "?cases \<and> ?statuses"
  then obtain ms ss where run: "traverse (case_matches flask fastapi) parity_cases = Inr ms"
    "traverse (status_matches flask fastapi) status_only = Inr ss" using traverse_some by blast
  then have "list_all (\<lambda>b. b) ms" "list_all (\<lambda>b. b) ss" using all by (simp_all add: traverse_true)
  then show ?gate using run
    by (auto simp: parity_status_def exit_status_0 parity_diffs_def filter_empty_conv list_all_iff)
qed

text \<open>Comparing by shape looks at the first element of a list only, and not at all when both have none; one
  empty list is a difference.\<close>

lemma shape_sees_the_first: "py_eq (shape (JList [JInt 1, JStr ''a''])) (shape (JList [JInt 2, JNull]))"
  "\<not> py_eq (shape (JList [])) (shape (JList [JInt 1]))"
  by simp_all

lemma scrub_idempotent: "scrub (scrub v) = scrub v"
  by (induction v rule: scrub.induct) (auto simp: case_prod_beta)

section \<open>The report of a discussion\<close>

definition chaupal_keys :: "string list" where
  "chaupal_keys = [''challenges_faced'', ''solutions_discussed'', ''user_name'', ''location'', ''organization'',
     ''participants_count'', ''discussion_date'', ''pri_member'', ''school_representative'', ''remarks'', ''flow'']"

text \<open>What the program reaches: the answer of Mitra, the download, what \<open>pypdf\<close> extracts and \<open>casefold\<close>.\<close>

record report_world =
  rp_results :: "exc + json"
  rp_download :: "string \<Rightarrow> exc + string"
  rp_text :: "string \<Rightarrow> exc + string"
  rp_fold :: "string \<Rightarrow> string"

datatype stop = Exit_message string | Uncaught exc

definition or_stop :: "exc + 'a \<Rightarrow> stop + 'a" where
  "or_stop r = (case r of Inl e \<Rightarrow> Inl (Uncaught e) | Inr v \<Rightarrow> Inr v)"

text \<open>\<open>resp.json().get("results") or []\<close>, the first of them.\<close>

definition fetch_story :: "report_world \<Rightarrow> string \<Rightarrow> stop + body" where
  "fetch_story rw sid =
     or_raise (or_stop (rp_results rw)) (\<lambda>v.
     or_raise (or_stop (as_dict v)) (\<lambda>d.
     let results = por (jget d ''results'') (JList []) in
     if results = JList [] then Inl (Exit_message (''[FAIL] no story exists for session '' @ sid))
     else or_raise (or_stop (first_item results)) (\<lambda>s. or_stop (as_dict s))))"

definition is_pdf :: "body \<Rightarrow> bool" where
  "is_pdf entry \<longleftrightarrow> jget entry ''media_type'' = JStr ''application/pdf'' \<and> truthy (jget entry ''public_url'')"

fun first_pdf :: "json list \<Rightarrow> stop + string" where
  "first_pdf [] = Inl (Exit_message ''[FAIL] the story has no application/pdf entry in story_media'')"
| "first_pdf (v # vs) = or_raise (or_stop (as_dict v)) (\<lambda>entry.
     if is_pdf entry then Inr (py_str (jget entry ''public_url'')) else first_pdf vs)"

definition pdf_url :: "body \<Rightarrow> stop + string" where
  "pdf_url story = or_raise (or_stop (py_iter (por (jget story ''story_media'') (JList [])))) first_pdf"

definition normalise :: "report_world \<Rightarrow> string \<Rightarrow> string" where
  "normalise rw s = rp_fold rw (join '' '' (split_ws s))"

definition indexed :: "string \<Rightarrow> json list \<Rightarrow> (string \<times> string) list" where
  "indexed key vs = map (\<lambda>(i, v). (key @ ''['' @ show_nat i @ '']'', py_str v)) (zip [0..<length vs] vs)"

text \<open>A title that is no text has no \<open>split\<close>.\<close>

definition title_text :: "body \<Rightarrow> exc + string" where
  "title_text story = (case por (jget story ''title'') (JStr []) of
     JStr s \<Rightarrow> Inr s
   | v \<Rightarrow> Inl (AttributeError (repr_str (type_name v) @ '' object has no attribute '' @ repr_str ''split'')))"

definition expected_fields :: "body \<Rightarrow> body \<Rightarrow> exc + (string \<times> string) list" where
  "expected_fields story other =
     or_raise (py_iter (por (jget other ''challenges_faced'') (JList []))) (\<lambda>cs.
     or_raise (py_iter (por (jget other ''solutions_discussed'') (JList []))) (\<lambda>ss.
     or_raise (title_text story) (\<lambda>title.
     Inr ((''title'', title)
       # map (\<lambda>k. (k, py_str (jget other k)))
           (filter (\<lambda>k. truthy (jget other k)) [''location'', ''discussion_date'', ''organization'', ''user_name''])
       @ indexed ''challenges_faced'' cs @ indexed ''solutions_discussed'' ss))))"

datatype report_failure = Missing_keys "string list" | No_text | Not_present string string

definition needle :: "report_world \<Rightarrow> string \<Rightarrow> string" where
  "needle rw v = take 60 (normalise rw v)"

definition field_failures :: "report_world \<Rightarrow> string \<Rightarrow> string \<times> string \<Rightarrow> report_failure list" where
  "field_failures rw txt = (\<lambda>(label, v).
     if needle rw v = [] \<or> occurs_in (needle rw v) txt \<or> label = ''discussion_date'' then []
     else [Not_present label (take 80 v)])"

definition report_failures :: "report_world \<Rightarrow> string \<Rightarrow> stop + report_failure list" where
  "report_failures rw sid =
     or_raise (fetch_story rw sid) (\<lambda>story.
     or_raise (or_stop (as_dict (por (jget story ''other_params'') (JObj [])))) (\<lambda>other.
     let missing = filter (\<lambda>k. \<not> has_key other k) chaupal_keys in
     or_raise (pdf_url story) (\<lambda>url.
     or_raise (or_stop (rp_download rw url)) (\<lambda>content.
     if \<not> starts_with ''%PDF'' content then Inl (Exit_message ''[FAIL] the downloaded file is not a PDF'')
     else or_raise (or_stop (rp_text rw content)) (\<lambda>raw.
     let txt = normalise rw raw in
     or_raise (or_stop (expected_fields story other)) (\<lambda>fields.
     Inr ((if missing = [] then [] else [Missing_keys missing]) @ (if txt = [] then [No_text] else [])
       @ concat (map (field_failures rw txt) fields))))))))"

text \<open>\<open>sys.exit\<close> with a message, and an exception nobody catches, end with status 1.\<close>

definition report_status :: "report_world \<Rightarrow> string \<Rightarrow> int" where
  "report_status rw sid = (case report_failures rw sid of Inr [] \<Rightarrow> 0 | _ \<Rightarrow> 1)"

lemma report_status_0_or_1: "report_status rw sid \<in> {0, 1}"
  by (auto simp: report_status_def split: sum.splits list.splits)

lemma or_stop_Inr [simp]: "or_stop r = Inr v \<longleftrightarrow> r = Inr v"
  by (cases r) (simp_all add: or_stop_def)

lemma occurs_in_Nil [simp]: "occurs_in [] s"
  by (cases s) simp_all

text \<open>A report that passes is not blank, and shows the beginning of every field but the date.\<close>

lemma report_gate_sound:
  assumes "report_status rw sid = 0"
  shows "\<exists>story other url content raw fields. fetch_story rw sid = Inr story \<and> pdf_url story = Inr url
     \<and> rp_download rw url = Inr content \<and> rp_text rw content = Inr raw \<and> normalise rw raw \<noteq> []
     \<and> list_all (has_key other) chaupal_keys \<and> expected_fields story other = Inr fields
     \<and> list_all (\<lambda>(l, v). l = ''discussion_date'' \<or> occurs_in (needle rw v) (normalise rw raw)) fields"
proof -
  have "report_failures rw sid = Inr []" using assms by (auto simp: report_status_def split: sum.splits list.splits)
  then obtain story other url content raw fields where steps: "fetch_story rw sid = Inr story" "pdf_url story = Inr url"
    "rp_download rw url = Inr content" "rp_text rw content = Inr raw" "expected_fields story other = Inr fields"
    and every: "filter (\<lambda>k. \<not> has_key other k) chaupal_keys = []" and some: "normalise rw raw \<noteq> []"
    and none: "concat (map (field_failures rw (normalise rw raw)) fields) = []"
    by (auto simp: report_failures_def Let_def split: if_splits elim!: or_raise_InrE)
  have "list_all (\<lambda>(l, v). l = ''discussion_date'' \<or> occurs_in (needle rw v) (normalise rw raw)) fields"
    using none by (fastforce simp: list_all_iff field_failures_def split: if_splits)
  then show ?thesis using steps every some
    by (intro exI[of _ story] exI[of _ other] exI[of _ url] exI[of _ content] exI[of _ raw] exI[of _ fields])
      (simp add: list_all_iff filter_empty_conv)
qed

end
