(* ===== verification/Spec2Isabelle.thy ===== *)
theory Spec2Isabelle
  imports Recovery Finalisation Turn_Properties Identifiers Request_Properties Turn_Concurrency
    Config_Sync_Properties Capability_Properties Identity_Properties Session_Refinement Migration Llm_Layer Deployment
    Settings Spec_Bounds Revision_Properties Gates
begin

text \<open>
  Saarthi: the backend of a chat assistant that routes each message of a conversation to an agent.
  An agent is either a language model with tools or a \<^emph>\<open>remote flow\<close>, an interview that runs on a third
  party, Mitra, over a websocket, and ends with a story posted to Mitra. This library models the
  Python code under \<open>src/backend\<close>. A path \<open>app/..\<close>, \<open>migrations/..\<close> or \<open>scripts/..\<close> below is relative to it.

  \<^bold>\<open>The program.\<close> A request of the FastAPI application takes a database connection for its whole
  length (\<open>dependencies/db.py\<close>), parses its body, and calls a route. The chat route asks the orchestration
  (\<open>services/orchestration.py\<close>) for one turn: take the conversation's advisory lock, check the limits, store
  the user's message, let the router choose the agent from the registry's snapshot, \<^emph>\<open>commit\<close>, run the
  agent's handler outside every transaction, store the reply with its tool executions, move the session
  of the interview along, commit, unlock. The handler of a remote flow talks to Mitra over a channel of
  the pool; when the reply is late, the orchestration looks for it in Mitra's own records. A finished
  interview is finalised: claimed by one writer, posted, recorded. The agents themselves are YAML files
  that the start of the process synchronises with versioned configurations in the database, one per
  agent and scope (tenant, organisation); administrators override them and edit the sidebar's capabilities.

  \<^bold>\<open>How the code is modelled.\<close> A function that changes state is an action (\<open>act\<close> of \<open>Prelude\<close>): from a state to
  a result, \<open>Inl\<close> an exception or \<open>Inr\<close> a value, and the state reached so far, also when it raises, as
  Python keeps what it did before an exception. The state of a request is the record \<open>world\<close> of \<open>World\<close>: the database as
  the transaction sees it and as it was last committed, the table of advisory locks, the registry, the
  channel pool, the logs of what was sent to Mitra and to the language model, the clock. A table is the list of its
  rows, and a statement stores its result only if every constraint of the schema holds of it
  (\<open>db_ok\<close>), else it raises and aborts the transaction. Interleaving is explicit: step relations for the
  turns of several connections, the channel pool with its reaper, the registry, the sessions, and the whole
  deployment.
\<close>

section \<open>The theories and the files they model\<close>

text \<open>
  \<^bold>\<open>Vocabulary.\<close>
  \<^item> \<open>Prelude\<close>: actions, their combinators, the collections of rules that carry an invariant through them
    (\<open>pres\<close> among them), the locale \<open>progress\<close> (a reflexive and transitive relation between states that every
    action respects), list operations in the shape of SQL.
  \<^item> \<open>Py_Values\<close>: the strings, JSON values and library functions of Python that the code uses.
  \<^item> \<open>Domain\<close>: \<open>app/domain/*.py\<close>, \<open>app/agents/protocol.py\<close>, \<open>app/integrations/mitra/exceptions.py\<close>: the records, the
    enumerations, the exceptions, access rules, references to the environment. \<open>Spec_Bounds\<close>: the declared
    bounds and defaults of \<open>app/domain/agent_spec.py\<close>.
  \<^item> \<open>Identifiers\<close>: UUIDs and their text (\<open>app/utils/responses.py\<close>).

  \<^bold>\<open>Database.\<close>
  \<^item> \<open>Store\<close>: \<open>app/models/orm.py\<close> as tables and constraints. \<open>Repositories\<close>: \<open>app/repositories/*.py\<close>, one action per statement.
  \<^item> \<open>Ddl\<close>, \<open>Revisions\<close>, \<open>Revision_Walk\<close>, \<open>Orm_Metadata\<close>, \<open>Revision_Properties\<close>: the schema as data, the statements of the six
    files of \<open>migrations/versions/\<close> in both directions, Alembic's walk along them, and the metadata of the
    mapped classes. \<open>Migration\<close>: what revision 0006 does to the rows.

  \<^bold>\<open>Mitra.\<close>
  \<^item> \<open>Frame_Parser\<close>, \<open>Ws_Channel\<close>, \<open>Channel_Pool\<close>, \<open>Rest_Client\<close>, \<open>Turn_Recovery\<close>: \<open>frame_parser.py\<close>, \<open>ws_channel.py\<close>,
    \<open>session_manager.py\<close>, \<open>rest_client.py\<close>, \<open>turn_recovery.py\<close> of \<open>app/integrations/mitra\<close>.

  \<^bold>\<open>A turn.\<close>
  \<^item> \<open>Session_Service\<close>: \<open>app/services/session_service.py\<close>, the lifecycle of an interview. \<open>Session_Refinement\<close>: its abstract
    specification, one slot per conversation.
  \<^item> \<open>Agent_Registry\<close>, \<open>Router\<close>: \<open>app/services/agent_registry.py\<close>, \<open>router_service.py\<close>.
  \<^item> \<open>World\<close>: what a request acts on, and its parameters (\<open>env\<close>). \<open>Sample\<close>, \<open>Sample_World\<close>: a small deployment for the witnesses.
  \<^item> \<open>Handlers\<close>: \<open>app/agents/factory.py\<close>, \<open>llm_handler.py\<close>, \<open>remote_flow_handler.py\<close>. \<open>Llm_Layer\<close>: \<open>app/tools/*.py\<close>, \<open>app/llm/*.py\<close>,
    \<open>app/agents/base.py\<close>.
  \<^item> \<open>Orchestration\<close>: \<open>app/services/orchestration.py\<close>. \<open>Turn_Contract\<close>: what a turn does to the database, from what its
    statements do. \<open>Turn_Properties\<close>, \<open>Turn_Record\<close>, \<open>Recovery\<close>, \<open>Finalisation\<close>, \<open>Turn_Concurrency\<close>: what follows for a turn, a lost
    reply, the end of an interview, and turns at the same time.

  \<^bold>\<open>HTTP.\<close>
  \<^item> \<open>Web\<close>: responses, error envelope, bodies, the database session of a request (\<open>app/utils\<close>, \<open>app/exceptions\<close>,
    \<open>app/dependencies\<close>). \<open>Requests\<close>, \<open>Request_Contract\<close>, \<open>Request_Properties\<close>: \<open>app/routers/chat.py\<close>, \<open>sessions.py\<close>, \<open>conversations.py\<close>,
    \<open>agents.py\<close>.
  \<^item> \<open>Capabilities\<close>, \<open>Capability_Properties\<close>: \<open>app/services/capability_service.py\<close>, \<open>capability_seed.py\<close>.
  \<^item> \<open>Admin\<close>, \<open>Capability_Admin\<close>, \<open>Admin_Properties\<close>: \<open>app/routers/admin.py\<close>, \<open>admin_config.py\<close>, \<open>ui.py\<close>,
    \<open>app/dependencies/admin_gate.py\<close>.
  \<^item> \<open>Identity\<close>, \<open>Identity_Properties\<close>: \<open>app/services/identity.py\<close>, \<open>app/dependencies/identity.py\<close>,
    \<open>app/core/runtime.py\<close>, \<open>app/core/concurrency.py\<close>, \<open>app/middleware/request_id.py\<close>.

  \<^bold>\<open>The process.\<close>
  \<^item> \<open>Config_Sync\<close>, \<open>Config_Sync_Properties\<close>: \<open>app/services/config_sync.py\<close>.
  \<^item> \<open>Startup\<close>, \<open>Settings\<close>: \<open>app/main.py\<close>, \<open>app/core/bootstrap.py\<close>, \<open>app/core/container.py\<close>, \<open>app/core/settings.py\<close>.
  \<^item> \<open>Deployment\<close>: requests, administration, restarts and crashes in any order.
  \<^item> \<open>Gates\<close>: \<open>scripts/verify_verbatim_copy.py\<close>, \<open>parity_check.py\<close>, \<open>verify_discussion_report.py\<close>.
\<close>

section \<open>What the theorems show\<close>

text \<open>
  \<^item> The record: no message, session or audit row is lost or rewritten and no constraint is broken by any
    sequence of requests, administration calls, restarts and crashes (\<open>record_survives_deployment\<close>). The relations
    that say so are proved of each statement and carried through a turn, a request and the deployment by the locales
    \<open>store_relation\<close>, \<open>statement_relation\<close>, \<open>turn_relation\<close>, \<open>commit_relation\<close> and \<open>request_relation\<close>, each interpreted on the model's own
    relations.
  \<^item> A turn: the handler runs after a commit and outside a transaction, a successful turn stores exactly its two
    messages, a refused one stores nothing, the lock is released on every exit and excludes a second turn,
    the limits hold at their exact values, a timeout is never masked.
  \<^item> An interview: terminal sessions stay as they are, a finalisation is claimed once, posts at most once and
    ends the session; the service refines one slot per conversation.
  \<^item> Mitra: text is accumulated in order, waiting ends by its deadline, the pool is bounded and never crosses
    conversations, internal payloads never reach the user, a lost reply is decided from our own most
    recent row, a report comes from an allowed host.
  \<^item> Agents: a caller is never served another tenant's configuration, each gate of the router decides
    only what it may, tool loops are bounded, every agent served is within its declared bounds.
  \<^item> Configuration: inconsistent files write nothing, a changed file is stored once, a safe sync keeps an
    override and a second one changes nothing.
  \<^item> HTTP: foreign sessions do not exist for a caller, chat always answers, a reset loses nothing, a button has
    passed every gate, an administrator's write is whole or nothing, creating and deleting a capability cancel out.
  \<^item> Schema: no sequence of upgrades and downgrades gets stuck, the mapped classes describe what the
    migrations build, and the step to tenants changes nothing anybody sees.
  \<^item> Process: a process that starts from its settings keeps every conversation and override, and comes up with
    consistent parts or not at all.
\<close>

section \<open>Termination and bounds\<close>

text \<open>
  Every definition is total and none uses fuel. Recursion that is not structural has its measure: the tool
  loops recurse on the iterations that are left, which is the bound the code itself counts (\<open>max_tool_iterations\<close>,
  between 0 and 10 by \<open>Spec_Bounds\<close>), a wait on a channel consumes the script of timed events, the eviction of
  the pool shrinks it, the scans of text shrink the text. What does not end by itself is a step relation and
  its properties hold of every reachable state. Python's integers are unbounded: \<open>int\<close>, or \<open>nat\<close> where the
  code counts. Times are milliseconds.
\<close>

section \<open>Parameters\<close>

text \<open>
  Code that is not in the repository is an argument of the definitions, and what is relied on is a hypothesis
  of the theorem that needs it:
  Pydantic's validation of a document (\<open>sound_validator\<close> for the bounds of a field) and its reading of a number from
  text, the YAML parser, SHA-256, \<open>jwt.decode\<close>, PostgreSQL's \<open>hashtext\<close> and what the driver makes of an untyped JSON value,
  the language model, LangChain, the search engine, \<open>json_repair\<close>, Mitra's network side, the text of a PDF. PostgreSQL's tables, constraints, advisory locks and DDL, SQLAlchemy's transactions and Alembic's operations are modelled as
  far as the code uses them.
\<close>

section \<open>Not modelled\<close>

text \<open>
  \<^item> How Pydantic turns a document into a specification (coercions, messages): it is library code; the declared
    bounds and defaults are in \<open>Spec_Bounds\<close>.
  \<^item> \<open>app/core/logger.py\<close>, \<open>app/core/context.py\<close>, \<open>app/api/router.py\<close>, \<open>app/database/engine.py\<close>, \<open>app/llm/__init__.py\<close>, \<open>migrations/env.py\<close>, the
    construction of the FastAPI object: calls of a framework, without a state or a decision of the program.
    Log output is left out everywhere.
  \<^item> \<open>scripts/manual\<close>: exploratory scripts run by hand against a live database; what they try out is proved of
    the components. What the other scripts print is left out, their exit status is kept.
  \<^item> Threads inside one request: the reader of a channel is the list of what it will deliver, in which a full
    queue (512 frames) is the end of the connection with its reason; \<open>MitraConcurrentTurnError\<close>, which needs two
    turns on one channel, is excluded by the turn lock and has no branch. Of several
    requests at once, the turn lock is interleaved (\<open>Turn_Concurrency\<close>); their other statements run
    one request after the other. A crash happens between requests.
  \<^item> Characters above U+00FF; names of constraints longer than PostgreSQL's 63 characters, which SQLAlchemy shortens; the labels that
    an enumeration keeps after a downgrade.
\<close>

end
